(* ===== verification/Python_Base.thy ===== *)
theory Python_Base
  imports Main "HOL-Library.Char_ord" "HOL-Library.List_Lexorder"
begin

section \<open>The Python values the program works with\<close>

text \<open>
  The fragment of the language and of its standard library that the modelled code uses:
  character tests and \<^verbatim>\<open>str\<close> methods, \<^verbatim>\<open>str(int)\<close> and
  \<^verbatim>\<open>int(str, base)\<close>, \<^verbatim>\<open>uuid.UUID\<close> printing and
  parsing, and UTC datetimes with the calendar rules of \<^verbatim>\<open>calendar.monthrange\<close>
  and \<^verbatim>\<open>date.toordinal\<close>.

  A Python string is a \<^typ>\<open>string\<close> whose characters are the code points 0 to 255
  (Latin-1); code points above that range are not represented.  A UUID is the natural number
  of its 128 bits.
\<close>

subsection \<open>Characters\<close>

definition py_ord :: "char \<Rightarrow> nat" where
  "py_ord c = of_char c"

definition is_ascii :: "string \<Rightarrow> bool" where
  "is_ascii s = list_all (\<lambda>c. py_ord c < 128) s"

definition ch_isdigit :: "char \<Rightarrow> bool" where
  \<comment> \<open>\<^verbatim>\<open>str.isdigit\<close> also accepts the superscripts 2, 3 and 1.\<close>
  "ch_isdigit c = ((48 \<le> py_ord c \<and> py_ord c \<le> 57) \<or> py_ord c = 178 \<or> py_ord c = 179 \<or> py_ord c = 185)"

definition ch_dec :: "char \<Rightarrow> bool" where
  "ch_dec c = (48 \<le> py_ord c \<and> py_ord c \<le> 57)"

definition ch_upper :: "char \<Rightarrow> bool" where
  "ch_upper c = ((65 \<le> py_ord c \<and> py_ord c \<le> 90) \<or> (192 \<le> py_ord c \<and> py_ord c \<le> 222 \<and> py_ord c \<noteq> 215))"

definition ch_lower :: "char \<Rightarrow> bool" where
  "ch_lower c = ((97 \<le> py_ord c \<and> py_ord c \<le> 122) \<or> (223 \<le> py_ord c \<and> py_ord c \<noteq> 247)
      \<or> py_ord c = 170 \<or> py_ord c = 181 \<or> py_ord c = 186)"

definition ch_alpha :: "char \<Rightarrow> bool" where
  "ch_alpha c = (ch_upper c \<or> ch_lower c)"

definition ch_space :: "char \<Rightarrow> bool" where
  "ch_space c = ((9 \<le> py_ord c \<and> py_ord c \<le> 13) \<or> (28 \<le> py_ord c \<and> py_ord c \<le> 32) \<or> py_ord c = 133 \<or> py_ord c = 160)"

definition ch_printable :: "char \<Rightarrow> bool" where
  "ch_printable c = ((32 \<le> py_ord c \<and> py_ord c \<le> 126) \<or> (161 \<le> py_ord c \<and> py_ord c \<noteq> 173))"

definition ch_to_lower :: "char \<Rightarrow> char" where
  \<comment> \<open>In Latin-1 an upper-case letter and its lower-case form are 32 apart.\<close>
  "ch_to_lower c = (if ch_upper c then char_of (py_ord c + 32) else c)"

definition ch_to_upper :: "char \<Rightarrow> char" where
  "ch_to_upper c =
     (if (97 \<le> py_ord c \<and> py_ord c \<le> 122) \<or> (224 \<le> py_ord c \<and> py_ord c \<le> 254 \<and> py_ord c \<noteq> 247)
      then char_of (py_ord c - 32) else c)"

subsection \<open>Methods of \<open>str\<close>\<close>

definition py_isdigit :: "string \<Rightarrow> bool" where
  "py_isdigit s = (s \<noteq> [] \<and> list_all ch_isdigit s)"

definition py_isalpha :: "string \<Rightarrow> bool" where
  "py_isalpha s = (s \<noteq> [] \<and> list_all ch_alpha s)"

definition py_isupper :: "string \<Rightarrow> bool" where
  "py_isupper s = (list_ex ch_upper s \<and> \<not> list_ex ch_lower s)"

definition py_lower :: "string \<Rightarrow> string" where
  "py_lower s = map ch_to_lower s"

definition py_upper :: "string \<Rightarrow> string" where
  \<comment> \<open>The sharp s becomes two characters; the two Latin-1 letters whose upper case is not in Latin-1 stay.\<close>
  "py_upper s = concat (map (\<lambda>c. if py_ord c = 223 then ''SS'' else [ch_to_upper c]) s)"

fun startswith :: "string \<Rightarrow> string \<Rightarrow> bool" where
  "startswith s [] = True"
| "startswith [] (p # ps) = False"
| "startswith (c # s) (p # ps) = (c = p \<and> startswith s ps)"

definition endswith :: "string \<Rightarrow> string \<Rightarrow> bool" where
  "endswith s p = startswith (rev s) (rev p)"

definition lstrip :: "(char \<Rightarrow> bool) \<Rightarrow> string \<Rightarrow> string" where
  "lstrip P s = dropWhile P s"

definition strip :: "(char \<Rightarrow> bool) \<Rightarrow> string \<Rightarrow> string" where
  "strip P s = rev (dropWhile P (rev (dropWhile P s)))"

text \<open>\<^verbatim>\<open>s.replace(pat, "")\<close> for a non-empty \<open>pat\<close>: the occurrences from left to
  right.  The second argument counts the characters still to be skipped.\<close>

fun remove_from :: "string \<Rightarrow> nat \<Rightarrow> string \<Rightarrow> string" where
  "remove_from pat k [] = []"
| "remove_from pat (Suc k) (c # s) = remove_from pat k s"
| "remove_from pat 0 (c # s) =
     (if startswith (c # s) pat then remove_from pat (length pat - 1) s
      else c # remove_from pat 0 s)"

definition remove_all :: "string \<Rightarrow> string \<Rightarrow> string" where
  "remove_all pat s = remove_from pat 0 s"

text \<open>\<^verbatim>\<open>s.split(ch)\<close> on one separator character: always at least one part.\<close>

fun split_on :: "char \<Rightarrow> string \<Rightarrow> string list" where
  "split_on d [] = [[]]"
| "split_on d (c # s) =
     (if c = d then [] # split_on d s
      else (case split_on d s of [] \<Rightarrow> [[c]] | w # ws \<Rightarrow> (c # w) # ws))"

text \<open>\<^verbatim>\<open>s.partition(ch)\<close> without its middle component.\<close>

definition partition_on :: "char \<Rightarrow> string \<Rightarrow> string \<times> string" where
  "partition_on d s = (takeWhile (\<lambda>c. c \<noteq> d) s, drop 1 (dropWhile (\<lambda>c. c \<noteq> d) s))"

fun join_with :: "string \<Rightarrow> string list \<Rightarrow> string" where
  "join_with sep [] = []"
| "join_with sep [w] = w"
| "join_with sep (w # ws) = w @ sep @ join_with sep ws"

subsection \<open>Decimal and hexadecimal text\<close>

definition digit_char :: "nat \<Rightarrow> char" where
  "digit_char d = (if d < 10 then char_of (48 + d) else char_of (87 + d))"

definition digit_val :: "char \<Rightarrow> nat option" where
  "digit_val c =
     (if 48 \<le> py_ord c \<and> py_ord c \<le> 57 then Some (py_ord c - 48)
      else if 97 \<le> py_ord c \<and> py_ord c \<le> 102 then Some (py_ord c - 87)
      else if 65 \<le> py_ord c \<and> py_ord c \<le> 70 then Some (py_ord c - 55)
      else None)"

fun show_nat :: "nat \<Rightarrow> string" where
  "show_nat n = (if n < 10 then [digit_char n] else show_nat (n div 10) @ [digit_char (n mod 10)])"

declare show_nat.simps [simp del]

definition show_int :: "int \<Rightarrow> string" where
  "show_int i = (if i < 0 then ''-'' @ show_nat (nat (- i)) else show_nat (nat i))"

text \<open>Exactly \<open>k\<close> digits in base \<open>b\<close>, with leading zeros.\<close>

fun fixed_digits :: "nat \<Rightarrow> nat \<Rightarrow> nat \<Rightarrow> string" where
  "fixed_digits b 0 n = []"
| "fixed_digits b (Suc k) n = fixed_digits b k (n div b) @ [digit_char (n mod b)]"

text \<open>The digits of a literal in base \<open>b\<close>: single underscores may separate digits.  The flag
  says whether a digit was read just before.\<close>

fun read_digits :: "nat \<Rightarrow> bool \<Rightarrow> nat \<Rightarrow> string \<Rightarrow> nat option" where
  "read_digits b prev acc [] = (if prev then Some acc else None)"
| "read_digits b prev acc (c # s) =
     (if c = CHR ''_'' then (if prev then read_digits b False acc s else None)
      else (case digit_val c of
              None \<Rightarrow> None
            | Some d \<Rightarrow> if d < b then read_digits b True (acc * b + d) s else None))"

definition read_nat :: "nat \<Rightarrow> string \<Rightarrow> nat option" where
  "read_nat b s =
     (if b = 16 \<and> (startswith s ''0x'' \<or> startswith s ''0X'')
      then (case drop 2 s of
              [] \<Rightarrow> None
            | c # t \<Rightarrow> if c = CHR ''_'' then read_digits b False 0 t else read_digits b False 0 (c # t))
      else read_digits b False 0 s)"

text \<open>\<^verbatim>\<open>int(s, base)\<close> for the bases 10 and 16: surrounding white space and one sign
  are allowed, \<^const>\<open>None\<close> stands for the \<^verbatim>\<open>ValueError\<close>.\<close>

definition py_int :: "nat \<Rightarrow> string \<Rightarrow> int option" where
  "py_int b s0 =
     (case strip ch_space s0 of
        [] \<Rightarrow> None
      | c # t \<Rightarrow>
          if c = CHR ''-'' then map_option (\<lambda>n. - int n) (read_nat b t)
          else if c = CHR ''+'' then map_option int (read_nat b t)
          else map_option int (read_nat b (c # t)))"

subsection \<open>UUIDs\<close>

type_synonym uuid = nat

definition uuid_str :: "uuid \<Rightarrow> string" where
  "uuid_str u =
     (let h = fixed_digits 16 32 u
      in take 8 h @ ''-'' @ take 4 (drop 8 h) @ ''-'' @ take 4 (drop 12 h) @ ''-''
         @ take 4 (drop 16 h) @ ''-'' @ drop 20 h)"

text \<open>\<^verbatim>\<open>uuid.UUID(s)\<close>; \<^const>\<open>None\<close> is the \<^verbatim>\<open>ValueError\<close>.\<close>

definition uuid_parse :: "string \<Rightarrow> uuid option" where
  "uuid_parse s =
     (let h = remove_all ''-''
                (strip (\<lambda>c. c = CHR ''{'' \<or> c = CHR ''}'') (remove_all ''uuid:'' (remove_all ''urn:'' s)))
      in if length h \<noteq> 32 then None
         else (case py_int 16 h of
                 None \<Rightarrow> None
               | Some i \<Rightarrow> if 0 \<le> i \<and> i < 2 ^ 128 then Some (nat i) else None))"

subsection \<open>UTC datetimes\<close>

text \<open>A timezone-aware UTC datetime: the civil date and the microseconds since midnight.  The
  constructor order makes the chronological order lexicographic.\<close>

datatype datetime = Datetime (dt_year: int) (dt_month: int) (dt_day: int) (dt_usec: int)

instantiation datetime :: linorder
begin

definition less_datetime :: "datetime \<Rightarrow> datetime \<Rightarrow> bool" where
  "less_datetime a b =
     (dt_year a < dt_year b \<or> dt_year a = dt_year b \<and>
       (dt_month a < dt_month b \<or> dt_month a = dt_month b \<and>
         (dt_day a < dt_day b \<or> dt_day a = dt_day b \<and> dt_usec a < dt_usec b)))"

definition less_eq_datetime :: "datetime \<Rightarrow> datetime \<Rightarrow> bool" where
  "less_eq_datetime a b = (a < b \<or> a = (b::datetime))"

instance
  by standard (auto simp: less_datetime_def less_eq_datetime_def intro: datetime.expand)

end

definition is_leap :: "int \<Rightarrow> bool" where
  "is_leap y = (y mod 4 = 0 \<and> (y mod 100 \<noteq> 0 \<or> y mod 400 = 0))"

definition month_len :: "int \<Rightarrow> int \<Rightarrow> int" where
  \<comment> \<open>\<^verbatim>\<open>calendar.monthrange(year, month)[1]\<close>\<close>
  "month_len y m =
     (if m = 2 then (if is_leap y then 29 else 28)
      else if m = 4 \<or> m = 6 \<or> m = 9 \<or> m = 11 then 30 else 31)"

abbreviation usec_per_day :: int where
  "usec_per_day \<equiv> 86400000000"

definition valid_datetime :: "datetime \<Rightarrow> bool" where
  "valid_datetime d =
     (1 \<le> dt_year d \<and> dt_year d \<le> 9999 \<and> 1 \<le> dt_month d \<and> dt_month d \<le> 12
      \<and> 1 \<le> dt_day d \<and> dt_day d \<le> month_len (dt_year d) (dt_month d)
      \<and> 0 \<le> dt_usec d \<and> dt_usec d < usec_per_day)"

definition days_before_year :: "int \<Rightarrow> int" where
  "days_before_year y = (y - 1) * 365 + (y - 1) div 4 - (y - 1) div 100 + (y - 1) div 400"

fun days_before_month :: "int \<Rightarrow> nat \<Rightarrow> int" where
  "days_before_month y 0 = 0"
| "days_before_month y (Suc k) = (if k = 0 then 0 else days_before_month y k + month_len y (int k))"

text \<open>\<^verbatim>\<open>date.toordinal\<close> and the instant in microseconds: time differences
  (\<^verbatim>\<open>timedelta\<close> arithmetic) are taken on the latter.\<close>

definition to_ordinal :: "datetime \<Rightarrow> int" where
  "to_ordinal d = days_before_year (dt_year d) + days_before_month (dt_year d) (nat (dt_month d)) + dt_day d"

definition instant :: "datetime \<Rightarrow> int" where
  "instant d = to_ordinal d * usec_per_day + dt_usec d"

text \<open>\<^verbatim>\<open>isoformat\<close> of a UTC datetime (the microseconds only when they are not zero), and
  \<^verbatim>\<open>fromisoformat\<close> on that format; \<^const>\<open>None\<close> is the
  \<^verbatim>\<open>ValueError\<close>.\<close>

definition isoformat :: "datetime \<Rightarrow> string" where
  "isoformat d =
     (let us = nat (dt_usec d); sec = us div 1000000
      in fixed_digits 10 4 (nat (dt_year d)) @ ''-'' @ fixed_digits 10 2 (nat (dt_month d)) @ ''-''
         @ fixed_digits 10 2 (nat (dt_day d)) @ ''T'' @ fixed_digits 10 2 (sec div 3600) @ '':''
         @ fixed_digits 10 2 (sec div 60 mod 60) @ '':'' @ fixed_digits 10 2 (sec mod 60)
         @ (if us mod 1000000 = 0 then [] else ''.'' @ fixed_digits 10 6 (us mod 1000000)) @ ''+00:00'')"

definition dec_field :: "nat \<Rightarrow> nat \<Rightarrow> string \<Rightarrow> nat option" where
  "dec_field i k s =
     (let w = take k (drop i s)
      in if length w = k \<and> list_all ch_dec w then read_digits 10 False 0 w else None)"

definition fromisoformat :: "string \<Rightarrow> datetime option" where
  "fromisoformat s =
     (if take 1 (drop 4 s) = ''-'' \<and> take 1 (drop 7 s) = ''-'' \<and> take 1 (drop 10 s) = ''T''
         \<and> take 1 (drop 13 s) = '':'' \<and> take 1 (drop 16 s) = '':''
      then (case (dec_field 0 4 s, dec_field 5 2 s, dec_field 8 2 s,
                  dec_field 11 2 s, dec_field 14 2 s, dec_field 17 2 s) of
              (Some y, Some mo, Some da, Some h, Some mi, Some sec) \<Rightarrow>
                (case (if drop 19 s = ''+00:00'' then Some 0
                       else if take 1 (drop 19 s) = ''.'' \<and> drop 26 s = ''+00:00'' then dec_field 20 6 s
                       else None) of
                   Some us \<Rightarrow>
                     (let d = Datetime (int y) (int mo) (int da)
                                (int (((h * 60 + mi) * 60 + sec) * 1000000 + us))
                      in if h < 24 \<and> mi < 60 \<and> sec < 60 \<and> valid_datetime d then Some d else None)
                 | None \<Rightarrow> None)
            | _ \<Rightarrow> None)
      else None)"

definition date_of :: "datetime \<Rightarrow> datetime" where
  \<comment> \<open>\<^verbatim>\<open>.date()\<close>: a date is the datetime of its midnight.\<close>
  "date_of d = Datetime (dt_year d) (dt_month d) (dt_day d) 0"

subsection \<open>Laws of the string functions\<close>

named_theorems py_str "rewriting of Python string functions"

lemma startswith_append [simp]: "startswith (p @ s) p"
  by (induction p) auto

lemma startswith_iff: "startswith s p \<longleftrightarrow> (\<exists>t. s = p @ t)"
  by (induction s p rule: startswith.induct) auto

lemma startswith_length: "startswith s p \<Longrightarrow> length p \<le> length s"
  by (auto simp: startswith_iff)

lemma remove_from_absent:
  assumes "c \<in> set pat" and "c \<notin> set s"
  shows "remove_from pat 0 s = s"
  using assms(2)
proof (induction s)
  case (Cons x s)
  have "\<not> startswith (x # s) pat"
  proof
    assume "startswith (x # s) pat"
    then obtain t where "x # s = pat @ t" by (auto simp: startswith_iff)
    then have "set pat \<subseteq> set (x # s)" by (metis Un_upper1 set_append)
    then show False using assms(1) Cons.prems by auto
  qed
  then show ?case using Cons by simp
qed simp

lemma remove_all_absent: "c \<in> set pat \<Longrightarrow> c \<notin> set s \<Longrightarrow> remove_all pat s = s"
  by (simp add: remove_all_def remove_from_absent)

lemma remove_all_char: "remove_all [c] s = filter (\<lambda>x. x \<noteq> c) s"
proof -
  have "remove_from [c] 0 s = filter (\<lambda>x. x \<noteq> c) s"
    by (induction s) auto
  then show ?thesis by (simp add: remove_all_def)
qed

lemma dropWhile_absent: "(\<And>c. c \<in> set s \<Longrightarrow> \<not> P c) \<Longrightarrow> dropWhile P s = s"
  by (cases s) auto

lemma strip_absent: "(\<And>c. c \<in> set s \<Longrightarrow> \<not> P c) \<Longrightarrow> strip P s = s"
  using dropWhile_absent [of s P] dropWhile_absent [of "rev s" P] by (simp add: strip_def)

lemma split_on_nonempty [simp]: "split_on d s \<noteq> []"
  by (induction s) (auto split: list.splits)

lemma join_split_on: "join_with [d] (split_on d s) = s"
proof (induction s)
  case (Cons c s)
  show ?case
  proof (cases "split_on d s")
    case (Cons w ws)
    then show ?thesis using Cons.IH by (cases ws) auto
  qed simp
qed simp

subsection \<open>Printing and reading numbers\<close>

lemma py_ord_digit_char: "d < 16 \<Longrightarrow> py_ord (digit_char d) = (if d < 10 then 48 + d else 87 + d)"
  by (simp add: py_ord_def digit_char_def)

lemma digit_val_char [simp]: "d < 16 \<Longrightarrow> digit_val (digit_char d) = Some d"
  by (auto simp: digit_val_def py_ord_digit_char)

lemma digit_char_props:
  assumes "d < 16"
  shows "digit_char d \<noteq> CHR ''_''" "digit_char d \<noteq> CHR ''-''" "digit_char d \<noteq> CHR ''+''"
    "digit_char d \<noteq> CHR '':''" "digit_char d \<noteq> CHR ''u''" "digit_char d \<noteq> CHR ''x''"
    "digit_char d \<noteq> CHR ''X''" "digit_char d \<noteq> CHR ''{''" "digit_char d \<noteq> CHR ''}''"
    "\<not> ch_space (digit_char d)" "py_ord (digit_char d) < 128"
  using py_ord_digit_char [OF assms] assms
  by (auto simp: ch_space_def py_ord_def split: if_splits)


lemma read_digits_append:
  assumes "\<And>c. c \<in> set s \<Longrightarrow> c \<noteq> CHR ''_''"
  shows "read_digits b prev acc (s @ t) =
    (if s = [] then read_digits b prev acc t
     else case read_digits b prev acc s of None \<Rightarrow> None | Some n \<Rightarrow> read_digits b True n t)"
  using assms
proof (induction s arbitrary: prev acc)
  case (Cons c s)
  show ?case
  proof (cases "digit_val c")
    case (Some d)
    then show ?thesis using Cons.IH [of True "acc * b + d"] Cons.prems by (cases s) auto
  qed (use Cons.prems in auto)
qed simp

lemma fixed_digits_chars: "0 < b \<Longrightarrow> c \<in> set (fixed_digits b k n) \<Longrightarrow> \<exists>d < b. c = digit_char d"
  by (induction k arbitrary: n) (auto intro: exI [where x = "_ mod b"])

lemma show_nat_chars: "c \<in> set (show_nat n) \<Longrightarrow> \<exists>d < 10. c = digit_char d"
proof (induction n rule: show_nat.induct)
  case (1 n)
  then show ?case
    by (cases "n < 10") (auto simp: show_nat.simps [of n] intro: exI [where x = "n mod 10"])
qed

lemma length_fixed_digits [simp]: "length (fixed_digits b k n) = k"
  by (induction k arbitrary: n) auto

lemma show_nat_nonempty [simp]: "show_nat n \<noteq> []"
  by (subst show_nat.simps) simp

lemma fixed_digits_plain: "0 < b \<Longrightarrow> b \<le> 16 \<Longrightarrow> c \<in> set (fixed_digits b k n) \<Longrightarrow> c \<noteq> CHR ''_'' \<and> c \<noteq> CHR ''-'' \<and> c \<noteq> CHR ''+''
    \<and> c \<noteq> CHR '':'' \<and> c \<noteq> CHR ''u'' \<and> c \<noteq> CHR ''x'' \<and> c \<noteq> CHR ''X'' \<and> c \<noteq> CHR ''{'' \<and> c \<noteq> CHR ''}''
    \<and> \<not> ch_space c \<and> py_ord c < 128"
proof -
  assume "0 < b" "b \<le> 16" "c \<in> set (fixed_digits b k n)"
  then obtain d where "d < 16" "c = digit_char d"
    using fixed_digits_chars [of b c k n] by (auto dest: less_le_trans)
  then show ?thesis using digit_char_props [of d] by simp
qed

lemmas hex_digits_plain = fixed_digits_plain [where b = 16, simplified]

lemma dec_digits_dec: "c \<in> set (fixed_digits 10 k n) \<Longrightarrow> ch_dec c"
  using fixed_digits_chars [of 10 c k n] py_ord_digit_char by (auto simp: ch_dec_def)

lemma show_nat_plain: "c \<in> set (show_nat n) \<Longrightarrow> c \<noteq> CHR ''_'' \<and> c \<noteq> CHR ''-'' \<and> c \<noteq> CHR ''+''
    \<and> c \<noteq> CHR '':'' \<and> c \<noteq> CHR ''x'' \<and> \<not> ch_space c \<and> py_ord c < 128 \<and> ch_dec c"
proof -
  assume "c \<in> set (show_nat n)"
  then obtain d where d: "d < 10" "c = digit_char d" using show_nat_chars by blast
  moreover from d have "ch_dec c" using py_ord_digit_char [of d] by (simp add: ch_dec_def)
  ultimately show ?thesis using digit_char_props [of d] by auto
qed

lemma read_fixed_digits:
  assumes "1 < b" and "b \<le> 16"
  shows "0 < k \<Longrightarrow> n < b ^ k \<Longrightarrow> read_digits b False 0 (fixed_digits b k n) = Some n"
proof (induction k arbitrary: n)
  case (Suc k)
  have lt: "n mod b < 16" "n mod b < b"
    using assms by (auto intro: less_le_trans [of _ b])
  have rec: "k \<noteq> 0 \<Longrightarrow> read_digits b False 0 (fixed_digits b k (n div b)) = Some (n div b)"
    using Suc.IH [of "n div b"] Suc.prems(2) by (simp add: less_mult_imp_div_less mult.commute)
  show ?case
  proof (cases "k = 0")
    case True
    then show ?thesis using Suc.prems lt digit_char_props [OF lt(1)] by simp
  next
    case False
    then have ne: "fixed_digits b k (n div b) \<noteq> []"
      using length_fixed_digits [of b k "n div b"] by (metis length_0_conv)
    have "\<And>c. c \<in> set (fixed_digits b k (n div b)) \<Longrightarrow> c \<noteq> CHR ''_''"
      using fixed_digits_plain [of b] assms by auto
    then show ?thesis
      using rec [OF False] ne lt digit_char_props [OF lt(1)]
      by (simp add: read_digits_append)
  qed
qed simp

lemma read_show_nat: "read_digits 10 False 0 (show_nat n) = Some n"
proof (induction n rule: show_nat.induct)
  case (1 n)
  show ?case
  proof (cases "n < 10")
    case True
    then show ?thesis using digit_char_props [of n] by (subst show_nat.simps) simp
  next
    case False
    then show ?thesis
      using "1.IH" show_nat_plain digit_char_props [of "n mod 10"]
      by (subst show_nat.simps) (simp add: read_digits_append)
  qed
qed

lemma strip_space_show_nat: "strip ch_space (show_nat n) = show_nat n"
  by (rule strip_absent) (use show_nat_plain in blast)

theorem py_int_show_int: "py_int 10 (show_int i) = Some i"
proof (cases "i < 0")
  case True
  have "strip ch_space (CHR ''-'' # show_nat (nat (- i))) = CHR ''-'' # show_nat (nat (- i))"
    by (rule strip_absent) (use show_nat_plain in \<open>auto simp: ch_space_def py_ord_def\<close>)
  then show ?thesis using True by (simp add: py_int_def show_int_def read_nat_def read_show_nat)
next
  case False
  obtain c t where ct: "show_nat (nat i) = c # t" using show_nat_nonempty by (meson neq_Nil_conv)
  then have "c \<noteq> CHR ''-''" "c \<noteq> CHR ''+''" using show_nat_plain [of c "nat i"] by auto
  then show ?thesis
    using False ct strip_space_show_nat [of "nat i"] read_show_nat [of "nat i"]
    by (simp add: py_int_def show_int_def read_nat_def)
qed

lemma show_int_inject [simp]: "show_int i = show_int j \<longleftrightarrow> i = j"
  using py_int_show_int by (metis option.inject)

lemma hex_digits_not_prefixed: "\<not> startswith (fixed_digits 16 k n) ''0x'' \<and> \<not> startswith (fixed_digits 16 k n) ''0X''"
proof -
  have "CHR ''x'' \<notin> set (fixed_digits 16 k n) \<and> CHR ''X'' \<notin> set (fixed_digits 16 k n)"
    using hex_digits_plain by blast
  then show ?thesis by (auto simp: startswith_iff)
qed

lemma py_int_hex_digits:
  assumes "0 < k" and "n < 16 ^ k"
  shows "py_int 16 (fixed_digits 16 k n) = Some (int n)"
proof -
  have st: "strip ch_space (fixed_digits 16 k n) = fixed_digits 16 k n"
    by (rule strip_absent) (use hex_digits_plain in blast)
  obtain c t where ct: "fixed_digits 16 k n = c # t"
    using assms(1) length_fixed_digits [of 16 k n] by (metis length_0_conv neq_Nil_conv not_gr_zero)
  then have "c \<noteq> CHR ''-''" "c \<noteq> CHR ''+''" using hex_digits_plain [of c k n] by auto
  moreover have "read_nat 16 (c # t) = Some n"
    unfolding ct [symmetric] read_nat_def
    using read_fixed_digits [of 16, simplified, OF assms] hex_digits_not_prefixed [of k n] by presburger
  ultimately show ?thesis using st ct by (simp add: py_int_def)
qed

lemma filter_absent: "c \<notin> set s \<Longrightarrow> filter (\<lambda>x. x \<noteq> c) s = s"
  by (induction s) auto

lemma uuid_str_chars: "c \<in> set (uuid_str u) \<Longrightarrow> c = CHR ''-'' \<or> c \<in> set (fixed_digits 16 32 u)"
  by (auto simp: uuid_str_def Let_def dest: in_set_takeD in_set_dropD)

lemma uuid_str_without_hyphens: "filter (\<lambda>x. x \<noteq> CHR ''-'') (uuid_str u) = fixed_digits 16 32 u"
proof -
  let ?h = "fixed_digits 16 32 u"
  have nohy: "CHR ''-'' \<notin> set ?h" using hex_digits_plain by blast
  then have parts: "filter (\<lambda>x. x \<noteq> CHR ''-'') (take i (drop j ?h)) = take i (drop j ?h)" for i j
    by (intro filter_absent) (meson in_set_dropD in_set_takeD)
  have "filter (\<lambda>x. x \<noteq> CHR ''-'') (uuid_str u) =
      take 8 ?h @ take 4 (drop 8 ?h) @ take 4 (drop 12 ?h) @ take 4 (drop 16 ?h) @ drop 20 ?h"
    using parts [of 8 0] parts [of 4 8] parts [of 4 12] parts [of 4 16] parts [of 12 20]
    by (simp add: uuid_str_def Let_def)
  also have "\<dots> = ?h"
    using append_take_drop_id [of 4 "drop 16 ?h"] append_take_drop_id [of 4 "drop 12 ?h"]
      append_take_drop_id [of 4 "drop 8 ?h"] append_take_drop_id [of 8 ?h]
    by simp
  finally show ?thesis .
qed

theorem uuid_parse_str: "u < 2 ^ 128 \<Longrightarrow> uuid_parse (uuid_str u) = Some u"
proof -
  assume u: "u < 2 ^ 128"
  let ?s = "uuid_str u"
  have plain: "CHR ''u'' \<notin> set ?s" "CHR ''{'' \<notin> set ?s" "CHR ''}'' \<notin> set ?s"
    using uuid_str_chars hex_digits_plain by fastforce+
  have "remove_all ''urn:'' ?s = ?s" "remove_all ''uuid:'' ?s = ?s"
    using plain(1) by (auto intro: remove_all_absent [where c = "CHR ''u''"])
  moreover have "strip (\<lambda>c. c = CHR ''{'' \<or> c = CHR ''}'') ?s = ?s"
    by (rule strip_absent) (use plain in auto)
  moreover have "remove_all ''-'' ?s = fixed_digits 16 32 u"
    by (simp add: remove_all_char uuid_str_without_hyphens)
  moreover have "py_int 16 (fixed_digits 16 32 u) = Some (int u)"
    using u by (intro py_int_hex_digits) simp_all
  moreover have "int u < 2 ^ 128"
    using u by (metis of_nat_less_iff of_nat_numeral of_nat_power)
  ultimately show ?thesis by (simp add: uuid_parse_def)
qed

lemma uuid_str_inject: "u < 2 ^ 128 \<Longrightarrow> v < 2 ^ 128 \<Longrightarrow> uuid_str u = uuid_str v \<longleftrightarrow> u = v"
  using uuid_parse_str by (metis option.inject)

lemma uuid_str_nonempty [simp]: "uuid_str u \<noteq> []"
  by (simp add: uuid_str_def Let_def)

lemma uuid_str_no_colon: "CHR '':'' \<notin> set (uuid_str u)"
  using uuid_str_chars [of "CHR '':''" u] hex_digits_plain by blast

subsection \<open>Calendar laws\<close>

lemma month_len_bounds: "28 \<le> month_len y m \<and> month_len y m \<le> 31"
  by (simp add: month_len_def)

lemma month_len_pos [simp]: "1 \<le> month_len y m"
  by (simp add: month_len_def)

lemma datetime_less_iff: "Datetime y m d u < Datetime y' m' d' u' \<longleftrightarrow>
    y < y' \<or> y = y' \<and> (m < m' \<or> m = m' \<and> (d < d' \<or> d = d' \<and> u < u'))"
  by (simp add: less_datetime_def)

lemma datetime_le_iff: "Datetime y m d u \<le> Datetime y' m' d' u' \<longleftrightarrow>
    y < y' \<or> y = y' \<and> (m < m' \<or> m = m' \<and> (d < d' \<or> d = d' \<and> u \<le> u'))"
  by (auto simp: less_eq_datetime_def less_datetime_def)

lemma datetime_le_year: "a \<le> b \<Longrightarrow> dt_year a \<le> dt_year b"
  by (cases a, cases b) (auto simp: datetime_le_iff)



lemma dec_field_take: "take k (drop i s) = fixed_digits 10 k n \<Longrightarrow> 0 < k \<Longrightarrow> n < 10 ^ k \<Longrightarrow> dec_field i k s = Some n"
  using dec_digits_dec read_fixed_digits [of 10 k n]
  by (simp add: dec_field_def Let_def list_all_iff)

lemma usec_recombine:
  fixes us :: nat
  shows "(((us div 1000000 div 3600) * 60 + us div 1000000 div 60 mod 60) * 60 + us div 1000000 mod 60) * 1000000
      + us mod 1000000 = us"
proof -
  have "us div 1000000 div 3600 * 60 + us div 1000000 div 60 mod 60 = us div 1000000 div 60"
    using div_mult_mod_eq [of "us div 1000000 div 60" 60] by (simp add: div_mult2_eq [symmetric])
  moreover have "us div 1000000 div 60 * 60 + us div 1000000 mod 60 = us div 1000000"
    by (rule div_mult_mod_eq)
  ultimately show ?thesis by simp
qed

theorem fromisoformat_isoformat: "valid_datetime d \<Longrightarrow> fromisoformat (isoformat d) = Some d"
proof -
  assume v: "valid_datetime d"
  obtain us where us: "dt_usec d = int us" "us < 86400000000"
    using v by (metis nonneg_int_cases valid_datetime_def of_nat_less_iff of_nat_numeral)
  let ?s = "isoformat d" and ?f = "us mod 1000000" and ?sec = "us div 1000000"
  have sec: "?sec div 3600 < 24" "?sec div 60 mod 60 < 60" "?sec mod 60 < 60"
    using us(2) by (simp_all add: less_mult_imp_div_less)
  have b: "nat (dt_year d) < 10 ^ 4" "nat (dt_month d) < 10 ^ 2" "nat (dt_day d) < 10 ^ 2"
    using v month_len_bounds [of "dt_year d" "dt_month d"] by (auto simp: valid_datetime_def)
  let ?t = "(if ?f = 0 then [] else ''.'' @ fixed_digits 10 6 ?f) @ ''+00:00''"
  have iso: "?s = fixed_digits 10 4 (nat (dt_year d)) @ ''-'' @ fixed_digits 10 2 (nat (dt_month d)) @ ''-''
         @ fixed_digits 10 2 (nat (dt_day d)) @ ''T'' @ fixed_digits 10 2 (?sec div 3600) @ '':''
         @ fixed_digits 10 2 (?sec div 60 mod 60) @ '':'' @ fixed_digits 10 2 (?sec mod 60) @ ?t"
    using us(1) by (simp add: isoformat_def Let_def)
  have takes: "take 4 (drop 0 ?s) = fixed_digits 10 4 (nat (dt_year d))"
    "take 2 (drop 5 ?s) = fixed_digits 10 2 (nat (dt_month d))"
    "take 2 (drop 8 ?s) = fixed_digits 10 2 (nat (dt_day d))"
    "take 2 (drop 11 ?s) = fixed_digits 10 2 (?sec div 3600)"
    "take 2 (drop 14 ?s) = fixed_digits 10 2 (?sec div 60 mod 60)"
    "take 2 (drop 17 ?s) = fixed_digits 10 2 (?sec mod 60)"
    by (simp_all add: iso)
  have lt: "?sec div 3600 < 10 ^ 2" "?sec div 60 mod 60 < 10 ^ 2" "?sec mod 60 < 10 ^ 2"
    using sec by simp_all
  note fields = dec_field_take [OF takes(1) _ b(1), simplified] dec_field_take [OF takes(2) _ b(2), simplified]
    dec_field_take [OF takes(3) _ b(3), simplified] dec_field_take [OF takes(4) _ lt(1), simplified]
    dec_field_take [OF takes(5) _ lt(2), simplified] dec_field_take [OF takes(6) _ lt(3), simplified]
  have tail: "drop 19 ?s = ?t" by (simp add: iso)
  have frac: "(if drop 19 ?s = ''+00:00'' then Some 0
       else if take 1 (drop 19 ?s) = ''.'' \<and> drop 26 ?s = ''+00:00'' then dec_field 20 6 ?s else None) = Some ?f"
  proof (cases "?f = 0")
    case False
    have "drop 26 ?s = ''+00:00''" "dec_field 20 6 ?s = Some ?f"
      using False by (simp_all add: iso dec_field_take)
    then show ?thesis using tail False by simp
  qed (simp add: tail)
  have seps: "take 1 (drop 4 ?s) = ''-''" "take 1 (drop 7 ?s) = ''-''" "take 1 (drop 10 ?s) = ''T''"
    "take 1 (drop 13 ?s) = '':''" "take 1 (drop 16 ?s) = '':''"
    by (simp_all add: iso)
  have recon: "Datetime (int (nat (dt_year d))) (int (nat (dt_month d))) (int (nat (dt_day d)))
      (int ((((?sec div 3600) * 60 + ?sec div 60 mod 60) * 60 + ?sec mod 60) * 1000000 + ?f)) = d"
    unfolding usec_recombine using v us by (cases d) (simp add: valid_datetime_def)
  show ?thesis
    unfolding fromisoformat_def fields frac
    by (simp only: seps sec v recon Let_def split_conv option.case simp_thms if_True)
qed

end
