(* ===== verification/Backend_Prelude.thy ===== *)
theory Backend_Prelude
  imports Python_Base "HOL-Library.Multiset"
begin

section \<open>Results, tables and shared automation\<close>

text \<open>
  What every component shares.  An operation takes the state and returns a pair: the raised
  exception or the value, and the state at that moment.  Keeping the state next to a raised
  exception is what Python does; undoing it is the business of the unit of work.  A database
  table is the list of its rows in insertion order.
\<close>

named_theorems result_simps "evaluation of composed operations"
named_theorems table_simps "rows after an update of a table"

subsection \<open>Composing operations\<close>

type_synonym ('e, 'a, 's) res = "('e + 'a) \<times> 's"

definition on_ok :: "('e, 'a, 's) res \<Rightarrow> ('a \<Rightarrow> 's \<Rightarrow> ('e, 'b, 's) res) \<Rightarrow> ('e, 'b, 's) res" where
  "on_ok r k = (case r of (Inl e, s) \<Rightarrow> (Inl e, s) | (Inr x, s) \<Rightarrow> k x s)"

abbreviation raise :: "'e \<Rightarrow> 's \<Rightarrow> ('e, 'a, 's) res" where
  "raise e s \<equiv> (Inl e, s)"

abbreviation ret :: "'a \<Rightarrow> 's \<Rightarrow> ('e, 'a, 's) res" where
  "ret x s \<equiv> (Inr x, s)"

text \<open>An operation that does not touch the state, lifted to one that does.\<close>

definition pure_op :: "'e + 'a \<Rightarrow> 's \<Rightarrow> ('e, 'a, 's) res" where
  "pure_op r s = (r, s)"

definition is_ok :: "('e, 'a, 's) res \<Rightarrow> bool" where
  "is_ok r = (case r of (Inl e, s) \<Rightarrow> False | (Inr x, s) \<Rightarrow> True)"

text \<open>The same composition for code that only computes.\<close>

definition and_then :: "'e + 'a \<Rightarrow> ('a \<Rightarrow> 'e + 'b) \<Rightarrow> 'e + 'b" where
  "and_then r k = (case r of Inl e \<Rightarrow> Inl e | Inr x \<Rightarrow> k x)"

lemma and_then_simps [simp]: "and_then (Inl e) k = Inl e" "and_then (Inr x) k = k x"
  by (simp_all add: and_then_def)

lemma and_then_Inr_iff [result_simps]: "and_then r k = Inr y \<longleftrightarrow> (\<exists>x. r = Inr x \<and> k x = Inr y)"
  by (cases r) auto

lemma and_then_Inl_iff [result_simps]: "and_then r k = Inl e \<longleftrightarrow> r = Inl e \<or> (\<exists>x. r = Inr x \<and> k x = Inl e)"
  by (cases r) auto

lemma on_ok_simps [simp]:
  "on_ok (Inl e, s) k = (Inl e, s)"
  "on_ok (Inr x, s) k = k x s"
  by (simp_all add: on_ok_def)

lemma pure_op_simps [simp]: "pure_op (Inl e) s = (Inl e, s)" "pure_op (Inr x) s = (Inr x, s)"
  by (simp_all add: pure_op_def)

lemma is_ok_simps [simp]: "\<not> is_ok (Inl e, s)" "is_ok (Inr x, s)"
  by (simp_all add: is_ok_def)

lemma on_ok_Inr_iff [result_simps]:
  "on_ok r k = (Inr y, t) \<longleftrightarrow> (\<exists>x s. r = (Inr x, s) \<and> k x s = (Inr y, t))"
  by (auto simp: on_ok_def split: prod.splits sum.splits)

lemma on_ok_Inl_iff [result_simps]:
  "on_ok r k = (Inl e, t) \<longleftrightarrow> r = (Inl e, t) \<or> (\<exists>x s. r = (Inr x, s) \<and> k x s = (Inl e, t))"
  by (auto simp: on_ok_def split: prod.splits sum.splits)

lemma pure_op_iff [result_simps]:
  "pure_op r s = (Inr x, t) \<longleftrightarrow> r = Inr x \<and> t = s"
  "pure_op r s = (Inl e, t) \<longleftrightarrow> r = Inl e \<and> t = s"
  by (auto simp: pure_op_def)

lemma on_ok_assoc: "on_ok (on_ok r k) h = on_ok r (\<lambda>x s. on_ok (k x s) h)"
  by (auto simp: on_ok_def split: prod.splits sum.splits)

lemma on_ok_cong [fundef_cong]:
  assumes "r = r'" and "\<And>x s. r' = (Inr x, s) \<Longrightarrow> k x s = k' x s"
  shows "on_ok r k = on_ok r' k'"
  using assms by (auto simp: on_ok_def split: prod.splits sum.splits)

text \<open>A predicate kept by both parts of a composition is kept by the whole.\<close>

lemma on_ok_keeps:
  assumes "P (snd r)" and "\<And>x s. r = (Inr x, s) \<Longrightarrow> P s \<Longrightarrow> P (snd (k x s))"
  shows "P (snd (on_ok r k))"
  using assms by (cases r; cases "fst r") auto

lemma snd_pure_op [simp]: "snd (pure_op r s) = s"
  by (simp add: pure_op_def)

subsection \<open>Tables\<close>

text \<open>\<^verbatim>\<open>UPDATE ... WHERE\<close>, the assignment to a loaded row, and
  \<^verbatim>\<open>DELETE ... WHERE\<close>.\<close>

definition upd_where :: "('r \<Rightarrow> bool) \<Rightarrow> ('r \<Rightarrow> 'r) \<Rightarrow> 'r list \<Rightarrow> 'r list" where
  "upd_where P f rows = map (\<lambda>r. if P r then f r else r) rows"

definition del_where :: "('r \<Rightarrow> bool) \<Rightarrow> 'r list \<Rightarrow> 'r list" where
  "del_where P rows = filter (\<lambda>r. \<not> P r) rows"

lemma upd_where_Nil [simp]: "upd_where P f [] = []"
  by (simp add: upd_where_def)

lemma upd_where_Cons [simp]: "upd_where P f (r # rs) = (if P r then f r else r) # upd_where P f rs"
  by (simp add: upd_where_def)

lemma upd_where_append [simp]: "upd_where P f (xs @ ys) = upd_where P f xs @ upd_where P f ys"
  by (simp add: upd_where_def)

lemma length_upd_where [simp]: "length (upd_where P f rows) = length rows"
  by (simp add: upd_where_def)

lemma set_upd_where: "set (upd_where P f rows) = {r \<in> set rows. \<not> P r} \<union> f ` {r \<in> set rows. P r}"
  by (auto simp: upd_where_def)

lemma upd_where_none: "(\<And>r. r \<in> set rows \<Longrightarrow> \<not> P r) \<Longrightarrow> upd_where P f rows = rows"
  by (induction rows) auto

lemma map_upd_where: "(\<And>r. P r \<Longrightarrow> g (f r) = g r) \<Longrightarrow> map g (upd_where P f rows) = map g rows"
  by (auto simp: upd_where_def)

lemma filter_upd_where_other:
  assumes "\<And>r. P r \<Longrightarrow> \<not> Q r \<and> \<not> Q (f r)"
  shows "filter Q (upd_where P f rows) = filter Q rows"
  using assms by (induction rows) auto

lemma filter_upd_where_inside:
  assumes "\<And>r. Q (f r) = Q r"
  shows "filter Q (upd_where P f rows) = upd_where P f (filter Q rows)"
  using assms by (induction rows) auto

lemma find_Some_set: "find P xs = Some x \<Longrightarrow> x \<in> set xs \<and> P x"
  by (auto simp: find_Some_iff in_set_conv_nth)

lemma find_None_set: "find P xs = None \<longleftrightarrow> (\<forall>x \<in> set xs. \<not> P x)"
  by (auto simp: find_None_iff)

lemma find_append: "find P (xs @ ys) = (case find P xs of None \<Rightarrow> find P ys | Some x \<Rightarrow> Some x)"
  by (induction xs) auto

text \<open>Rows identified by a key: at most one row has it.\<close>

lemma find_key_unique:
  assumes "distinct (map key rows)" and "r \<in> set rows"
  shows "find (\<lambda>x. key x = key r) rows = Some r"
  using assms by (induction rows) (auto simp: rev_image_eqI)

lemma key_unique: "distinct (map key rows) \<Longrightarrow> r \<in> set rows \<Longrightarrow> r' \<in> set rows \<Longrightarrow> key r = key r' \<Longrightarrow> r = r'"
  by (induction rows) (auto simp: rev_image_eqI)

lemma find_key_upd:
  assumes "distinct (map key rows)" and "r \<in> set rows" and "key r = k" and "\<And>r. key (f r) = key r"
  shows "find (\<lambda>x. key x = k) (upd_where (\<lambda>x. key x = k) f rows) = Some (f r)"
  using assms by (induction rows) (auto simp: rev_image_eqI)

lemma find_key_upd_other:
  assumes "\<And>r. key (f r) = key r" and "k' \<noteq> k"
  shows "find (\<lambda>x. key x = k') (upd_where (\<lambda>x. key x = k) f rows) = find (\<lambda>x. key x = k') rows"
  using assms by (induction rows) auto

lemma distinct_key_upd: "(\<And>r. key (f r) = key r) \<Longrightarrow> distinct (map key (upd_where P f rows)) = distinct (map key rows)"
  by (simp add: map_upd_where)

lemma length_filter_le1_unique:
  assumes "length (filter P xs) \<le> 1" and "x \<in> set xs" "P x" and "y \<in> set xs" "P y"
  shows "x = y"
proof -
  have "x \<in> set (filter P xs)" "y \<in> set (filter P xs)" using assms by auto
  then show ?thesis using assms(1) by (cases "filter P xs") auto
qed

subsection \<open>Ordering and paging\<close>

definition page_of :: "nat \<Rightarrow> nat \<Rightarrow> 'r list \<Rightarrow> 'r list" where
  "page_of limit offset rows = take limit (drop offset rows)"

lemma length_page_of: "length (page_of l off rows) \<le> l"
  by (simp add: page_of_def)

lemma set_page_of: "set (page_of l off rows) \<subseteq> set rows"
  unfolding page_of_def by (meson order_trans set_drop_subset set_take_subset)

subsection \<open>Tables with a unique key\<close>

text \<open>The contract of \<^verbatim>\<open>INSERT ... ON CONFLICT DO NOTHING\<close> on a (partial) unique
  index: \<open>key r = None\<close> is a row the index does not cover.\<close>

locale once_table =
  fixes key :: "'r \<Rightarrow> 'k option"
    and ins :: "'r \<Rightarrow> 'r list \<Rightarrow> 'r list"
  assumes ins_new: "key r = None \<or> (\<forall>x \<in> set rows. key x \<noteq> key r) \<Longrightarrow> ins r rows = rows @ [r]"
    and ins_dup: "key r \<noteq> None \<Longrightarrow> x \<in> set rows \<Longrightarrow> key x = key r \<Longrightarrow> ins r rows = rows"
begin

definition unique_keys :: "'r list \<Rightarrow> bool" where
  "unique_keys rows \<longleftrightarrow> distinct (map key (filter (\<lambda>r. key r \<noteq> None) rows))"

lemma ins_cases: "ins r rows = rows \<or> ins r rows = rows @ [r]"
  using ins_new [of r rows] ins_dup [of r _ rows] by blast

lemma ins_unique: "unique_keys rows \<Longrightarrow> unique_keys (ins r rows)"
proof (cases "key r = None \<or> (\<forall>x \<in> set rows. key x \<noteq> key r)")
  case True
  assume "unique_keys rows"
  then show ?thesis using True by (auto simp: ins_new [OF True] unique_keys_def)
next
  case False
  assume "unique_keys rows"
  then show ?thesis using False ins_dup by metis
qed

lemma ins_present: "key r \<noteq> None \<Longrightarrow> \<exists>x \<in> set (ins r rows). key x = key r"
proof -
  assume k: "key r \<noteq> None"
  show ?thesis
  proof (cases "\<exists>x \<in> set rows. key x = key r")
    case True
    then show ?thesis using k ins_dup by metis
  next
    case False
    then show ?thesis using ins_new [of r rows] by auto
  qed
qed

lemma ins_twice: "key r \<noteq> None \<Longrightarrow> key r' = key r \<Longrightarrow> ins r' (ins r rows) = ins r rows"
  using ins_present [of r rows] ins_dup [of r'] by metis

lemma ins_keeps: "set rows \<subseteq> set (ins r rows)"
  using ins_cases [of r rows] by auto

end

end
