(* ===== verification/Shared_Kernel.thy ===== *)
theory Shared_Kernel
  imports Backend_Prelude
begin

section \<open>The shared kernel: errors, JSON, money, pages, contexts and guards\<close>

text \<open>
  \<^verbatim>\<open>shared/errors.py\<close>, \<^verbatim>\<open>shared/money.py\<close>,
  \<^verbatim>\<open>shared/pagination.py\<close>, \<^verbatim>\<open>shared/context.py\<close>,
  \<^verbatim>\<open>core/auth/guard.py\<close> and \<^verbatim>\<open>core/auth/access_service.py\<close>.
  Every raised exception of the program is a value of \<open>exn\<close>; the classes of the domain
  error hierarchy are the constructors of \<open>error_class\<close>.
\<close>

subsection \<open>The error hierarchy\<close>

datatype error_class =
    DomainError | NotFoundError | ConflictError | InvariantViolationError | PermissionDeniedError
  | AuthenticationError | PayloadTooLargeError | RateLimitedError | ExternalServiceError
  | PaymentProviderError | NotificationChannelError | WebhookVerificationError | CircuitOpenError
  | ChannelTemporaryError | ChannelPermanentError | StorageError

datatype exn =
    Domain error_class string
  | ValueError string
  | TypeError string
  | RuntimeError string
  | LookupError string
  | IntegrityError
  | ArithmeticError string

fun error_code :: "error_class \<Rightarrow> string" where
  "error_code DomainError = ''domain_error''"
| "error_code NotFoundError = ''not_found''"
| "error_code ConflictError = ''conflict''"
| "error_code InvariantViolationError = ''invariant_violation''"
| "error_code PermissionDeniedError = ''permission_denied''"
| "error_code AuthenticationError = ''authentication_failed''"
| "error_code PayloadTooLargeError = ''payload_too_large''"
| "error_code RateLimitedError = ''rate_limited''"
| "error_code ExternalServiceError = ''external_service_error''"
| "error_code PaymentProviderError = ''payment_provider_error''"
| "error_code NotificationChannelError = ''notification_channel_error''"
| "error_code WebhookVerificationError = ''webhook_verification_failed''"
| "error_code CircuitOpenError = ''circuit_open''"
| "error_code ChannelTemporaryError = ''notification_channel_error''"
| "error_code ChannelPermanentError = ''notification_undeliverable''"
| "error_code StorageError = ''storage_error''"

definition message_key :: "error_class \<Rightarrow> string" where
  "message_key c =
     (if c = ChannelPermanentError then ''errors.notification_channel_error'' else ''errors.'' @ error_code c)"

text \<open>\<^verbatim>\<open>PaymentProviderError\<close> and \<^verbatim>\<open>NotificationChannelError\<close> inherit the
  status of \<^verbatim>\<open>ExternalServiceError\<close>.\<close>

fun http_status :: "error_class \<Rightarrow> nat" where
  "http_status DomainError = 400"
| "http_status NotFoundError = 404"
| "http_status ConflictError = 409"
| "http_status InvariantViolationError = 422"
| "http_status PermissionDeniedError = 403"
| "http_status AuthenticationError = 401"
| "http_status PayloadTooLargeError = 413"
| "http_status RateLimitedError = 429"
| "http_status ExternalServiceError = 502"
| "http_status PaymentProviderError = 502"
| "http_status NotificationChannelError = 502"
| "http_status WebhookVerificationError = 403"
| "http_status CircuitOpenError = 503"
| "http_status ChannelTemporaryError = 502"
| "http_status ChannelPermanentError = 422"
| "http_status StorageError = 502"

fun superclass :: "error_class \<Rightarrow> error_class option" where
  "superclass DomainError = None"
| "superclass PaymentProviderError = Some ExternalServiceError"
| "superclass NotificationChannelError = Some ExternalServiceError"
| "superclass CircuitOpenError = Some ExternalServiceError"
| "superclass StorageError = Some ExternalServiceError"
| "superclass ChannelTemporaryError = Some NotificationChannelError"
| "superclass c = Some DomainError"

text \<open>\<^verbatim>\<open>isinstance\<close> on the classes: the hierarchy is three levels deep below its
  root.\<close>

definition subclass_of :: "error_class \<Rightarrow> error_class \<Rightarrow> bool" where
  "subclass_of c d =
     (c = d \<or> superclass c = Some d
      \<or> (case superclass c of None \<Rightarrow> False
         | Some c' \<Rightarrow> superclass c' = Some d
             \<or> (case superclass c' of None \<Rightarrow> False | Some c'' \<Rightarrow> superclass c'' = Some d)))"

definition is_domain :: "exn \<Rightarrow> bool" where
  "is_domain e = (case e of Domain c d \<Rightarrow> True | _ \<Rightarrow> False)"

definition exn_is :: "error_class \<Rightarrow> exn \<Rightarrow> bool" where
  "exn_is d e = (case e of Domain c m \<Rightarrow> subclass_of c d | _ \<Rightarrow> False)"

text \<open>\<^verbatim>\<open>str(exc)\<close>: the detail, or the class code when there is none.\<close>

fun exn_str :: "exn \<Rightarrow> string" where
  "exn_str (Domain c d) = (if d = [] then error_code c else d)"
| "exn_str (ValueError d) = d"
| "exn_str (TypeError d) = d"
| "exn_str (RuntimeError d) = d"
| "exn_str (LookupError d) = d"
| "exn_str (ArithmeticError d) = d"
| "exn_str IntegrityError = []"

type_synonym ('a, 's) op_res = "(exn, 'a, 's) res"

subsection \<open>JSON values\<close>

text \<open>The values of event payloads, wire envelopes and decoded webhook bodies.  An object keeps
  its members in order; a float is carried by its text, which is all the program looks at.\<close>

datatype json =
    JNull | JBool bool | JInt int | JFloat string | JStr string | JArr "json list"
  | JObj "(string \<times> json) list"

type_synonym payload = "(string \<times> json) list"

definition jget :: "payload \<Rightarrow> string \<Rightarrow> json" where
  \<comment> \<open>\<^verbatim>\<open>d.get(k)\<close>\<close>
  "jget p k = (case map_of p k of None \<Rightarrow> JNull | Some v \<Rightarrow> v)"

definition jhas :: "payload \<Rightarrow> string \<Rightarrow> bool" where
  "jhas p k = (map_of p k \<noteq> None)"

definition jset :: "payload \<Rightarrow> string \<Rightarrow> json \<Rightarrow> payload" where
  \<comment> \<open>\<^verbatim>\<open>{**d, k: v}\<close>\<close>
  "jset p k v = (if jhas p k then map (\<lambda>(k', v'). if k' = k then (k, v) else (k', v')) p else p @ [(k, v)])"

text \<open>Truth value, as in \<^verbatim>\<open>if x:\<close> and \<^verbatim>\<open>x or y\<close>.\<close>

fun jtruthy :: "json \<Rightarrow> bool" where
  "jtruthy JNull = False"
| "jtruthy (JBool b) = b"
| "jtruthy (JInt i) = (i \<noteq> 0)"
| "jtruthy (JFloat s) = (s \<noteq> ''0.0'' \<and> s \<noteq> ''-0.0'')"
| "jtruthy (JStr s) = (s \<noteq> [])"
| "jtruthy (JArr xs) = (xs \<noteq> [])"
| "jtruthy (JObj ms) = (ms \<noteq> [])"

definition jstr :: "json \<Rightarrow> string option" where
  "jstr j = (case j of JStr s \<Rightarrow> Some s | _ \<Rightarrow> None)"

definition jint :: "json \<Rightarrow> int option" where
  "jint j = (case j of JInt i \<Rightarrow> Some i | _ \<Rightarrow> None)"

definition jobj :: "json \<Rightarrow> payload option" where
  "jobj j = (case j of JObj m \<Rightarrow> Some m | _ \<Rightarrow> None)"

definition jopt_str :: "string option \<Rightarrow> json" where
  "jopt_str x = (case x of None \<Rightarrow> JNull | Some s \<Rightarrow> JStr s)"

lemma jcases [simp]: "jstr (JStr s) = Some s" "jint (JInt i) = Some i" "jobj (JObj m) = Some m"
  by (simp_all add: jstr_def jint_def jobj_def)

lemma jget_jset_same [simp]: "jget (jset p k v) k = v"
proof (cases "jhas p k")
  case True
  have "map_of (map (\<lambda>(k', v'). if k' = k then (k, v) else (k', v')) p) k = Some v"
    if "map_of p k \<noteq> None" using that by (induction p) (auto split: if_splits)
  then show ?thesis using True by (simp add: jget_def jset_def jhas_def)
next
  case False
  then show ?thesis by (simp add: jget_def jset_def jhas_def map_of_append map_add_def)
qed

lemma jget_jset_other [simp]: "k' \<noteq> k \<Longrightarrow> jget (jset p k v) k' = jget p k'"
proof -
  assume ne: "k' \<noteq> k"
  have "map_of (map (\<lambda>(a, v'). if a = k then (k, v) else (a, v')) p) k' = map_of p k'"
    using ne by (induction p) auto
  then show ?thesis using ne by (simp add: jget_def jset_def map_of_append map_add_def split: option.splits)
qed

subsection \<open>Money\<close>

record money =
  m_amount :: int
  m_currency :: string

definition mk_money :: "int \<Rightarrow> string \<Rightarrow> exn + money" where
  "mk_money a c =
     (if a < 0 then Inl (ValueError ''Money.amount must be >= 0'')
      else if length c \<noteq> 3 \<or> \<not> py_isalpha c \<or> \<not> py_isupper c
      then Inl (ValueError ''Money.currency must be a 3-letter uppercase ISO 4217 code'')
      else Inr \<lparr>m_amount = a, m_currency = c\<rparr>)"

definition valid_money :: "money \<Rightarrow> bool" where
  "valid_money m = (0 \<le> m_amount m \<and> length (m_currency m) = 3 \<and> py_isalpha (m_currency m) \<and> py_isupper (m_currency m))"

text \<open>\<^verbatim>\<open>CurrencyRegistry\<close>: the exponents loaded at startup.\<close>

definition registry_load :: "(string \<times> int) list \<Rightarrow> (string \<rightharpoonup> int)" where
  "registry_load rows = map_of (rev rows)"

definition registry_exponent :: "(string \<rightharpoonup> int) \<Rightarrow> string \<Rightarrow> exn + int" where
  "registry_exponent reg code =
     (case reg code of
        None \<Rightarrow> Inl (Domain NotFoundError (''unknown currency: '' @ code))
      | Some e \<Rightarrow> Inr e)"

lemma mk_money_Inr: "mk_money a c = Inr m \<longleftrightarrow> valid_money m \<and> m_amount m = a \<and> m_currency m = c"
  by (cases m) (auto simp: mk_money_def valid_money_def)

lemma mk_money_valid: "mk_money a c = Inr m \<Longrightarrow> valid_money m"
  by (simp add: mk_money_Inr)

lemma mk_money_Inl: "mk_money a c = Inl e \<Longrightarrow> \<exists>d. e = ValueError d"
  by (auto simp: mk_money_def split: if_splits)

subsection \<open>Pages\<close>

record page =
  pg_limit :: int
  pg_offset :: int

definition MAX_PAGE_LIMIT :: int where
  "MAX_PAGE_LIMIT = 200"

definition mk_page :: "int \<Rightarrow> int \<Rightarrow> exn + page" where
  "mk_page l off =
     (if \<not> (1 \<le> l \<and> l \<le> MAX_PAGE_LIMIT) then Inl (ValueError ''Page.limit must be within 1..200'')
      else if off < 0 then Inl (ValueError ''Page.offset must be >= 0'')
      else Inr \<lparr>pg_limit = l, pg_offset = off\<rparr>)"

definition valid_page :: "page \<Rightarrow> bool" where
  "valid_page p = (1 \<le> pg_limit p \<and> pg_limit p \<le> MAX_PAGE_LIMIT \<and> 0 \<le> pg_offset p)"

record 'r page_result =
  pr_items :: "'r list"
  pr_total :: int
  pr_limit :: int
  pr_offset :: int

lemma mk_page_valid: "mk_page l off = Inr p \<Longrightarrow> valid_page p"
  by (auto simp: mk_page_def valid_page_def split: if_splits)

subsection \<open>Actors and tenant contexts\<close>

datatype actor_kind = User | System | Integration

record actor =
  act_kind :: actor_kind
  actor_id :: "string option"

record tenant_context =
  tenant_id :: "uuid option"
  ctx_actor :: actor
  request_id :: "string option"
  ctx_locale :: string

definition mk_ctx :: "uuid option \<Rightarrow> actor \<Rightarrow> tenant_context" where
  \<comment> \<open>\<^verbatim>\<open>TenantContext(tenant_id=..., actor=..., request_id=None)\<close>, default locale\<close>
  "mk_ctx t a = \<lparr>tenant_id = t, ctx_actor = a, request_id = None, ctx_locale = ''ru''\<rparr>"

subsection \<open>Access checks\<close>

text \<open>An \<^verbatim>\<open>AccessService\<close> is the set of permission codes its resolver finds for a
  user.  A service built without one carries \<^const>\<open>None\<close>.\<close>

type_synonym access = "uuid \<Rightarrow> string list"

definition has_permission :: "access \<Rightarrow> uuid \<Rightarrow> string \<Rightarrow> bool" where
  "has_permission acc u perm = (perm \<in> set (acc u))"

definition access_require :: "access \<Rightarrow> uuid \<Rightarrow> string \<Rightarrow> exn + unit" where
  "access_require acc u perm =
     (if has_permission acc u perm then Inr ()
      else Inl (Domain PermissionDeniedError (''missing permission: '' @ perm)))"

definition guard_require :: "access option \<Rightarrow> tenant_context \<Rightarrow> string \<Rightarrow> exn + unit" where
  "guard_require acc ctx perm =
     (if act_kind (ctx_actor ctx) \<noteq> User then Inr ()
      else (case (acc, actor_id (ctx_actor ctx)) of
              (Some a, Some i) \<Rightarrow>
                (case uuid_parse i of
                   None \<Rightarrow> Inl (ValueError ''badly formed hexadecimal UUID string'')
                 | Some u \<Rightarrow> access_require a u perm)
            | _ \<Rightarrow> Inl (Domain PermissionDeniedError (''missing permission: '' @ perm))))"

text \<open>The guard lets a user pass only with a wired access service that grants the permission;
  internal actors always pass.\<close>

lemma guard_require_user:
  assumes "act_kind (ctx_actor ctx) = User"
  shows "guard_require acc ctx perm = Inr () \<longleftrightarrow>
    (\<exists>a i u. acc = Some a \<and> actor_id (ctx_actor ctx) = Some i \<and> uuid_parse i = Some u \<and> perm \<in> set (a u))"
  using assms
  by (auto simp: guard_require_def access_require_def has_permission_def split: option.splits if_splits)

lemma guard_require_internal: "act_kind (ctx_actor ctx) \<noteq> User \<Longrightarrow> guard_require acc ctx perm = Inr ()"
  by (simp add: guard_require_def)

end
