(* ===== verification/Event_Bus.thy ===== *)
theory Event_Bus
  imports Shared_Kernel "HOL-Library.Monad_Syntax"
begin

section \<open>Events, units of work and reliable delivery\<close>

text \<open>
  \<^verbatim>\<open>shared/events.py\<close> (names, patterns, the wire format, the bus),
  \<^verbatim>\<open>shared/service.py\<close> (\<^verbatim>\<open>Service.emit\<close> and the unit of work),
  \<^verbatim>\<open>shared/ids.py\<close>, \<^verbatim>\<open>core/audit/service.py\<close> and the reliable dispatcher
  of \<^verbatim>\<open>app/worker.py\<close> with \<^verbatim>\<open>shared/processed_events.py\<close>.

  The state \<open>infra\<close> is the part of the world every component works in: the clock, the source of
  fresh identifiers, the events queued in the running unit of work, the events published so far,
  the audit journal and the deduplication table.  The components extend it with their tables.
  \<^verbatim>\<open>uuid_utils.uuid7\<close> is third-party code: it is the field \<open>uuid_gen\<close>, a
  sequence of identifiers; where freshness matters it is a hypothesis that the sequence does not
  repeat.  Every read of the clock inside one operation gives the same instant.
\<close>

subsection \<open>Event names and subscription patterns\<close>

definition ch_snake_start :: "char \<Rightarrow> bool" where
  "ch_snake_start c = (97 \<le> py_ord c \<and> py_ord c \<le> 122)"

definition ch_snake :: "char \<Rightarrow> bool" where
  "ch_snake c = (ch_snake_start c \<or> ch_dec c \<or> c = CHR ''_'')"

definition is_segment :: "string \<Rightarrow> bool" where
  "is_segment w = (case w of [] \<Rightarrow> False | c # cs \<Rightarrow> ch_snake_start c \<and> list_all ch_snake cs)"

text \<open>In a Python regular expression \<^verbatim>\<open>$\<close> also matches just before a newline that ends
  the string.\<close>

definition chomp :: "string \<Rightarrow> string" where
  "chomp s = (if s \<noteq> [] \<and> last s = CHR 0x0A then butlast s else s)"

definition EVENT_NAME_RE :: "string \<Rightarrow> bool" where
  "EVENT_NAME_RE name =
     (let parts = split_on (CHR ''.'') (chomp name) in length parts = 3 \<and> list_all is_segment parts)"

definition PREFIX_PATTERN_RE :: "string \<Rightarrow> bool" where
  "PREFIX_PATTERN_RE pattern =
     (let parts = split_on (CHR ''.'') (chomp pattern)
      in (length parts = 2 \<or> length parts = 3) \<and> last parts = ''*'' \<and> list_all is_segment (butlast parts))"

definition validate_event_name :: "string \<Rightarrow> exn + unit" where
  "validate_event_name name =
     (if \<not> EVENT_NAME_RE name then Inl (ValueError (''invalid event name '' @ name)) else Inr ())"

definition validate_pattern :: "string \<Rightarrow> exn + unit" where
  "validate_pattern pattern =
     (if pattern = ''*'' then Inr ()
      else if PREFIX_PATTERN_RE pattern \<or> EVENT_NAME_RE pattern then Inr ()
      else Inl (ValueError (''invalid subscription pattern '' @ pattern)))"

definition pattern_matches :: "string \<Rightarrow> string \<Rightarrow> bool" where
  "pattern_matches pattern name =
     (if pattern = ''*'' then True
      else if endswith pattern ''.*'' then startswith name (butlast pattern)
      else pattern = name)"

definition is_wildcard :: "string \<Rightarrow> bool" where
  "is_wildcard pattern = (pattern = ''*'' \<or> endswith pattern ''.*'')"

subsection \<open>Envelopes and their wire form\<close>

record envelope =
  event_id :: uuid
  ev_name :: string
  ev_version :: int
  occurred_at :: datetime
  ev_tenant :: "uuid option"
  ev_actor :: actor
  ev_payload :: payload

fun kind_str :: "actor_kind \<Rightarrow> string" where
  "kind_str User = ''user''"
| "kind_str System = ''system''"
| "kind_str Integration = ''integration''"

definition to_wire :: "envelope \<Rightarrow> payload" where
  "to_wire e =
     [(''event_id'', JStr (uuid_str (event_id e))),
      (''name'', JStr (ev_name e)),
      (''version'', JInt (ev_version e)),
      (''occurred_at'', JStr (isoformat (occurred_at e))),
      (''tenant_id'', case ev_tenant e of None \<Rightarrow> JNull | Some t \<Rightarrow> JStr (uuid_str t)),
      (''actor'', JObj [(''kind'', JStr (kind_str (act_kind (ev_actor e)))), (''id'', jopt_str (actor_id (ev_actor e)))]),
      (''payload'', JObj (ev_payload e))]"

text \<open>The kinds that \<^verbatim>\<open>ActorKind\<close> allows; the envelope is only ever built from one of
  them.  The code does not check the kind of a wire form and would carry another string along; here such
  a wire form has no envelope.\<close>

definition kind_of :: "string \<Rightarrow> actor_kind option" where
  "kind_of s = (if s = ''user'' then Some User else if s = ''system'' then Some System
     else if s = ''integration'' then Some Integration else None)"

definition opt_json :: "(string \<Rightarrow> 'a option) \<Rightarrow> json \<Rightarrow> 'a option option" where
  \<comment> \<open>\<^verbatim>\<open>f(x) if x is not None else None\<close>\<close>
  "opt_json f j = (if j = JNull then Some None else do { s \<leftarrow> jstr j; x \<leftarrow> f s; Some (Some x) })"

definition int_of_json :: "json \<Rightarrow> int option" where
  \<comment> \<open>\<^verbatim>\<open>int(x)\<close>; a version is never written as a float\<close>
  "int_of_json j =
     (case j of JInt i \<Rightarrow> Some i | JBool b \<Rightarrow> Some (of_bool b) | JStr s \<Rightarrow> py_int 10 s | _ \<Rightarrow> None)"

text \<open>\<open>None\<close> stands for every exception a malformed wire form raises (\<^verbatim>\<open>KeyError\<close>, \<^verbatim>\<open>ValueError\<close>,
  \<^verbatim>\<open>TypeError\<close>).\<close>

definition from_wire :: "payload \<Rightarrow> envelope option" where
  "from_wire d = do {
     a \<leftarrow> jobj (jget d ''actor'');
     k \<leftarrow> jstr (jget a ''kind'') \<bind> kind_of;
     i \<leftarrow> opt_json Some (jget a ''id'');
     eid \<leftarrow> jstr (jget d ''event_id'') \<bind> uuid_parse;
     n \<leftarrow> jstr (jget d ''name'');
     v \<leftarrow> int_of_json (jget d ''version'');
     occ \<leftarrow> jstr (jget d ''occurred_at'') \<bind> fromisoformat;
     t \<leftarrow> opt_json uuid_parse (jget d ''tenant_id'');
     p \<leftarrow> jobj (jget d ''payload'');
     Some \<lparr>event_id = eid, ev_name = n, ev_version = v, occurred_at = occ, ev_tenant = t,
           ev_actor = \<lparr>act_kind = k, actor_id = i\<rparr>, ev_payload = p\<rparr>
   }"

subsection \<open>The state shared by all components\<close>

record audit_row =
  au_id :: uuid
  au_tenant :: "uuid option"
  au_user :: "uuid option"
  au_request :: "string option"
  au_event :: "uuid option"
  au_action :: string
  au_object_type :: "string option"
  au_object_id :: "string option"
  au_payload :: payload
  au_created :: datetime

record processed_event =
  pe_handler :: string
  pe_event :: uuid
  pe_at :: datetime

record infra =
  now :: datetime
  uuid_gen :: "nat \<Rightarrow> uuid"
  uuid_next :: nat
  pending_events :: "(string \<times> envelope) list"  \<comment> \<open>queued, with the service that emitted it\<close>
  published :: "envelope list"
  audit_log :: "audit_row list"
  processed_events :: "processed_event list"

definition new_uuid7 :: "'z infra_scheme \<Rightarrow> uuid \<times> 'z infra_scheme" where
  "new_uuid7 s = (uuid_gen s (uuid_next s), s\<lparr>uuid_next := Suc (uuid_next s)\<rparr>)"

subsection \<open>Emitting events\<close>

definition mk_envelope :: "tenant_context \<Rightarrow> string \<Rightarrow> payload \<Rightarrow> int \<Rightarrow> 'z infra_scheme \<Rightarrow>
    (envelope, 'z infra_scheme) op_res" where
  "mk_envelope ctx name p ver s =
     on_ok (pure_op (validate_event_name name) s) (\<lambda>_ s.
       (let (eid, s1) = new_uuid7 s
        in ret \<lparr>event_id = eid, ev_name = name, ev_version = ver, occurred_at = now s1,
                ev_tenant = tenant_id ctx, ev_actor = ctx_actor ctx, ev_payload = p\<rparr> s1))"

text \<open>\<open>svc\<close> names the service object that emits; its queue is the sublist of
  \<^const>\<open>pending_events\<close> with that name.\<close>

definition emit :: "string \<Rightarrow> tenant_context \<Rightarrow> string \<Rightarrow> payload \<Rightarrow> 'z infra_scheme \<Rightarrow>
    (uuid, 'z infra_scheme) op_res" where
  "emit svc ctx name p s =
     on_ok (mk_envelope ctx name p 1 s) (\<lambda>e s.
       ret (event_id e) (s\<lparr>pending_events := pending_events s @ [(svc, e)]\<rparr>))"

definition emit_now :: "tenant_context \<Rightarrow> string \<Rightarrow> payload \<Rightarrow> 'z infra_scheme \<Rightarrow>
    (uuid, 'z infra_scheme) op_res" where
  "emit_now ctx name p s =
     on_ok (mk_envelope ctx name p 1 s) (\<lambda>e s.
       ret (event_id e) (s\<lparr>published := published s @ [e]\<rparr>))"

subsection \<open>The unit of work\<close>

text \<open>A service registers its publication callback when it emits its first event, so the commit
  publishes the queues in the order of the services' first events, each queue in order.\<close>

fun publish_order :: "(string \<times> envelope) list \<Rightarrow> envelope list" where
  "publish_order [] = []"
| "publish_order ((svc, e) # q) =
     e # map snd (filter (\<lambda>p. fst p = svc) q) @ publish_order (filter (\<lambda>p. fst p \<noteq> svc) q)"

definition commit :: "'z infra_scheme \<Rightarrow> 'z infra_scheme" where
  "commit s = s\<lparr>published := published s @ publish_order (pending_events s), pending_events := []\<rparr>"

text \<open>\<open>rollback s0 s\<close>: every table and the queue are as at the start of the unit of work; the
  identifiers drawn stay drawn and what was published at once stays published.\<close>

definition rollback :: "'z infra_scheme \<Rightarrow> 'z infra_scheme \<Rightarrow> 'z infra_scheme" where
  "rollback s0 s = s0\<lparr>uuid_next := uuid_next s, published := published s, pending_events := []\<rparr>"

definition unit_of_work :: "('z infra_scheme \<Rightarrow> ('a, 'z infra_scheme) op_res) \<Rightarrow> 'z infra_scheme \<Rightarrow>
    ('a, 'z infra_scheme) op_res" where
  "unit_of_work body s =
     (case body (s\<lparr>pending_events := []\<rparr>) of
        (Inr x, t) \<Rightarrow> (Inr x, commit t)
      | (Inl e, t) \<Rightarrow> (Inl e, rollback s t))"

subsection \<open>The audit journal\<close>

definition actor_user_id :: "actor \<Rightarrow> exn + uuid option" where
  "actor_user_id a =
     (case (act_kind a, actor_id a) of
        (User, Some i) \<Rightarrow>
          if i = [] then Inr None
          else (case uuid_parse i of
                  None \<Rightarrow> Inl (ValueError ''badly formed hexadecimal UUID string'')
                | Some u \<Rightarrow> Inr (Some u))
      | _ \<Rightarrow> Inr None)"

definition insert_audit :: "audit_row \<Rightarrow> audit_row list \<Rightarrow> audit_row list" where
  \<comment> \<open>\<^verbatim>\<open>ON CONFLICT DO NOTHING\<close> on the partial unique index over event ids\<close>
  "insert_audit r rows =
     (if au_event r \<noteq> None \<and> list_ex (\<lambda>x. au_event x = au_event r) rows then rows else rows @ [r])"

definition audit_record :: "tenant_context \<Rightarrow> string \<Rightarrow> string option \<Rightarrow> string option \<Rightarrow> payload \<Rightarrow>
    uuid option \<Rightarrow> 'z infra_scheme \<Rightarrow> (unit, 'z infra_scheme) op_res" where
  "audit_record ctx action otype oid meta eid s =
     on_ok (pure_op (actor_user_id (ctx_actor ctx)) s) (\<lambda>uid s.
       (let (i, s1) = new_uuid7 s;
            row = \<lparr>au_id = i, au_tenant = tenant_id ctx, au_user = uid, au_request = request_id ctx,
                   au_event = eid, au_action = action, au_object_type = otype, au_object_id = oid,
                   au_payload = meta, au_created = now s1\<rparr>
        in ret () (s1\<lparr>audit_log := insert_audit row (audit_log s1)\<rparr>)))"

definition AUDIT_EXCLUDED_EVENTS :: "string list" where
  "AUDIT_EXCLUDED_EVENTS = [''notifications.message.sent'']"

definition record_event :: "envelope \<Rightarrow> 'z infra_scheme \<Rightarrow> (unit, 'z infra_scheme) op_res" where
  "record_event e s =
     (if ev_name e \<in> set AUDIT_EXCLUDED_EVENTS then ret () s
      else on_ok (pure_op (actor_user_id (ev_actor e)) s) (\<lambda>uid s.
        (let (i, s1) = new_uuid7 s;
             row = \<lparr>au_id = i, au_tenant = ev_tenant e, au_user = uid, au_request = None,
                    au_event = Some (event_id e), au_action = ev_name e, au_object_type = None,
                    au_object_id = None, au_payload = ev_payload e, au_created = now s1\<rparr>
         in ret () (s1\<lparr>audit_log := insert_audit row (audit_log s1)\<rparr>))))"

subsection \<open>The bus\<close>

record bus_subscription =
  bs_pattern :: string
  bs_reliable :: bool
  handler_id :: string
  bs_maintenance :: bool

record bus =
  subscriptions :: "bus_subscription list"
  enqueue_bound :: bool

definition WILDCARD_ALLOWED_TOP_PACKAGE :: string where
  "WILDCARD_ALLOWED_TOP_PACKAGE = ''core''"

text \<open>\<open>subscribe b pattern reliable maintenance module qualname\<close>: the decorator applied to the
  handler \<open>module.qualname\<close>.\<close>

definition subscribe :: "bus \<Rightarrow> string \<Rightarrow> bool \<Rightarrow> bool \<Rightarrow> string \<Rightarrow> string \<Rightarrow> exn + bus" where
  "subscribe b pattern rel maint modname qualname =
     (case validate_pattern pattern of
        Inl e \<Rightarrow> Inl e
      | Inr _ \<Rightarrow>
          if maint \<and> \<not> rel then Inl (ValueError ''maintenance handlers must be reliable'')
          else if (is_wildcard pattern \<or> maint)
                  \<and> hd (split_on (CHR ''.'') modname) \<noteq> WILDCARD_ALLOWED_TOP_PACKAGE
          then Inl (RuntimeError (''wildcard/maintenance subscription '' @ pattern @ '' is a privilege of core modules''))
          else
            (let hid = modname @ ''.'' @ qualname
             in if list_ex (\<lambda>x. handler_id x = hid) (subscriptions b)
                then Inl (RuntimeError (''duplicate event handler registration: '' @ hid))
                else Inr (b\<lparr>subscriptions := subscriptions b @
                  [\<lparr>bs_pattern = pattern, bs_reliable = rel, handler_id = hid, bs_maintenance = maint\<rparr>]\<rparr>)))"

definition resolve :: "bus \<Rightarrow> string \<Rightarrow> exn + bus_subscription" where
  "resolve b hid =
     (case find (\<lambda>x. handler_id x = hid) (subscriptions b) of
        None \<Rightarrow> Inl (LookupError (''event handler '' @ hid @ '' is not registered in this process''))
      | Some x \<Rightarrow> Inr x)"

definition subscriptions_for :: "bus \<Rightarrow> string \<Rightarrow> bus_subscription list" where
  "subscriptions_for b name = filter (\<lambda>x. pattern_matches (bs_pattern x) name) (subscriptions b)"

text \<open>What publishing one event attempts, in order.  The attempt of one subscription may fail
  (the queue is down, the handler raises); the failure is logged and the next one is attempted all
  the same.\<close>

datatype delivery = Enqueue string payload | Call string envelope

definition publish :: "bus \<Rightarrow> envelope \<Rightarrow> exn + delivery list" where
  "publish b e =
     (case validate_event_name (ev_name e) of
        Inl err \<Rightarrow> Inl err
      | Inr _ \<Rightarrow>
          (let matching = subscriptions_for b (ev_name e)
           in if list_ex bs_reliable matching \<and> \<not> enqueue_bound b
              then Inl (RuntimeError ''EventBus has reliable subscribers but no enqueue bound'')
              else Inr (map (\<lambda>x. if bs_reliable x then Enqueue (handler_id x) (to_wire e)
                                else Call (handler_id x) e) matching)))"

subsection \<open>Reliable dispatch\<close>

definition MAX_TRIES :: nat where
  "MAX_TRIES = 5"

definition RETRY_BASE_DELAY_SECONDS :: nat where
  "RETRY_BASE_DELAY_SECONDS = 15"

type_synonym ('z) handler = "tenant_context \<Rightarrow> envelope \<Rightarrow> 'z infra_scheme \<Rightarrow> (unit, 'z infra_scheme) op_res"

datatype dispatch_result = Done | Retry nat | DeadLetter exn | NotDispatched exn

definition is_processed :: "string \<Rightarrow> uuid \<Rightarrow> 'z infra_scheme \<Rightarrow> bool" where
  "is_processed hid eid s = list_ex (\<lambda>p. pe_handler p = hid \<and> pe_event p = eid) (processed_events s)"

definition dispatch_body :: "'z handler \<Rightarrow> string \<Rightarrow> envelope \<Rightarrow> 'z infra_scheme \<Rightarrow> (unit, 'z infra_scheme) op_res" where
  "dispatch_body h hid e s =
     (if is_processed hid (event_id e) s then ret () s
      else h \<lparr>tenant_id = ev_tenant e, ctx_actor = ev_actor e, request_id = None, ctx_locale = ''ru''\<rparr> e
             (s\<lparr>processed_events := processed_events s @
                  [\<lparr>pe_handler = hid, pe_event = event_id e, pe_at = now s\<rparr>]\<rparr>))"

text \<open>\<open>handlers\<close> gives the code registered under each handler id; \<open>job_try\<close> counts from 1.\<close>

definition dispatch_event :: "(string \<Rightarrow> 'z handler) \<Rightarrow> bus \<Rightarrow> nat \<Rightarrow> string \<Rightarrow> payload \<Rightarrow> 'z infra_scheme \<Rightarrow>
    dispatch_result \<times> 'z infra_scheme" where
  "dispatch_event handlers b job_try hid wire s =
     (case from_wire wire of
        None \<Rightarrow> (NotDispatched (ValueError ''malformed envelope''), s)
      | Some e \<Rightarrow>
          (case resolve b hid of
             Inl err \<Rightarrow> (NotDispatched err, s)
           | Inr sub \<Rightarrow>
               (case unit_of_work (dispatch_body (handlers hid) hid e) s of
                  (Inr _, t) \<Rightarrow> (Done, t)
                | (Inl err, t) \<Rightarrow>
                    if job_try \<ge> MAX_TRIES then (DeadLetter err, t)
                    else (Retry (RETRY_BASE_DELAY_SECONDS * 2 ^ (job_try - 1)), t))))"

definition purge_processed_events :: "int \<Rightarrow> 'z infra_scheme \<Rightarrow> nat \<times> 'z infra_scheme" where
  "purge_processed_events retention_days s =
     (let old = (\<lambda>p. instant (pe_at p) < instant (now s) - retention_days * usec_per_day)
      in (length (filter old (processed_events s)),
          s\<lparr>processed_events := del_where old (processed_events s)\<rparr>))"

subsection \<open>Laws of names, patterns and the wire form\<close>

lemma split_on_join_one: "CHR ''.'' \<notin> set w \<Longrightarrow> split_on (CHR ''.'') (w @ CHR ''.'' # s) = w # split_on (CHR ''.'') s"
  by (induction w) auto

lemma split_on_none: "d \<notin> set w \<Longrightarrow> split_on d w = [w]"
  by (induction w) auto

lemma kind_of_str [simp]: "kind_of (kind_str k) = Some k"
  by (cases k) (simp_all add: kind_of_def)

definition valid_envelope :: "envelope \<Rightarrow> bool" where
  "valid_envelope e =
     (event_id e < 2 ^ 128 \<and> valid_datetime (occurred_at e)
      \<and> (case ev_tenant e of None \<Rightarrow> True | Some t \<Rightarrow> t < 2 ^ 128))"

lemma from_wire_to_wire: "valid_envelope e \<Longrightarrow> from_wire (to_wire e) = Some e"
  by (cases e; cases "ev_tenant e"; cases "actor_id (ev_actor e)")
    (simp_all add: valid_envelope_def from_wire_def to_wire_def jget_def opt_json_def jopt_str_def int_of_json_def
      uuid_parse_str fromisoformat_isoformat)

subsection \<open>Emitting and auditing\<close>

lemma new_uuid7_eq: "new_uuid7 s = (uuid_gen s (uuid_next s), s\<lparr>uuid_next := Suc (uuid_next s)\<rparr>)"
  by (simp add: new_uuid7_def)

lemma emit_valid:
  assumes "EVENT_NAME_RE name"
  shows "emit svc ctx name p s =
    (Inr (uuid_gen s (uuid_next s)),
     s\<lparr>uuid_next := Suc (uuid_next s),
       pending_events := pending_events s @
         [(svc, \<lparr>event_id = uuid_gen s (uuid_next s), ev_name = name, ev_version = 1, occurred_at = now s,
                 ev_tenant = tenant_id ctx, ev_actor = ctx_actor ctx, ev_payload = p\<rparr>)]\<rparr>)"
  using assms
  by (simp add: emit_def mk_envelope_def validate_event_name_def new_uuid7_def)

lemma audit_record_ok:
  assumes "actor_user_id (ctx_actor ctx) = Inr uid"
  shows "audit_record ctx action otype oid meta eid s =
    (Inr (), s\<lparr>uuid_next := Suc (uuid_next s),
      audit_log := insert_audit
        \<lparr>au_id = uuid_gen s (uuid_next s), au_tenant = tenant_id ctx, au_user = uid,
         au_request = request_id ctx, au_event = eid, au_action = action, au_object_type = otype,
         au_object_id = oid, au_payload = meta, au_created = now s\<rparr> (audit_log s)\<rparr>)"
  using assms by (simp add: audit_record_def new_uuid7_def)

lemma actor_user_id_internal: "act_kind a \<noteq> User \<Longrightarrow> actor_user_id a = Inr None"
  by (cases "act_kind a") (simp_all add: actor_user_id_def)

interpretation audit: once_table au_event insert_audit
proof
  fix r :: audit_row and rows :: "audit_row list"
  assume "au_event r = None \<or> (\<forall>x \<in> set rows. au_event x \<noteq> au_event r)"
  then show "insert_audit r rows = rows @ [r]" by (auto simp: insert_audit_def list_ex_iff)
next
  fix r x :: audit_row and rows :: "audit_row list"
  assume "au_event r \<noteq> None" "x \<in> set rows" "au_event x = au_event r"
  then show "insert_audit r rows = rows" by (auto simp: insert_audit_def list_ex_iff)
qed

subsection \<open>Publication after commit\<close>

lemma publish_order_mset: "mset (publish_order q) = image_mset snd (mset q)"
proof (induction q rule: publish_order.induct)
  case (2 svc e q)
  have "image_mset snd (mset q) =
      image_mset snd {#p \<in># mset q. fst p = svc#} + image_mset snd {#p \<in># mset q. fst p \<noteq> svc#}"
    by (metis image_mset_union multiset_partition)
  then show ?case using "2.IH" by simp
qed simp

lemma filter_filter_conj: "filter P (filter Q xs) = filter (\<lambda>x. Q x \<and> P x) xs"
  by simp

text \<open>Each service's events come out in the order it emitted them, and no service's events are
  interleaved with another's.\<close>

lemma publish_order_groups:
  "publish_order q = concat (map (\<lambda>svc. map snd (filter (\<lambda>p. fst p = svc) q)) (rev (remdups (rev (map fst q)))))"
proof (induction q rule: publish_order.induct)
  case (2 svc e q)
  let ?rest = "filter (\<lambda>p. fst p \<noteq> svc) q"
  have order: "rev (remdups (rev (map fst ((svc, e) # q)))) = svc # rev (remdups (rev (map fst ?rest)))"
  proof -
    have "rev (map fst ?rest) = filter (\<lambda>x. x \<noteq> svc) (rev (map fst q))"
      by (induction q) auto
    then have "remdups (rev (map fst ?rest)) = filter (\<lambda>x. x \<noteq> svc) (remdups (rev (map fst q)))"
      by (simp add: remdups_filter)
    moreover have "remdups (xs @ [svc]) = filter (\<lambda>x. x \<noteq> svc) (remdups xs) @ [svc]" for xs
      by (induction xs) auto
    ultimately show ?thesis by simp
  qed
  have same: "map snd (filter (\<lambda>p. fst p = v) ?rest) = map snd (filter (\<lambda>p. fst p = v) ((svc, e) # q))"
    if "v \<in> set (rev (remdups (rev (map fst ?rest))))" for v
  proof -
    from that have "v \<noteq> svc" by auto
    then show ?thesis by (induction q) auto
  qed
  have "publish_order ?rest = concat (map (\<lambda>v. map snd (filter (\<lambda>p. fst p = v) ((svc, e) # q)))
      (rev (remdups (rev (map fst ?rest)))))"
    unfolding "2.IH" by (rule arg_cong [where f = concat], rule map_cong [OF refl], rule same)
  then show ?case unfolding order by simp
qed simp

lemma unit_of_work_ok:
  "unit_of_work body s = (Inr x, t) \<longleftrightarrow> (\<exists>u. body (s\<lparr>pending_events := []\<rparr>) = (Inr x, u) \<and> t = commit u)"
  by (auto simp: unit_of_work_def split: prod.splits sum.splits)

lemma unit_of_work_err:
  "unit_of_work body s = (Inl e, t) \<longleftrightarrow> (\<exists>u. body (s\<lparr>pending_events := []\<rparr>) = (Inl e, u) \<and> t = rollback s u)"
  by (auto simp: unit_of_work_def split: prod.splits sum.splits)

subsection \<open>Effectively-once handling\<close>

text \<open>A handler never removes a deduplication key: only the retention sweep does.\<close>

definition keeps_processed :: "'z handler \<Rightarrow> bool" where
  "keeps_processed h \<longleftrightarrow>
     (\<forall>ctx e s x t. h ctx e s = (Inr x, t) \<longrightarrow> set (processed_events s) \<subseteq> set (processed_events t))"

lemma is_processed_mono: "set (processed_events s) \<subseteq> set (processed_events t) \<Longrightarrow> is_processed hid eid s \<Longrightarrow> is_processed hid eid t"
  by (auto simp: is_processed_def list_ex_iff)

lemma dispatch_Done_processed:
  assumes "dispatch_event handlers b n hid wire s = (Done, t)" and "from_wire wire = Some e"
    and "keeps_processed (handlers hid)"
  shows "is_processed hid (event_id e) t"
proof -
  obtain u where u: "dispatch_body (handlers hid) hid e (s\<lparr>pending_events := []\<rparr>) = (Inr (), u)" "t = commit u"
    using assms(1,2)
    by (auto simp: dispatch_event_def unit_of_work_ok split: sum.splits prod.splits if_splits)
  show ?thesis
  proof (cases "is_processed hid (event_id e) (s\<lparr>pending_events := []\<rparr>)")
    case True
    then show ?thesis using u by (auto simp: dispatch_body_def commit_def is_processed_def)
  next
    case False
    then have "handlers hid \<lparr>tenant_id = ev_tenant e, ctx_actor = ev_actor e, request_id = None, ctx_locale = ''ru''\<rparr> e
        (s\<lparr>pending_events := [], processed_events := processed_events s @
          [\<lparr>pe_handler = hid, pe_event = event_id e, pe_at = now s\<rparr>]\<rparr>) = (Inr (), u)"
      using u(1) by (simp add: dispatch_body_def)
    then have "set (processed_events s @ [\<lparr>pe_handler = hid, pe_event = event_id e, pe_at = now s\<rparr>])
        \<subseteq> set (processed_events u)"
      using assms(3) unfolding keeps_processed_def by fastforce
    then show ?thesis using u(2) by (force simp: is_processed_def commit_def list_ex_iff)
  qed
qed

lemma dispatch_skips:
  assumes "is_processed hid (event_id e) s" and "from_wire wire = Some e" and "resolve b hid = Inr sub"
    and "pending_events s = []"
  shows "dispatch_event handlers b n hid wire s = (Done, s)"
proof -
  have "s\<lparr>pending_events := []\<rparr> = s" using assms(4) by simp
  moreover have "dispatch_body (handlers hid) hid e s = (Inr (), s)"
    using assms(1) by (simp add: dispatch_body_def)
  moreover have "commit s = s" using assms(4) by (simp add: commit_def)
  ultimately show ?thesis using assms(2,3) by (simp add: dispatch_event_def unit_of_work_def)
qed

end
