(* ===== verification/Tenant_Repository.thy ===== *)
theory Tenant_Repository
  imports Event_Bus
begin

section \<open>Tenant-scoped repositories\<close>

text \<open>
  \<^verbatim>\<open>shared/repository.py\<close> and \<^verbatim>\<open>shared/system_repository.py\<close>.  A repository works
  on one table; \<open>tid\<close> and \<open>rid\<close> read the tenant and the primary key of a row.  The
  tenant of the repository is fixed by the context; the single point that builds queries
  (\<^verbatim>\<open>_select\<close>) is \<open>repo_select\<close>, and every read goes through it.

  The contract of such a table (the tenant stamp, the key) is the locale \<open>tenant_table\<close>; each
  component interprets it on its own rows.
\<close>

subsection \<open>The operations\<close>

definition repo_init :: "tenant_context \<Rightarrow> exn + uuid" where
  "repo_init ctx =
     (case tenant_id ctx of
        None \<Rightarrow> Inl (Domain InvariantViolationError ''tenant-scoped repository requires ctx.tenant_id; system paths must use SystemRepository (core/ only) and elevate context'')
      | Some t \<Rightarrow> Inr t)"

definition repo_select :: "('r \<Rightarrow> uuid) \<Rightarrow> uuid \<Rightarrow> 'r list \<Rightarrow> 'r list" where
  "repo_select tid t rows = filter (\<lambda>r. tid r = t) rows"

definition repo_find :: "('r \<Rightarrow> uuid) \<Rightarrow> uuid \<Rightarrow> ('r \<Rightarrow> bool) \<Rightarrow> 'r list \<Rightarrow> 'r list" where
  "repo_find tid t P rows = filter P (repo_select tid t rows)"

definition repo_get :: "('r \<Rightarrow> uuid) \<Rightarrow> ('r \<Rightarrow> uuid) \<Rightarrow> uuid \<Rightarrow> uuid \<Rightarrow> 'r list \<Rightarrow> 'r option" where
  "repo_get tid rid t i rows = find (\<lambda>r. rid r = i) (repo_select tid t rows)"

definition repo_get_or_raise :: "string \<Rightarrow> ('r \<Rightarrow> uuid) \<Rightarrow> ('r \<Rightarrow> uuid) \<Rightarrow> uuid \<Rightarrow> uuid \<Rightarrow> 'r list \<Rightarrow> exn + 'r" where
  "repo_get_or_raise model tid rid t i rows =
     (case repo_get tid rid t i rows of
        None \<Rightarrow> Inl (Domain NotFoundError (model @ '' '' @ uuid_str i @ '' not found''))
      | Some r \<Rightarrow> Inr r)"

text \<open>With an order and a page: \<^verbatim>\<open>stmt.order_by(...).limit(...).offset(...)\<close>.\<close>

definition repo_find_page :: "('r \<Rightarrow> uuid) \<Rightarrow> uuid \<Rightarrow> ('r \<Rightarrow> bool) \<Rightarrow> ('r list \<Rightarrow> 'r list) \<Rightarrow> page \<Rightarrow> 'r list \<Rightarrow> 'r list" where
  "repo_find_page tid t P ordr p rows = page_of (nat (pg_limit p)) (nat (pg_offset p)) (ordr (repo_find tid t P rows))"

definition repo_count :: "('r \<Rightarrow> uuid) \<Rightarrow> uuid \<Rightarrow> ('r \<Rightarrow> bool) \<Rightarrow> 'r list \<Rightarrow> int" where
  "repo_count tid t P rows = int (length (filter (\<lambda>r. tid r = t \<and> P r) rows))"

definition repo_find_paged :: "('r \<Rightarrow> uuid) \<Rightarrow> uuid \<Rightarrow> ('r \<Rightarrow> bool) \<Rightarrow> ('r list \<Rightarrow> 'r list) \<Rightarrow> page \<Rightarrow> 'r list \<Rightarrow> 'r page_result" where
  "repo_find_paged tid t P ordr p rows =
     \<lparr>pr_items = repo_find_page tid t P ordr p rows, pr_total = repo_count tid t P rows,
      pr_limit = pg_limit p, pr_offset = pg_offset p\<rparr>"

text \<open>\<open>preset\<close> is the tenant the new entity already carries, if any; \<open>stamp\<close> writes the
  tenant of the repository into it.  The flush may raise: \<open>conflict\<close> says that the row violates
  a unique index of its table.\<close>

definition repo_add :: "(uuid \<Rightarrow> 'r \<Rightarrow> 'r) \<Rightarrow> ('r \<Rightarrow> 'r list \<Rightarrow> bool) \<Rightarrow> uuid \<Rightarrow> uuid option \<Rightarrow> 'r \<Rightarrow> 'r list \<Rightarrow> exn + 'r list" where
  "repo_add stamp conflict t preset r rows =
     (if preset \<noteq> None \<and> preset \<noteq> Some t
      then Inl (Domain PermissionDeniedError ''entity is stamped with another tenant_id'')
      else if conflict (stamp t r) rows then Inl IntegrityError
      else Inr (rows @ [stamp t r]))"

definition repo_delete :: "('r \<Rightarrow> uuid) \<Rightarrow> ('r \<Rightarrow> uuid) \<Rightarrow> uuid \<Rightarrow> 'r \<Rightarrow> 'r list \<Rightarrow> exn + 'r list" where
  "repo_delete tid rid t r rows =
     (if tid r \<noteq> t then Inl (Domain PermissionDeniedError ''entity belongs to another tenant'')
      else Inr (del_where (\<lambda>x. rid x = rid r) rows))"

text \<open>\<^verbatim>\<open>SystemRepository.get_one_or_none\<close>: no tenant filter; two matches are an error.\<close>

definition system_get_one :: "('r \<Rightarrow> bool) \<Rightarrow> 'r list \<Rightarrow> exn + 'r option" where
  "system_get_one P rows =
     (case take 2 (filter P rows) of
        [] \<Rightarrow> Inr None
      | [r] \<Rightarrow> Inr (Some r)
      | _ \<Rightarrow> Inl (ValueError ''get_one_or_none matched 2+ rows''))"

definition system_find :: "('r \<Rightarrow> bool) \<Rightarrow> ('r list \<Rightarrow> 'r list) \<Rightarrow> nat \<Rightarrow> 'r list \<Rightarrow> 'r list" where
  "system_find P ordr lim rows = take lim (ordr (filter P rows))"

subsection \<open>Isolation\<close>

lemma repo_find_iff: "r \<in> set (repo_find tid t P rows) \<longleftrightarrow> r \<in> set rows \<and> tid r = t \<and> P r"
  by (auto simp: repo_find_def repo_select_def)

lemma repo_find_filter: "repo_find tid t P rows = filter (\<lambda>r. tid r = t \<and> P r) rows"
  by (simp add: repo_find_def repo_select_def conj_commute)

lemma repo_get_Some: "repo_get tid rid t i rows = Some r \<Longrightarrow> r \<in> set rows \<and> tid r = t \<and> rid r = i"
  by (auto simp: repo_get_def repo_select_def dest: find_Some_set)

lemma repo_get_None: "repo_get tid rid t i rows = None \<longleftrightarrow> (\<forall>r \<in> set rows. tid r = t \<longrightarrow> rid r \<noteq> i)"
  by (auto simp: repo_get_def repo_select_def find_None_set)

lemma repo_get_or_raise_Inr: "repo_get_or_raise m tid rid t i rows = Inr r \<longleftrightarrow> repo_get tid rid t i rows = Some r"
  by (simp add: repo_get_or_raise_def split: option.splits)

lemma repo_get_or_raise_Inl:
  "repo_get_or_raise m tid rid t i rows = Inl e \<longleftrightarrow>
     repo_get tid rid t i rows = None \<and> e = Domain NotFoundError (m @ '' '' @ uuid_str i @ '' not found'')"
  by (auto simp: repo_get_or_raise_def split: option.splits)

lemma repo_count_find: "repo_count tid t P rows = int (length (repo_find tid t P rows))"
  by (simp add: repo_count_def repo_find_filter)

lemma repo_find_page_subset:
  assumes "\<And>xs. set (ordr xs) \<subseteq> set xs"
  shows "set (repo_find_page tid t P ordr p rows) \<subseteq> {r \<in> set rows. tid r = t \<and> P r}"
proof
  fix r
  assume "r \<in> set (repo_find_page tid t P ordr p rows)"
  then have "r \<in> set (ordr (repo_find tid t P rows))"
    unfolding repo_find_page_def by (rule set_page_of [THEN subsetD])
  then have "r \<in> set (repo_find tid t P rows)" using assms by blast
  then show "r \<in> {r \<in> set rows. tid r = t \<and> P r}" by (simp add: repo_find_iff)
qed

lemma repo_find_page_length:
  assumes "valid_page p"
  shows "int (length (repo_find_page tid t P ordr p rows)) \<le> MAX_PAGE_LIMIT"
proof -
  have "length (repo_find_page tid t P ordr p rows) \<le> nat (pg_limit p)"
    by (simp add: repo_find_page_def length_page_of)
  then show ?thesis using assms by (auto simp: valid_page_def)
qed

lemma system_get_one_Some: "system_get_one P rows = Inr (Some r) \<Longrightarrow> r \<in> set rows \<and> P r"
proof -
  assume "system_get_one P rows = Inr (Some r)"
  then have "take 2 (filter P rows) = [r]"
    by (auto simp: system_get_one_def split: list.splits)
  then have "r \<in> set (filter P rows)" by (metis in_set_takeD list.set_intros(1))
  then show ?thesis by simp
qed

lemma system_get_one_None: "system_get_one P rows = Inr None \<longleftrightarrow> (\<forall>r \<in> set rows. \<not> P r)"
proof -
  have "system_get_one P rows = Inr None \<longleftrightarrow> filter P rows = []"
    by (cases "filter P rows"; cases "tl (filter P rows)") (auto simp: system_get_one_def)
  then show ?thesis by (simp add: filter_empty_conv)
qed

lemma system_get_one_unique:
  assumes "length (filter P rows) \<le> 1"
  shows "\<exists>x. system_get_one P rows = Inr x"
  using assms by (cases "filter P rows") (auto simp: system_get_one_def)

text \<open>The contract of a tenant-scoped table.\<close>

locale tenant_table =
  fixes tid :: "'r \<Rightarrow> uuid"
    and rid :: "'r \<Rightarrow> uuid"
    and stamp :: "uuid \<Rightarrow> 'r \<Rightarrow> 'r"
  assumes tid_stamp [simp]: "tid (stamp t r) = t"
    and rid_stamp [simp]: "rid (stamp t r) = rid r"
begin

abbreviation other_rows :: "uuid \<Rightarrow> 'r list \<Rightarrow> 'r list" where
  "other_rows t rows \<equiv> filter (\<lambda>r. tid r \<noteq> t) rows"

lemma add_own: "repo_add stamp conflict t preset r rows = Inr rows' \<Longrightarrow> rows' = rows @ [stamp t r]"
  by (auto simp: repo_add_def split: if_splits)

lemma add_isolated: "repo_add stamp conflict t preset r rows = Inr rows' \<Longrightarrow> other_rows t rows' = other_rows t rows"
  by (auto dest: add_own)

lemma delete_isolated:
  assumes "distinct (map rid rows)" and "r \<in> set rows" and "repo_delete tid rid t r rows = Inr rows'"
  shows "other_rows t rows' = other_rows t rows"
proof -
  have "tid r = t" "rows' = del_where (\<lambda>x. rid x = rid r) rows"
    using assms(3) by (auto simp: repo_delete_def split: if_splits)
  moreover have "\<And>x. x \<in> set rows \<Longrightarrow> rid x = rid r \<Longrightarrow> x = r"
    using assms(1,2) key_unique by metis
  ultimately have "filter (\<lambda>x. tid x \<noteq> t \<and> rid x \<noteq> rid r) rows = other_rows t rows"
    by (intro filter_cong) auto
  then show ?thesis
    using \<open>rows' = _\<close> by (simp add: del_where_def conj_commute)
qed

lemma update_isolated:
  assumes "\<And>r. P r \<Longrightarrow> tid r = t \<and> tid (f r) = t"
  shows "other_rows t (upd_where P f rows) = other_rows t rows"
  using assms by (intro filter_upd_where_other) auto

lemma get_own_add:
  assumes "repo_add stamp conflict t preset r rows = Inr rows'" and "rid r \<notin> rid ` set rows"
  shows "repo_get tid rid t (rid r) rows' = Some (stamp t r)"
proof -
  have "find (\<lambda>x. rid x = rid r) (repo_select tid t rows) = None"
    using assms(2) by (auto simp: find_None_set repo_select_def intro: rev_image_eqI)
  then show ?thesis
    using add_own [OF assms(1)] by (simp add: repo_get_def repo_select_def find_append)
qed

lemma get_foreign: "r \<in> set rows \<Longrightarrow> distinct (map rid rows) \<Longrightarrow> tid r \<noteq> t \<Longrightarrow> repo_get tid rid t (rid r) rows = None"
  unfolding repo_get_None using key_unique by metis

end

end
