(* ===== verification/Billing_Periods.thy ===== *)
theory Billing_Periods
  imports Shared_Kernel
begin

section \<open>Subscription periods\<close>

text \<open>
  \<^verbatim>\<open>core/billing/periods.py\<close> and the loop of
  \<^verbatim>\<open>BillingService.close_ended_period\<close> that rolls a free subscription forward.  A result
  past the year 9999 is the \<^verbatim>\<open>ValueError\<close> of \<^verbatim>\<open>datetime.replace\<close>.
\<close>

definition replace_date :: "datetime \<Rightarrow> int \<Rightarrow> int \<Rightarrow> int \<Rightarrow> exn + datetime" where
  "replace_date d y m day =
     (if y < 1 \<or> 9999 < y then Inl (ValueError ''year is out of range'')
      else Inr (Datetime y m day (dt_usec d)))"

definition period_end :: "datetime \<Rightarrow> string \<Rightarrow> exn + datetime" where
  "period_end start period =
     (if period = ''year'' then
        (let year = dt_year start + 1;
             day = min (dt_day start) (month_len year (dt_month start))
         in replace_date start year (dt_month start) day)
      else
        (let month0 = dt_month start + 1;
             month = (if month0 > 12 then 1 else month0);
             year = (if month0 > 12 then dt_year start + 1 else dt_year start);
             day = min (dt_day start) (month_len year month)
         in replace_date start year month day))"

text \<open>\<^verbatim>\<open>while subscription.current_period_end <= now: ...\<close>\<close>

function roll_forward :: "datetime \<Rightarrow> datetime \<Rightarrow> string \<Rightarrow> datetime \<Rightarrow> exn + (datetime \<times> datetime)" where
  "roll_forward start fin period t =
     (if fin \<le> t
      then (case period_end fin period of
              Inl e \<Rightarrow> Inl e
            | Inr fin' \<Rightarrow> roll_forward fin fin' period t)
      else Inr (start, fin))"
  by pat_completeness auto
termination
proof (relation "measures [\<lambda>(start, fin, period, t). nat (dt_year t + 1 - dt_year fin),
    \<lambda>(start, fin, period, t). nat (13 - dt_month fin)]")
  fix start fin :: datetime and period :: string and t fin' :: datetime
  assume le: "fin \<le> t" and pe: "period_end fin period = Inr fin'"
  have "dt_year fin \<le> dt_year t" using le by (rule datetime_le_year)
  then show "((fin, fin', period, t), (start, fin, period, t)) \<in>
      measures [\<lambda>(start, fin, period, t). nat (dt_year t + 1 - dt_year fin),
        \<lambda>(start, fin, period, t). nat (13 - dt_month fin)]"
    using pe by (auto simp: period_end_def replace_date_def Let_def split: if_splits)
qed simp

declare roll_forward.simps [simp del]

subsection \<open>One period\<close>

text \<open>A billing period of a valid start ends at a valid later instant, on the start's day of the
  month or the last day of a shorter month.\<close>

lemma period_end_valid:
  assumes "valid_datetime start" and "period_end start period = Inr fin"
  shows "valid_datetime fin"
  using assms
  by (auto simp: valid_datetime_def period_end_def replace_date_def Let_def min_def split: if_splits)

lemma period_end_later:
  assumes "period_end start period = Inr fin"
  shows "start < fin"
  using assms
  by (cases start) (auto simp: period_end_def replace_date_def Let_def datetime_less_iff split: if_splits)

lemma period_end_month:
  assumes "period_end start ''month'' = Inr fin" and "valid_datetime start"
  shows "12 * dt_year fin + dt_month fin = 12 * dt_year start + dt_month start + 1
    \<and> dt_day fin = min (dt_day start) (month_len (dt_year fin) (dt_month fin)) \<and> dt_usec fin = dt_usec start"
  using assms
  by (auto simp: period_end_def replace_date_def Let_def valid_datetime_def split: if_splits)

lemma period_end_total:
  assumes "valid_datetime start" and "dt_year start < 9999"
  shows "\<exists>fin. period_end start period = Inr fin"
  using assms by (auto simp: period_end_def replace_date_def Let_def valid_datetime_def)

subsection \<open>Rolling forward\<close>

lemma roll_forward_covers:
  assumes "roll_forward start fin period t = Inr (a, b)" and "start < fin"
  shows "t < b \<and> a < b \<and> (a = start \<and> b = fin \<or> fin \<le> a \<and> a \<le> t \<and> period_end a period = Inr b)"
  using assms
proof (induction start fin period t rule: roll_forward.induct)
  case (1 start fin period t)
  show ?case
  proof (cases "fin \<le> t")
    case False
    then show ?thesis using 1 by (simp add: roll_forward.simps [of start])
  next
    case True
    then obtain fin' where f: "period_end fin period = Inr fin'" "roll_forward fin fin' period t = Inr (a, b)"
      using "1.prems"(1) by (auto simp: roll_forward.simps [of start] split: sum.splits)
    have lt: "fin < fin'" by (rule period_end_later [OF f(1)])
    from "1.IH" [OF True f(1) f(2) lt] show ?thesis using True f(1) lt by auto
  qed
qed

text \<open>The loop always produces a period when the clock is not in the last representable year.\<close>

lemma roll_forward_total:
  assumes "valid_datetime fin" and "dt_year t < 9999"
  shows "\<exists>p. roll_forward start fin period t = Inr p"
  using assms
proof (induction start fin period t rule: roll_forward.induct)
  case (1 start fin period t)
  show ?case
  proof (cases "fin \<le> t")
    case False
    then show ?thesis by (simp add: roll_forward.simps [of start])
  next
    case True
    have "dt_year fin < 9999" using datetime_le_year [OF True] "1.prems"(2) by simp
    then obtain fin' where f: "period_end fin period = Inr fin'"
      using period_end_total [OF "1.prems"(1)] by blast
    show ?thesis
      using "1.IH" [OF True f period_end_valid [OF "1.prems"(1) f] "1.prems"(2)] True f
      by (simp add: roll_forward.simps [of start])
  qed
qed

lemma roll_forward_valid:
  assumes "roll_forward start fin period t = Inr (a, b)" and "valid_datetime start" "valid_datetime fin"
  shows "valid_datetime a \<and> valid_datetime b"
  using assms
proof (induction start fin period t rule: roll_forward.induct)
  case (1 start fin period t)
  show ?case
  proof (cases "fin \<le> t")
    case False
    then show ?thesis using 1 by (simp add: roll_forward.simps [of start])
  next
    case True
    then obtain fin' where f: "period_end fin period = Inr fin'" "roll_forward fin fin' period t = Inr (a, b)"
      using "1.prems"(1) by (auto simp: roll_forward.simps [of start] split: sum.splits)
    show ?thesis
      using "1.IH" [OF True f(1) f(2) "1.prems"(3) period_end_valid [OF "1.prems"(3) f(1)]] .
  qed
qed

end
