(* ===== verification/Payment_States.thy ===== *)
theory Payment_States
  imports Shared_Kernel
begin

section \<open>The payment state machine\<close>

text \<open>
  \<^verbatim>\<open>core/billing/state_machine.py\<close>.  The database constraint admits the six statuses of
  \<open>payment_status\<close> only.  \<open>pay_step\<close> is the step relation of the table of transitions; it
  is acyclic, so a payment moves at most three times.
\<close>

datatype payment_status = Created | Pending | Succeeded | Failed | Canceled | Expired

fun status_str :: "payment_status \<Rightarrow> string" where
  "status_str Created = ''created''"
| "status_str Pending = ''pending''"
| "status_str Succeeded = ''succeeded''"
| "status_str Failed = ''failed''"
| "status_str Canceled = ''canceled''"
| "status_str Expired = ''expired''"

definition TERMINAL_STATES :: "payment_status list" where
  "TERMINAL_STATES = [Succeeded, Failed, Canceled, Expired]"

fun TRANSITIONS :: "payment_status \<Rightarrow> payment_status list" where
  "TRANSITIONS Created = [Pending, Succeeded, Failed, Canceled, Expired]"
| "TRANSITIONS Pending = [Succeeded, Failed, Canceled, Expired]"
| "TRANSITIONS Succeeded = []"
| "TRANSITIONS Failed = []"
| "TRANSITIONS Canceled = []"
| "TRANSITIONS Expired = [Succeeded]"

definition can_transition :: "payment_status \<Rightarrow> payment_status \<Rightarrow> bool" where
  "can_transition current target = (target \<in> set (TRANSITIONS current))"

definition assert_transition :: "payment_status \<Rightarrow> payment_status \<Rightarrow> exn + unit" where
  "assert_transition current target =
     (if \<not> can_transition current target
      then Inl (Domain InvariantViolationError
             (''invalid payment transition: '' @ status_str current @ '' -> '' @ status_str target))
      else Inr ())"

definition is_terminal :: "payment_status \<Rightarrow> bool" where
  "is_terminal st = (st \<in> set TERMINAL_STATES)"

subsection \<open>The step relation and its runs\<close>

inductive pay_step :: "payment_status \<Rightarrow> payment_status \<Rightarrow> bool" where
  allowed: "can_transition a b \<Longrightarrow> pay_step a b"

inductive_cases pay_stepE: "pay_step a b"
inductive_simps pay_step_iff: "pay_step a b"

inductive pay_run :: "payment_status \<Rightarrow> payment_status list \<Rightarrow> bool" where
  stop: "pay_run a []"
| move: "pay_step a b \<Longrightarrow> pay_run b bs \<Longrightarrow> pay_run a (b # bs)"

inductive_cases pay_run_ConsE: "pay_run a (b # bs)"

lemma can_transition_iff:
  "can_transition a b \<longleftrightarrow>
     (case a of
        Created \<Rightarrow> b \<noteq> Created
      | Pending \<Rightarrow> b \<noteq> Created \<and> b \<noteq> Pending
      | Expired \<Rightarrow> b = Succeeded
      | _ \<Rightarrow> False)"
  by (cases a; cases b) (simp_all add: can_transition_def)

lemma assert_transition_Inr [simp]: "assert_transition a b = Inr () \<longleftrightarrow> can_transition a b"
  by (simp add: assert_transition_def)

lemma assert_transition_Inl: "assert_transition a b = Inl e \<longleftrightarrow> \<not> can_transition a b \<and>
    e = Domain InvariantViolationError (''invalid payment transition: '' @ status_str a @ '' -> '' @ status_str b)"
  by (auto simp: assert_transition_def)

text \<open>The number of moves a payment in a status has left.\<close>

fun moves_left :: "payment_status \<Rightarrow> nat" where
  "moves_left Created = 3"
| "moves_left Pending = 2"
| "moves_left Expired = 1"
| "moves_left st = 0"

lemma pay_step_decreases: "pay_step a b \<Longrightarrow> moves_left b < moves_left a"
  by (cases a; cases b) (auto simp: pay_step_iff can_transition_def)

lemma pay_run_bounded: "pay_run a bs \<Longrightarrow> length bs \<le> moves_left a"
proof (induction rule: pay_run.induct)
  case (move a b bs)
  then show ?case using pay_step_decreases [of a b] by simp
qed simp

lemma pay_run_append: "pay_run a (bs @ [c]) \<Longrightarrow> pay_run a bs \<and> pay_step (last (a # bs)) c"
proof (induction bs arbitrary: a)
  case Nil
  then show ?case by (auto elim: pay_run_ConsE intro: pay_run.stop)
next
  case (Cons b bs)
  then show ?case by (auto elim!: pay_run_ConsE intro: pay_run.move)
qed

lemma succeeded_final: "\<not> pay_step Succeeded b" "\<not> pay_step Failed b" "\<not> pay_step Canceled b"
  by (simp_all add: pay_step_iff can_transition_def)

subsection \<open>Properties\<close>

text \<open>C31. A payment only moves forward: from \<open>created\<close> no sequence of allowed transitions is
  longer than three, none visits a status twice, and once a payment has succeeded, failed or been
  canceled no transition leaves that status.\<close>

theorem payment_moves_forward:
  assumes "pay_run Created bs"
  shows "length bs \<le> 3 \<and> distinct (Created # bs) \<and>
    (\<forall>i < length bs. bs ! i \<in> {Succeeded, Failed, Canceled} \<longrightarrow> i = length bs - 1)"
proof -
  have dec: "pay_run a bs \<Longrightarrow> b \<in> set bs \<Longrightarrow> moves_left b < moves_left a" for a b bs
  proof (induction bs arbitrary: a)
    case (Cons c cs)
    then have "moves_left c < moves_left a" "pay_run c cs" by (auto elim!: pay_run_ConsE dest: pay_step_decreases)
    then show ?case using Cons.IH [of c] Cons.prems(2) by fastforce
  qed simp
  have d: "pay_run a bs \<Longrightarrow> distinct (a # bs)" for a bs
  proof (induction bs arbitrary: a)
    case (Cons c cs)
    have "a \<notin> set (c # cs)" using dec [OF Cons.prems] by blast
    moreover have "pay_run c cs" using Cons.prems by (auto elim: pay_run_ConsE)
    ultimately show ?case using Cons.IH [of c] by simp
  qed simp
  have final: "pay_run a bs \<Longrightarrow> i < length bs \<Longrightarrow> moves_left (bs ! i) = 0 \<Longrightarrow> i = length bs - 1" for a bs i
  proof (induction bs arbitrary: a i)
    case (Cons c cs)
    then have cs: "pay_run c cs" by (auto elim: pay_run_ConsE)
    show ?case
    proof (cases i)
      case 0
      then have "cs = []" using cs Cons.prems(3) pay_run_bounded [of c cs] by simp
      then show ?thesis using 0 by simp
    next
      case (Suc j)
      then show ?thesis using Cons.IH [OF cs, of j] Cons.prems by simp
    qed
  qed simp
  show ?thesis using assms pay_run_bounded [OF assms] d [OF assms] final [OF assms] by auto
qed

theorem payment_moves_forward_witness:
  "pay_run Created [Pending, Expired, Succeeded] \<and> length [Pending, Expired, Succeeded] \<le> 3"
proof -
  have "pay_run Created [Pending, Expired, Succeeded]"
    by (intro pay_run.intros pay_step.intros) (simp_all add: can_transition_def)
  then show ?thesis using payment_moves_forward by blast
qed

end
