(* ===== verification/Billing_Store.thy ===== *)
theory Billing_Store
  imports Tenant_Repository Billing_Periods Payment_States
begin

section \<open>The billing tables\<close>

text \<open>
  \<^verbatim>\<open>core/billing/models.py\<close> and \<^verbatim>\<open>core/billing/schemas.py\<close>: the rows of
  \<^verbatim>\<open>plans\<close>, \<^verbatim>\<open>subscriptions\<close>, \<^verbatim>\<open>payments\<close> and
  \<^verbatim>\<open>payment_webhooks\<close>, the DTOs, and the unique indexes that the migrations create.  The
  column \<^verbatim>\<open>updated_at\<close> is left out: nothing reads it.
\<close>

record plan =
  pl_id :: uuid
  pl_code :: string
  pl_name :: payload
  pl_price :: int
  pl_currency :: string
  pl_period :: string
  pl_trial_days :: int
  pl_active :: bool

datatype sub_status = SubPending | Trialing | Active | PastDue | SubCanceled | SubExpired

fun sub_status_str :: "sub_status \<Rightarrow> string" where
  "sub_status_str SubPending = ''pending''"
| "sub_status_str Trialing = ''trialing''"
| "sub_status_str Active = ''active''"
| "sub_status_str PastDue = ''past_due''"
| "sub_status_str SubCanceled = ''canceled''"
| "sub_status_str SubExpired = ''expired''"

record subscription =
  s_id :: uuid
  s_tenant :: uuid
  s_plan :: uuid
  s_status :: sub_status
  s_price :: int
  s_currency :: string
  s_start :: datetime
  s_end :: datetime
  s_cancel_at_end :: bool
  s_canceled_at :: "datetime option"
  s_created :: datetime

record payment =
  p_id :: uuid
  p_tenant :: uuid
  p_subscription :: "uuid option"
  p_purpose :: string
  p_reference :: string
  p_amount :: int
  p_currency :: string
  p_status :: payment_status
  p_provider :: string
  p_txn :: "string option"
  p_idem :: string
  p_failure :: "string option"
  p_paid_at :: "datetime option"
  p_meta :: payload
  p_created :: datetime

datatype webhook_status = Received | Processed | Rejected | WFailed

record webhook =
  w_id :: uuid
  w_provider :: string
  w_dedup :: string
  w_tenant :: "uuid option"
  w_payment :: "uuid option"
  w_body :: string
  w_headers :: "(string \<times> string) list"
  w_sig :: "bool option"
  w_status :: webhook_status
  w_error :: "string option"
  w_processed_at :: "datetime option"

record billing_db = infra +
  plans :: "plan list"
  subs :: "subscription list"
  payments :: "payment list"
  webhooks :: "webhook list"

subsection \<open>DTOs\<close>

record plan_dto =
  pld_id :: uuid
  pld_code :: string
  pld_name :: payload
  pld_price :: money
  pld_period :: string
  pld_trial_days :: int

record subscription_dto =
  sd_id :: uuid
  sd_plan_code :: string
  sd_status :: sub_status
  sd_end :: datetime
  sd_cancel_at_end :: bool

record payment_dto =
  pd_id :: uuid
  pd_status :: payment_status
  pd_amount :: money
  pd_purpose :: string
  pd_reference :: string
  pd_provider :: string
  pd_paid_at :: "datetime option"
  pd_pending_at :: "datetime option"
  pd_closed_at :: "datetime option"
  pd_failure :: "string option"

record checkout_dto =
  c_payment :: uuid
  c_provider :: string
  c_url :: string
  c_expires :: "datetime option"

definition meta_time :: "payload \<Rightarrow> string \<Rightarrow> exn + datetime option" where
  "meta_time meta key =
     (case jget meta key of
        JStr raw \<Rightarrow>
          if raw = [] then Inr None
          else (case fromisoformat raw of
                  None \<Rightarrow> Inl (ValueError ''Invalid isoformat string'')
                | Some d \<Rightarrow> Inr (Some d))
      | _ \<Rightarrow> Inr None)"

definition payment_to_dto :: "payment \<Rightarrow> exn + payment_dto" where
  "payment_to_dto p =
     and_then (mk_money (p_amount p) (p_currency p)) (\<lambda>m.
     and_then (meta_time (p_meta p) ''pending_at'') (\<lambda>pa.
     and_then (meta_time (p_meta p) ''closed_at'') (\<lambda>ca.
       Inr \<lparr>pd_id = p_id p, pd_status = p_status p, pd_amount = m, pd_purpose = p_purpose p,
            pd_reference = p_reference p, pd_provider = p_provider p, pd_paid_at = p_paid_at p,
            pd_pending_at = pa, pd_closed_at = ca, pd_failure = p_failure p\<rparr>)))"

definition plan_to_dto :: "plan \<Rightarrow> exn + plan_dto" where
  "plan_to_dto p =
     and_then (mk_money (pl_price p) (pl_currency p)) (\<lambda>m.
       Inr \<lparr>pld_id = pl_id p, pld_code = pl_code p, pld_name = pl_name p, pld_price = m,
            pld_period = pl_period p, pld_trial_days = pl_trial_days p\<rparr>)"

definition subscription_to_dto :: "subscription \<Rightarrow> string \<Rightarrow> subscription_dto" where
  "subscription_to_dto s code =
     \<lparr>sd_id = s_id s, sd_plan_code = code, sd_status = s_status s, sd_end = s_end s,
      sd_cancel_at_end = s_cancel_at_end s\<rparr>"

subsection \<open>Rows and unique indexes\<close>

definition LIVE_SUBSCRIPTION_STATES :: "sub_status list" where
  "LIVE_SUBSCRIPTION_STATES = [Trialing, Active, PastDue]"

definition is_live :: "subscription \<Rightarrow> bool" where
  "is_live s = (s_status s \<in> set LIVE_SUBSCRIPTION_STATES)"

definition set_payment :: "payment \<Rightarrow> 'z billing_db_scheme \<Rightarrow> 'z billing_db_scheme" where
  "set_payment p s = s\<lparr>payments := upd_where (\<lambda>x. p_id x = p_id p) (\<lambda>_. p) (payments s)\<rparr>"

definition set_sub :: "subscription \<Rightarrow> 'z billing_db_scheme \<Rightarrow> 'z billing_db_scheme" where
  "set_sub x s = s\<lparr>subs := upd_where (\<lambda>y. s_id y = s_id x) (\<lambda>_. x) (subs s)\<rparr>"

text \<open>\<^verbatim>\<open>uq_payments_tenant_id_idempotency_key\<close> and
  \<^verbatim>\<open>uq_payments_provider_provider_transaction_id\<close>.\<close>

definition idem_conflict :: "payment \<Rightarrow> payment list \<Rightarrow> bool" where
  "idem_conflict p rows = list_ex (\<lambda>x. p_tenant x = p_tenant p \<and> p_idem x = p_idem p) rows"

definition txn_conflict :: "payment \<Rightarrow> payment list \<Rightarrow> bool" where
  "txn_conflict p rows =
     list_ex (\<lambda>x. p_id x \<noteq> p_id p \<and> p_provider x = p_provider p \<and> p_txn p \<noteq> None \<and> p_txn x = p_txn p) rows"

text \<open>\<^verbatim>\<open>uq_subscriptions_one_live_per_tenant\<close> and
  \<^verbatim>\<open>uq_subscriptions_one_pending_per_tenant\<close>.\<close>

definition sub_conflict :: "subscription \<Rightarrow> subscription list \<Rightarrow> bool" where
  "sub_conflict x rows =
     list_ex (\<lambda>y. s_tenant y = s_tenant x \<and>
       (is_live x \<and> is_live y \<or> s_status x = SubPending \<and> s_status y = SubPending)) rows"

definition stamp_payment :: "uuid \<Rightarrow> payment \<Rightarrow> payment" where
  "stamp_payment t p = p\<lparr>p_tenant := t\<rparr>"

definition stamp_sub :: "uuid \<Rightarrow> subscription \<Rightarrow> subscription" where
  "stamp_sub t x = x\<lparr>s_tenant := t\<rparr>"

interpretation pay_tab: tenant_table p_tenant p_id stamp_payment
  by unfold_locales (simp_all add: stamp_payment_def)

interpretation sub_tab: tenant_table s_tenant s_id stamp_sub
  by unfold_locales (simp_all add: stamp_sub_def)

end
