(* ===== verification/Python_Text.thy ===== *)
theory Python_Text
  imports Shared_Kernel
begin

section \<open>Text forms of Python values and URLs\<close>

text \<open>
  What the program uses of \<^verbatim>\<open>str()\<close> and \<^verbatim>\<open>repr()\<close> on decoded JSON values, of
  \<^verbatim>\<open>urllib.parse.urlsplit\<close> and of \<^verbatim>\<open>urllib.parse.urlencode\<close>.
\<close>

subsection \<open>\<^verbatim>\<open>str\<close> and \<^verbatim>\<open>repr\<close>\<close>

definition repr_char :: "char \<Rightarrow> char \<Rightarrow> string" where
  "repr_char q c =
     (if c = CHR 0x5C \<or> c = q then [CHR 0x5C, c]
      else if c = CHR 0x0A then [CHR 0x5C, CHR ''n'']
      else if c = CHR 0x0D then [CHR 0x5C, CHR ''r'']
      else if c = CHR 0x09 then [CHR 0x5C, CHR ''t'']
      else if ch_printable c then [c]
      else [CHR 0x5C, CHR ''x''] @ fixed_digits 16 2 (py_ord c))"

definition repr_str :: "string \<Rightarrow> string" where
  "repr_str s =
     (let q = (if CHR 0x27 \<in> set s \<and> CHR 0x22 \<notin> set s then CHR 0x22 else CHR 0x27)
      in q # concat (map (repr_char q) s) @ [q])"

fun py_repr :: "json \<Rightarrow> string" where
  "py_repr JNull = ''None''"
| "py_repr (JBool b) = (if b then ''True'' else ''False'')"
| "py_repr (JInt i) = show_int i"
| "py_repr (JFloat s) = s"
| "py_repr (JStr s) = repr_str s"
| "py_repr (JArr xs) = ''['' @ join_with '', '' (map py_repr xs) @ '']''"
| "py_repr (JObj ms) = ''{'' @ join_with '', '' (map (\<lambda>(k, v). repr_str k @ '': '' @ py_repr v) ms) @ ''}''"

definition py_str :: "json \<Rightarrow> string" where
  "py_str j = (case j of JStr s \<Rightarrow> s | _ \<Rightarrow> py_repr j)"

lemma py_str_simps [simp]:
  "py_str (JStr s) = s" "py_str JNull = ''None''" "py_str (JInt i) = show_int i"
  by (simp_all add: py_str_def)

text \<open>\<^verbatim>\<open>d.get(k, default)\<close> for a default other than \<^verbatim>\<open>None\<close>.\<close>

definition jget_or :: "payload \<Rightarrow> string \<Rightarrow> json \<Rightarrow> json" where
  "jget_or p k d = (if jhas p k then jget p k else d)"

subsection \<open>URLs\<close>

definition ch_scheme :: "char \<Rightarrow> bool" where
  "ch_scheme c = (c \<in> set ''+-.'' \<or> (py_ord c < 128 \<and> (ch_alpha c \<or> ch_dec c)))"

text \<open>\<open>host_ok\<close> stands for the syntax check of a bracketed (IPv6) host.  Over Latin-1 the
  normalisation check of the network location never fails.\<close>

definition urlsplit :: "(string \<Rightarrow> bool) \<Rightarrow> string \<Rightarrow> exn + (string \<times> string)" where
  "urlsplit host_ok url0 =
     (let url = filter (\<lambda>c. c \<notin> {CHR 0x09, CHR 0x0D, CHR 0x0A}) (lstrip (\<lambda>c. py_ord c \<le> 32) url0);
          pre = takeWhile (\<lambda>c. c \<noteq> CHR '':'') url;
          has = (pre \<noteq> url \<and> pre \<noteq> [] \<and> py_ord (hd pre) < 128 \<and> ch_alpha (hd pre) \<and> list_all ch_scheme pre);
          scheme = (if has then py_lower pre else []);
          rest = (if has then drop (Suc (length pre)) url else url);
          netloc = (if startswith rest ''//''
                    then takeWhile (\<lambda>c. c \<notin> set ''/?#'') (drop 2 rest) else []);
          lb = (CHR ''['' \<in> set netloc); rb = (CHR '']'' \<in> set netloc)
      in if lb \<noteq> rb then Inl (ValueError ''Invalid IPv6 URL'')
         else if lb \<and> rb \<and> \<not> host_ok netloc then Inl (ValueError ''Invalid IPv6 URL'')
         else Inr (scheme, netloc))"

definition ch_unreserved :: "char \<Rightarrow> bool" where
  "ch_unreserved c = (c \<in> set ''_.-~'' \<or> (py_ord c < 128 \<and> (ch_alpha c \<or> ch_dec c)))"

definition utf8_bytes :: "char \<Rightarrow> nat list" where
  "utf8_bytes c = (if py_ord c < 128 then [py_ord c] else [192 + py_ord c div 64, 128 + py_ord c mod 64])"

definition quote_plus :: "string \<Rightarrow> string" where
  "quote_plus s = concat (map (\<lambda>c.
     if ch_unreserved c then [c] else if c = CHR '' '' then ''+''
     else concat (map (\<lambda>b. ''%'' @ py_upper (fixed_digits 16 2 b)) (utf8_bytes c))) s)"

definition urlencode :: "(string \<times> string) list \<Rightarrow> string" where
  "urlencode q = join_with ''&'' (map (\<lambda>(k, v). quote_plus k @ ''='' @ quote_plus v) q)"

lemma urlsplit_Inl: "urlsplit h u = Inl e \<Longrightarrow> e = ValueError ''Invalid IPv6 URL''"
  by (auto simp: urlsplit_def Let_def split: if_splits)

end
