(* ===== verification/Payment_Service.thy ===== *)
theory Payment_Service
  imports Billing_Store Python_Text
begin

section \<open>The payment service\<close>

text \<open>
  \<^verbatim>\<open>PaymentService\<close> of \<^verbatim>\<open>core/billing/service.py\<close>.  The providers, the settings and
  the validity check of bracketed hosts are the environment record.  Its field \<open>race\<close> is what
  other transactions commit while an \<^verbatim>\<open>INSERT\<close> of this one waits on a unique index: the
  concurrent branches of \<^verbatim>\<open>create_payment\<close> and \<^verbatim>\<open>start_subscription\<close> are branches of
  the model, and the lemmas quantify over it.  A payment handed to a finalizer is the loaded row;
  the finalizer returns it as it then is.
\<close>

type_synonym checkout_fn = "payment_dto \<Rightarrow> string option \<Rightarrow> exn + checkout_dto"

record 's pay_env =
  providers :: "string \<Rightarrow> checkout_fn option"
  enabled_providers :: "string list"
  host_ok :: "string \<Rightarrow> bool"
  race :: "'s \<Rightarrow> 's"

definition MAX_RETURN_URL_LENGTH :: nat where
  "MAX_RETURN_URL_LENGTH = 2048"

definition PLAN_READ :: string where
  "PLAN_READ = ''billing.plan:read''"

definition payment_event_payload :: "payment \<Rightarrow> payload" where
  "payment_event_payload p =
     [(''payment_id'', JStr (uuid_str (p_id p))), (''amount'', JInt (p_amount p)),
      (''currency'', JStr (p_currency p)), (''purpose'', JStr (p_purpose p)),
      (''reference'', JStr (p_reference p)), (''provider'', JStr (p_provider p))]"

definition validate_return_url :: "(string \<Rightarrow> bool) \<Rightarrow> string option \<Rightarrow> exn + unit" where
  "validate_return_url hok url =
     (case url of
        None \<Rightarrow> Inr ()
      | Some u \<Rightarrow>
          (let unsafe = list_ex (\<lambda>c. c = CHR '';'' \<or> ch_space c \<or> \<not> ch_printable c) u
           in and_then (urlsplit hok u) (\<lambda>(scheme, netloc).
             if unsafe \<or> MAX_RETURN_URL_LENGTH < length u \<or> scheme \<notin> {''http'', ''https''} \<or> netloc = []
             then Inl (Domain InvariantViolationError ''return_url must be an absolute http(s) URL'')
             else Inr ())))"

subsection \<open>Intake\<close>

definition list_providers :: "access option \<Rightarrow> tenant_context \<Rightarrow> 's pay_env \<Rightarrow> exn + (string \<times> string \<times> bool) list" where
  "list_providers acc ctx env =
     and_then (guard_require acc ctx PLAN_READ) (\<lambda>_.
       Inr (map (\<lambda>code. (code, ''payment.provider.'' @ code, True)) (enabled_providers env)))"

definition by_idempotency_key :: "uuid \<Rightarrow> string \<Rightarrow> payment list \<Rightarrow> payment option" where
  "by_idempotency_key t key rows =
     (case repo_find p_tenant t (\<lambda>p. p_idem p = key) rows of [] \<Rightarrow> None | p # _ \<Rightarrow> Some p)"

type_synonym pay_request = "int \<times> string \<times> string \<times> string \<times> string"

definition replay_checkout :: "payment \<Rightarrow> pay_request \<Rightarrow> exn + checkout_dto" where
  "replay_checkout p req =
     (if (p_amount p, p_currency p, p_purpose p, p_reference p, p_provider p) \<noteq> req
      then Inl (Domain ConflictError ''idempotency key already used for a different payment'')
      else (let expires_raw = jget (p_meta p) ''expires_at'';
                mk = (\<lambda>ex. \<lparr>c_payment = p_id p, c_provider = p_provider p,
                       c_url = py_str (jget_or (p_meta p) ''checkout_url'' (JStr [])), c_expires = ex\<rparr>)
            in if \<not> jtruthy expires_raw then Inr (mk None)
               else (case expires_raw of
                       JStr raw \<Rightarrow>
                         (case fromisoformat raw of
                            None \<Rightarrow> Inl (ValueError ''Invalid isoformat string'')
                          | Some d \<Rightarrow> Inr (mk (Some d)))
                     | _ \<Rightarrow> Inl (TypeError ''fromisoformat: argument must be str''))))"

text \<open>The unique indexes that an \<^verbatim>\<open>INSERT\<close> of a payment can violate.\<close>

definition payment_conflict :: "payment \<Rightarrow> payment list \<Rightarrow> bool" where
  "payment_conflict p rows = (idem_conflict p rows \<or> txn_conflict p rows)"

definition checkout_meta :: "payload \<Rightarrow> checkout_dto \<Rightarrow> payload" where
  "checkout_meta meta c =
     jset (jset meta ''checkout_url'' (JStr (c_url c))) ''expires_at''
       (case c_expires c of None \<Rightarrow> JNull | Some d \<Rightarrow> JStr (isoformat d))"

definition create_payment :: "'z billing_db_scheme pay_env \<Rightarrow> tenant_context \<Rightarrow> money \<Rightarrow> string \<Rightarrow> string \<Rightarrow> string \<Rightarrow>
    string \<Rightarrow> string option \<Rightarrow> uuid option \<Rightarrow> 'z billing_db_scheme \<Rightarrow> (checkout_dto, 'z billing_db_scheme) op_res" where
  "create_payment env ctx amt purpose reference provider idem return_url sub_id s0 =
     on_ok (pure_op (repo_init ctx) s0) (\<lambda>t s.
     (case providers env provider of
        None \<Rightarrow> raise (Domain NotFoundError (''unknown or disabled payment provider: '' @ provider)) s
      | Some create_checkout \<Rightarrow>
          if m_amount amt \<le> 0 then raise (Domain InvariantViolationError ''payment amount must be positive'') s
          else on_ok (pure_op (validate_return_url (host_ok env) return_url) s) (\<lambda>_ s.
            (let request = (m_amount amt, m_currency amt, purpose, reference, provider)
             in case by_idempotency_key t idem (payments s) of
               Some existing \<Rightarrow> pure_op (replay_checkout existing request) s
             | None \<Rightarrow>
                 (let (i, s1) = new_uuid7 s; s2 = race env s1;
                      p = \<lparr>p_id = i, p_tenant = t, p_subscription = sub_id, p_purpose = purpose,
                           p_reference = reference, p_amount = m_amount amt, p_currency = m_currency amt,
                           p_status = Created, p_provider = provider, p_txn = None, p_idem = idem,
                           p_failure = None, p_paid_at = None, p_meta = [], p_created = now s\<rparr>
                  in case repo_add stamp_payment payment_conflict t None p (payments s2) of
                    Inl e \<Rightarrow>
                      if e \<noteq> IntegrityError then raise e s2
                      else (case by_idempotency_key t idem (payments s2) of
                              None \<Rightarrow> raise e s2
                            | Some winner \<Rightarrow> pure_op (replay_checkout winner request) s2)
                  | Inr rows \<Rightarrow>
                      on_ok (pure_op (and_then (payment_to_dto p) (\<lambda>d. create_checkout d return_url))
                               (s2\<lparr>payments := rows\<rparr>)) (\<lambda>c s.
                        (let p' = p\<lparr>p_meta := checkout_meta (p_meta p) c\<rparr>
                         in on_ok (emit ''payments'' ctx ''billing.payment.created'' (payment_event_payload p')
                                     (set_payment p' s)) (\<lambda>_ s. ret c s))))))))"

definition get_payment :: "tenant_context \<Rightarrow> uuid \<Rightarrow> 'z billing_db_scheme \<Rightarrow> exn + payment_dto" where
  "get_payment ctx i s =
     and_then (repo_init ctx) (\<lambda>t.
     and_then (repo_get_or_raise ''Payment'' p_tenant p_id t i (payments s)) payment_to_dto)"

subsection \<open>Subscriptions of payments\<close>

definition locked_subscription :: "payment \<Rightarrow> 'z billing_db_scheme \<Rightarrow> exn + subscription option" where
  "locked_subscription p s =
     (case (case p_subscription p of Some i \<Rightarrow> Some i | None \<Rightarrow> uuid_parse (p_reference p)) of
        None \<Rightarrow> Inl (ValueError ''badly formed hexadecimal UUID string'')
      | Some i \<Rightarrow> Inr (find (\<lambda>x. s_id x = i \<and> s_tenant x = p_tenant p) (subs s)))"

definition get_plan :: "uuid \<Rightarrow> plan list \<Rightarrow> plan option" where
  "get_plan i rows = find (\<lambda>x. pl_id x = i) rows"

definition drop_pending_subscription :: "payment \<Rightarrow> payment_status \<Rightarrow> 'z billing_db_scheme \<Rightarrow> (unit, 'z billing_db_scheme) op_res" where
  "drop_pending_subscription p st s =
     on_ok (pure_op (locked_subscription p s) s) (\<lambda>x s.
       (case x of
          None \<Rightarrow> ret () s
        | Some x \<Rightarrow>
            if s_status x \<noteq> SubPending then ret () s
            else if st = Expired then ret () (set_sub (x\<lparr>s_status := SubExpired\<rparr>) s)
            else ret () (set_sub (x\<lparr>s_status := SubCanceled, s_canceled_at := Some (now s)\<rparr>) s)))"

text \<open>The loop over the replaced subscriptions: the start of the new period and the closed rows.\<close>

fun close_replaced :: "datetime \<Rightarrow> uuid \<Rightarrow> subscription list \<Rightarrow> datetime \<Rightarrow> 'z billing_db_scheme \<Rightarrow>
    datetime \<times> 'z billing_db_scheme" where
  "close_replaced n plan_id [] start s = (start, s)"
| "close_replaced n plan_id (old # olds) start s =
     close_replaced n plan_id olds
       (if s_plan old = plan_id \<and> start < s_end old then s_end old else start)
       (set_sub (old\<lparr>s_status := SubCanceled, s_canceled_at := Some n\<rparr>) s)"

fun emit_replaced :: "tenant_context \<Rightarrow> uuid \<Rightarrow> subscription list \<Rightarrow> 'z billing_db_scheme \<Rightarrow> (unit, 'z billing_db_scheme) op_res" where
  "emit_replaced ctx by_id [] s = ret () s"
| "emit_replaced ctx by_id (old # olds) s =
     on_ok (emit ''payments'' ctx ''billing.subscription.replaced''
              [(''subscription_id'', JStr (uuid_str (s_id old))), (''replaced_by'', JStr (uuid_str by_id))] s)
       (\<lambda>_ s. emit_replaced ctx by_id olds s)"

text \<open>The update takes the slot of the one live subscription only after the others of the tenant, which
  the transaction holds locked, have been closed, so that the unique index on live subscriptions is never
  hit; the invariant of the billing system shows it.\<close>

definition activate_subscription :: "tenant_context \<Rightarrow> payment \<Rightarrow> 'z billing_db_scheme \<Rightarrow> (unit, 'z billing_db_scheme) op_res" where
  "activate_subscription ctx p s0 =
     on_ok (pure_op (locked_subscription p s0) s0) (\<lambda>x s.
       (case x of
          None \<Rightarrow> raise (Domain NotFoundError ''subscription for payment not found'') s
        | Some sub \<Rightarrow>
            (let pl = get_plan (s_plan sub) (plans s); n = now s;
                 replaced = filter (\<lambda>y. s_tenant y = p_tenant p \<and> is_live y \<and> s_id y \<noteq> s_id sub) (subs s);
                 (start, s1) = close_replaced n (s_plan sub) replaced n s
             in on_ok (pure_op (period_end start (case pl of Some q \<Rightarrow> pl_period q | None \<Rightarrow> ''month'')) s1) (\<lambda>fin s.
                let sub' = sub\<lparr>s_status := Active, s_cancel_at_end := False, s_start := start, s_end := fin\<rparr>
                in on_ok (emit_replaced ctx (s_id sub) replaced (set_sub sub' s)) (\<lambda>_ s.
                   on_ok (emit ''payments'' ctx ''billing.subscription.activated''
                     [(''subscription_id'', JStr (uuid_str (s_id sub))),
                      (''plan_code'', JStr (case pl of Some q \<Rightarrow> pl_code q | None \<Rightarrow> [])),
                      (''current_period_end'', JStr (isoformat fin))] s) (\<lambda>_ s. ret () s))))))"

subsection \<open>Finalizers\<close>

definition stamp_meta :: "string \<Rightarrow> datetime \<Rightarrow> payment \<Rightarrow> payment" where
  "stamp_meta key n p = p\<lparr>p_meta := jset (p_meta p) key (JStr (isoformat n))\<rparr>"

definition pay_audit :: "tenant_context \<Rightarrow> string \<Rightarrow> payment \<Rightarrow> uuid \<Rightarrow> 'z billing_db_scheme \<Rightarrow> (unit, 'z billing_db_scheme) op_res" where
  "pay_audit ctx action p eid s =
     audit_record ctx action (Some ''payment'') (Some (uuid_str (p_id p))) [] (Some eid) s"

definition mark_pending :: "payment \<Rightarrow> string \<Rightarrow> 'z billing_db_scheme \<Rightarrow> (payment, 'z billing_db_scheme) op_res" where
  "mark_pending p txn s =
     on_ok (pure_op (assert_transition (p_status p) Pending) s) (\<lambda>_ s.
       (let p' = stamp_meta ''pending_at'' (now s) (p\<lparr>p_txn := Some txn, p_status := Pending\<rparr>)
        in if txn_conflict p' (payments s) then raise IntegrityError s
           else ret p' (set_payment p' s)))"

definition mark_succeeded :: "tenant_context \<Rightarrow> payment \<Rightarrow> 'z billing_db_scheme \<Rightarrow> (payment, 'z billing_db_scheme) op_res" where
  "mark_succeeded ctx p s =
     (let previous = p_status p
      in on_ok (pure_op (assert_transition previous Succeeded) s) (\<lambda>_ s.
        (let n = now s; p' = p\<lparr>p_status := Succeeded, p_paid_at := Some n\<rparr>; s1 = set_payment p' s
         in on_ok (if p_purpose p' = ''subscription'' then activate_subscription ctx p' s1 else ret () s1) (\<lambda>_ s.
            on_ok (emit ''payments'' ctx ''billing.payment.succeeded''
                     (payment_event_payload p' @
                        [(''paid_at'', JStr (isoformat n)), (''late'', JBool (previous = Expired))]) s) (\<lambda>eid s.
            on_ok (pay_audit ctx ''billing.payment.succeeded'' p' eid s) (\<lambda>_ s. ret p' s))))))"

definition close_payment :: "tenant_context \<Rightarrow> payment \<Rightarrow> payment_status \<Rightarrow> string option \<Rightarrow> 'z billing_db_scheme \<Rightarrow>
    (payment, 'z billing_db_scheme) op_res" where
  "close_payment ctx p target reason s =
     on_ok (pure_op (assert_transition (p_status p) target) s) (\<lambda>_ s.
       (let p1 = p\<lparr>p_status := target\<rparr>;
            p2 = (case reason of None \<Rightarrow> p1 | Some r \<Rightarrow> p1\<lparr>p_failure := Some r\<rparr>);
            p' = stamp_meta ''closed_at'' (now s) p2;
            s1 = set_payment p' s
        in on_ok (if p_purpose p' = ''subscription'' then drop_pending_subscription p' target s1 else ret () s1) (\<lambda>_ s.
             (let base = payment_event_payload p';
                  body = (if target = Failed then base @ [(''reason'', jopt_str reason)] else base);
                  name = ''billing.payment.'' @ status_str target
              in on_ok (emit ''payments'' ctx name body s) (\<lambda>eid s.
                 on_ok (pay_audit ctx name p' eid s) (\<lambda>_ s. ret p' s))))))"

definition mark_failed :: "tenant_context \<Rightarrow> payment \<Rightarrow> string \<Rightarrow> 'z billing_db_scheme \<Rightarrow> (payment, 'z billing_db_scheme) op_res" where
  "mark_failed ctx p reason s = close_payment ctx p Failed (Some reason) s"

definition mark_canceled_by_provider :: "tenant_context \<Rightarrow> payment \<Rightarrow> string option \<Rightarrow> 'z billing_db_scheme \<Rightarrow>
    (payment, 'z billing_db_scheme) op_res" where
  "mark_canceled_by_provider ctx p reason s = close_payment ctx p Canceled reason s"

definition mark_expired :: "tenant_context \<Rightarrow> payment \<Rightarrow> 'z billing_db_scheme \<Rightarrow> (payment, 'z billing_db_scheme) op_res" where
  "mark_expired ctx p s = close_payment ctx p Expired None s"

definition cancel_payment :: "tenant_context \<Rightarrow> uuid \<Rightarrow> 'z billing_db_scheme \<Rightarrow> (payment_dto, 'z billing_db_scheme) op_res" where
  "cancel_payment ctx i s =
     on_ok (pure_op (repo_init ctx) s) (\<lambda>t s.
       (case find (\<lambda>p. p_id p = i \<and> p_tenant p = t) (payments s) of
          None \<Rightarrow> raise (Domain NotFoundError (''Payment '' @ uuid_str i @ '' not found'')) s
        | Some p \<Rightarrow> on_ok (close_payment ctx p Canceled None s) (\<lambda>p s. pure_op (payment_to_dto p) s)))"

end
