(* ===== verification/Payment_Laws.thy ===== *)
theory Payment_Laws
  imports Payment_Service
begin

section \<open>Laws of the payment service\<close>

text \<open>
  The state every finalizer leaves, the invariant \<open>billing_inv\<close> of the billing tables and its
  preservation by the operations of the payment service, and the replay law of the intake.
\<close>

lemma payment_event_names [simp]:
  "EVENT_NAME_RE ''billing.payment.created''" "EVENT_NAME_RE ''billing.payment.succeeded''"
  "EVENT_NAME_RE ''billing.subscription.replaced''" "EVENT_NAME_RE ''billing.subscription.activated''"
  "EVENT_NAME_RE ''billing.subscription.canceled''" "EVENT_NAME_RE ''billing.subscription.ended''"
  "EVENT_NAME_RE ''billing.payment.failed''" "EVENT_NAME_RE ''billing.payment.canceled''"
  "EVENT_NAME_RE ''billing.payment.expired''" "EVENT_NAME_RE ''billing.payment.pending''"
  by code_simp+

lemma status_event_name [simp]: "EVENT_NAME_RE (''billing.payment.'' @ status_str st)"
  using payment_event_names by (cases st) simp_all

definition same_tables :: "'z billing_db_scheme \<Rightarrow> 'z billing_db_scheme \<Rightarrow> bool" where
  "same_tables s t \<longleftrightarrow> plans t = plans s \<and> subs t = subs s \<and> payments t = payments s \<and> webhooks t = webhooks s
     \<and> now t = now s \<and> uuid_gen t = uuid_gen s \<and> uuid_next s \<le> uuid_next t"

lemma same_tables_refl [simp]: "same_tables s s"
  by (simp add: same_tables_def)

lemma same_tables_trans: "same_tables s t \<Longrightarrow> same_tables t u \<Longrightarrow> same_tables s u"
  by (simp add: same_tables_def)

lemma emit_tables: "same_tables s (snd (emit svc ctx name p s))"
  by (cases "EVENT_NAME_RE name")
    (simp_all add: emit_valid same_tables_def, simp_all add: emit_def mk_envelope_def validate_event_name_def)

lemma audit_tables: "same_tables s (snd (audit_record ctx a ot oid m eid s))"
  by (cases "actor_user_id (ctx_actor ctx)") (simp_all add: audit_record_ok same_tables_def, simp add: audit_record_def)

lemma emit_replaced_ok:
  "\<exists>u. emit_replaced ctx i olds s = (Inr (), u) \<and> same_tables s u"
proof (induction olds arbitrary: s)
  case (Cons old olds)
  let ?p = "[(''subscription_id'', JStr (uuid_str (s_id old))), (''replaced_by'', JStr (uuid_str i))]"
  obtain u e where u: "emit ''payments'' ctx ''billing.subscription.replaced'' ?p s = (Inr e, u)" "same_tables s u"
    using emit_tables [of s "''payments''" ctx "''billing.subscription.replaced''" ?p] by (simp add: emit_valid)
  show ?case using Cons.IH [of u] u(2) by (auto simp: u(1) intro: same_tables_trans)
qed simp

lemma ids_set_sub: "map s_id (subs (set_sub x s)) = map s_id (subs s)"
  by (auto simp: set_sub_def upd_where_def)

lemma ids_set_payment: "map p_id (payments (set_payment p s)) = map p_id (payments s)"
  by (auto simp: set_payment_def upd_where_def)

subsection \<open>Activation\<close>

definition closed_sub :: "datetime \<Rightarrow> subscription \<Rightarrow> subscription" where
  "closed_sub n x = x\<lparr>s_status := SubCanceled, s_canceled_at := Some n\<rparr>"

definition extended_start :: "uuid \<Rightarrow> subscription list \<Rightarrow> datetime \<Rightarrow> datetime" where
  "extended_start plan_id olds start =
     foldl (\<lambda>a old. if s_plan old = plan_id \<and> a < s_end old then s_end old else a) start olds"

lemma s_id_closed [simp]: "s_id (closed_sub n x) = s_id x" "s_tenant (closed_sub n x) = s_tenant x"
  "is_live (closed_sub n x) = False" "s_status (closed_sub n x) = SubCanceled"
  by (simp_all add: closed_sub_def is_live_def LIVE_SUBSCRIPTION_STATES_def)

lemma close_replaced_eq:
  assumes "distinct (map s_id (subs s))" and "set olds \<subseteq> set (subs s)" and "distinct olds"
  shows "close_replaced n plan_id olds start s =
    (extended_start plan_id olds start,
     s\<lparr>subs := map (\<lambda>y. if y \<in> set olds then closed_sub n y else y) (subs s)\<rparr>)"
  using assms
proof (induction olds arbitrary: s start)
  case Nil
  then show ?case by (simp add: extended_start_def)
next
  case (Cons old olds)
  let ?s = "set_sub (closed_sub n old) s"
  have eq: "s_id y = s_id old \<longleftrightarrow> y = old" if "y \<in> set (subs s)" for y
    using that Cons.prems key_unique [of s_id "subs s" y old] by auto
  have rows: "subs ?s = map (\<lambda>y. if y = old then closed_sub n old else y) (subs s)"
    using eq by (auto simp: set_sub_def upd_where_def)
  have d: "distinct (map s_id (subs ?s))"
    using Cons.prems(1) by (simp add: ids_set_sub)
  have sub: "set olds \<subseteq> set (subs ?s)" using Cons.prems by (auto simp: rows)
  have no: "closed_sub n old \<notin> set olds"
    using Cons.prems eq by (metis distinct.simps(2) insert_subset list.simps(15) s_id_closed(1) subsetD)
  have "map (\<lambda>y. if y \<in> set olds then closed_sub n y else y) (subs ?s)
      = map (\<lambda>y. if y \<in> set (old # olds) then closed_sub n y else y) (subs s)"
    using no Cons.prems(3) by (auto simp: rows)
  then show ?case
    using Cons.IH [OF d sub, of "if s_plan old = plan_id \<and> start < s_end old then s_end old else start"] Cons.prems(3)
    by (simp add: closed_sub_def [symmetric] extended_start_def set_sub_def)
qed

text \<open>The subscription table after the activation of \<open>x\<close> for tenant \<open>t\<close>.\<close>

definition activated :: "datetime \<Rightarrow> uuid \<Rightarrow> subscription \<Rightarrow> subscription list \<Rightarrow> subscription list" where
  "activated n t x rows =
     map (\<lambda>y. if s_id y = s_id x then x else if s_tenant y = t \<and> is_live y then closed_sub n y else y) rows"

definition live_others :: "uuid \<Rightarrow> subscription \<Rightarrow> subscription list \<Rightarrow> subscription list" where
  "live_others t x rows = filter (\<lambda>y. s_tenant y = t \<and> is_live y \<and> s_id y \<noteq> s_id x) rows"

lemma locked_subscription_Some:
  assumes "locked_subscription p s = Inr (Some x)"
  shows "x \<in> set (subs s) \<and> s_tenant x = p_tenant p \<and>
    (p_subscription p = Some (s_id x) \<or> p_subscription p = None \<and> uuid_parse (p_reference p) = Some (s_id x))"
  using assms by (auto simp: locked_subscription_def dest!: find_Some_set split: option.splits)

lemma set_live_others [simp]: "y \<in> set (live_others t x rows) \<longleftrightarrow> y \<in> set rows \<and> s_tenant y = t \<and> is_live y \<and> s_id y \<noteq> s_id x"
  by (auto simp: live_others_def)

lemma activate_subscription_ok:
  fixes s :: "'z billing_db_scheme"
  assumes d: "distinct (map s_id (subs s))" and x: "locked_subscription p s = Inr (Some x)"
    and pe: "period_end (extended_start (s_plan x) (live_others (p_tenant p) x (subs s)) (now s))
        (case get_plan (s_plan x) (plans s) of Some q \<Rightarrow> pl_period q | None \<Rightarrow> ''month'') = Inr fin"
  shows "\<exists>t. activate_subscription ctx p s = (Inr (), t) \<and>
    same_tables (s\<lparr>subs := activated (now s) (p_tenant p)
      (x\<lparr>s_status := Active, s_cancel_at_end := False,
         s_start := extended_start (s_plan x) (live_others (p_tenant p) x (subs s)) (now s), s_end := fin\<rparr>)
      (subs s)\<rparr>) t"
proof -
  let ?olds = "live_others (p_tenant p) x (subs s)" and ?n = "now s"
  let ?st = "extended_start (s_plan x) ?olds ?n"
  let ?x = "x\<lparr>s_status := Active, s_cancel_at_end := False, s_start := ?st, s_end := fin\<rparr>"
  let ?s1 = "s\<lparr>subs := map (\<lambda>y. if y \<in> set ?olds then closed_sub ?n y else y) (subs s)\<rparr>"
  have "distinct ?olds" using d by (simp add: live_others_def distinct_map)
  then have cr: "close_replaced ?n (s_plan x) ?olds ?n s = (?st, ?s1)"
    using d by (intro close_replaced_eq) auto
  have rows: "set_sub ?x ?s1 = s\<lparr>subs := activated ?n (p_tenant p) ?x (subs s)\<rparr>"
    by (auto simp: set_sub_def activated_def upd_where_def)
  obtain u where u: "emit_replaced ctx (s_id x) ?olds (set_sub ?x ?s1) = (Inr (), u)" "same_tables (set_sub ?x ?s1) u"
    using emit_replaced_ok by blast
  let ?pl = "[(''subscription_id'', JStr (uuid_str (s_id x))),
      (''plan_code'', JStr (case get_plan (s_plan x) (plans s) of Some q \<Rightarrow> pl_code q | None \<Rightarrow> [])),
      (''current_period_end'', JStr (isoformat fin))]"
  have e: "same_tables u (snd (emit ''payments'' ctx ''billing.subscription.activated'' ?pl u))"
    by (rule emit_tables)
  show ?thesis
    using x cr pe u(1) same_tables_trans [OF u(2) e] rows
    by (simp add: activate_subscription_def live_others_def [symmetric] emit_valid)
qed

definition active_sub :: "'z billing_db_scheme \<Rightarrow> subscription \<Rightarrow> datetime \<Rightarrow> subscription" where
  "active_sub s x fin = x\<lparr>s_status := Active, s_cancel_at_end := False,
     s_start := extended_start (s_plan x) (live_others (s_tenant x) x (subs s)) (now s), s_end := fin\<rparr>"

definition activates :: "payment \<Rightarrow> 'z billing_db_scheme \<Rightarrow> subscription \<Rightarrow> datetime \<Rightarrow> bool" where
  "activates p s x fin \<longleftrightarrow> locked_subscription p s = Inr (Some x)
     \<and> period_end (s_start (active_sub s x fin))
         (case get_plan (s_plan x) (plans s) of Some q \<Rightarrow> pl_period q | None \<Rightarrow> ''month'') = Inr fin"

lemma activate_subscription_iff:
  fixes s :: "'z billing_db_scheme"
  assumes d: "distinct (map s_id (subs s))"
  shows "activate_subscription ctx p s = (Inr (), t) \<Longrightarrow>
    \<exists>x fin. activates p s x fin \<and>
      same_tables (s\<lparr>subs := activated (now s) (p_tenant p) (active_sub s x fin) (subs s)\<rparr>) t"
proof -
  assume a: "activate_subscription ctx p s = (Inr (), t)"
  then obtain x where x: "locked_subscription p s = Inr (Some x)"
    by (auto simp: activate_subscription_def result_simps split: option.splits)
  let ?olds = "live_others (p_tenant p) x (subs s)"
  have "distinct ?olds" using d by (simp add: live_others_def distinct_map)
  then have cr: "close_replaced (now s) (s_plan x) ?olds (now s) s = (extended_start (s_plan x) ?olds (now s),
      s\<lparr>subs := map (\<lambda>y. if y \<in> set ?olds then closed_sub (now s) y else y) (subs s)\<rparr>)"
    using d by (intro close_replaced_eq) auto
  from a x cr obtain fin where pe: "period_end (extended_start (s_plan x) ?olds (now s))
        (case get_plan (s_plan x) (plans s) of Some q \<Rightarrow> pl_period q | None \<Rightarrow> ''month'') = Inr fin"
    by (auto simp: activate_subscription_def live_others_def [symmetric] result_simps Let_def)
  have t: "s_tenant x = p_tenant p" using locked_subscription_Some [OF x] by simp
  show ?thesis
    using activate_subscription_ok [OF d x pe, of ctx] a x pe t
    by (auto simp: activates_def active_sub_def)
qed

subsection \<open>Finalizers\<close>

lemma set_payment_sel [simp]:
  "subs (set_payment p s) = subs s" "plans (set_payment p s) = plans s" "webhooks (set_payment p s) = webhooks s"
  "now (set_payment p s) = now s" "uuid_gen (set_payment p s) = uuid_gen s" "uuid_next (set_payment p s) = uuid_next s"
  "audit_log (set_payment p s) = audit_log s" "pending_events (set_payment p s) = pending_events s"
  by (simp_all add: set_payment_def)

lemma set_sub_sel [simp]:
  "payments (set_sub x s) = payments s" "plans (set_sub x s) = plans s" "webhooks (set_sub x s) = webhooks s"
  "now (set_sub x s) = now s" "uuid_gen (set_sub x s) = uuid_gen s" "uuid_next (set_sub x s) = uuid_next s"
  "audit_log (set_sub x s) = audit_log s" "pending_events (set_sub x s) = pending_events s"
  by (simp_all add: set_sub_def)

definition succeeded_payment :: "datetime \<Rightarrow> payment \<Rightarrow> payment" where
  "succeeded_payment n p = p\<lparr>p_status := Succeeded, p_paid_at := Some n\<rparr>"

lemma succeeded_payment_sel [simp]:
  "p_id (succeeded_payment n p) = p_id p" "p_tenant (succeeded_payment n p) = p_tenant p"
  "p_status (succeeded_payment n p) = Succeeded" "p_paid_at (succeeded_payment n p) = Some n"
  "p_purpose (succeeded_payment n p) = p_purpose p" "p_subscription (succeeded_payment n p) = p_subscription p"
  "p_reference (succeeded_payment n p) = p_reference p" "p_idem (succeeded_payment n p) = p_idem p"
  "p_txn (succeeded_payment n p) = p_txn p" "p_provider (succeeded_payment n p) = p_provider p"
  "p_amount (succeeded_payment n p) = p_amount p" "p_currency (succeeded_payment n p) = p_currency p"
  "p_meta (succeeded_payment n p) = p_meta p"
  by (simp_all add: succeeded_payment_def)

lemma locked_subscription_cong:
  assumes "p_subscription q = p_subscription p" "p_reference q = p_reference p" "p_tenant q = p_tenant p" "subs t = subs s"
  shows "locked_subscription q t = locked_subscription p s"
  unfolding locked_subscription_def assms ..

lemma same_tables_D: "same_tables s t \<Longrightarrow> plans t = plans s \<and> subs t = subs s \<and> payments t = payments s
    \<and> webhooks t = webhooks s \<and> now t = now s \<and> uuid_gen t = uuid_gen s \<and> uuid_next s \<le> uuid_next t"
  by (simp add: same_tables_def)

lemma emit_then_audit:
  assumes "on_ok (emit svc ctx name b s) (\<lambda>eid s. on_ok (pay_audit ctx name p eid s) (\<lambda>_ s. ret p s)) = (Inr p', t)"
  shows "p' = p \<and> same_tables s t"
proof -
  from assms obtain eid u where e: "emit svc ctx name b s = (Inr eid, u)"
    and a: "pay_audit ctx name p eid u = (Inr (), t)" and "p' = p"
    by (auto simp: result_simps)
  have "same_tables s u" using emit_tables [of s svc ctx name b] by (simp add: e)
  moreover have "same_tables u t"
    using audit_tables [of u ctx name "Some ''payment''" "Some (uuid_str (p_id p))" "[]" "Some eid"] a
    by (simp add: pay_audit_def)
  ultimately show ?thesis using \<open>p' = p\<close> same_tables_trans by blast
qed

lemma mark_succeeded_Inr:
  fixes s :: "'z billing_db_scheme"
  assumes "mark_succeeded ctx p s = (Inr p', t)" and d: "distinct (map s_id (subs s))"
  shows "can_transition (p_status p) Succeeded \<and> p' = succeeded_payment (now s) p \<and>
    (if p_purpose p = ''subscription''
     then \<exists>x fin. activates p s x fin \<and>
        same_tables (set_payment p' (s\<lparr>subs := activated (now s) (p_tenant p) (active_sub s x fin) (subs s)\<rparr>)) t
     else same_tables (set_payment p' s) t)"
proof -
  let ?p = "succeeded_payment (now s) p"
  let ?s1 = "set_payment ?p s"
  let ?act = "if p_purpose ?p = ''subscription'' then activate_subscription ctx ?p ?s1 else ret () ?s1"
  from assms(1) obtain u where u: "?act = (Inr (), u)" and can: "can_transition (p_status p) Succeeded"
    and rest: "on_ok (emit ''payments'' ctx ''billing.payment.succeeded''
       (payment_event_payload ?p @ [(''paid_at'', JStr (isoformat (now s))), (''late'', JBool (p_status p = Expired))]) u)
       (\<lambda>eid s. on_ok (pay_audit ctx ''billing.payment.succeeded'' ?p eid s) (\<lambda>_ s. ret ?p s)) = (Inr p', t)"
    by (auto simp: mark_succeeded_def Let_def result_simps succeeded_payment_def [symmetric])
  have pt: "p' = ?p" "same_tables u t" using emit_then_audit [OF rest] by simp_all
  show ?thesis
  proof (cases "p_purpose p = ''subscription''")
    case False
    then show ?thesis using u can pt by simp
  next
    case True
    then have "activate_subscription ctx ?p ?s1 = (Inr (), u)" using u by simp
    from activate_subscription_iff [OF _ this] d obtain x fin where x: "activates ?p ?s1 x fin"
      "same_tables (?s1\<lparr>subs := activated (now s) (p_tenant p) (active_sub ?s1 x fin) (subs s)\<rparr>) u"
      by auto
    have "activates p s x fin" "active_sub ?s1 x fin = active_sub s x fin"
      using x(1) by (simp_all add: activates_def active_sub_def locked_subscription_cong [of ?p p ?s1 s])
    moreover have "?s1\<lparr>subs := r\<rparr> = set_payment ?p (s\<lparr>subs := r\<rparr>)" for r by (simp add: set_payment_def)
    ultimately show ?thesis using True can pt x(2) same_tables_trans by fastforce
  qed
qed

definition sub_of :: "payment \<Rightarrow> uuid option" where
  "sub_of p = (case p_subscription p of Some i \<Rightarrow> Some i | None \<Rightarrow> uuid_parse (p_reference p))"

definition dropped_sub :: "datetime \<Rightarrow> payment_status \<Rightarrow> subscription \<Rightarrow> subscription" where
  "dropped_sub n st x =
     (if st = Expired then x\<lparr>s_status := SubExpired\<rparr> else x\<lparr>s_status := SubCanceled, s_canceled_at := Some n\<rparr>)"

lemma dropped_sub_sel [simp]:
  "s_id (dropped_sub n st x) = s_id x" "s_tenant (dropped_sub n st x) = s_tenant x"
  "\<not> is_live (dropped_sub n st x)" "s_status (dropped_sub n st x) \<noteq> SubPending"
  by (simp_all add: dropped_sub_def is_live_def LIVE_SUBSCRIPTION_STATES_def)

lemma locked_subscription_sub_of:
  "locked_subscription p s = Inr (Some x) \<Longrightarrow> sub_of p = Some (s_id x) \<and> s_tenant x = p_tenant p \<and> x \<in> set (subs s)"
  using locked_subscription_Some [of p s x] by (auto simp: sub_of_def)

lemma drop_pending_Inr:
  assumes "drop_pending_subscription p st s = (Inr (), t)"
  shows "t = s \<or> (\<exists>x \<in> set (subs s). s_status x = SubPending \<and> sub_of p = Some (s_id x) \<and> s_tenant x = p_tenant p
    \<and> t = set_sub (dropped_sub (now s) st x) s)"
proof -
  from assms obtain y where y: "locked_subscription p s = Inr y"
    by (auto simp: drop_pending_subscription_def result_simps)
  show ?thesis
  proof (cases y)
    case None
    then show ?thesis using assms y by (simp add: drop_pending_subscription_def)
  next
    case (Some x)
    then show ?thesis
      using assms y locked_subscription_sub_of [of p s x]
      by (auto simp: drop_pending_subscription_def dropped_sub_def split: if_splits)
  qed
qed

definition closed_payment :: "datetime \<Rightarrow> payment_status \<Rightarrow> string option \<Rightarrow> payment \<Rightarrow> payment" where
  "closed_payment n target reason p =
     stamp_meta ''closed_at'' n
       (case reason of None \<Rightarrow> p\<lparr>p_status := target\<rparr> | Some r \<Rightarrow> p\<lparr>p_status := target, p_failure := Some r\<rparr>)"

lemma closed_payment_sel [simp]:
  "p_id (closed_payment n st r p) = p_id p" "p_tenant (closed_payment n st r p) = p_tenant p"
  "p_status (closed_payment n st r p) = st" "p_paid_at (closed_payment n st r p) = p_paid_at p"
  "p_purpose (closed_payment n st r p) = p_purpose p" "p_subscription (closed_payment n st r p) = p_subscription p"
  "p_reference (closed_payment n st r p) = p_reference p" "p_idem (closed_payment n st r p) = p_idem p"
  "p_txn (closed_payment n st r p) = p_txn p" "p_provider (closed_payment n st r p) = p_provider p"
  "p_amount (closed_payment n st r p) = p_amount p" "p_currency (closed_payment n st r p) = p_currency p"
  "p_meta (closed_payment n st r p) = jset (p_meta p) ''closed_at'' (JStr (isoformat n))"
  by (simp_all add: closed_payment_def stamp_meta_def split: option.splits)

lemma sub_of_cong: "p_subscription q = p_subscription p \<Longrightarrow> p_reference q = p_reference p \<Longrightarrow> sub_of q = sub_of p"
  by (simp only: sub_of_def)

lemma close_payment_eq:
  "close_payment ctx p target reason s =
     on_ok (pure_op (assert_transition (p_status p) target) s) (\<lambda>_ s.
       (let p' = closed_payment (now s) target reason p
        in on_ok (if p_purpose p = ''subscription'' then drop_pending_subscription p' target (set_payment p' s)
                  else ret () (set_payment p' s)) (\<lambda>_ s.
             (let base = payment_event_payload p';
                  body = (if target = Failed then base @ [(''reason'', jopt_str reason)] else base);
                  name = ''billing.payment.'' @ status_str target
              in on_ok (emit ''payments'' ctx name body s) (\<lambda>eid s.
                 on_ok (pay_audit ctx name p' eid s) (\<lambda>_ s. ret p' s))))))"
  by (cases reason) (simp_all add: close_payment_def closed_payment_def stamp_meta_def Let_def cong: if_cong del: append.simps)

lemma close_payment_Inr:
  fixes s :: "'z billing_db_scheme"
  assumes "close_payment ctx p target reason s = (Inr p', t)"
  shows "can_transition (p_status p) target \<and> p' = closed_payment (now s) target reason p \<and>
    (same_tables (set_payment p' s) t
     \<or> (\<exists>x \<in> set (subs s). p_purpose p = ''subscription'' \<and> s_status x = SubPending \<and> sub_of p = Some (s_id x)
          \<and> s_tenant x = p_tenant p \<and> same_tables (set_sub (dropped_sub (now s) target x) (set_payment p' s)) t))"
proof -
  let ?p = "closed_payment (now s) target reason p"
  let ?s1 = "set_payment ?p s"
  let ?drop = "if p_purpose ?p = ''subscription'' then drop_pending_subscription ?p target ?s1 else ret () ?s1"
  let ?b = "if target = Failed then payment_event_payload ?p @ [(''reason'', jopt_str reason)] else payment_event_payload ?p"
  let ?name = "''billing.payment.'' @ status_str target"
  from assms obtain u where u: "?drop = (Inr (), u)" and can: "can_transition (p_status p) target"
    and rest: "on_ok (emit ''payments'' ctx ?name ?b u) (\<lambda>eid s. on_ok (pay_audit ctx ?name ?p eid s) (\<lambda>_ s. ret ?p s)) = (Inr p', t)"
    by (auto simp: close_payment_eq Let_def result_simps simp del: append.simps)
  have pt: "p' = ?p" "same_tables u t" using emit_then_audit [OF rest] by simp_all
  have so: "sub_of ?p = sub_of p" by (rule sub_of_cong) simp_all
  show ?thesis
  proof (cases "p_purpose p = ''subscription''")
    case False
    then show ?thesis using u can pt by simp
  next
    case True
    then have "drop_pending_subscription ?p target ?s1 = (Inr (), u)" using u by simp
    from drop_pending_Inr [OF this] show ?thesis using True can pt so by auto
  qed
qed

definition pending_payment :: "datetime \<Rightarrow> string \<Rightarrow> payment \<Rightarrow> payment" where
  "pending_payment n txn p = stamp_meta ''pending_at'' n (p\<lparr>p_txn := Some txn, p_status := Pending\<rparr>)"

lemma pending_payment_sel [simp]:
  "p_id (pending_payment n x p) = p_id p" "p_tenant (pending_payment n x p) = p_tenant p"
  "p_status (pending_payment n x p) = Pending" "p_paid_at (pending_payment n x p) = p_paid_at p"
  "p_purpose (pending_payment n x p) = p_purpose p" "p_subscription (pending_payment n x p) = p_subscription p"
  "p_reference (pending_payment n x p) = p_reference p" "p_idem (pending_payment n x p) = p_idem p"
  "p_txn (pending_payment n x p) = Some x" "p_provider (pending_payment n x p) = p_provider p"
  "p_amount (pending_payment n x p) = p_amount p" "p_currency (pending_payment n x p) = p_currency p"
  "p_meta (pending_payment n x p) = jset (p_meta p) ''pending_at'' (JStr (isoformat n))"
  by (simp_all add: pending_payment_def stamp_meta_def)

lemma mark_pending_iff:
  "mark_pending p txn s = (Inr p', t) \<longleftrightarrow> p_status p = Created \<and> p' = pending_payment (now s) txn p
     \<and> \<not> txn_conflict p' (payments s) \<and> t = set_payment p' s"
  by (auto simp: mark_pending_def Let_def result_simps pending_payment_def can_transition_iff split: payment_status.splits)

subsection \<open>The invariant of the billing tables\<close>

text \<open>At most one live and one pending subscription per tenant.\<close>

definition subs_ok :: "subscription list \<Rightarrow> bool" where
  "subs_ok rows \<longleftrightarrow> distinct (map s_id rows)
     \<and> (\<forall>x \<in> set rows. \<forall>y \<in> set rows. s_tenant x = s_tenant y \<longrightarrow> is_live x \<longrightarrow> is_live y \<longrightarrow> x = y)
     \<and> (\<forall>x \<in> set rows. \<forall>y \<in> set rows. s_tenant x = s_tenant y \<longrightarrow> s_status x = SubPending \<longrightarrow> s_status y = SubPending \<longrightarrow> x = y)"

definition payment_ok :: "payment \<Rightarrow> bool" where
  "payment_ok p \<longleftrightarrow> 0 < p_amount p \<and> (\<exists>d. payment_to_dto p = Inr d) \<and> (p_status p = Succeeded \<longleftrightarrow> p_paid_at p \<noteq> None)"

definition pays_ok :: "payment list \<Rightarrow> bool" where
  "pays_ok rows \<longleftrightarrow> distinct (map p_id rows)
     \<and> (\<forall>p \<in> set rows. \<forall>q \<in> set rows. p_tenant p = p_tenant q \<longrightarrow> p_idem p = p_idem q \<longrightarrow> p = q)
     \<and> (\<forall>p \<in> set rows. \<forall>q \<in> set rows. p_provider p = p_provider q \<longrightarrow> p_txn p = p_txn q \<longrightarrow> p_txn p \<noteq> None \<longrightarrow> p = q)
     \<and> (\<forall>p \<in> set rows. payment_ok p)"

text \<open>Money taken for a subscription implies that the subscription has been activated.\<close>

definition paid_ok :: "payment list \<Rightarrow> subscription list \<Rightarrow> bool" where
  "paid_ok ps xs \<longleftrightarrow> (\<forall>p \<in> set ps. p_purpose p = ''subscription'' \<longrightarrow> p_status p = Succeeded \<longrightarrow>
     (\<exists>x \<in> set xs. sub_of p = Some (s_id x) \<and> s_tenant x = p_tenant p \<and> s_status x \<noteq> SubPending))"

definition billing_inv :: "'z billing_db_scheme \<Rightarrow> bool" where
  "billing_inv s \<longleftrightarrow> subs_ok (subs s) \<and> pays_ok (payments s) \<and> paid_ok (payments s) (subs s) \<and> valid_datetime (now s)"

lemma billing_inv_same_tables: "same_tables s t \<Longrightarrow> billing_inv t = billing_inv s"
  by (simp add: billing_inv_def same_tables_def)

lemma set_set_payment:
  assumes "distinct (map p_id (payments s))" and "p \<in> set (payments s)" and "p_id p' = p_id p"
  shows "set (payments (set_payment p' s)) = insert p' (set (payments s) - {p})"
proof -
  have "p_id y = p_id p' \<longleftrightarrow> y = p" if "y \<in> set (payments s)" for y
    using that assms key_unique [of p_id "payments s" y p] by auto
  then show ?thesis using assms(2) by (auto simp: set_payment_def upd_where_def)
qed

lemma set_set_sub:
  assumes "distinct (map s_id (subs s))" and "x \<in> set (subs s)" and "s_id x' = s_id x"
  shows "set (subs (set_sub x' s)) = insert x' (set (subs s) - {x})"
proof -
  have "s_id y = s_id x' \<longleftrightarrow> y = x" if "y \<in> set (subs s)" for y
    using that assms key_unique [of s_id "subs s" y x] by auto
  then show ?thesis using assms(2) by (auto simp: set_sub_def upd_where_def)
qed

lemma meta_time_stamp:
  assumes "valid_datetime n"
  shows "meta_time (jset m k (JStr (isoformat n))) k = Inr (Some n)"
    and "k' \<noteq> k \<Longrightarrow> meta_time (jset m k v) k' = meta_time m k'"
proof -
  have "isoformat n \<noteq> []" by (simp add: isoformat_def Let_def)
  then show "meta_time (jset m k (JStr (isoformat n))) k = Inr (Some n)"
    using fromisoformat_isoformat [OF assms] by (simp add: meta_time_def)
qed (simp add: meta_time_def)

lemma payment_dto_exists:
  "(\<exists>d. payment_to_dto p = Inr d) \<longleftrightarrow> (\<exists>m. mk_money (p_amount p) (p_currency p) = Inr m)
     \<and> (\<exists>a. meta_time (p_meta p) ''pending_at'' = Inr a) \<and> (\<exists>a. meta_time (p_meta p) ''closed_at'' = Inr a)"
  by (auto simp: payment_to_dto_def result_simps)

lemma payment_ok_succeeded: "payment_ok p \<Longrightarrow> payment_ok (succeeded_payment n p)"
  unfolding payment_ok_def payment_dto_exists by auto

lemma payment_ok_closed:
  "payment_ok p \<Longrightarrow> valid_datetime n \<Longrightarrow> p_status p \<noteq> Succeeded \<Longrightarrow> st \<noteq> Succeeded \<Longrightarrow> payment_ok (closed_payment n st r p)"
  unfolding payment_ok_def payment_dto_exists by (auto simp: meta_time_stamp)

lemma payment_ok_pending:
  "payment_ok p \<Longrightarrow> valid_datetime n \<Longrightarrow> p_status p \<noteq> Succeeded \<Longrightarrow> payment_ok (pending_payment n x p)"
  unfolding payment_ok_def payment_dto_exists by (auto simp: meta_time_stamp)

lemma pays_ok_set_payment:
  assumes ok: "pays_ok (payments s)" and p: "p \<in> set (payments s)"
    and same: "p_id p' = p_id p" "p_tenant p' = p_tenant p" "p_idem p' = p_idem p" "p_provider p' = p_provider p"
    and txn: "p_txn p' = p_txn p \<or> \<not> txn_conflict p' (payments s)" and new: "payment_ok p'"
  shows "pays_ok (payments (set_payment p' s))"
proof -
  have d: "distinct (map p_id (payments s))" using ok by (simp add: pays_ok_def)
  have S: "set (payments (set_payment p' s)) = insert p' (set (payments s) - {p})"
    by (rule set_set_payment [OF d p same(1)])
  have ne: "p_id q \<noteq> p_id p'" if "q \<in> set (payments s) - {p}" for q
    using that d p key_unique [of p_id "payments s" q p] same(1) by auto
  have idem: "\<not> (p_tenant q = p_tenant p' \<and> p_idem q = p_idem p')" if "q \<in> set (payments s) - {p}" for q
    using that ok p same unfolding pays_ok_def by (metis DiffE singletonI)
  have tx: "\<not> (p_provider q = p_provider p' \<and> p_txn q = p_txn p' \<and> p_txn p' \<noteq> None)"
    if q: "q \<in> set (payments s) - {p}" for q
  proof
    assume h: "p_provider q = p_provider p' \<and> p_txn q = p_txn p' \<and> p_txn p' \<noteq> None"
    show False
    proof (cases "p_txn p' = p_txn p")
      case True
      then have "q = p" using h q ok p same(4) unfolding pays_ok_def by (metis DiffD1)
      then show False using q by simp
    next
      case False
      then have "\<not> txn_conflict p' (payments s)" using txn by simp
      then show False using h q ne [OF q] by (auto simp: txn_conflict_def list_ex_iff)
    qed
  qed
  show ?thesis
    unfolding pays_ok_def S
  proof (intro conjI ballI impI)
    show "distinct (map p_id (payments (set_payment p' s)))" using d by (simp add: ids_set_payment)
  next
    fix a b assume "a \<in> insert p' (set (payments s) - {p})" "b \<in> insert p' (set (payments s) - {p})"
      "p_tenant a = p_tenant b" "p_idem a = p_idem b"
    then show "a = b" using ok idem unfolding pays_ok_def by (metis DiffD1 insertE)
  next
    fix a b assume "a \<in> insert p' (set (payments s) - {p})" "b \<in> insert p' (set (payments s) - {p})"
      "p_provider a = p_provider b" "p_txn a = p_txn b" "p_txn a \<noteq> None"
    then show "a = b" using ok tx unfolding pays_ok_def by (metis DiffD1 insertE)
  next
    fix a assume "a \<in> insert p' (set (payments s) - {p})"
    then show "payment_ok a" using ok new by (auto simp: pays_ok_def)
  qed
qed

lemma subs_ok_activated:
  assumes "subs_ok rows" and "x \<in> set rows" and "s_id x' = s_id x" and "s_tenant x' = s_tenant x"
    and "is_live x'" and "s_tenant x = t"
  shows "subs_ok (activated n t x' rows)"
proof -
  have d: "distinct (map s_id rows)" using assms(1) by (simp add: subs_ok_def)
  have ids: "map s_id (activated n t x' rows) = map s_id rows" by (auto simp: activated_def)
  have mem: "y \<in> set (activated n t x' rows) \<Longrightarrow> y = x' \<or> (y \<in> set rows \<and> s_id y \<noteq> s_id x' \<and> \<not> (s_tenant y = t \<and> is_live y))
      \<or> (\<exists>z \<in> set rows. y = closed_sub n z)" for y
    by (auto simp: activated_def)
  have np: "s_status x' \<noteq> SubPending" using assms(5) by (auto simp: is_live_def LIVE_SUBSCRIPTION_STATES_def)
  show ?thesis
    unfolding subs_ok_def
  proof (intro conjI ballI impI)
    show "distinct (map s_id (activated n t x' rows))" using d ids by simp
  next
    fix a b assume "a \<in> set (activated n t x' rows)" "b \<in> set (activated n t x' rows)"
      "s_tenant a = s_tenant b" "is_live a" "is_live b"
    then show "a = b" using mem [of a] mem [of b] assms(1,4,6) unfolding subs_ok_def by (metis s_id_closed(3))
  next
    fix a b assume "a \<in> set (activated n t x' rows)" "b \<in> set (activated n t x' rows)"
      "s_tenant a = s_tenant b" "s_status a = SubPending" "s_status b = SubPending"
    then show "a = b" using mem [of a] mem [of b] assms(1) np unfolding subs_ok_def
      by (metis s_id_closed(4) sub_status.distinct(7))
  qed
qed

text \<open>A row that is neither live nor pending afterwards, or that keeps its slot, keeps the
  invariant of the subscription table.\<close>

lemma subs_ok_set_sub:
  assumes ok: "subs_ok (subs s)" and x: "x \<in> set (subs s)" and same: "s_id x' = s_id x" "s_tenant x' = s_tenant x"
    and live: "is_live x' \<Longrightarrow> is_live x" and pend: "s_status x' = SubPending \<Longrightarrow> s_status x = SubPending"
  shows "subs_ok (subs (set_sub x' s))"
proof -
  have d: "distinct (map s_id (subs s))" using ok by (simp add: subs_ok_def)
  have S: "set (subs (set_sub x' s)) = insert x' (set (subs s) - {x})" by (rule set_set_sub [OF d x same(1)])
  have lv: "\<not> is_live y" if "y \<in> set (subs s) - {x}" "s_tenant y = s_tenant x'" "is_live x'" for y
    using that ok x live same(2) unfolding subs_ok_def by (metis DiffE singletonI)
  have pn: "s_status y \<noteq> SubPending" if "y \<in> set (subs s) - {x}" "s_tenant y = s_tenant x'" "s_status x' = SubPending" for y
    using that ok x pend same(2) unfolding subs_ok_def by (metis DiffE singletonI)
  show ?thesis
    unfolding subs_ok_def S
  proof (intro conjI ballI impI)
    show "distinct (map s_id (subs (set_sub x' s)))" using d by (simp add: ids_set_sub)
  next
    fix a b assume "a \<in> insert x' (set (subs s) - {x})" "b \<in> insert x' (set (subs s) - {x})"
      "s_tenant a = s_tenant b" "is_live a" "is_live b"
    then show "a = b" using ok lv unfolding subs_ok_def by (metis DiffD1 insertE)
  next
    fix a b assume "a \<in> insert x' (set (subs s) - {x})" "b \<in> insert x' (set (subs s) - {x})"
      "s_tenant a = s_tenant b" "s_status a = SubPending" "s_status b = SubPending"
    then show "a = b" using ok pn unfolding subs_ok_def by (metis DiffD1 insertE)
  qed
qed

lemma activated_keeps:
  assumes "distinct (map s_id rows)" and "x \<in> set rows" and "s_id x' = s_id x" "s_tenant x' = s_tenant x"
    and "s_status x' \<noteq> SubPending" and "y \<in> set rows" and "s_status y \<noteq> SubPending"
  shows "\<exists>z \<in> set (activated n t x' rows). s_id z = s_id y \<and> s_tenant z = s_tenant y \<and> s_status z \<noteq> SubPending"
proof -
  let ?f = "\<lambda>y. if s_id y = s_id x' then x' else if s_tenant y = t \<and> is_live y then closed_sub n y else y"
  have "?f y \<in> set (activated n t x' rows)" using assms(6) unfolding activated_def set_map by (rule imageI)
  moreover have "s_id y = s_id x' \<Longrightarrow> y = x" using assms key_unique [of s_id rows y x] by simp
  then have "s_id (?f y) = s_id y \<and> s_tenant (?f y) = s_tenant y \<and> s_status (?f y) \<noteq> SubPending"
    using assms by auto
  ultimately show ?thesis by blast
qed

lemma paid_ok_subs:
  assumes "paid_ok ps xs"
    and "\<And>x. x \<in> set xs \<Longrightarrow> s_status x \<noteq> SubPending \<Longrightarrow>
      \<exists>y \<in> set ys. s_id y = s_id x \<and> s_tenant y = s_tenant x \<and> s_status y \<noteq> SubPending"
  shows "paid_ok ps ys"
  using assms unfolding paid_ok_def by metis

lemma paid_ok_set_payment:
  assumes "paid_ok (payments s) xs"
    and "p_purpose p' = ''subscription'' \<Longrightarrow> p_status p' = Succeeded \<Longrightarrow>
      \<exists>x \<in> set xs. sub_of p' = Some (s_id x) \<and> s_tenant x = p_tenant p' \<and> s_status x \<noteq> SubPending"
  shows "paid_ok (payments (set_payment p' s)) xs"
proof -
  have "set (payments (set_payment p' s)) \<subseteq> insert p' (set (payments s))"
    by (auto simp: set_payment_def upd_where_def)
  then show ?thesis using assms unfolding paid_ok_def by blast
qed

lemma active_sub_sel [simp]:
  "s_id (active_sub s x fin) = s_id x" "s_tenant (active_sub s x fin) = s_tenant x"
  "is_live (active_sub s x fin)" "s_status (active_sub s x fin) = Active" "s_end (active_sub s x fin) = fin"
  "s_plan (active_sub s x fin) = s_plan x" "s_cancel_at_end (active_sub s x fin) = False"
  by (simp_all add: active_sub_def is_live_def LIVE_SUBSCRIPTION_STATES_def)

lemma mark_pending_inv:
  assumes inv: "billing_inv s" and p: "p \<in> set (payments s)" and r: "mark_pending p txn s = (Inr p', t)"
  shows "billing_inv t"
proof -
  have p': "p_status p = Created" "p' = pending_payment (now s) txn p" "\<not> txn_conflict p' (payments s)"
      "t = set_payment p' s"
    using iffD1 [OF mark_pending_iff r] by blast+
  have ok: "payment_ok p'" using p' inv p by (simp add: payment_ok_pending billing_inv_def pays_ok_def)
  have "pays_ok (payments t)"
    unfolding p'(4) by (rule pays_ok_set_payment [OF _ p]) (use inv p' ok in \<open>simp_all add: billing_inv_def\<close>)
  moreover have "paid_ok (payments t) (subs t)"
    unfolding p'(4) set_payment_sel
    by (intro paid_ok_set_payment) (use inv p'(2) in \<open>auto simp: billing_inv_def\<close>)
  ultimately show ?thesis using inv by (simp add: billing_inv_def p'(4))
qed

lemma close_payment_inv:
  assumes inv: "billing_inv s" and p: "p \<in> set (payments s)" and target: "target \<noteq> Succeeded"
    and r: "close_payment ctx p target reason s = (Inr p', t)"
  shows "billing_inv t"
proof -
  note c = close_payment_Inr [OF r]
  have p': "p' = closed_payment (now s) target reason p" and can: "can_transition (p_status p) target" using c by simp_all
  have nsucc: "p_status p \<noteq> Succeeded" using can by (auto simp: can_transition_def)
  have ok: "payment_ok p'" using p' inv p nsucc target by (simp add: payment_ok_closed billing_inv_def pays_ok_def)
  have pays: "pays_ok (payments (set_payment p' s))"
    by (rule pays_ok_set_payment [OF _ p]) (use inv p' ok in \<open>simp_all add: billing_inv_def\<close>)
  have paid: "paid_ok (payments (set_payment p' s)) (subs s)"
    by (intro paid_ok_set_payment) (use inv p' target in \<open>auto simp: billing_inv_def\<close>)
  have inv1: "billing_inv (set_payment p' s)" using inv pays paid by (simp add: billing_inv_def)
  consider "same_tables (set_payment p' s) t" | x where "x \<in> set (subs s)" "s_status x = SubPending"
      "same_tables (set_sub (dropped_sub (now s) target x) (set_payment p' s)) t"
    using c by blast
  then show ?thesis
  proof cases
    case 1
    then show ?thesis using inv1 billing_inv_same_tables by blast
  next
    case (2 x)
    let ?s = "set_sub (dropped_sub (now s) target x) (set_payment p' s)"
    have so: "subs_ok (subs ?s)"
      by (rule subs_ok_set_sub [of _ x]) (use inv 2(1) in \<open>simp_all add: billing_inv_def\<close>)
    have S: "set (subs ?s) = insert (dropped_sub (now s) target x) (set (subs s) - {x})"
      using set_set_sub [of "set_payment p' s" x "dropped_sub (now s) target x"] inv 2(1)
      by (simp add: billing_inv_def subs_ok_def)
    have "paid_ok (payments ?s) (subs ?s)"
      by (rule paid_ok_subs [of _ "subs s"]) (use paid S 2(2) in auto)
    then have "billing_inv ?s" using so inv1 by (simp add: billing_inv_def)
    then show ?thesis using 2(3) billing_inv_same_tables by blast
  qed
qed

lemma mark_succeeded_inv:
  assumes inv: "billing_inv s" and p: "p \<in> set (payments s)" and r: "mark_succeeded ctx p s = (Inr p', t)"
  shows "billing_inv t"
proof -
  have d: "distinct (map s_id (subs s))" using inv by (simp add: billing_inv_def subs_ok_def)
  note c = mark_succeeded_Inr [OF r d]
  have p': "p' = succeeded_payment (now s) p" using c by simp
  have ok: "payment_ok p'" using p' inv p by (simp add: payment_ok_succeeded billing_inv_def pays_ok_def)
  have pays: "pays_ok (payments (set_payment p' s'))" if "payments s' = payments s" for s' :: "'a billing_db_scheme"
    by (rule pays_ok_set_payment [of _ p]) (use inv p p' ok that in \<open>simp_all add: billing_inv_def\<close>)
  show ?thesis
  proof (cases "p_purpose p = ''subscription''")
    case False
    then have st: "same_tables (set_payment p' s) t" using c by auto
    have "paid_ok (payments (set_payment p' s)) (subs s)"
      by (intro paid_ok_set_payment) (use inv p' False in \<open>auto simp: billing_inv_def\<close>)
    then have "billing_inv (set_payment p' s)" using inv pays [of s] by (simp add: billing_inv_def)
    then show ?thesis using st billing_inv_same_tables by blast
  next
    case True
    let ?rows = "\<lambda>x fin. activated (now s) (p_tenant p) (active_sub s x fin) (subs s)"
    from True c obtain x fin where x: "activates p s x fin"
      and st: "same_tables (set_payment p' (s\<lparr>subs := ?rows x fin\<rparr>)) t" by auto
    have xs: "x \<in> set (subs s)" "s_tenant x = p_tenant p" "sub_of p = Some (s_id x)"
      using x locked_subscription_sub_of [of p s x] by (simp_all add: activates_def)
    have so: "subs_ok (?rows x fin)"
      by (rule subs_ok_activated [of _ x]) (use inv xs in \<open>simp_all add: billing_inv_def\<close>)
    have new: "active_sub s x fin \<in> set (?rows x fin)" using xs by (force simp: activated_def)
    have keep: "paid_ok (payments s) (?rows x fin)"
    proof (rule paid_ok_subs)
      show "paid_ok (payments s) (subs s)" using inv by (simp add: billing_inv_def)
      show "\<exists>z \<in> set (?rows x fin). s_id z = s_id y \<and> s_tenant z = s_tenant y \<and> s_status z \<noteq> SubPending"
        if "y \<in> set (subs s)" "s_status y \<noteq> SubPending" for y
        using activated_keeps [OF d xs(1) _ _ _ that] by simp
    qed
    have "sub_of p' = Some (s_id x)" using xs(3) p' sub_of_cong [of p' p] by simp
    then have "paid_ok (payments (set_payment p' (s\<lparr>subs := ?rows x fin\<rparr>))) (?rows x fin)"
      by (intro paid_ok_set_payment) (use keep new xs p' in \<open>auto intro!: bexI [of _ "active_sub s x fin"]\<close>)
    then have "billing_inv (set_payment p' (s\<lparr>subs := ?rows x fin\<rparr>))"
      using inv so pays [of "s\<lparr>subs := ?rows x fin\<rparr>"] by (simp add: billing_inv_def)
    then show ?thesis using st billing_inv_same_tables by blast
  qed
qed

subsection \<open>Intake\<close>

lemma jhas_jset: "jhas (jset p k v) k' \<longleftrightarrow> k' = k \<or> jhas p k'"
proof -
  have "map_of (map (\<lambda>(a, w). if a = k then (k, v) else (a, w)) p) k' = None \<longleftrightarrow> map_of p k' = None"
    by (induction p) (auto split: if_splits)
  then show ?thesis by (auto simp: jhas_def jset_def map_add_def split: option.splits if_splits)
qed

text \<open>What the service relies on of a provider's checkout: it is the checkout of the payment it
  was asked for.\<close>

locale checkout_port =
  fixes code :: string and create_checkout :: checkout_fn
  assumes checkout_payment: "create_checkout d r = Inr c \<Longrightarrow> c_payment c = pd_id d"
    and checkout_provider: "create_checkout d r = Inr c \<Longrightarrow> c_provider c = code"
    and checkout_expires: "create_checkout d r = Inr c \<Longrightarrow> c_expires c = Some e \<Longrightarrow> valid_datetime e"

lemma by_key_find: "by_idempotency_key t key rows = find (\<lambda>p. p_tenant p = t \<and> p_idem p = key) rows"
proof -
  have "find P rows = (case filter P rows of [] \<Rightarrow> None | x # _ \<Rightarrow> Some x)" for P :: "payment \<Rightarrow> bool"
    by (induction rows) auto
  then show ?thesis by (simp add: by_idempotency_key_def repo_find_filter)
qed

definition pay_request_of :: "payment \<Rightarrow> pay_request" where
  "pay_request_of p = (p_amount p, p_currency p, p_purpose p, p_reference p, p_provider p)"

lemma replay_other: "pay_request_of p \<noteq> req \<Longrightarrow>
    replay_checkout p req = Inl (Domain ConflictError ''idempotency key already used for a different payment'')"
  by (simp add: replay_checkout_def pay_request_of_def)

lemma replay_meta:
  assumes "p_meta p = checkout_meta m c" and "c_payment c = p_id p" and "c_provider c = p_provider p"
    and "\<And>e. c_expires c = Some e \<Longrightarrow> valid_datetime e"
  shows "replay_checkout p (pay_request_of p) = Inr c"
proof (cases "c_expires c")
  case None
  then show ?thesis
    using assms(1-3) by (simp add: replay_checkout_def pay_request_of_def checkout_meta_def jget_or_def jhas_jset)
next
  case (Some e)
  then have "fromisoformat (isoformat e) = Some e" "isoformat e \<noteq> []"
    using assms(4) fromisoformat_isoformat by (auto simp: isoformat_def Let_def)
  then show ?thesis
    using assms(1-3) Some by (simp add: replay_checkout_def pay_request_of_def checkout_meta_def jget_or_def jhas_jset)
qed

text \<open>The row \<^verbatim>\<open>create_payment\<close> inserts.\<close>

definition new_payment :: "uuid \<Rightarrow> uuid \<Rightarrow> money \<Rightarrow> string \<Rightarrow> string \<Rightarrow> string \<Rightarrow> string \<Rightarrow> uuid option \<Rightarrow> datetime \<Rightarrow> payment" where
  "new_payment i t amt purpose reference provider idem sub_id n =
     \<lparr>p_id = i, p_tenant = t, p_subscription = sub_id, p_purpose = purpose, p_reference = reference,
      p_amount = m_amount amt, p_currency = m_currency amt, p_status = Created, p_provider = provider,
      p_txn = None, p_idem = idem, p_failure = None, p_paid_at = None, p_meta = [], p_created = n\<rparr>"

lemma create_payment_new:
  fixes s :: "'z billing_db_scheme"
  assumes "tenant_id ctx = Some t" and "providers env provider = Some f" and "0 < m_amount amt"
    and "validate_return_url (host_ok env) url = Inr ()" and "by_idempotency_key t idem (payments s) = None"
  shows "create_payment env ctx amt purpose reference provider idem url sub_id s =
    (let p = new_payment (uuid_gen s (uuid_next s)) t amt purpose reference provider idem sub_id (now s);
         s2 = race env (s\<lparr>uuid_next := Suc (uuid_next s)\<rparr>)
     in if payment_conflict p (payments s2)
        then (case by_idempotency_key t idem (payments s2) of
                None \<Rightarrow> raise IntegrityError s2
              | Some w \<Rightarrow> pure_op (replay_checkout w (m_amount amt, m_currency amt, purpose, reference, provider)) s2)
        else on_ok (pure_op (and_then (payment_to_dto p) (\<lambda>d. f d url)) (s2\<lparr>payments := payments s2 @ [p]\<rparr>)) (\<lambda>c s.
               (let p' = p\<lparr>p_meta := checkout_meta [] c\<rparr>
                in on_ok (emit ''payments'' ctx ''billing.payment.created'' (payment_event_payload p') (set_payment p' s))
                     (\<lambda>_ s. ret c s))))"
  using assms
  by (simp add: create_payment_def repo_init_def repo_add_def new_payment_def stamp_payment_def new_uuid7_def Let_def
      cong: option.case_cong)

lemma create_payment_cases:
  fixes s :: "'z billing_db_scheme"
  assumes r: "create_payment env ctx amt purpose reference provider idem url sub_id s = (Inr c, u)"
    and t: "tenant_id ctx = Some t"
  defines "s2 \<equiv> race env (s\<lparr>uuid_next := Suc (uuid_next s)\<rparr>)"
    and "p \<equiv> new_payment (uuid_gen s (uuid_next s)) t amt purpose reference provider idem sub_id (now s)"
    and "req \<equiv> (m_amount amt, m_currency amt, purpose, reference, provider)"
  obtains (replay) q where "by_idempotency_key t idem (payments s) = Some q" "replay_checkout q req = Inr c" "u = s"
  | (lost) q where "by_idempotency_key t idem (payments s) = None" "payment_conflict p (payments s2)"
      "by_idempotency_key t idem (payments s2) = Some q" "replay_checkout q req = Inr c" "u = s2"
  | (inserted) f d where "by_idempotency_key t idem (payments s) = None" "\<not> payment_conflict p (payments s2)"
      "providers env provider = Some f" "payment_to_dto p = Inr d" "f d url = Inr c" "0 < m_amount amt"
      "same_tables (set_payment (p\<lparr>p_meta := checkout_meta [] c\<rparr>) (s2\<lparr>payments := payments s2 @ [p]\<rparr>)) u"
proof -
  from r t obtain f where f: "providers env provider = Some f" and pos: "0 < m_amount amt"
    and v: "validate_return_url (host_ok env) url = Inr ()"
    by (auto simp: create_payment_def repo_init_def result_simps split: option.splits if_splits)
  show thesis
  proof (cases "by_idempotency_key t idem (payments s)")
    case (Some q)
    then show ?thesis using r t f pos v replay
      by (simp add: create_payment_def repo_init_def result_simps req_def)
  next
    case None
    note eq = create_payment_new [OF t f pos v None, of purpose reference sub_id, folded p_def s2_def req_def, unfolded Let_def]
    show ?thesis
    proof (cases "payment_conflict p (payments s2)")
      case True
      then show ?thesis using r None lost unfolding eq by (auto simp: result_simps split: option.splits)
    next
      case False
      from r False obtain d where d: "payment_to_dto p = Inr d" "f d url = Inr c"
        and e: "u = snd (emit ''payments'' ctx ''billing.payment.created'' (payment_event_payload (p\<lparr>p_meta := checkout_meta [] c\<rparr>))
          (set_payment (p\<lparr>p_meta := checkout_meta [] c\<rparr>) (s2\<lparr>payments := payments s2 @ [p]\<rparr>)))"
        unfolding eq by (auto simp: result_simps)
      show ?thesis using inserted [OF None False f d pos] unfolding e by (simp add: emit_tables)
    qed
  qed
qed

lemma find_first_updated:
  assumes "\<And>x. x \<in> set rows \<Longrightarrow> \<not> P x" and "P p'" and "Q p"
  shows "find P (upd_where Q (\<lambda>_. p') (rows @ [p])) = Some p'"
  using assms by (induction rows) auto

lemma no_conflict_none:
  "\<not> payment_conflict p rows \<Longrightarrow> x \<in> set rows \<Longrightarrow> \<not> (p_tenant x = p_tenant p \<and> p_idem x = p_idem p)"
  by (auto simp: payment_conflict_def idem_conflict_def list_ex_iff)

lemma create_payment_replays:
  fixes s u :: "'z billing_db_scheme"
  assumes r: "create_payment env ctx amt purpose reference provider idem url sub_id s = (Inr c, u)"
    and port: "\<And>f. providers env provider = Some f \<Longrightarrow> checkout_port provider f"
  shows "\<exists>t q. tenant_id ctx = Some t \<and> by_idempotency_key t idem (payments u) = Some q
    \<and> replay_checkout q (m_amount amt, m_currency amt, purpose, reference, provider) = Inr c"
proof -
  obtain t where t: "tenant_id ctx = Some t"
    using r by (cases "tenant_id ctx") (auto simp: create_payment_def repo_init_def)
  from r t show ?thesis
  proof (cases rule: create_payment_cases)
    case (inserted f d)
    let ?p = "new_payment (uuid_gen s (uuid_next s)) t amt purpose reference provider idem sub_id (now s)"
    let ?p' = "?p\<lparr>p_meta := checkout_meta [] c\<rparr>"
    let ?rows = "payments (race env (s\<lparr>uuid_next := Suc (uuid_next s)\<rparr>))"
    have pid: "pd_id d = p_id ?p" using inserted(4) by (auto simp: payment_to_dto_def result_simps)
    note port' = port [OF inserted(3)]
    have "replay_checkout ?p' (pay_request_of ?p') = Inr c"
      using checkout_port.checkout_payment [OF port' inserted(5)] checkout_port.checkout_provider [OF port' inserted(5)]
        checkout_port.checkout_expires [OF port' inserted(5)] pid
      by (intro replay_meta) (auto simp: new_payment_def)
    moreover have "payments u = upd_where (\<lambda>x. p_id x = p_id ?p') (\<lambda>_. ?p') (?rows @ [?p])"
      using same_tables_D [OF inserted(7)] by (simp add: set_payment_def)
    then have "by_idempotency_key t idem (payments u) = Some ?p'"
      unfolding by_key_find using no_conflict_none [OF inserted(2)]
      by (simp only:) (rule find_first_updated; auto simp: new_payment_def)
    ultimately show ?thesis using t by (simp add: pay_request_of_def new_payment_def)
  qed (use t in auto)
qed

lemma create_payment_again:
  assumes "tenant_id ctx = Some t" and "by_idempotency_key t idem (payments u) = Some q"
    and "replay_checkout q (m_amount amt, m_currency amt, purpose, reference, provider) = r"
    and "providers env provider \<noteq> None" and "0 < m_amount amt" and "validate_return_url (host_ok env) url = Inr ()"
  shows "create_payment env ctx amt purpose reference provider idem url sub_id u = (r, u)"
  using assms by (auto simp: create_payment_def repo_init_def pure_op_def)

lemma create_payment_valid_args:
  assumes "create_payment env ctx amt purpose reference provider idem url sub_id s = (Inr c, u)"
  shows "providers env provider \<noteq> None \<and> 0 < m_amount amt \<and> validate_return_url (host_ok env) url = Inr ()"
  using assms by (auto simp: create_payment_def result_simps split: option.splits if_splits)

lemma pays_ok_append:
  assumes "pays_ok rows" and "p_id p \<notin> p_id ` set rows" and "\<not> payment_conflict p rows" and "payment_ok p"
  shows "pays_ok (rows @ [p])"
proof -
  have tx: "\<not> (p_provider q = p_provider p \<and> p_txn q = p_txn p \<and> p_txn p \<noteq> None)" if "q \<in> set rows" for q
  proof -
    have "p_id q \<noteq> p_id p" using that assms(2) by (metis imageI)
    then show ?thesis using that assms(3) by (auto simp: payment_conflict_def txn_conflict_def list_ex_iff)
  qed
  note idem = no_conflict_none [OF assms(3)]
  show ?thesis
    unfolding pays_ok_def
  proof (intro conjI ballI impI)
    show "distinct (map p_id (rows @ [p]))" using assms(1,2) by (auto simp: pays_ok_def)
  next
    fix a b assume "a \<in> set (rows @ [p])" "b \<in> set (rows @ [p])" "p_tenant a = p_tenant b" "p_idem a = p_idem b"
    then show "a = b" using assms(1) idem [of a] idem [of b] unfolding pays_ok_def by auto
  next
    fix a b assume "a \<in> set (rows @ [p])" "b \<in> set (rows @ [p])" "p_provider a = p_provider b"
      "p_txn a = p_txn b" "p_txn a \<noteq> None"
    then show "a = b" using assms(1) tx [of a] tx [of b] unfolding pays_ok_def by auto
  next
    fix a assume "a \<in> set (rows @ [p])"
    then show "payment_ok a" using assms(1,4) by (auto simp: pays_ok_def)
  qed
qed

lemma create_payment_inv:
  fixes s u :: "'z billing_db_scheme"
  assumes r: "create_payment env ctx amt purpose reference provider idem url sub_id s = (Inr c, u)"
    and inv: "billing_inv s" and race: "billing_inv (race env (s\<lparr>uuid_next := Suc (uuid_next s)\<rparr>))"
    and fresh: "uuid_gen s (uuid_next s) \<notin> p_id ` set (payments (race env (s\<lparr>uuid_next := Suc (uuid_next s)\<rparr>)))"
  shows "billing_inv u"
proof -
  obtain t where t: "tenant_id ctx = Some t"
    using r by (cases "tenant_id ctx") (auto simp: create_payment_def repo_init_def)
  from r t show ?thesis
  proof (cases rule: create_payment_cases)
    case (inserted f d)
    let ?s2 = "race env (s\<lparr>uuid_next := Suc (uuid_next s)\<rparr>)"
    let ?p = "new_payment (uuid_gen s (uuid_next s)) t amt purpose reference provider idem sub_id (now s)"
    let ?p' = "?p\<lparr>p_meta := checkout_meta [] c\<rparr>"
    let ?s3 = "?s2\<lparr>payments := payments ?s2 @ [?p]\<rparr>"
    have dto: "\<exists>d. payment_to_dto ?p = Inr d" using inserted(4) by blast
    have ok: "payment_ok ?p"
      using inserted(6) dto unfolding payment_ok_def by (auto simp: new_payment_def)
    have ok': "payment_ok ?p'"
      using ok unfolding payment_ok_def payment_dto_exists
      by (auto simp: checkout_meta_def meta_time_def new_payment_def)
    have pays: "pays_ok (payments ?s3)"
      using race fresh inserted(2) ok by (simp add: pays_ok_append billing_inv_def new_payment_def)
    have "pays_ok (payments (set_payment ?p' ?s3))"
      by (rule pays_ok_set_payment [OF pays, of ?p]) (simp_all add: ok')
    moreover have "paid_ok (payments ?s3) (subs ?s3)"
      using race by (auto simp: billing_inv_def paid_ok_def new_payment_def)
    then have "paid_ok (payments (set_payment ?p' ?s3)) (subs ?s3)"
      by (rule paid_ok_set_payment) (simp add: new_payment_def)
    ultimately have "billing_inv (set_payment ?p' ?s3)"
      using race by (simp add: billing_inv_def)
    then show ?thesis using inserted(7) billing_inv_same_tables by blast
  qed (use inv race in auto)
qed
end
