(* ===== verification/Subscription_Service.thy ===== *)
theory Subscription_Service
  imports Payment_Laws
begin

section \<open>The billing service\<close>

text \<open>
  \<^verbatim>\<open>BillingService\<close> of \<^verbatim>\<open>core/billing/service.py\<close>: plans, the subscription of a
  tenant and its life cycle.
\<close>

definition SUBSCRIPTION_READ :: string where
  "SUBSCRIPTION_READ = ''billing.subscription:read''"

definition SUBSCRIPTION_MANAGE :: string where
  "SUBSCRIPTION_MANAGE = ''billing.subscription:manage''"

fun dto_list :: "('a \<Rightarrow> exn + 'b) \<Rightarrow> 'a list \<Rightarrow> exn + 'b list" where
  "dto_list f [] = Inr []"
| "dto_list f (x # xs) = and_then (f x) (\<lambda>y. and_then (dto_list f xs) (\<lambda>ys. Inr (y # ys)))"

definition list_plans :: "access option \<Rightarrow> tenant_context \<Rightarrow> 'z billing_db_scheme \<Rightarrow> exn + plan_dto list" where
  "list_plans acc ctx s =
     and_then (repo_init ctx) (\<lambda>_.
     and_then (guard_require acc ctx PLAN_READ) (\<lambda>_.
       dto_list plan_to_dto (sort_key pl_price (filter pl_active (plans s)))))"

definition plan_code_of :: "plan option \<Rightarrow> string" where
  "plan_code_of pl = (case pl of Some q \<Rightarrow> pl_code q | None \<Rightarrow> [])"

definition get_subscription :: "access option \<Rightarrow> tenant_context \<Rightarrow> 'z billing_db_scheme \<Rightarrow> exn + subscription_dto option" where
  "get_subscription acc ctx s =
     and_then (repo_init ctx) (\<lambda>t.
     and_then (guard_require acc ctx SUBSCRIPTION_READ) (\<lambda>_.
       (case repo_find s_tenant t (\<lambda>x. is_live x \<or> s_status x = SubPending) (subs s) of
          [] \<Rightarrow> Inr None
        | r # rows \<Rightarrow>
            (let sub = (case find (\<lambda>x. s_status x \<noteq> SubPending) (r # rows) of Some x \<Rightarrow> x | None \<Rightarrow> r);
                 pl = get_plan (s_plan sub) (plans s)
             in Inr (Some (subscription_to_dto sub (plan_code_of pl)))))))"

definition plan_by_code :: "string \<Rightarrow> plan list \<Rightarrow> exn + plan" where
  "plan_by_code code rows =
     (case find (\<lambda>x. pl_code x = code \<and> pl_active x) rows of
        None \<Rightarrow> Inl (Domain NotFoundError (''plan not found: '' @ code))
      | Some pl \<Rightarrow> Inr pl)"

definition new_sub :: "uuid \<Rightarrow> uuid \<Rightarrow> plan \<Rightarrow> sub_status \<Rightarrow> datetime \<Rightarrow> datetime \<Rightarrow> subscription" where
  "new_sub i t pl st n fin =
     \<lparr>s_id = i, s_tenant = t, s_plan = pl_id pl, s_status = st, s_price = pl_price pl, s_currency = pl_currency pl,
      s_start = n, s_end = fin, s_cancel_at_end = False, s_canceled_at = None, s_created = n\<rparr>"

definition checkout_for :: "'z billing_db_scheme pay_env \<Rightarrow> tenant_context \<Rightarrow> subscription \<Rightarrow> string \<Rightarrow> 'z billing_db_scheme \<Rightarrow>
    (checkout_dto, 'z billing_db_scheme) op_res" where
  "checkout_for env ctx x provider s =
     on_ok (pure_op (mk_money (s_price x) (s_currency x)) s) (\<lambda>m s.
       create_payment env ctx m ''subscription'' (uuid_str (s_id x)) provider
         (''subscription:'' @ uuid_str (s_id x)) None (Some (s_id x)) s)"

definition start_subscription :: "'z billing_db_scheme pay_env \<Rightarrow> access option \<Rightarrow> tenant_context \<Rightarrow> string \<Rightarrow> string \<Rightarrow>
    'z billing_db_scheme \<Rightarrow> (checkout_dto, 'z billing_db_scheme) op_res" where
  "start_subscription env acc ctx plan_code provider s =
     on_ok (pure_op (repo_init ctx) s) (\<lambda>t s.
     on_ok (pure_op (guard_require acc ctx SUBSCRIPTION_MANAGE) s) (\<lambda>_ s.
     on_ok (pure_op (plan_by_code plan_code (plans s)) s) (\<lambda>pl s.
       if pl_price pl = 0
       then raise (Domain InvariantViolationError ''a free plan is assigned automatically, not purchased'') s
       else (case repo_find s_tenant t (\<lambda>x. s_status x = SubPending) (subs s) of
               pending # _ \<Rightarrow>
                 if s_plan pending \<noteq> pl_id pl
                 then raise (Domain ConflictError ''a subscription checkout is already in progress'') s
                 else checkout_for env ctx pending provider s
             | [] \<Rightarrow>
                 (let n = now s; (i, s1) = new_uuid7 s
                  in on_ok (pure_op (period_end n (pl_period pl)) s1) (\<lambda>fin s1.
                    (let x = new_sub i t pl SubPending n fin; s2 = race env s1
                     in case repo_add stamp_sub sub_conflict t None x (subs s2) of
                       Inl e \<Rightarrow>
                         raise (if e = IntegrityError
                                then Domain ConflictError ''a subscription checkout is already in progress'' else e) s2
                     | Inr rows \<Rightarrow> checkout_for env ctx x provider (s2\<lparr>subs := rows\<rparr>))))))))"

definition cancel_subscription :: "access option \<Rightarrow> tenant_context \<Rightarrow> 'z billing_db_scheme \<Rightarrow>
    (subscription_dto, 'z billing_db_scheme) op_res" where
  "cancel_subscription acc ctx s =
     on_ok (pure_op (repo_init ctx) s) (\<lambda>t s.
     on_ok (pure_op (guard_require acc ctx SUBSCRIPTION_MANAGE) s) (\<lambda>_ s.
       (case repo_find s_tenant t is_live (subs s) of
          [] \<Rightarrow> raise (Domain NotFoundError ''no active subscription'') s
        | x # _ \<Rightarrow>
            (let x' = x\<lparr>s_cancel_at_end := True, s_canceled_at := Some (now s)\<rparr>; s1 = set_sub x' s;
                 pl = get_plan (s_plan x') (plans s1)
             in on_ok (emit ''billing'' ctx ''billing.subscription.canceled''
                  [(''subscription_id'', JStr (uuid_str (s_id x'))), (''plan_code'', JStr (plan_code_of pl))] s1)
                  (\<lambda>_ s. ret (subscription_to_dto x' (plan_code_of pl)) s)))))"

definition auto_subscribe :: "tenant_context \<Rightarrow> string \<Rightarrow> 'z billing_db_scheme \<Rightarrow> (unit, 'z billing_db_scheme) op_res" where
  "auto_subscribe ctx plan_code s =
     on_ok (pure_op (repo_init ctx) s) (\<lambda>t s.
     on_ok (pure_op (plan_by_code plan_code (plans s)) s) (\<lambda>pl s.
       if pl_price pl \<noteq> 0
       then raise (Domain InvariantViolationError ''auto-subscribe requires a zero-price plan'') s
       else if repo_find s_tenant t is_live (subs s) \<noteq> [] then ret () s
       else (let n = now s; st = (if pl_trial_days pl > 0 then Trialing else Active); (i, s1) = new_uuid7 s
             in on_ok (pure_op (period_end n (pl_period pl)) s1) (\<lambda>fin s1.
                (let x = new_sub i t pl st n fin
                 in on_ok (pure_op (repo_add stamp_sub sub_conflict t None x (subs s1)) s1) (\<lambda>rows s.
                    on_ok (emit ''billing'' ctx ''billing.subscription.activated''
                      [(''subscription_id'', JStr (uuid_str i)), (''plan_code'', JStr (pl_code pl)),
                       (''current_period_end'', JStr (isoformat fin))] (s\<lparr>subs := rows\<rparr>)) (\<lambda>_ s. ret () s)))))))"

text \<open>A domain error of the fallback is logged; what it did before raising stays in the
  transaction.\<close>

definition close_ended_period :: "tenant_context \<Rightarrow> uuid \<Rightarrow> string option \<Rightarrow> 'z billing_db_scheme \<Rightarrow>
    (bool, 'z billing_db_scheme) op_res" where
  "close_ended_period ctx i fallback s =
     on_ok (pure_op (repo_init ctx) s) (\<lambda>t s.
     (case find (\<lambda>x. s_id x = i \<and> s_tenant x = t) (subs s) of
        None \<Rightarrow> ret False s
      | Some x \<Rightarrow>
          (let n = now s in
           if \<not> is_live x \<or> n < s_end x then ret False s
           else
             (let pl = get_plan (s_plan x) (plans s) in
              if (case pl of Some q \<Rightarrow> pl_price q = 0 | None \<Rightarrow> False) \<and> \<not> s_cancel_at_end x
              then on_ok (pure_op (roll_forward (s_start x) (s_end x) (case pl of Some q \<Rightarrow> pl_period q | None \<Rightarrow> []) n) s)
                     (\<lambda>(st, fin) s. ret True (set_sub (x\<lparr>s_start := st, s_end := fin, s_status := Active\<rparr>) s))
              else
                (let x' = x\<lparr>s_status := (if s_cancel_at_end x then SubCanceled else SubExpired),
                           s_canceled_at := (if s_canceled_at x = None \<and> s_cancel_at_end x then Some n else s_canceled_at x)\<rparr>
                 in on_ok (emit ''billing'' ctx ''billing.subscription.ended''
                      [(''subscription_id'', JStr (uuid_str (s_id x'))), (''plan_code'', JStr (plan_code_of pl)),
                       (''status'', JStr (sub_status_str (s_status x')))] (set_sub x' s)) (\<lambda>_ s.
                    (case fallback of
                       None \<Rightarrow> ret True s
                     | Some code \<Rightarrow>
                         if code = [] then ret True s
                         else (case auto_subscribe ctx code s of
                                 (Inl e, s') \<Rightarrow> if is_domain e then ret True s' else raise e s'
                               | (Inr _, s') \<Rightarrow> ret True s'))))))))"

end
