(* ===== verification/Billing_Laws.thy ===== *)
theory Billing_Laws
  imports Subscription_Service
begin

section \<open>Laws of the billing service\<close>

text \<open>
  A transaction takes identifiers that no row uses yet; \<open>billing_state\<close> is the invariant of the
  tables together with that supply, and \<open>grows\<close> says that a transaction adds rows under fresh
  identifiers only.  What other transactions commit while one waits is such a growth.
\<close>

definition pay_ids :: "'z billing_db_scheme \<Rightarrow> uuid set" where
  "pay_ids s = p_id ` set (payments s)"

definition sub_ids :: "'z billing_db_scheme \<Rightarrow> uuid set" where
  "sub_ids s = s_id ` set (subs s)"

definition unused_ids :: "'z billing_db_scheme \<Rightarrow> bool" where
  "unused_ids s \<longleftrightarrow> inj (uuid_gen s) \<and>
     (\<forall>k \<ge> uuid_next s. uuid_gen s k \<notin> pay_ids s \<and> uuid_gen s k \<notin> sub_ids s)"

definition billing_state :: "'z billing_db_scheme \<Rightarrow> bool" where
  "billing_state s \<longleftrightarrow> billing_inv s \<and> unused_ids s"

definition drawn :: "'z infra_scheme \<Rightarrow> 'z infra_scheme \<Rightarrow> uuid set" where
  "drawn s t = uuid_gen s ` {uuid_next s ..< uuid_next t}"

definition grows :: "'z billing_db_scheme \<Rightarrow> 'z billing_db_scheme \<Rightarrow> bool" where
  "grows s t \<longleftrightarrow> uuid_gen t = uuid_gen s \<and> uuid_next s \<le> uuid_next t
     \<and> pay_ids t \<subseteq> pay_ids s \<union> drawn s t \<and> sub_ids t \<subseteq> sub_ids s \<union> drawn s t"

definition race_ok :: "'z billing_db_scheme pay_env \<Rightarrow> bool" where
  "race_ok env \<longleftrightarrow> (\<forall>s. billing_state s \<longrightarrow> billing_inv (race env s) \<and> grows s (race env s))"

lemma ids_upd [simp]:
  "pay_ids (set_payment p s) = pay_ids s" "sub_ids (set_payment p s) = sub_ids s"
  "pay_ids (set_sub x s) = pay_ids s" "sub_ids (set_sub x s) = sub_ids s"
  "pay_ids (s\<lparr>subs := xs\<rparr>) = pay_ids s" "sub_ids (s\<lparr>payments := ps\<rparr>) = sub_ids s"
  "pay_ids (s\<lparr>uuid_next := k\<rparr>) = pay_ids s" "sub_ids (s\<lparr>uuid_next := k\<rparr>) = sub_ids s"
  using arg_cong [OF ids_set_payment, of set p s] arg_cong [OF ids_set_sub, of set x s]
  by (simp_all add: pay_ids_def sub_ids_def)

lemma sub_ids_activated: "sub_ids (s\<lparr>subs := activated n t x (subs s)\<rparr>) = sub_ids s"
proof -
  have "map s_id (activated n t x (subs s)) = map s_id (subs s)" by (auto simp: activated_def)
  then have "set (map s_id (activated n t x (subs s))) = set (map s_id (subs s))" by (rule arg_cong)
  then show ?thesis by (simp add: sub_ids_def)
qed

lemma drawn_split:
  "uuid_gen t = uuid_gen s \<Longrightarrow> uuid_next s \<le> uuid_next t \<Longrightarrow> uuid_next t \<le> uuid_next u \<Longrightarrow> drawn s u = drawn s t \<union> drawn t u"
  by (simp add: drawn_def image_Un [symmetric] ivl_disj_un_two(3))

lemma grows_refl [simp]: "grows s s"
  by (simp add: grows_def)

lemma grows_trans: "grows s t \<Longrightarrow> grows t u \<Longrightarrow> grows s u"
proof -
  assume a: "grows s t" "grows t u"
  then have "drawn s u = drawn s t \<union> drawn t u" by (intro drawn_split) (simp_all add: grows_def)
  moreover have "pay_ids u \<subseteq> pay_ids s \<union> (drawn s t \<union> drawn t u)"
    using a by (simp add: grows_def) blast
  moreover have "sub_ids u \<subseteq> sub_ids s \<union> (drawn s t \<union> drawn t u)"
    using a by (simp add: grows_def) blast
  ultimately show ?thesis using a by (simp add: grows_def)
qed

lemma grows_unused: "unused_ids s \<Longrightarrow> grows s t \<Longrightarrow> unused_ids t"
proof -
  assume a: "unused_ids s" "grows s t"
  have inj: "inj (uuid_gen s)" using a(1) by (simp add: unused_ids_def)
  have "uuid_gen t k \<notin> pay_ids t \<and> uuid_gen t k \<notin> sub_ids t" if "uuid_next t \<le> k" for k
  proof -
    have "uuid_gen s k \<notin> drawn s t" using inj that by (auto simp: drawn_def inj_eq)
    moreover have "uuid_gen s k \<notin> pay_ids s \<and> uuid_gen s k \<notin> sub_ids s"
      using a that by (simp add: unused_ids_def grows_def)
    ultimately show ?thesis using a(2) by (auto simp: grows_def)
  qed
  then show ?thesis using a(2) inj by (simp add: unused_ids_def grows_def)
qed

lemma billing_state_grows: "billing_state s \<Longrightarrow> billing_inv t \<Longrightarrow> grows s t \<Longrightarrow> billing_state t"
  by (auto simp: billing_state_def intro: grows_unused)

lemma same_tables_grows: "same_tables s t \<Longrightarrow> grows s t"
  by (auto simp: same_tables_def grows_def pay_ids_def sub_ids_def)

lemma grows_same_ids:
  assumes "same_tables s1 t" and "pay_ids s1 = pay_ids s" and "sub_ids s1 = sub_ids s"
    and "uuid_gen s1 = uuid_gen s" and "uuid_next s \<le> uuid_next s1"
  shows "grows s t"
  using assms by (auto simp: grows_def same_tables_def pay_ids_def sub_ids_def)

lemma state_same_tables:
  "billing_state s1 \<Longrightarrow> grows s s1 \<Longrightarrow> same_tables s1 t \<Longrightarrow> billing_state t \<and> grows s t"
  using billing_state_grows [of s1 t] billing_inv_same_tables [of s1 t] same_tables_grows [of s1 t] grows_trans [of s s1 t]
  by (simp add: billing_state_def)

subsection \<open>Growth of the payment operations\<close>

lemma mark_pending_grows: "mark_pending p txn s = (Inr p', t) \<Longrightarrow> grows s t"
  by (rule grows_same_ids [of t]) (auto simp: mark_pending_iff)

lemma close_payment_grows: "close_payment ctx p target reason s = (Inr p', t) \<Longrightarrow> grows s t"
proof -
  assume "close_payment ctx p target reason s = (Inr p', t)"
  from close_payment_Inr [OF this] obtain s1 where "same_tables s1 t"
    "s1 = set_payment p' s \<or> (\<exists>x. s1 = set_sub x (set_payment p' s))" by blast
  then show ?thesis by (intro grows_same_ids [of s1]) auto
qed

lemma mark_succeeded_grows:
  assumes "mark_succeeded ctx p s = (Inr p', t)" and "billing_inv s"
  shows "grows s t"
proof -
  have "distinct (map s_id (subs s))" using assms(2) by (simp add: billing_inv_def subs_ok_def)
  from mark_succeeded_Inr [OF assms(1) this] obtain s1 where "same_tables s1 t"
    "s1 = set_payment p' s \<or> (\<exists>x. s1 = set_payment p' (s\<lparr>subs := activated (now s) (p_tenant p) x (subs s)\<rparr>))"
    by (cases "p_purpose p = ''subscription''") auto
  then show ?thesis by (intro grows_same_ids [of s1]) (auto simp: sub_ids_activated)
qed

lemma race_fresh:
  assumes env: "race_ok env" and s: "billing_state s"
  defines "s2 \<equiv> race env (s\<lparr>uuid_next := Suc (uuid_next s)\<rparr>)"
  shows "billing_inv s2" and "grows s s2" and "billing_state s2"
    and "uuid_gen s (uuid_next s) \<notin> pay_ids s2" and "uuid_gen s (uuid_next s) \<notin> sub_ids s2"
    and "uuid_gen s (uuid_next s) \<in> drawn s s2"
proof -
  let ?s1 = "s\<lparr>uuid_next := Suc (uuid_next s)\<rparr>"
  have s1: "billing_state ?s1"
    using s by (auto simp: billing_state_def unused_ids_def billing_inv_def)
  then have g: "billing_inv s2" "grows ?s1 s2" using env by (simp_all add: race_ok_def s2_def)
  have "grows s ?s1" by (auto simp: grows_def)
  then show gs: "grows s s2" using g(2) by (rule grows_trans)
  show "billing_inv s2" by (rule g(1))
  show "billing_state s2" by (rule billing_state_grows [OF s g(1) gs])
  show "uuid_gen s (uuid_next s) \<in> drawn s s2" using g(2) by (simp add: grows_def drawn_def)
  have un: "uuid_gen s (uuid_next s) \<notin> pay_ids s" "uuid_gen s (uuid_next s) \<notin> sub_ids s"
    using s by (simp_all add: billing_state_def unused_ids_def)
  have "uuid_gen s (uuid_next s) \<notin> drawn ?s1 s2"
    using s by (auto simp: drawn_def billing_state_def unused_ids_def inj_eq)
  then show "uuid_gen s (uuid_next s) \<notin> pay_ids s2" "uuid_gen s (uuid_next s) \<notin> sub_ids s2"
    using un g(2) unfolding grows_def by auto
qed

lemma grows_insert_payment:
  assumes "grows s s2" and "p_id p \<in> drawn s s2"
  shows "grows s (s2\<lparr>payments := payments s2 @ [p]\<rparr>)"
  using assms unfolding grows_def by (auto simp: pay_ids_def drawn_def)

lemma grows_insert_sub:
  assumes "grows s s2" and "s_id x \<in> drawn s s2"
  shows "grows s (s2\<lparr>subs := subs s2 @ [x]\<rparr>)"
  using assms unfolding grows_def by (auto simp: sub_ids_def drawn_def)

lemma create_payment_state:
  fixes s u :: "'z billing_db_scheme"
  assumes r: "create_payment env ctx amt purpose reference provider idem url sub_id s = (Inr c, u)"
    and s: "billing_state s" and env: "race_ok env"
  shows "billing_state u \<and> grows s u"
proof -
  note rc = race_fresh [OF env s]
  have inv: "billing_inv u"
    using create_payment_inv [OF r] s rc(1,4) by (simp add: billing_state_def pay_ids_def)
  obtain t where t: "tenant_id ctx = Some t"
    using r by (cases "tenant_id ctx") (auto simp: create_payment_def repo_init_def)
  from r t have "grows s u"
  proof (cases rule: create_payment_cases)
    case (inserted f d)
    let ?s2 = "race env (s\<lparr>uuid_next := Suc (uuid_next s)\<rparr>)"
    let ?p = "new_payment (uuid_gen s (uuid_next s)) t amt purpose reference provider idem sub_id (now s)"
    let ?s3 = "?s2\<lparr>payments := payments ?s2 @ [?p]\<rparr>"
    have "grows s ?s3" using rc(2,6) by (intro grows_insert_payment) (simp_all add: new_payment_def)
    then have "grows s (set_payment (?p\<lparr>p_meta := checkout_meta [] c\<rparr>) ?s3)"
      by (simp add: grows_def drawn_def)
    then show ?thesis by (rule grows_trans) (rule same_tables_grows [OF inserted(7)])
  next
    case (lost q)
    then show ?thesis using rc(2) by simp
  next
    case (replay q)
    then show ?thesis by simp
  qed
  then show ?thesis using billing_state_grows [OF s inv] by blast
qed

subsection \<open>Growth of the subscription operations\<close>

lemma subs_ok_append:
  assumes ok: "subs_ok rows" and fresh: "s_id x \<notin> s_id ` set rows" and nc: "\<not> sub_conflict x rows"
  shows "subs_ok (rows @ [x])"
proof -
  have c: "\<not> (is_live x \<and> is_live y)" "\<not> (s_status x = SubPending \<and> s_status y = SubPending)"
    if "y \<in> set rows" "s_tenant y = s_tenant x" for y
    using nc that by (auto simp: sub_conflict_def list_ex_iff)
  show ?thesis
    unfolding subs_ok_def
  proof (intro conjI ballI impI)
    show "distinct (map s_id (rows @ [x]))" using ok fresh by (auto simp: subs_ok_def)
  next
    fix a b assume "a \<in> set (rows @ [x])" "b \<in> set (rows @ [x])" "s_tenant a = s_tenant b" "is_live a" "is_live b"
    then show "a = b" using ok c(1) [of a] c(1) [of b] unfolding subs_ok_def by auto
  next
    fix a b assume "a \<in> set (rows @ [x])" "b \<in> set (rows @ [x])" "s_tenant a = s_tenant b"
      "s_status a = SubPending" "s_status b = SubPending"
    then show "a = b" using ok c(2) [of a] c(2) [of b] unfolding subs_ok_def by auto
  qed
qed

lemma insert_sub_state:
  assumes s: "billing_state s" and g: "grows s s2" and inv: "billing_inv s2" and fresh: "s_id x \<in> drawn s s2"
    and new: "s_id x \<notin> sub_ids s2" and nc: "\<not> sub_conflict x (subs s2)"
  shows "billing_state (s2\<lparr>subs := subs s2 @ [x]\<rparr>)" and "grows s (s2\<lparr>subs := subs s2 @ [x]\<rparr>)"
proof -
  show gr: "grows s (s2\<lparr>subs := subs s2 @ [x]\<rparr>)" by (rule grows_insert_sub [OF g fresh])
  have "subs_ok (subs s2 @ [x])" using inv nc new by (intro subs_ok_append) (simp_all add: billing_inv_def sub_ids_def)
  moreover have "paid_ok (payments s2) (subs s2 @ [x])" using inv by (auto simp: billing_inv_def paid_ok_def)
  ultimately have "billing_inv (s2\<lparr>subs := subs s2 @ [x]\<rparr>)" using inv by (simp add: billing_inv_def)
  then show "billing_state (s2\<lparr>subs := subs s2 @ [x]\<rparr>)" by (rule billing_state_grows [OF s _ gr])
qed

lemma repo_add_sub:
  "s_tenant x = t \<Longrightarrow> repo_add stamp_sub sub_conflict t None x rows =
     (if sub_conflict x rows then Inl IntegrityError else Inr (rows @ [x]))"
  by (cases x) (simp add: repo_add_def stamp_sub_def)

lemma new_sub_sel [simp]:
  "s_tenant (new_sub i t pl st n fin) = t" "s_id (new_sub i t pl st n fin) = i" "s_status (new_sub i t pl st n fin) = st"
  "s_plan (new_sub i t pl st n fin) = pl_id pl"
  by (simp_all add: new_sub_def)

lemma checkout_for_state:
  assumes "checkout_for env ctx x provider s = (Inr c, u)" and "billing_state s" and "race_ok env"
  shows "billing_state u \<and> grows s u"
  using assms(1) create_payment_state [OF _ assms(2,3)]
  unfolding checkout_for_def on_ok_Inr_iff pure_op_iff by blast

lemma start_subscription_state:
  fixes s u :: "'z billing_db_scheme"
  assumes r: "start_subscription env acc ctx code provider s = (Inr c, u)" and s: "billing_state s" and env: "race_ok env"
  shows "billing_state u \<and> grows s u"
proof -
  from r obtain t pl where t: "tenant_id ctx = Some t" and pl: "plan_by_code code (plans s) = Inr pl" and pr: "pl_price pl \<noteq> 0"
    and g: "guard_require acc ctx SUBSCRIPTION_MANAGE = Inr ()"
    by (auto simp: start_subscription_def repo_init_def result_simps split: option.splits if_splits)
  show ?thesis
  proof (cases "repo_find s_tenant t (\<lambda>x. s_status x = SubPending) (subs s)")
    case (Cons x xs)
    then have "checkout_for env ctx x provider s = (Inr c, u)"
      using r t pl pr g by (simp add: start_subscription_def repo_init_def split: if_splits)
    then show ?thesis using s env by (rule checkout_for_state)
  next
    case Nil
    let ?i = "uuid_gen s (uuid_next s)"
    let ?s2 = "race env (s\<lparr>uuid_next := Suc (uuid_next s)\<rparr>)"
    let ?x = "\<lambda>fin. new_sub ?i t pl SubPending (now s) fin"
    from r t pl pr g Nil obtain fin where nc: "\<not> sub_conflict (?x fin) (subs ?s2)"
      and c: "checkout_for env ctx (?x fin) provider (?s2\<lparr>subs := subs ?s2 @ [?x fin]\<rparr>) = (Inr c, u)"
      by (auto simp: start_subscription_def repo_init_def new_uuid7_def result_simps repo_add_sub Let_def split: if_splits)
    note rc = race_fresh [OF env s]
    have "billing_state (?s2\<lparr>subs := subs ?s2 @ [?x fin]\<rparr>)" "grows s (?s2\<lparr>subs := subs ?s2 @ [?x fin]\<rparr>)"
      by (rule insert_sub_state [OF s rc(2,1)]; use rc nc in simp)+
    then show ?thesis using checkout_for_state [OF c _ env] grows_trans by blast
  qed
qed

lemma uuid_next_subs: "subs (s\<lparr>uuid_next := k\<rparr>) = subs s"
  by simp

lemma auto_subscribe_state:
  fixes s u :: "'z billing_db_scheme"
  assumes r: "auto_subscribe ctx code s = (Inr (), u)" and s: "billing_state s"
  shows "billing_state u \<and> grows s u"
proof -
  from r obtain t pl where t: "tenant_id ctx = Some t" and pl: "plan_by_code code (plans s) = Inr pl" and pr: "pl_price pl = 0"
    by (auto simp: auto_subscribe_def repo_init_def result_simps split: option.splits if_splits)
  show ?thesis
  proof (cases "repo_find s_tenant t is_live (subs s)")
    case (Cons x xs)
    then have "u = s" using r t pl pr by (simp add: auto_subscribe_def repo_init_def)
    then show ?thesis using s by simp
  next
    case Nil
    let ?i = "uuid_gen s (uuid_next s)"
    let ?s1 = "s\<lparr>uuid_next := Suc (uuid_next s)\<rparr>"
    let ?x = "\<lambda>fin. new_sub ?i t pl (if pl_trial_days pl > 0 then Trialing else Active) (now s) fin"
    from r t pl pr Nil obtain fin p eid where nc: "\<not> sub_conflict (?x fin) (subs s)"
      and e: "emit ''billing'' ctx ''billing.subscription.activated'' p (?s1\<lparr>subs := subs s @ [?x fin]\<rparr>) = (Inr eid, u)"
      by (auto simp: auto_subscribe_def repo_init_def new_uuid7_def result_simps repo_add_sub Let_def cong: if_cong split: if_splits)
    have g: "grows s ?s1" "?i \<in> drawn s ?s1" by (auto simp: grows_def drawn_def)
    have i: "billing_inv ?s1" "?i \<notin> sub_ids s" using s by (auto simp: billing_state_def billing_inv_def unused_ids_def)
    have ns: "billing_state (?s1\<lparr>subs := subs ?s1 @ [?x fin]\<rparr>)" "grows s (?s1\<lparr>subs := subs ?s1 @ [?x fin]\<rparr>)"
      by (rule insert_sub_state [OF s g(1) i(1)]; use g(2) nc i(2) in simp)+
    have st: "same_tables (?s1\<lparr>subs := subs ?s1 @ [?x fin]\<rparr>) u"
      using emit_tables [of "?s1\<lparr>subs := subs s @ [?x fin]\<rparr>" "''billing''" ctx "''billing.subscription.activated''" p]
      by (simp add: e)
    show ?thesis by (rule state_same_tables [OF ns st])
  qed
qed

lemma set_live_sub_state:
  assumes s: "billing_state s" and x: "x \<in> set (subs s)" and same: "s_id x' = s_id x" "s_tenant x' = s_tenant x"
    and live: "is_live x" and np: "s_status x' \<noteq> SubPending"
  shows "billing_state (set_sub x' s) \<and> grows s (set_sub x' s)"
proof -
  have d: "distinct (map s_id (subs s))" using s by (simp add: billing_state_def billing_inv_def subs_ok_def)
  have so: "subs_ok (subs (set_sub x' s))"
    by (rule subs_ok_set_sub [OF _ x same]) (use s live np in \<open>simp_all add: billing_state_def billing_inv_def\<close>)
  have S: "set (subs (set_sub x' s)) = insert x' (set (subs s) - {x})" by (rule set_set_sub [OF d x same(1)])
  have paid: "paid_ok (payments s) (subs (set_sub x' s))"
  proof (rule paid_ok_subs)
    show "paid_ok (payments s) (subs s)" using s by (simp add: billing_state_def billing_inv_def)
    show "\<exists>z \<in> set (subs (set_sub x' s)). s_id z = s_id y \<and> s_tenant z = s_tenant y \<and> s_status z \<noteq> SubPending"
      if "y \<in> set (subs s)" "s_status y \<noteq> SubPending" for y
      using that same np unfolding S by (cases "y = x") auto
  qed
  have g: "grows s (set_sub x' s)" by (simp add: grows_def)
  have "billing_inv (set_sub x' s)" using s so paid by (simp add: billing_state_def billing_inv_def)
  then show ?thesis using g billing_state_grows [OF s] by blast
qed

lemma cancel_subscription_state:
  assumes r: "cancel_subscription acc ctx s = (Inr d, u)" and s: "billing_state s"
  shows "billing_state u \<and> grows s u"
proof -
  from r obtain t x xs eid p where f: "repo_find s_tenant t is_live (subs s) = x # xs"
    and e: "emit ''billing'' ctx ''billing.subscription.canceled'' p
      (set_sub (x\<lparr>s_cancel_at_end := True, s_canceled_at := Some (now s)\<rparr>) s) = (Inr eid, u)"
    by (auto simp: cancel_subscription_def repo_init_def result_simps Let_def split: option.splits list.splits)
  have x: "x \<in> set (subs s)" "is_live x" using repo_find_iff [of x s_tenant t is_live "subs s"] by (simp_all add: f)
  let ?x = "x\<lparr>s_cancel_at_end := True, s_canceled_at := Some (now s)\<rparr>"
  have ns: "billing_state (set_sub ?x s) \<and> grows s (set_sub ?x s)"
    by (rule set_live_sub_state [OF s x(1)]) (use x(2) in \<open>auto simp: is_live_def LIVE_SUBSCRIPTION_STATES_def\<close>)
  have st: "same_tables (set_sub ?x s) u"
    using emit_tables [of "set_sub ?x s" "''billing''" ctx "''billing.subscription.canceled''" p] by (simp add: e)
  show ?thesis by (rule state_same_tables [OF conjunct1 [OF ns] conjunct2 [OF ns] st])
qed

lemma auto_subscribe_domain:
  assumes "auto_subscribe ctx code s = (Inl e, u)" and "is_domain e"
  shows "u = s"
proof -
  have "\<And>e. period_end a b = Inl e \<Longrightarrow> \<not> is_domain e" for a b
    by (auto simp: period_end_def replace_date_def Let_def is_domain_def split: if_splits)
  moreover have "\<not> is_domain IntegrityError" by (simp add: is_domain_def)
  ultimately show ?thesis using assms
    by (auto simp: auto_subscribe_def new_uuid7_def result_simps repo_add_sub Let_def emit_valid cong: if_cong split: if_splits)
qed

lemma close_ended_period_cases:
  fixes s u :: "'z billing_db_scheme"
  assumes r: "close_ended_period ctx i fallback s = (Inr b, u)"
  obtains (skip) "\<not> b" "u = s"
  | (roll) x pl st fin where "b" "x \<in> set (subs s)" "s_id x = i" "tenant_id ctx = Some (s_tenant x)" "is_live x"
      "s_end x \<le> now s" "get_plan (s_plan x) (plans s) = Some pl" "pl_price pl = 0" "\<not> s_cancel_at_end x"
      "roll_forward (s_start x) (s_end x) (pl_period pl) (now s) = Inr (st, fin)"
      "u = set_sub (x\<lparr>s_start := st, s_end := fin, s_status := Active\<rparr>) s"
  | (close) x s1 where "b" "x \<in> set (subs s)" "s_id x = i" "tenant_id ctx = Some (s_tenant x)" "is_live x" "s_end x \<le> now s"
      "same_tables (set_sub (x\<lparr>s_status := (if s_cancel_at_end x then SubCanceled else SubExpired),
         s_canceled_at := (if s_canceled_at x = None \<and> s_cancel_at_end x then Some (now s) else s_canceled_at x)\<rparr>) s) s1"
      "u = s1 \<or> (\<exists>code. fallback = Some code \<and> code \<noteq> [] \<and> auto_subscribe ctx code s1 = (Inr (), u))"
proof -
  from r obtain t where t: "tenant_id ctx = Some t"
    by (cases "tenant_id ctx") (auto simp: close_ended_period_def repo_init_def)
  show thesis
  proof (cases "find (\<lambda>x. s_id x = i \<and> s_tenant x = t) (subs s)")
    case None
    then show ?thesis using r t skip by (simp add: close_ended_period_def repo_init_def)
  next
    case (Some x)
    have x: "x \<in> set (subs s)" "s_id x = i" "tenant_id ctx = Some (s_tenant x)"
      using find_Some_set [OF Some] t by simp_all
    let ?pl = "get_plan (s_plan x) (plans s)"
    consider (a) "\<not> is_live x \<or> now s < s_end x"
      | (b) pl where "is_live x" "s_end x \<le> now s" "?pl = Some pl" "pl_price pl = 0" "\<not> s_cancel_at_end x"
      | (c) "is_live x" "s_end x \<le> now s" "\<not> ((case ?pl of Some q \<Rightarrow> pl_price q = 0 | None \<Rightarrow> False) \<and> \<not> s_cancel_at_end x)"
      by (cases ?pl; cases "is_live x"; cases "now s < s_end x") (auto simp: not_less)
    then show ?thesis
    proof cases
      case a
      then show ?thesis using r t Some skip by (simp add: close_ended_period_def repo_init_def Let_def)
    next
      case b
      then have "\<not> now s < s_end x" by simp
      then show ?thesis using r t Some b roll [OF _ x b(1,2)]
        by (auto simp: close_ended_period_def repo_init_def Let_def result_simps split: prod.splits)
    next
      case c
      let ?x = "x\<lparr>s_status := (if s_cancel_at_end x then SubCanceled else SubExpired),
         s_canceled_at := (if s_canceled_at x = None \<and> s_cancel_at_end x then Some (now s) else s_canceled_at x)\<rparr>"
      let ?p = "[(''subscription_id'', JStr (uuid_str (s_id ?x))), (''plan_code'', JStr (plan_code_of ?pl)),
                 (''status'', JStr (sub_status_str (s_status ?x)))]"
      obtain eid s1 where e: "emit ''billing'' ctx ''billing.subscription.ended'' ?p (set_sub ?x s) = (Inr eid, s1)"
        by (simp add: emit_valid)
      have st: "same_tables (set_sub ?x s) s1"
        using emit_tables [of "set_sub ?x s" "''billing''" ctx "''billing.subscription.ended''" ?p] by (simp only: e snd_conv)
      have "\<not> (\<not> is_live x \<or> now s < s_end x)" using c by simp
      then have "(case fallback of None \<Rightarrow> ret True s1
          | Some code \<Rightarrow> if code = [] then ret True s1 else (case auto_subscribe ctx code s1 of
                (Inl e, s') \<Rightarrow> if is_domain e then ret True s' else raise e s' | (Inr _, s') \<Rightarrow> ret True s')) = (Inr b, u)"
        using r t Some c(3) e unfolding close_ended_period_def repo_init_def Let_def by simp
      then have "b \<and> (u = s1 \<or> (\<exists>code. fallback = Some code \<and> code \<noteq> [] \<and> auto_subscribe ctx code s1 = (Inr (), u)))"
        using auto_subscribe_domain [of ctx _ s1] by (auto split: option.splits prod.splits sum.splits if_splits)
      then show ?thesis using close [OF _ x c(1,2) st] by blast
    qed
  qed
qed

lemma close_ended_period_state:
  fixes s u :: "'z billing_db_scheme"
  assumes r: "close_ended_period ctx i fallback s = (Inr b, u)" and s: "billing_state s"
  shows "billing_state u \<and> grows s u"
  using r
proof (cases rule: close_ended_period_cases)
  case (roll x pl st fin)
  show ?thesis
    unfolding roll(11) by (rule set_live_sub_state [OF s roll(2)]) (use roll(5) in simp_all)
next
  case (close x s1)
  let ?x = "x\<lparr>s_status := (if s_cancel_at_end x then SubCanceled else SubExpired),
     s_canceled_at := (if s_canceled_at x = None \<and> s_cancel_at_end x then Some (now s) else s_canceled_at x)\<rparr>"
  have ns: "billing_state (set_sub ?x s) \<and> grows s (set_sub ?x s)"
    by (rule set_live_sub_state [OF s close(2)]) (use close(5) in simp_all)
  have s1: "billing_state s1 \<and> grows s s1"
    by (rule state_same_tables [OF conjunct1 [OF ns] conjunct2 [OF ns] close(7)])
  from close(8) show ?thesis
  proof
    assume "\<exists>code. fallback = Some code \<and> code \<noteq> [] \<and> auto_subscribe ctx code s1 = (Inr (), u)"
    then show ?thesis using s1 auto_subscribe_state [of ctx _ s1 u] grows_trans by blast
  qed (use s1 in simp)
qed (use s in simp)
end
