(* ===== verification/Payment_Ports.thy ===== *)
theory Payment_Ports
  imports Payment_Service
begin

section \<open>The provider port\<close>

text \<open>
  \<^verbatim>\<open>core/billing/ports.py\<close>: the raw request, the normalized callback, the outcome and the
  response in the provider's dialect; and what the adapters use of the standard library to
  authenticate a request: \<^verbatim>\<open>hmac.compare_digest\<close>, \<^verbatim>\<open>base64\<close> and the UTF-8
  decoder.  The hash functions and \<^verbatim>\<open>json.loads\<close> are fields of \<open>crypto\<close>: the lemmas
  hold for every such function.

  A provider is the record \<open>provider_port\<close>, as the code has it in the class
  \<^verbatim>\<open>PaymentProvider\<close>; the contract the webhook processor relies on is a locale.
\<close>

datatype callback_action = Check | Create | Confirm | Cancel | Status

fun action_str :: "callback_action \<Rightarrow> string" where
  "action_str Check = ''check''"
| "action_str Create = ''create''"
| "action_str Confirm = ''confirm''"
| "action_str Cancel = ''cancel''"
| "action_str Status = ''status''"

datatype outcome_status = Ok | AlreadyProcessed | InvalidSignature | NotFound | AmountMismatch | InvalidState

record raw_webhook =
  rw_headers :: "(string \<times> string) list"
  rw_body :: string
  rw_form :: "(string \<times> string) list"

definition raw_header :: "raw_webhook \<Rightarrow> string \<Rightarrow> string option" where
  "raw_header raw name =
     map_option snd (find (\<lambda>(k, v). py_lower k = py_lower name) (rw_headers raw))"

record provider_callback =
  cb_provider :: string
  cb_txn :: "string option"
  cb_action :: callback_action
  cb_reference :: string
  cb_amount :: "money option"
  cb_raw :: payload
  cb_sig :: bool
  cb_reason :: "string option"

record callback_outcome =
  co_status :: outcome_status
  co_payment :: "payment_dto option"
  co_callback :: "provider_callback option"

record webhook_response =
  wr_status :: nat
  wr_body :: payload

record provider_port =
  pp_code :: string
  pp_parse :: "raw_webhook \<Rightarrow> exn + provider_callback"
  pp_respond :: "callback_outcome \<Rightarrow> exn + webhook_response"

record crypto =
  json_loads :: "string \<Rightarrow> json option"
  md5_hex :: "string \<Rightarrow> string"
  sha256_hex :: "string \<Rightarrow> string"
  hmac_sha256_hex :: "string \<Rightarrow> string \<Rightarrow> string"

subsection \<open>Constant-time comparison\<close>

definition compare_digest :: "string \<Rightarrow> string \<Rightarrow> exn + bool" where
  "compare_digest a b =
     (if \<not> is_ascii a \<or> \<not> is_ascii b
      then Inl (TypeError ''comparing strings with non-ASCII characters is not supported'')
      else Inr (a = b))"

subsection \<open>Base64 and UTF-8\<close>

definition b64_char :: "nat \<Rightarrow> char" where
  "b64_char k =
     (if k < 26 then char_of (65 + k) else if k < 52 then char_of (71 + k)
      else if k < 62 then char_of (k - 4) else if k = 62 then CHR ''+'' else CHR ''/'')"

definition b64_val :: "char \<Rightarrow> nat option" where
  "b64_val c =
     (let n = py_ord c in
      if 65 \<le> n \<and> n \<le> 90 then Some (n - 65)
      else if 97 \<le> n \<and> n \<le> 122 then Some (n - 71)
      else if 48 \<le> n \<and> n \<le> 57 then Some (n + 4)
      else if n = 43 then Some 62 else if n = 47 then Some 63 else None)"

fun b64_encode :: "nat list \<Rightarrow> string" where
  "b64_encode [] = []"
| "b64_encode [a] = [b64_char (a div 4), b64_char (a mod 4 * 16), CHR ''='', CHR ''='']"
| "b64_encode [a, b] = [b64_char (a div 4), b64_char (a mod 4 * 16 + b div 16), b64_char (b mod 16 * 4), CHR ''='']"
| "b64_encode (a # b # c # rest) =
     b64_char (a div 4) # b64_char (a mod 4 * 16 + b div 16) # b64_char (b mod 16 * 4 + c div 64) #
     b64_char (c mod 64) # b64_encode rest"

text \<open>Strict decoding (\<^verbatim>\<open>validate=True\<close>): groups of four alphabet characters, padding only
  at the end.  \<^const>\<open>None\<close> is \<^verbatim>\<open>binascii.Error\<close>.\<close>

fun b64_decode :: "string \<Rightarrow> nat list option" where
  "b64_decode [] = Some []"
| "b64_decode [c1, c2, c3, c4] =
     (case (b64_val c1, b64_val c2) of
        (Some x, Some y) \<Rightarrow>
          if c3 = CHR ''='' \<and> c4 = CHR ''='' then Some [x * 4 + y div 16]
          else (case b64_val c3 of
                  None \<Rightarrow> None
                | Some z \<Rightarrow>
                    if c4 = CHR ''='' then Some [x * 4 + y div 16, y mod 16 * 16 + z div 4]
                    else map_option (\<lambda>w. [x * 4 + y div 16, y mod 16 * 16 + z div 4, z mod 4 * 64 + w]) (b64_val c4))
      | _ \<Rightarrow> None)"
| "b64_decode (c1 # c2 # c3 # c4 # rest) =
     (case (b64_val c1, b64_val c2, b64_val c3, b64_val c4) of
        (Some x, Some y, Some z, Some w) \<Rightarrow>
          map_option (\<lambda>bs. (x * 4 + y div 16) # (y mod 16 * 16 + z div 4) # (z mod 4 * 64 + w) # bs) (b64_decode rest)
      | _ \<Rightarrow> None)"
| "b64_decode _ = None"

definition is_cont :: "nat \<Rightarrow> bool" where
  "is_cont b = (128 \<le> b \<and> b \<le> 191)"

text \<open>Well-formed UTF-8: shortest forms, no surrogates, up to U+10FFFF.\<close>

fun utf8_ok :: "nat list \<Rightarrow> bool" where
  "utf8_ok [] = True"
| "utf8_ok (a # bs) =
     (if a < 128 then utf8_ok bs
      else if 194 \<le> a \<and> a \<le> 223 then
        (case bs of b # r \<Rightarrow> is_cont b \<and> utf8_ok r | _ \<Rightarrow> False)
      else if 224 \<le> a \<and> a \<le> 239 then
        (case bs of
           b # c # r \<Rightarrow> is_cont b \<and> is_cont c \<and> (a = 224 \<longrightarrow> 160 \<le> b) \<and> (a = 237 \<longrightarrow> b \<le> 159) \<and> utf8_ok r
         | _ \<Rightarrow> False)
      else if 240 \<le> a \<and> a \<le> 244 then
        (case bs of
           b # c # d # r \<Rightarrow>
             is_cont b \<and> is_cont c \<and> is_cont d \<and> (a = 240 \<longrightarrow> 144 \<le> b) \<and> (a = 244 \<longrightarrow> b \<le> 143) \<and> utf8_ok r
         | _ \<Rightarrow> False)
      else False)"

definition utf8_encode :: "string \<Rightarrow> nat list" where
  "utf8_encode s = concat (map utf8_bytes s)"

lemma b64_val_char: "k < 64 \<Longrightarrow> b64_val (b64_char k) = Some k"
  by (auto simp: b64_val_def b64_char_def py_ord_def Let_def)

lemma b64_char_not_pad: "k < 64 \<Longrightarrow> b64_char k \<noteq> CHR ''=''"
proof -
  assume k: "k < 64"
  have "b64_val (CHR ''='') = None" by (simp add: b64_val_def py_ord_def)
  then show ?thesis using b64_val_char [OF k] by auto
qed

lemma b64_groups:
  fixes a b c :: nat
  assumes "a < 256" "b < 256" "c < 256"
  shows "a div 4 < 64" "a mod 4 * 16 < 64" "a mod 4 * 16 + b div 16 < 64" "b mod 16 * 4 < 64"
    "b mod 16 * 4 + c div 64 < 64" "c mod 64 < 64"
proof -
  have "a div 4 < 64" "b div 16 < 16" "c div 64 < 4"
    using assms by (simp_all add: less_mult_imp_div_less)
  moreover have "a mod 4 < 4" "b mod 16 < 16" by simp_all
  ultimately show "a div 4 < 64" "a mod 4 * 16 < 64" "a mod 4 * 16 + b div 16 < 64" "b mod 16 * 4 < 64"
    "b mod 16 * 4 + c div 64 < 64" by linarith+
qed simp

lemma byte_parts:
  fixes b :: nat
  assumes "b < 256"
  shows "b div 16 div 16 = 0" "b div 16 mod 16 = b div 16" "b div 64 div 4 = 0" "b div 64 mod 4 = b div 64"
proof -
  have "b div 16 < 16" "b div 64 < 4" using assms by (simp_all add: less_mult_imp_div_less)
  then show "b div 16 div 16 = 0" "b div 16 mod 16 = b div 16" "b div 64 div 4 = 0" "b div 64 mod 4 = b div 64"
    by simp_all
qed

theorem b64_decode_encode: "list_all (\<lambda>b. b < 256) bs \<Longrightarrow> b64_decode (b64_encode bs) = Some bs"
proof (induction bs rule: b64_encode.induct)
  case (2 a)
  then show ?case using b64_groups [of a 0 0] by (simp add: b64_val_char)
next
  case (3 a b)
  then show ?case
    using b64_groups [of a b 0] byte_parts [of b] by (simp add: b64_val_char b64_char_not_pad)
next
  case (4 a b c rest)
  then have bs: "a < 256" "b < 256" "c < 256" "list_all (\<lambda>b. b < 256) rest" by simp_all
  note g = b64_groups [OF bs(1-3)] and q = byte_parts [OF bs(2)] byte_parts [OF bs(3)]
  show ?case
  proof (cases "b64_encode rest")
    case Nil
    then have "rest = []" by (cases rest rule: b64_encode.cases) auto
    then show ?thesis using g q by (simp add: b64_val_char b64_char_not_pad)
  next
    case (Cons x xs)
    then show ?thesis using "4.IH" bs(4) g q by (simp add: b64_val_char)
  qed
qed simp

end
