(* ===== verification/Payme_Adapter.thy ===== *)
theory Payme_Adapter
  imports Payment_Ports
begin

section \<open>The Payme adapter\<close>

text \<open>
  \<^verbatim>\<open>core/billing/adapters/payme.py\<close>.  The rounding of \<^verbatim>\<open>int(moment.timestamp() * 1000)\<close>
  in binary floating point is the field \<open>pm_ms\<close> of the provider.
\<close>

definition TIYIN_PER_SUM :: int where
  "TIYIN_PER_SUM = 100"

definition PAYME_CURRENCY :: string where
  "PAYME_CURRENCY = ''UZS''"

definition METHOD_ACTIONS :: "string \<Rightarrow> callback_action option" where
  "METHOD_ACTIONS = map_of
     [(''CheckPerformTransaction'', Check), (''CreateTransaction'', Create), (''PerformTransaction'', Confirm),
      (''CancelTransaction'', Cancel), (''CheckTransaction'', Status)]"

definition TXN_KEYED_ACTIONS :: "callback_action list" where
  "TXN_KEYED_ACTIONS = [Confirm, Cancel, Status]"

definition payme_error :: "outcome_status \<Rightarrow> int \<times> string" where
  "payme_error st =
     (case st of
        InvalidSignature \<Rightarrow> (- 32504, ''Insufficient privilege'')
      | AmountMismatch \<Rightarrow> (- 31001, ''Invalid amount'')
      | InvalidState \<Rightarrow> (- 31008, ''Unable to perform operation'')
      | NotFound \<Rightarrow> (- 31050, ''Order not found'')
      | _ \<Rightarrow> (- 31008, ''Unable to perform operation''))"

definition STATE_OPEN :: int where "STATE_OPEN = 1"
definition STATE_PERFORMED :: int where "STATE_PERFORMED = 2"
definition STATE_CANCELED :: int where "STATE_CANCELED = - 1"
definition REASON_TIMEOUT :: int where "REASON_TIMEOUT = 4"

definition to_tiyin :: "money \<Rightarrow> exn + int" where
  "to_tiyin m =
     (if m_currency m \<noteq> PAYME_CURRENCY
      then Inl (Domain PaymentProviderError (''Payme supports only UZS, got '' @ m_currency m))
      else Inr (m_amount m * TIYIN_PER_SUM))"

text \<open>The argument is a decoded JSON value; a boolean is an \<^verbatim>\<open>int\<close> in Python.\<close>

definition minor_units_from_tiyin :: "json \<Rightarrow> exn + int" where
  "minor_units_from_tiyin j =
     (let err = Inl (Domain PaymentProviderError (''invalid Payme amount in tiyin: '' @ py_repr j));
          f = (\<lambda>n. if n < 0 \<or> n mod TIYIN_PER_SUM \<noteq> 0 then err else Inr (n div TIYIN_PER_SUM))
      in case j of JInt n \<Rightarrow> f n | JBool b \<Rightarrow> f (if b then 1 else 0) | _ \<Rightarrow> err)"

record payme =
  pm_merchant_id :: string
  pm_expected_auth :: string
  pm_ms :: "datetime \<Rightarrow> int"

definition payme_init :: "(datetime \<Rightarrow> int) \<Rightarrow> string \<Rightarrow> string \<Rightarrow> exn + payme" where
  "payme_init ms merchant_id merchant_key =
     (if merchant_id = [] \<or> merchant_key = []
      then Inl (Domain PaymentProviderError ''Payme adapter requires merchant_id and merchant_key'')
      else Inr \<lparr>pm_merchant_id = merchant_id, pm_expected_auth = ''Paycom:'' @ merchant_key, pm_ms = ms\<rparr>)"

definition payme_create_checkout :: "payme \<Rightarrow> checkout_fn" where
  "payme_create_checkout pm d return_url =
     and_then (to_tiyin (pd_amount d)) (\<lambda>tiyin.
       (let params = [''m='' @ pm_merchant_id pm, ''ac.payment_id='' @ uuid_str (pd_id d), ''a='' @ show_int tiyin]
              @ (case return_url of Some u \<Rightarrow> if u = [] then [] else [''c='' @ u] | None \<Rightarrow> []);
            encoded = b64_encode (utf8_encode (join_with '';'' params))
        in Inr \<lparr>c_payment = pd_id d, c_provider = ''payme'',
                c_url = ''https://checkout.paycom.uz/'' @ encoded, c_expires = None\<rparr>))"

subsection \<open>Requests\<close>

definition decode_jsonrpc :: "crypto \<Rightarrow> string \<Rightarrow> exn + payload" where
  "decode_jsonrpc cr body =
     (case json_loads cr body of
        None \<Rightarrow> Inl (Domain WebhookVerificationError ''payme: body is not valid JSON'')
      | Some (JObj d) \<Rightarrow>
          if jhas d ''method'' then Inr d else Inl (Domain WebhookVerificationError ''payme: not a JSON-RPC request'')
      | Some _ \<Rightarrow> Inl (Domain WebhookVerificationError ''payme: not a JSON-RPC request''))"

definition payme_auth_ok :: "payme \<Rightarrow> raw_webhook \<Rightarrow> exn + bool" where
  "payme_auth_ok pm raw =
     (case raw_header raw ''authorization'' of
        None \<Rightarrow> Inr False
      | Some header \<Rightarrow>
          if header = [] \<or> \<not> startswith (py_lower header) ''basic '' then Inr False
          else (let token = strip ch_space (drop 6 header) in
                if \<not> is_ascii token then Inl (ValueError ''string argument should contain only ASCII characters'')
                else (case b64_decode token of
                        None \<Rightarrow> Inr False
                      | Some bytes \<Rightarrow>
                          if \<not> utf8_ok bytes then Inr False
                          else if \<not> list_all (\<lambda>b. b < 128) bytes
                          then Inl (TypeError ''comparing strings with non-ASCII characters is not supported'')
                          else compare_digest (map char_of bytes) (pm_expected_auth pm))))"

definition payme_normalize :: "callback_action \<Rightarrow> payload \<Rightarrow> exn + (string option \<times> string \<times> money option)" where
  "payme_normalize action params =
     (if action = Check \<or> action = Create
      then (let account = jget params ''account'';
                reference = (case (if jtruthy account then account else JObj []) of
                               JObj ms \<Rightarrow> py_str (jget_or ms ''payment_id'' (JStr []))
                             | _ \<Rightarrow> []);
                txn = (if action = Create \<and> jhas params ''id'' then Some (py_str (jget params ''id'')) else None)
            in and_then (case minor_units_from_tiyin (jget_or params ''amount'' (JInt 0)) of
                           Inl e \<Rightarrow> mk_money 0 PAYME_CURRENCY
                         | Inr n \<Rightarrow> mk_money n PAYME_CURRENCY) (\<lambda>m.
               Inr (txn, reference, Some m)))
      else Inr (if jhas params ''id'' then Some (py_str (jget params ''id'')) else None, [], None))"

definition payme_parse :: "crypto \<Rightarrow> payme \<Rightarrow> raw_webhook \<Rightarrow> exn + provider_callback" where
  "payme_parse cr pm raw =
     and_then (decode_jsonrpc cr (rw_body raw)) (\<lambda>data.
       (let meth = jget data ''method'' in
        case (if meth \<noteq> JNull then METHOD_ACTIONS (py_str meth) else None) of
          None \<Rightarrow> Inl (Domain WebhookVerificationError (''payme: unsupported method '' @ py_repr meth))
        | Some action \<Rightarrow>
            (case (let p = jget data ''params'' in if jtruthy p then p else JObj []) of
               JObj params \<Rightarrow>
                 and_then (payme_normalize action params) (\<lambda>(txn, reference, amt).
                 and_then (payme_auth_ok pm raw) (\<lambda>auth.
                   (let reason = (if action = Cancel then jget params ''reason'' else JNull)
                    in Inr \<lparr>cb_provider = ''payme'', cb_txn = txn, cb_action = action, cb_reference = reference,
                            cb_amount = amt,
                            cb_raw = [(''id'', jget data ''id''), (''method'', meth), (''params'', JObj params)],
                            cb_sig = auth,
                            cb_reason = (if reason = JNull then None else Some (py_str reason))\<rparr>)))
             | _ \<Rightarrow> Inl (Domain WebhookVerificationError ''payme: params is not an object''))))"

subsection \<open>Responses\<close>

definition payme_ms :: "payme \<Rightarrow> datetime option \<Rightarrow> int" where
  "payme_ms pm d = (case d of Some t \<Rightarrow> pm_ms pm t | None \<Rightarrow> 0)"

definition payme_state :: "payment_dto \<Rightarrow> int" where
  "payme_state p =
     (if pd_status p = Succeeded then STATE_PERFORMED
      else if pd_status p = Created \<or> pd_status p = Pending then STATE_OPEN
      else STATE_CANCELED)"

definition payme_reason :: "payment_dto \<Rightarrow> exn + int option" where
  "payme_reason p =
     (if payme_state p \<noteq> STATE_CANCELED then Inr None
      else (let timeout = (if pd_status p = Expired then Some REASON_TIMEOUT else None) in
            case pd_failure p of
              None \<Rightarrow> Inr timeout
            | Some f \<Rightarrow>
                if py_isdigit (lstrip (\<lambda>c. c = CHR ''-'') f)
                then (case py_int 10 f of
                        None \<Rightarrow> Inl (ValueError (''invalid literal for int() with base 10: '' @ repr_str f))
                      | Some i \<Rightarrow> Inr (Some i))
                else Inr timeout))"

definition payme_request_id :: "callback_outcome \<Rightarrow> json" where
  "payme_request_id out = (case co_callback out of Some cb \<Rightarrow> jget (cb_raw cb) ''id'' | None \<Rightarrow> JNull)"

definition payme_success_result :: "payme \<Rightarrow> callback_outcome \<Rightarrow> exn + payload" where
  "payme_success_result pm out =
     (let action = map_option cb_action (co_callback out) in
      if action = Some Check then Inr [(''allow'', JBool True)]
      else (case co_payment out of
              None \<Rightarrow> Inr []
            | Some p \<Rightarrow>
                (let txn = (''transaction'', JStr (uuid_str (pd_id p))); st = (''state'', JInt (payme_state p)) in
                 if action = Some Create
                 then Inr [(''create_time'', JInt (payme_ms pm (pd_pending_at p))), txn, st]
                 else if action = Some Confirm
                 then Inr [txn, (''perform_time'', JInt (payme_ms pm (pd_paid_at p))), st]
                 else if action = Some Cancel
                 then Inr [txn, (''cancel_time'', JInt (payme_ms pm (pd_closed_at p))), st]
                 else and_then (payme_reason p) (\<lambda>r.
                   Inr [(''create_time'', JInt (payme_ms pm (pd_pending_at p))),
                        (''perform_time'', JInt (payme_ms pm (pd_paid_at p))),
                        (''cancel_time'', JInt (payme_ms pm (pd_closed_at p))), txn, st,
                        (''reason'', case r of Some i \<Rightarrow> JInt i | None \<Rightarrow> JNull)]))))"

definition payme_respond :: "payme \<Rightarrow> callback_outcome \<Rightarrow> exn + webhook_response" where
  "payme_respond pm out =
     (let rid = payme_request_id out;
          action = map_option cb_action (co_callback out);
          closed = (case co_payment out of Some p \<Rightarrow> pd_status p \<noteq> Pending | None \<Rightarrow> False);
          st = (if action = Some Create \<and> (co_status out = Ok \<or> co_status out = AlreadyProcessed) \<and> closed
                then InvalidState else co_status out)
      in if st = Ok \<or> st = AlreadyProcessed
         then and_then (payme_success_result pm out) (\<lambda>r.
                Inr \<lparr>wr_status = 200, wr_body = [(''result'', JObj r), (''id'', rid)]\<rparr>)
         else (let (code, message) =
                     (if st = NotFound \<and> (\<exists>a \<in> set TXN_KEYED_ACTIONS. action = Some a)
                      then (- 31003, ''Transaction not found'') else payme_error st)
               in Inr \<lparr>wr_status = 200,
                       wr_body = [(''error'', JObj [(''code'', JInt code), (''message'', JStr message)]), (''id'', rid)]\<rparr>))"

definition payme_port :: "crypto \<Rightarrow> payme \<Rightarrow> provider_port" where
  "payme_port cr pm = \<lparr>pp_code = ''payme'', pp_parse = payme_parse cr pm, pp_respond = payme_respond pm\<rparr>"

end
