(* ===== verification/Click_Adapter.thy ===== *)
theory Click_Adapter
  imports Payment_Ports
begin

section \<open>The Click adapter\<close>

text \<open>
  \<^verbatim>\<open>core/billing/adapters/click.py\<close>, with the literals of \<^verbatim>\<open>decimal.Decimal\<close> that the
  parser of amounts relies on: sign, coefficient and exponent, infinities and NaNs.
\<close>

subsection \<open>Decimal literals\<close>

datatype decimal = DFin bool nat int | DInf bool | DNaN

definition digits_value :: "string \<Rightarrow> nat" where
  "digits_value s = foldl (\<lambda>n c. 10 * n + (py_ord c - 48)) 0 s"

definition decimal_exponent :: "string \<Rightarrow> int option" where
  "decimal_exponent s =
     (let (neg, ds) = (case s of
            [] \<Rightarrow> (False, [])
          | c # cs \<Rightarrow> if c = CHR ''-'' then (True, cs) else if c = CHR ''+'' then (False, cs) else (False, s))
      in if ds \<noteq> [] \<and> list_all ch_dec ds
         then Some (if neg then - int (digits_value ds) else int (digits_value ds)) else None)"

definition decimal_number :: "bool \<Rightarrow> string \<Rightarrow> decimal option" where
  "decimal_number neg s =
     (let ip = takeWhile ch_dec s; r = dropWhile ch_dec s;
          dot = (r \<noteq> [] \<and> hd r = CHR ''.'');
          fp = (if dot then takeWhile ch_dec (tl r) else []);
          r2 = (if dot then dropWhile ch_dec (tl r) else r)
      in if ip = [] \<and> fp = [] then None
         else (let coeff = digits_value (ip @ fp) in
               case r2 of
                 [] \<Rightarrow> Some (DFin neg coeff (- int (length fp)))
               | c # ex \<Rightarrow>
                   if c = CHR ''e'' then map_option (\<lambda>k. DFin neg coeff (k - int (length fp))) (decimal_exponent ex)
                   else None))"

text \<open>\<^verbatim>\<open>Decimal(str)\<close>; \<^const>\<open>None\<close> is \<^verbatim>\<open>InvalidOperation\<close>.\<close>

definition decimal_of :: "string \<Rightarrow> decimal option" where
  "decimal_of s0 =
     (let s1 = py_lower (filter (\<lambda>c. c \<noteq> CHR ''_'') (strip ch_space s0));
          (neg, s) = (case s1 of
             [] \<Rightarrow> (False, [])
           | c # cs \<Rightarrow> if c = CHR ''-'' then (True, cs) else if c = CHR ''+'' then (False, cs) else (False, s1))
      in if s = ''inf'' \<or> s = ''infinity'' then Some (DInf neg)
         else if startswith s ''nan'' \<and> list_all ch_dec (drop 3 s) then Some DNaN
         else if startswith s ''snan'' \<and> list_all ch_dec (drop 4 s) then Some DNaN
         else decimal_number neg s)"

subsection \<open>Amounts\<close>

definition CLICK_CURRENCY :: string where
  "CLICK_CURRENCY = ''UZS''"

definition to_sum_amount :: "money \<Rightarrow> exn + string" where
  "to_sum_amount m =
     (if m_currency m \<noteq> CLICK_CURRENCY
      then Inl (Domain PaymentProviderError (''Click supports only UZS, got '' @ m_currency m))
      else Inr (show_int (m_amount m)))"

text \<open>Comparing a NaN raises \<^verbatim>\<open>InvalidOperation\<close> and converting an infinity raises
  \<^verbatim>\<open>OverflowError\<close>: neither is a provider error.\<close>

definition minor_units_from_sum :: "string \<Rightarrow> exn + int" where
  "minor_units_from_sum v =
     (case decimal_of v of
        None \<Rightarrow> Inl (Domain PaymentProviderError (''invalid Click amount: '' @ repr_str v))
      | Some DNaN \<Rightarrow> Inl (ArithmeticError ''InvalidOperation: comparison involving NaN'')
      | Some (DInf neg) \<Rightarrow>
          if neg then Inl (Domain PaymentProviderError (''non-integral Click amount for UZS: '' @ repr_str v))
          else Inl (ArithmeticError ''cannot convert Infinity to integer'')
      | Some (DFin neg c e) \<Rightarrow>
          if (neg \<and> c \<noteq> 0) \<or> (e < 0 \<and> c mod 10 ^ nat (- e) \<noteq> 0)
          then Inl (Domain PaymentProviderError (''non-integral Click amount for UZS: '' @ repr_str v))
          else Inr (int (if e < 0 then c div 10 ^ nat (- e) else c * 10 ^ nat e)))"

subsection \<open>The provider\<close>

record click =
  ck_service_id :: string
  ck_merchant_id :: string
  ck_secret_key :: string

definition click_init :: "string \<Rightarrow> string \<Rightarrow> string \<Rightarrow> exn + click" where
  "click_init service_id merchant_id secret_key =
     (if service_id = [] \<or> merchant_id = [] \<or> secret_key = []
      then Inl (Domain PaymentProviderError ''Click adapter requires service_id, merchant_id and secret_key'')
      else Inr \<lparr>ck_service_id = service_id, ck_merchant_id = merchant_id, ck_secret_key = secret_key\<rparr>)"

definition click_create_checkout :: "click \<Rightarrow> checkout_fn" where
  "click_create_checkout ck d return_url =
     and_then (to_sum_amount (pd_amount d)) (\<lambda>a.
       (let query = [(''service_id'', ck_service_id ck), (''merchant_id'', ck_merchant_id ck), (''amount'', a),
                     (''transaction_param'', uuid_str (pd_id d))]
              @ (case return_url of Some u \<Rightarrow> if u = [] then [] else [(''return_url'', u)] | None \<Rightarrow> [])
        in Inr \<lparr>c_payment = pd_id d, c_provider = ''click'',
                c_url = ''https://my.click.uz/services/pay?'' @ urlencode query, c_expires = None\<rparr>))"

definition CLICK_ACTIONS :: "string \<Rightarrow> callback_action option" where
  "CLICK_ACTIONS = map_of [(''0'', Create), (''1'', Confirm)]"

definition form_get :: "(string \<times> string) list \<Rightarrow> string \<Rightarrow> string \<Rightarrow> string" where
  "form_get form k d = (case map_of form k of Some v \<Rightarrow> v | None \<Rightarrow> d)"

definition int_or_none :: "string option \<Rightarrow> int option" where
  "int_or_none v = (case v of Some s \<Rightarrow> py_int 10 s | None \<Rightarrow> py_int 10 ''None'')"

definition click_sign :: "crypto \<Rightarrow> click \<Rightarrow> (string \<times> string) list \<Rightarrow> string \<Rightarrow> string" where
  "click_sign cr ck form action_code =
     md5_hex cr
       (form_get form ''click_trans_id'' [] @ form_get form ''service_id'' [] @ ck_secret_key ck @
        form_get form ''merchant_trans_id'' [] @
        (if action_code = ''1'' then form_get form ''merchant_prepare_id'' [] else []) @
        form_get form ''amount'' [] @ action_code @ form_get form ''sign_time'' [])"

definition click_sign_ok :: "crypto \<Rightarrow> click \<Rightarrow> (string \<times> string) list \<Rightarrow> string \<Rightarrow> exn + bool" where
  "click_sign_ok cr ck form action_code =
     compare_digest (form_get form ''sign_string'' []) (click_sign cr ck form action_code)"

definition click_parse :: "crypto \<Rightarrow> click \<Rightarrow> raw_webhook \<Rightarrow> exn + provider_callback" where
  "click_parse cr ck raw =
     (let form = rw_form raw in
      case (map_of form ''action'', map_of form ''click_trans_id'') of
        (Some action_code, Some trans_id) \<Rightarrow>
          (case CLICK_ACTIONS action_code of
             None \<Rightarrow> Inl (Domain WebhookVerificationError (''click: unsupported action '' @ repr_str action_code))
           | Some action0 \<Rightarrow>
               and_then (case minor_units_from_sum (form_get form ''amount'' ''0'') of
                           Inr n \<Rightarrow> mk_money n CLICK_CURRENCY
                         | Inl e \<Rightarrow> if exn_is PaymentProviderError e then mk_money 0 CLICK_CURRENCY else Inl e) (\<lambda>amount0.
                 (let click_error = int_or_none (map_of form ''error'');
                      failed = (action0 = Confirm \<and> (case click_error of Some i \<Rightarrow> i < 0 | None \<Rightarrow> False))
                  in and_then (click_sign_ok cr ck form action_code) (\<lambda>sig.
                    Inr \<lparr>cb_provider = ''click'', cb_txn = Some trans_id,
                         cb_action = (if failed then Cancel else action0),
                         cb_reference = form_get form ''merchant_trans_id'' [],
                         cb_amount = (if failed then None else Some amount0),
                         cb_raw = map (\<lambda>(k, v). (k, JStr v)) form, cb_sig = sig,
                         cb_reason = (if failed then map_option show_int click_error else None)\<rparr>))))
      | _ \<Rightarrow> Inl (Domain WebhookVerificationError ''click: not a SHOP-API callback''))"

definition click_error_code :: "outcome_status \<Rightarrow> int \<times> string" where
  "click_error_code st =
     (case st of
        InvalidSignature \<Rightarrow> (- 1, ''SIGN CHECK FAILED'')
      | AmountMismatch \<Rightarrow> (- 2, ''Incorrect parameter amount'')
      | NotFound \<Rightarrow> (- 5, ''Order not found'')
      | InvalidState \<Rightarrow> (- 4, ''Already paid'')
      | _ \<Rightarrow> (- 6, ''Transaction does not exist''))"

definition click_respond :: "callback_outcome \<Rightarrow> exn + webhook_response" where
  "click_respond out =
     (let raw = (case co_callback out of Some cb \<Rightarrow> cb_raw cb | None \<Rightarrow> []);
          prep = jget raw ''merchant_prepare_id'';
          prepare_id = (if jtruthy prep then Some prep
                        else map_option (\<lambda>p. JStr (uuid_str (pd_id p))) (co_payment out));
          head = [(''click_trans_id'', jget raw ''click_trans_id''), (''merchant_trans_id'', jget raw ''merchant_trans_id'')]
            @ (case prepare_id of Some v \<Rightarrow> [(''merchant_prepare_id'', v)] | None \<Rightarrow> []);
          canceled = (map_option cb_action (co_callback out) = Some Cancel);
          good = (co_status out = Ok \<or> co_status out = AlreadyProcessed);
          (code, note) = (if good \<and> canceled then (- 9, ''Transaction cancelled'')
                          else if good then (0, ''Success'') else click_error_code (co_status out))
      in Inr \<lparr>wr_status = 200, wr_body = head @ [(''error'', JInt code), (''error_note'', JStr note)]\<rparr>)"

definition click_port :: "crypto \<Rightarrow> click \<Rightarrow> provider_port" where
  "click_port cr ck = \<lparr>pp_code = ''click'', pp_parse = click_parse cr ck, pp_respond = click_respond\<rparr>"

end
