(* ===== verification/Resilience.thy ===== *)
theory Resilience
  imports Shared_Kernel Complex_Main
begin

section \<open>Outbound calls: backoff, circuit breaker, bounded retries\<close>

text \<open>
  \<^verbatim>\<open>shared/resilience.py\<close>.  Delays are rationals where the code has floats, and the random
  factor of the jitter is an argument in \<open>[-1, 1]\<close>.  The clock is read at the moments the code
  reads it: \<open>t_allow k\<close> and \<open>t_fail k\<close> are its values in attempt \<open>k\<close>.  What attempt
  \<open>k\<close> of the operation does is \<open>operation k\<close>.
\<close>

record retry_policy =
  rp_attempts :: int
  rp_base_delay :: rat
  rp_max_delay :: rat
  rp_multiplier :: rat
  rp_jitter :: rat

definition mk_retry_policy :: "int \<Rightarrow> rat \<Rightarrow> rat \<Rightarrow> rat \<Rightarrow> rat \<Rightarrow> exn + retry_policy" where
  "mk_retry_policy attempts base mx factor jit =
     (if attempts < 1 then Inl (ValueError ''RetryPolicy.attempts must be >= 1'')
      else Inr \<lparr>rp_attempts = attempts, rp_base_delay = base, rp_max_delay = mx, rp_multiplier = factor, rp_jitter = jit\<rparr>)"

definition delay_for :: "retry_policy \<Rightarrow> nat \<Rightarrow> rat \<Rightarrow> rat" where
  "delay_for rp failed_attempt u =
     (let raw0 = rp_base_delay rp * rp_multiplier rp ^ (failed_attempt - 1);
          raw1 = min raw0 (rp_max_delay rp);
          raw2 = (if rp_jitter rp \<noteq> 0 then raw1 * (1 + rp_jitter rp * u) else raw1)
      in max 0 raw2)"

datatype breaker_state = Closed | Open | HalfOpen

record breaker =
  br_name :: string
  br_threshold :: int
  br_recovery :: rat
  br_failures :: int
  br_opened_at :: rat
  br_state :: breaker_state

definition mk_breaker :: "string \<Rightarrow> int \<Rightarrow> rat \<Rightarrow> breaker" where
  "mk_breaker name threshold recovery =
     \<lparr>br_name = name, br_threshold = threshold, br_recovery = recovery, br_failures = 0, br_opened_at = 0,
      br_state = Closed\<rparr>"

definition breaker_allow :: "rat \<Rightarrow> breaker \<Rightarrow> bool \<times> breaker" where
  "breaker_allow t b =
     (let b' = (if br_state b = Open \<and> t - br_opened_at b \<ge> br_recovery b then b\<lparr>br_state := HalfOpen\<rparr> else b)
      in (br_state b' \<noteq> Open, b'))"

definition record_success :: "breaker \<Rightarrow> breaker" where
  "record_success b = b\<lparr>br_failures := 0, br_state := Closed\<rparr>"

definition record_failure :: "rat \<Rightarrow> breaker \<Rightarrow> breaker" where
  "record_failure t b =
     (let b1 = b\<lparr>br_failures := br_failures b + 1\<rparr>
      in if br_state b1 = HalfOpen \<or> br_failures b1 \<ge> br_threshold b1
         then b1\<lparr>br_state := Open, br_opened_at := t\<rparr> else b1)"

text \<open>An attempt returns, fails with an error of the transient set (with its text and, for an
  external-service error, its class), raises something else, or is cancelled.\<close>

datatype 'a attempt =
    Returns 'a
  | Transient "error_class option" string
  | Fatal exn

fun call_loop :: "nat \<Rightarrow> nat \<Rightarrow> (nat \<Rightarrow> 'a attempt) \<Rightarrow> (nat \<Rightarrow> rat) \<Rightarrow> (nat \<Rightarrow> rat) \<Rightarrow> error_class \<Rightarrow> breaker option \<Rightarrow>
    (exn + 'a) \<times> breaker option \<times> nat" where
  \<comment> \<open>\<open>call_loop left k\<close>: attempt \<open>k\<close> is next and \<open>left\<close> attempts remain; the last
    component counts the calls of the operation.\<close>
  "call_loop 0 k op t_allow t_fail err br = (Inl (RuntimeError ''unreachable''), br, 0)"
| "call_loop (Suc left) k op t_allow t_fail err br =
     (let (ok, br1) = (case br of None \<Rightarrow> (True, None) | Some b \<Rightarrow> apsnd Some (breaker_allow (t_allow k) b))
      in if \<not> ok
         then (Inl (Domain CircuitOpenError (''circuit open for '' @ br_name (the br1))), br1, 0)
         else (case op k of
                 Returns x \<Rightarrow> (Inr x, map_option record_success br1, 1)
               | Fatal e \<Rightarrow> (Inl e, br1, 1)
               | Transient c msg \<Rightarrow>
                   (let br2 = map_option (record_failure (t_fail k)) br1
                    in if left = 0
                       then (Inl (Domain (case c of Some cls \<Rightarrow> cls | None \<Rightarrow> err) msg), br2, 1)
                       else (let (r, br3, n) = call_loop left (Suc k) op t_allow t_fail err br2 in (r, br3, Suc n)))))"

definition call_resilient :: "retry_policy \<Rightarrow> (nat \<Rightarrow> 'a attempt) \<Rightarrow> (nat \<Rightarrow> rat) \<Rightarrow> (nat \<Rightarrow> rat) \<Rightarrow> error_class \<Rightarrow> breaker option \<Rightarrow>
    (exn + 'a) \<times> breaker option \<times> nat" where
  "call_resilient rp op t_allow t_fail err br = call_loop (nat (rp_attempts rp)) 1 op t_allow t_fail err br"

end
