(* ===== verification/Stripe_Adapter.thy ===== *)
theory Stripe_Adapter
  imports Payment_Ports Resilience
begin

section \<open>The Stripe adapter\<close>

text \<open>
  \<^verbatim>\<open>core/billing/adapters/stripe.py\<close>.  The HTTP client is the parameter \<open>http_post\<close> (the
  form sent, to the reply); the clock of the replay window counts microseconds.
\<close>

definition EVENT_COMPLETED :: string where
  "EVENT_COMPLETED = ''checkout.session.completed''"

definition EVENT_EXPIRED :: string where
  "EVENT_EXPIRED = ''checkout.session.expired''"

definition SIGNATURE_TOLERANCE_SECONDS :: int where
  "SIGNATURE_TOLERANCE_SECONDS = 300"

definition to_stripe_amount :: "money \<Rightarrow> int" where
  "to_stripe_amount m = m_amount m"

definition normalize_currency :: "json \<Rightarrow> exn + string" where
  "normalize_currency cur =
     (let code = py_upper (py_str (if jtruthy cur then cur else JStr []))
      in if length code \<noteq> 3 \<or> \<not> py_isalpha code
         then Inl (Domain PaymentProviderError (''invalid Stripe currency: '' @ py_repr cur)) else Inr code)"

definition minor_units_from_stripe :: "json \<Rightarrow> json \<Rightarrow> exn + money" where
  "minor_units_from_stripe amt cur =
     (case amt of
        JInt n \<Rightarrow>
          if n < 0 then Inl (Domain PaymentProviderError (''invalid Stripe amount: '' @ py_repr amt))
          else and_then (normalize_currency cur) (\<lambda>c. mk_money n c)
      | _ \<Rightarrow> Inl (Domain PaymentProviderError (''invalid Stripe amount: '' @ py_repr amt)))"

record stripe =
  st_secret_key :: string
  st_webhook_secret :: string
  st_success_url :: string
  st_cancel_url :: string
  st_tolerance :: int
  st_clock :: int

definition stripe_init :: "string \<Rightarrow> string \<Rightarrow> string \<Rightarrow> string \<Rightarrow> int \<Rightarrow> int \<Rightarrow> exn + stripe" where
  "stripe_init secret_key webhook_secret success_url cancel_url tolerance clock =
     (if secret_key = [] \<or> webhook_secret = []
      then Inl (Domain PaymentProviderError ''Stripe adapter requires secret_key and webhook_secret'')
      else Inr \<lparr>st_secret_key = secret_key, st_webhook_secret = webhook_secret, st_success_url = success_url,
                st_cancel_url = cancel_url, st_tolerance = tolerance, st_clock = clock\<rparr>)"

subsection \<open>Opening a session\<close>

datatype http_reply = TransportError string | Reply nat "json option" | TimedOut

type_synonym http_client = "(string \<times> string) list \<Rightarrow> string \<Rightarrow> http_reply"

definition post_checkout :: "stripe \<Rightarrow> http_client \<Rightarrow> (string \<times> string) list \<Rightarrow> payload attempt" where
  "post_checkout st http form =
     (case http [(''Authorization'', ''Bearer '' @ st_secret_key st),
                 (''Content-Type'', ''application/x-www-form-urlencoded'')] (urlencode form) of
        TimedOut \<Rightarrow> Transient None []
      | TransportError m \<Rightarrow> Transient (Some PaymentProviderError) (''stripe transport error: '' @ m)
      | Reply code body \<Rightarrow>
          if code \<ge> 500 \<or> code = 429 then Transient (Some PaymentProviderError) (''stripe http '' @ show_nat code)
          else if code \<ge> 400
          then Fatal (Domain PaymentProviderError (''stripe rejected checkout: http '' @ show_nat code))
          else (case body of
                  None \<Rightarrow> Fatal (ValueError ''Expecting value'')
                | Some (JObj d) \<Rightarrow> Returns d
                | Some _ \<Rightarrow> Fatal (Domain PaymentProviderError ''stripe returned a non-object checkout session'')))"

definition stripe_form :: "stripe \<Rightarrow> payment_dto \<Rightarrow> string option \<Rightarrow> (string \<times> string) list" where
  "stripe_form st d return_url =
     [(''mode'', ''payment''), (''client_reference_id'', uuid_str (pd_id d)),
      (''success_url'', case return_url of Some u \<Rightarrow> if u = [] then st_success_url st else u | None \<Rightarrow> st_success_url st),
      (''cancel_url'', st_cancel_url st), (''line_items[0][quantity]'', ''1''),
      (''line_items[0][price_data][currency]'', py_lower (m_currency (pd_amount d))),
      (''line_items[0][price_data][unit_amount]'', show_int (to_stripe_amount (pd_amount d))),
      (''line_items[0][price_data][product_data][name]'', if pd_purpose d = [] then ''Payment'' else pd_purpose d),
      (''metadata[payment_id]'', uuid_str (pd_id d))]"

definition stripe_create_checkout :: "stripe \<Rightarrow> http_client \<Rightarrow> rat \<Rightarrow> breaker \<Rightarrow> payment_dto \<Rightarrow> string option \<Rightarrow>
    (exn + checkout_dto) \<times> breaker" where
  "stripe_create_checkout st http t br d return_url =
     (let (r, br', n) = call_resilient
            \<lparr>rp_attempts = 1, rp_base_delay = 1 / 2, rp_max_delay = 30, rp_multiplier = 2, rp_jitter = 1 / 5\<rparr>
            (\<lambda>_. post_checkout st http (stripe_form st d return_url)) (\<lambda>_. t) (\<lambda>_. t) PaymentProviderError (Some br)
      in (and_then r (\<lambda>session.
            (let url = jget session ''url''
             in if \<not> jtruthy url then Inl (Domain PaymentProviderError ''Stripe checkout session has no url'')
                else Inr \<lparr>c_payment = pd_id d, c_provider = ''stripe'', c_url = py_str url, c_expires = None\<rparr>)),
          the br'))"

subsection \<open>Requests\<close>

definition decode_event :: "crypto \<Rightarrow> string \<Rightarrow> exn + payload" where
  "decode_event cr body =
     (case json_loads cr body of
        None \<Rightarrow> Inl (Domain WebhookVerificationError ''stripe: body is not valid JSON'')
      | Some (JObj d) \<Rightarrow>
          if jhas d ''type'' \<and> jhas d ''data'' then Inr d
          else Inl (Domain WebhookVerificationError ''stripe: not an Event object'')
      | Some _ \<Rightarrow> Inl (Domain WebhookVerificationError ''stripe: not an Event object''))"

definition event_object :: "payload \<Rightarrow> payload" where
  "event_object event =
     (case jget event ''data'' of
        JObj d \<Rightarrow> (case jget d ''object'' of JObj o' \<Rightarrow> o' | _ \<Rightarrow> [])
      | _ \<Rightarrow> [])"

definition stripe_normalize :: "payload \<Rightarrow> string \<Rightarrow> payload \<Rightarrow>
    exn + (callback_action \<times> string \<times> string option \<times> money option)" where
  "stripe_normalize event event_type obj =
     (let event_id = (if jget event ''id'' \<noteq> JNull then Some (py_str (jget event ''id'')) else None);
          cref = jget obj ''client_reference_id'';
          reference = py_str (if jtruthy cref then cref else JStr [])
      in if event_type = EVENT_COMPLETED \<and> jget obj ''payment_status'' = JStr ''paid''
         then and_then (minor_units_from_stripe (jget obj ''amount_total'') (jget obj ''currency'')) (\<lambda>m.
                Inr (Confirm, reference, event_id, Some m))
         else if event_type = EVENT_EXPIRED then Inr (Cancel, reference, event_id, None)
         else Inr (Status, [], None, None))"

definition parse_signature_header :: "string \<Rightarrow> string option \<times> string list" where
  "parse_signature_header header =
     foldl (\<lambda>(ts, sigs) part.
       (let (key, v) = partition_on (CHR ''='') (strip ch_space part)
        in if key = ''t'' then (Some v, sigs) else if key = ''v1'' then (ts, sigs @ [v]) else (ts, sigs)))
       (None, []) (split_on (CHR '','') header)"

fun any_matches :: "string \<Rightarrow> string list \<Rightarrow> exn + bool" where
  "any_matches expected [] = Inr False"
| "any_matches expected (c # cs) =
     and_then (compare_digest expected c) (\<lambda>b. if b then Inr True else any_matches expected cs)"

definition stripe_signature_ok :: "crypto \<Rightarrow> stripe \<Rightarrow> raw_webhook \<Rightarrow> exn + bool" where
  "stripe_signature_ok cr st raw =
     (case raw_header raw ''stripe-signature'' of
        None \<Rightarrow> Inr False
      | Some header \<Rightarrow>
          if header = [] then Inr False
          else (case parse_signature_header header of
                  (None, _) \<Rightarrow> Inr False
                | (Some ts, sigs) \<Rightarrow>
                    if sigs = [] \<or> \<not> py_isdigit ts then Inr False
                    else (case py_int 10 ts of
                            None \<Rightarrow> Inl (ValueError (''invalid literal for int() with base 10: '' @ repr_str ts))
                          | Some n \<Rightarrow>
                              if abs (st_clock st - n * 1000000) > st_tolerance st * 1000000 then Inr False
                              else any_matches (hmac_sha256_hex cr (st_webhook_secret st) (ts @ ''.'' @ rw_body raw)) sigs)))"

definition stripe_parse :: "crypto \<Rightarrow> stripe \<Rightarrow> raw_webhook \<Rightarrow> exn + provider_callback" where
  "stripe_parse cr st raw =
     and_then (decode_event cr (rw_body raw)) (\<lambda>event.
       (let event_type = py_str (jget event ''type''); obj = event_object event
        in and_then (stripe_signature_ok cr st raw) (\<lambda>sig.
           and_then (stripe_normalize event event_type obj) (\<lambda>(action, reference, txn, amt).
             Inr \<lparr>cb_provider = ''stripe'', cb_txn = txn, cb_action = action, cb_reference = reference, cb_amount = amt,
                  cb_raw = [(''id'', jget event ''id''), (''type'', JStr event_type)], cb_sig = sig, cb_reason = None\<rparr>))))"

definition stripe_respond :: "callback_outcome \<Rightarrow> exn + webhook_response" where
  "stripe_respond out =
     Inr (if co_status out = InvalidSignature
          then \<lparr>wr_status = 400, wr_body = [(''error'', JStr ''invalid signature'')]\<rparr>
          else \<lparr>wr_status = 200, wr_body = [(''received'', JBool True)]\<rparr>)"

definition stripe_port :: "crypto \<Rightarrow> stripe \<Rightarrow> provider_port" where
  "stripe_port cr st = \<lparr>pp_code = ''stripe'', pp_parse = stripe_parse cr st, pp_respond = stripe_respond\<rparr>"

end
