(* ===== verification/Webhook_Processor.thy ===== *)
theory Webhook_Processor
  imports Billing_Laws Payme_Adapter Click_Adapter Stripe_Adapter "HOL-Library.Product_Lexorder"
begin

section \<open>The webhook processor\<close>

text \<open>
  \<^verbatim>\<open>core/billing/webhooks.py\<close>: one merchant callback is authenticated, bound to a payment of
  ours, deduplicated through the ledger and routed to the payment service, all in one transaction;
  the answer is rendered in the provider's dialect after the commit.
\<close>

definition READ_ONLY_ACTIONS :: "callback_action list" where
  "READ_ONLY_ACTIONS = [Check, Status]"

definition REDACT_HEADERS :: "string list" where
  "REDACT_HEADERS = [''authorization'', ''cookie'', ''proxy-authorization'', ''x-api-key'']"

definition REJECTED_BODY_LIMIT :: nat where
  "REJECTED_BODY_LIMIT = 4096"

definition redact_header :: "string \<times> string \<Rightarrow> string \<times> string" where
  "redact_header h =
     (let (key, v) = h; lowered = py_lower key
      in if lowered = ''authorization''
         then (key, strip ch_space (hd (split_on (CHR '' '') v) @ '' [redacted]''))
         else if lowered \<in> set REDACT_HEADERS then (key, ''[redacted]'')
         else (key, v))"

definition redact_headers :: "(string \<times> string) list \<Rightarrow> (string \<times> string) list" where
  "redact_headers hs = map redact_header hs"

definition insert_webhook :: "webhook \<Rightarrow> webhook list \<Rightarrow> webhook list" where
  \<comment> \<open>\<^verbatim>\<open>ON CONFLICT (provider, dedup_key) DO NOTHING\<close>\<close>
  "insert_webhook w rows =
     (if list_ex (\<lambda>x. w_provider x = w_provider w \<and> w_dedup x = w_dedup w) rows then rows else rows @ [w])"

definition set_webhook :: "webhook \<Rightarrow> 'z billing_db_scheme \<Rightarrow> 'z billing_db_scheme" where
  "set_webhook w s = s\<lparr>webhooks := upd_where (\<lambda>x. w_id x = w_id w) (\<lambda>_. w) (webhooks s)\<rparr>"

definition integration_ctx :: "uuid option \<Rightarrow> string \<Rightarrow> tenant_context" where
  "integration_ctx t code = mk_ctx t \<lparr>act_kind = Integration, actor_id = Some code\<rparr>"

definition mk_outcome :: "outcome_status \<Rightarrow> payment_dto option \<Rightarrow> provider_callback \<Rightarrow> callback_outcome" where
  "mk_outcome st p cb = \<lparr>co_status = st, co_payment = p, co_callback = Some cb\<rparr>"

subsection \<open>Locating the payment\<close>

definition as_uuid :: "string \<Rightarrow> uuid option" where
  "as_uuid v = uuid_parse v"

definition find_by_txn :: "provider_callback \<Rightarrow> payment list \<Rightarrow> exn + payment option" where
  "find_by_txn cb rows =
     (case cb_txn cb of
        None \<Rightarrow> Inr None
      | Some txn \<Rightarrow>
          if txn = [] then Inr None
          else system_get_one (\<lambda>p. p_provider p = cb_provider cb \<and> p_txn p = Some txn) rows)"

definition find_payment :: "provider_callback \<Rightarrow> payment list \<Rightarrow> exn + payment option" where
  "find_payment cb rows =
     (case (if cb_reference cb = [] then None else as_uuid (cb_reference cb)) of
        None \<Rightarrow> find_by_txn cb rows
      | Some i \<Rightarrow>
          and_then (system_get_one (\<lambda>p. p_id p = i \<and> p_provider p = cb_provider cb) rows) (\<lambda>found.
            case found of Some p \<Rightarrow> Inr (Some p) | None \<Rightarrow> find_by_txn cb rows))"

definition amount_ok :: "provider_callback \<Rightarrow> payment \<Rightarrow> exn + bool" where
  "amount_ok cb p =
     (case cb_amount cb of
        None \<Rightarrow> Inr True
      | Some a \<Rightarrow> and_then (mk_money (p_amount p) (p_currency p)) (\<lambda>m. Inr (a = m)))"

subsection \<open>Routing\<close>

definition handle_read_only :: "provider_callback \<Rightarrow> 'z billing_db_scheme \<Rightarrow> exn + callback_outcome" where
  "handle_read_only cb s =
     (if \<not> cb_sig cb then Inr (mk_outcome InvalidSignature None cb)
      else and_then (find_payment cb (payments s)) (\<lambda>found.
        (case found of
           None \<Rightarrow> Inr (mk_outcome NotFound None cb)
         | Some p \<Rightarrow>
             and_then (payment_to_dto p) (\<lambda>d.
             and_then (amount_ok cb p) (\<lambda>ok.
               if \<not> ok then Inr (mk_outcome AmountMismatch (Some d) cb)
               else if cb_action cb = Check \<and> p_status p \<noteq> Created \<and> p_status p \<noteq> Pending
               then Inr (mk_outcome InvalidState (Some d) cb)
               else Inr (mk_outcome Ok (Some d) cb))))))"

definition form_repr :: "(string \<times> string) list \<Rightarrow> string" where
  \<comment> \<open>\<^verbatim>\<open>f"{sorted(form.items())}"\<close>\<close>
  "form_repr form =
     ''['' @ join_with '', '' (map (\<lambda>(k, v). ''('' @ repr_str k @ '', '' @ repr_str v @ '')'') (sort form)) @ '']''"

definition rejected_key :: "crypto \<Rightarrow> raw_webhook \<Rightarrow> string" where
  "rejected_key cr raw = ''rejected:'' @ sha256_hex cr (rw_body raw @ ''|'' @ form_repr (rw_form raw))"

definition journal_rejected :: "crypto \<Rightarrow> string \<Rightarrow> raw_webhook \<Rightarrow> 'z billing_db_scheme \<Rightarrow> 'z billing_db_scheme" where
  "journal_rejected cr code raw s =
     (let (i, s1) = new_uuid7 s
      in s1\<lparr>webhooks := insert_webhook
            \<lparr>w_id = i, w_provider = code, w_dedup = rejected_key cr raw, w_tenant = None, w_payment = None,
             w_body = take REJECTED_BODY_LIMIT (rw_body raw), w_headers = redact_headers (rw_headers raw),
             w_sig = Some False, w_status = Rejected, w_error = Some ''invalid signature'',
             w_processed_at = Some (now s)\<rparr> (webhooks s1)\<rparr>)"

definition dedup_key :: "provider_callback \<Rightarrow> string" where
  "dedup_key cb = (case cb_txn cb of Some x \<Rightarrow> x | None \<Rightarrow> ''None'') @ '':'' @ action_str (cb_action cb)"

definition claim_ledger :: "string \<Rightarrow> string \<Rightarrow> raw_webhook \<Rightarrow> 'z billing_db_scheme \<Rightarrow> webhook option \<times> 'z billing_db_scheme" where
  "claim_ledger code key raw s =
     (let (i, s1) = new_uuid7 s;
          w = \<lparr>w_id = i, w_provider = code, w_dedup = key, w_tenant = None, w_payment = None, w_body = rw_body raw,
               w_headers = redact_headers (rw_headers raw), w_sig = Some True, w_status = Received, w_error = None,
               w_processed_at = None\<rparr>
      in if list_ex (\<lambda>x. w_provider x = code \<and> w_dedup x = key) (webhooks s1) then (None, s1)
         else (Some w, s1\<lparr>webhooks := insert_webhook w (webhooks s1)\<rparr>))"

definition apply_action :: "tenant_context \<Rightarrow> payment \<Rightarrow> provider_callback \<Rightarrow> 'z billing_db_scheme \<Rightarrow>
    (payment, 'z billing_db_scheme) op_res" where
  "apply_action ctx p cb s =
     (case cb_action cb of
        Create \<Rightarrow>
          if p_status p \<noteq> Created
          then raise (Domain InvariantViolationError (''create for payment in state '' @ status_str (p_status p))) s
          else mark_pending p (case cb_txn cb of Some x \<Rightarrow> x | None \<Rightarrow> []) s
      | Confirm \<Rightarrow> mark_succeeded ctx p s
      | Cancel \<Rightarrow> mark_canceled_by_provider ctx p (cb_reason cb) s
      | a \<Rightarrow> raise (Domain InvariantViolationError (''unsupported action: '' @ action_str a)) s)"

definition reload_payment :: "payment \<Rightarrow> 'z billing_db_scheme \<Rightarrow> payment" where
  "reload_payment p s = (case find (\<lambda>x. p_id x = p_id p) (payments s) of Some x \<Rightarrow> x | None \<Rightarrow> p)"

definition process_transition :: "string \<Rightarrow> provider_callback \<Rightarrow> webhook \<Rightarrow> 'z billing_db_scheme \<Rightarrow>
    (callback_outcome, 'z billing_db_scheme) op_res" where
  "process_transition code cb w s =
     on_ok (pure_op (find_payment cb (payments s)) s) (\<lambda>found s.
       (case found of
          None \<Rightarrow>
            ret (mk_outcome NotFound None cb)
              (set_webhook (w\<lparr>w_status := Rejected, w_error := Some ''payment not found'', w_processed_at := Some (now s)\<rparr>) s)
        | Some p \<Rightarrow>
            (let ctx = integration_ctx (Some (p_tenant p)) code;
                 w1 = w\<lparr>w_tenant := Some (p_tenant p), w_payment := Some (p_id p)\<rparr>
             in on_ok (pure_op (amount_ok cb p) s) (\<lambda>ok s.
                if \<not> ok
                then on_ok (pure_op (payment_to_dto p) s) (\<lambda>d s.
                  ret (mk_outcome AmountMismatch (Some d) cb)
                    (set_webhook (w1\<lparr>w_status := Rejected, w_error := Some ''amount mismatch'', w_processed_at := Some (now s)\<rparr>) s))
                else (case apply_action ctx p cb s of
                        (Inl e, s') \<Rightarrow>
                          if exn_is InvariantViolationError e
                          then on_ok (pure_op (payment_to_dto (reload_payment p s')) s') (\<lambda>d s.
                            ret (mk_outcome InvalidState (Some d) cb)
                              (set_webhook (w1\<lparr>w_status := WFailed, w_error := Some (exn_str e), w_processed_at := Some (now s)\<rparr>) s))
                          else raise e s'
                      | (Inr p', s') \<Rightarrow>
                          on_ok (pure_op (payment_to_dto p') s') (\<lambda>d s.
                            ret (mk_outcome Ok (Some d) cb)
                              (set_webhook (w1\<lparr>w_status := Processed, w_processed_at := Some (now s)\<rparr>) s)))))))"

definition replay :: "string \<Rightarrow> string \<Rightarrow> provider_callback \<Rightarrow> 'z billing_db_scheme \<Rightarrow> exn + callback_outcome" where
  "replay code key cb s =
     (case find (\<lambda>x. w_provider x = code \<and> w_dedup x = key) (webhooks s) of
        None \<Rightarrow> Inl (LookupError ''No row was found when one was required'')
      | Some w \<Rightarrow>
          (let found = (case w_payment w of None \<Rightarrow> None | Some i \<Rightarrow> find (\<lambda>p. p_id p = i) (payments s))
           in and_then (case found of None \<Rightarrow> Inr None | Some p \<Rightarrow> and_then (payment_to_dto p) (\<lambda>d. Inr (Some d))) (\<lambda>d.
              if w_status w = Rejected
              then Inr (mk_outcome (if startswith (case w_error w of Some e \<Rightarrow> e | None \<Rightarrow> []) ''amount''
                                    then AmountMismatch else NotFound) d cb)
              else if w_status w = WFailed then Inr (mk_outcome InvalidState d cb)
              else if found = None then Inr (mk_outcome NotFound None cb)
              else Inr (mk_outcome AlreadyProcessed d cb))))"

definition dispatch :: "crypto \<Rightarrow> string \<Rightarrow> provider_callback \<Rightarrow> raw_webhook \<Rightarrow> 'z billing_db_scheme \<Rightarrow>
    (callback_outcome, 'z billing_db_scheme) op_res" where
  "dispatch cr code cb raw s =
     (if cb_action cb \<in> set READ_ONLY_ACTIONS then pure_op (handle_read_only cb s) s
      else if \<not> cb_sig cb then ret (mk_outcome InvalidSignature None cb) (journal_rejected cr code raw s)
      else (case claim_ledger code (dedup_key cb) raw s of
              (None, s1) \<Rightarrow> pure_op (replay code (dedup_key cb) cb s1) s1
            | (Some w, s1) \<Rightarrow> process_transition code cb w s1))"

definition process :: "crypto \<Rightarrow> (string \<Rightarrow> provider_port option) \<Rightarrow> string \<Rightarrow> raw_webhook \<Rightarrow> 'z billing_db_scheme \<Rightarrow>
    (webhook_response, 'z billing_db_scheme) op_res" where
  "process cr ports code raw s =
     (case ports code of
        None \<Rightarrow> raise (Domain WebhookVerificationError (''unknown or disabled provider: '' @ code)) s
      | Some port \<Rightarrow>
          on_ok (pure_op (pp_parse port raw) s) (\<lambda>cb s.
          on_ok (unit_of_work (dispatch cr code cb raw) s) (\<lambda>out s.
            pure_op (pp_respond port out) s)))"

end
