(* ===== verification/Webhook_Laws.thy ===== *)
theory Webhook_Laws
  imports Webhook_Processor
begin

section \<open>Laws of the webhook processor\<close>

text \<open>
  Locating a payment, the effect of an authenticated action, preservation of the billing invariant,
  replay of a duplicate delivery, isolation of tenants and the separation of the ledger's key
  spaces.
\<close>

interpretation wh: once_table "\<lambda>w. Some (w_provider w, w_dedup w)" insert_webhook
proof
  fix r :: webhook and rows :: "webhook list"
  assume "Some (w_provider r, w_dedup r) = None \<or> (\<forall>x \<in> set rows. Some (w_provider x, w_dedup x) \<noteq> Some (w_provider r, w_dedup r))"
  then show "insert_webhook r rows = rows @ [r]" by (auto simp: insert_webhook_def list_ex_iff)
next
  fix r x :: webhook and rows :: "webhook list"
  assume "x \<in> set rows" "Some (w_provider x, w_dedup x) = Some (w_provider r, w_dedup r)"
  then show "insert_webhook r rows = rows" by (auto simp: insert_webhook_def list_ex_iff)
qed

lemma set_webhook_sel [simp]:
  "payments (set_webhook w s) = payments s" "subs (set_webhook w s) = subs s" "plans (set_webhook w s) = plans s"
  "now (set_webhook w s) = now s" "uuid_gen (set_webhook w s) = uuid_gen s" "uuid_next (set_webhook w s) = uuid_next s"
  "audit_log (set_webhook w s) = audit_log s" "pending_events (set_webhook w s) = pending_events s"
  "published (set_webhook w s) = published s"
  by (simp_all add: set_webhook_def)

text \<open>States that agree on the payment and subscription tables, the clock and the identifiers.\<close>

definition same_money :: "'z billing_db_scheme \<Rightarrow> 'z billing_db_scheme \<Rightarrow> bool" where
  "same_money s t \<longleftrightarrow> plans t = plans s \<and> subs t = subs s \<and> payments t = payments s \<and> now t = now s
     \<and> uuid_gen t = uuid_gen s \<and> uuid_next s \<le> uuid_next t"

lemma same_money_state: "same_money s t \<Longrightarrow> billing_state s \<Longrightarrow> billing_state t \<and> grows s t"
proof -
  assume a: "same_money s t" "billing_state s"
  have g: "grows s t" using a(1) by (auto simp: same_money_def grows_def pay_ids_def sub_ids_def)
  have "billing_inv t" using a by (simp add: same_money_def billing_state_def billing_inv_def)
  then show ?thesis using billing_state_grows [OF a(2) _ g] g by simp
qed

lemma same_money_set_webhook [simp]: "same_money s (set_webhook w s)"
  by (simp add: same_money_def)

subsection \<open>Locating the payment\<close>

lemma find_by_txn_Some:
  "find_by_txn cb rows = Inr (Some p) \<Longrightarrow> p \<in> set rows \<and> p_provider p = cb_provider cb \<and> p_txn p = cb_txn cb \<and> p_txn p \<noteq> None"
  by (auto simp: find_by_txn_def dest: system_get_one_Some split: option.splits if_splits)

text \<open>A located payment is a row of ours with the provider of the callback, found by our own id
  or by the transaction id we stored.\<close>

lemma find_payment_Some:
  assumes "find_payment cb rows = Inr (Some p)"
  shows "p \<in> set rows \<and> p_provider p = cb_provider cb \<and>
    (uuid_parse (cb_reference cb) = Some (p_id p) \<or> p_txn p = cb_txn cb \<and> p_txn p \<noteq> None)"
proof (cases "if cb_reference cb = [] then None else as_uuid (cb_reference cb)")
  case None
  then show ?thesis using assms find_by_txn_Some [of cb rows p] by (auto simp: find_payment_def)
next
  case (Some i)
  then obtain found where f: "system_get_one (\<lambda>p. p_id p = i \<and> p_provider p = cb_provider cb) rows = Inr found"
    "(case found of Some p \<Rightarrow> Inr (Some p) | None \<Rightarrow> find_by_txn cb rows) = Inr (Some p)"
    using assms by (auto simp: find_payment_def result_simps)
  show ?thesis
  proof (cases found)
    case None
    then show ?thesis using f(2) find_by_txn_Some [of cb rows p] by auto
  next
    case (Some q)
    have "uuid_parse (cb_reference cb) = Some i"
      using \<open>(if cb_reference cb = [] then None else as_uuid (cb_reference cb)) = Some i\<close>
      by (auto simp: as_uuid_def split: if_splits)
    moreover have "q = p" using f(2) Some by simp
    ultimately show ?thesis using f(1) Some system_get_one_Some [of _ rows p] by auto
  qed
qed

subsection \<open>Applying an action\<close>

lemma integration_actor: "actor_user_id (ctx_actor (integration_ctx t code)) = Inr None"
  by (simp add: integration_ctx_def mk_ctx_def actor_user_id_def)

lemma find_set_payment:
  assumes "distinct (map p_id (payments s))" and "p \<in> set (payments s)" and "p_id p' = p_id p"
  shows "find (\<lambda>x. p_id x = p_id p) (payments (set_payment p' s)) = Some p'"
proof -
  have "distinct (map p_id (payments (set_payment p' s)))" using assms(1) by (simp add: ids_set_payment)
  moreover have "p' \<in> set (payments (set_payment p' s))" using set_set_payment [OF assms] by simp
  ultimately show ?thesis using find_key_unique [of p_id _ p'] assms(3) by simp
qed

lemma apply_action_Inr:
  fixes s t :: "'z billing_db_scheme"
  assumes r: "apply_action ctx p cb s = (Inr p', t)" and inv: "billing_inv s" and p: "p \<in> set (payments s)"
  shows "p_id p' = p_id p \<and> p_tenant p' = p_tenant p \<and> can_transition (p_status p) (p_status p')
    \<and> payments t = payments (set_payment p' s) \<and> webhooks t = webhooks s \<and> plans t = plans s
    \<and> now t = now s \<and> billing_inv t \<and> grows s t"
proof -
  have d: "distinct (map s_id (subs s))" using inv by (simp add: billing_inv_def subs_ok_def)
  consider (create) x where "cb_action cb = Create" "mark_pending p x s = (Inr p', t)"
    | (confirm) "cb_action cb = Confirm" "mark_succeeded ctx p s = (Inr p', t)"
    | (cancel) "cb_action cb = Cancel" "close_payment ctx p Canceled (cb_reason cb) s = (Inr p', t)"
    using r by (auto simp: apply_action_def mark_canceled_by_provider_def split: callback_action.splits if_splits)
  then show ?thesis
  proof cases
    case create
    note m = iffD1 [OF mark_pending_iff create(2)]
    have "p_status p = Created" "p' = pending_payment (now s) x p" "t = set_payment p' s" using m by auto
    then show ?thesis
      using mark_pending_inv [OF inv p create(2)] mark_pending_grows [OF create(2)] by (simp add: can_transition_def)
  next
    case confirm
    note m = mark_succeeded_Inr [OF confirm(2) d]
    have "\<exists>s1. same_tables s1 t \<and> payments s1 = payments (set_payment p' s) \<and> webhooks s1 = webhooks s \<and> plans s1 = plans s \<and> now s1 = now s"
    proof (cases "p_purpose p = ''subscription''")
      case True
      then obtain x fin where "same_tables (set_payment p' (s\<lparr>subs := activated (now s) (p_tenant p) (active_sub s x fin) (subs s)\<rparr>)) t"
        using m by auto
      moreover have "payments (set_payment p' (s\<lparr>subs := r\<rparr>)) = payments (set_payment p' s)" for r
        by (simp add: set_payment_def)
      ultimately show ?thesis by force
    next
      case False
      then have "same_tables (set_payment p' s) t" using m by auto
      then show ?thesis by auto
    qed
    then show ?thesis
      using m mark_succeeded_inv [OF inv p confirm(2)] mark_succeeded_grows [OF confirm(2) inv]
      by (auto simp: same_tables_def)
  next
    case cancel
    note m = close_payment_Inr [OF cancel(2)]
    have "\<exists>s1. same_tables s1 t \<and> payments s1 = payments (set_payment p' s) \<and> webhooks s1 = webhooks s \<and> plans s1 = plans s \<and> now s1 = now s"
      using m by auto
    then show ?thesis
      using m close_payment_inv [OF inv p _ cancel(2)] close_payment_grows [OF cancel(2)]
      by (auto simp: same_tables_def)
  qed
qed

lemma emit_never_fails: "EVENT_NAME_RE name \<Longrightarrow> emit svc ctx name p s \<noteq> (Inl e, t)"
  by (simp add: emit_valid)

lemma audit_never_fails: "actor_user_id (ctx_actor ctx) = Inr u \<Longrightarrow> pay_audit ctx a p eid s \<noteq> (Inl e, t)"
  by (simp add: pay_audit_def audit_record_ok)

lemma not_invariant_error [simp]:
  "\<not> exn_is InvariantViolationError (ValueError m)" "\<not> exn_is InvariantViolationError (Domain NotFoundError m)"
  "\<not> exn_is InvariantViolationError IntegrityError"
  by (simp_all add: exn_is_def subclass_of_def)

lemma locked_subscription_Inl: "locked_subscription p s = Inl e \<Longrightarrow> \<exists>m. e = ValueError m"
  by (auto simp: locked_subscription_def split: option.splits)

lemma replace_date_Inl: "replace_date d y m k = Inl e \<Longrightarrow> e = ValueError ''year is out of range''"
  by (simp add: replace_date_def split: if_splits)

lemma period_end_Inl: "period_end a b = Inl e \<Longrightarrow> e = ValueError ''year is out of range''"
  unfolding period_end_def Let_def by (auto dest: replace_date_Inl split: if_split_asm)

lemma activate_subscription_found:
  assumes "locked_subscription p s = Inr (Some x)"
    and "close_replaced (now s) (s_plan x)
        (filter (\<lambda>y. s_tenant y = p_tenant p \<and> is_live y \<and> s_id y \<noteq> s_id x) (subs s)) (now s) s = (st, s1)"
    and "period_end st (case get_plan (s_plan x) (plans s) of Some q \<Rightarrow> pl_period q | None \<Rightarrow> ''month'') = r"
  shows "\<exists>k. activate_subscription ctx p s = on_ok (pure_op r s1) k \<and> (\<forall>fin s2. \<exists>u. k fin s2 = (Inr (), u))"
proof -
  have "\<exists>u. on_ok (emit_replaced ctx i olds s2) (\<lambda>_ s. on_ok (emit ''payments'' ctx ''billing.subscription.activated'' b s)
      (\<lambda>_ s. ret () s)) = (Inr (), u)" for i olds b and s2 :: "'a billing_db_scheme"
    using emit_replaced_ok [of ctx i olds s2] by (auto simp: emit_valid)
  then show ?thesis
    unfolding activate_subscription_def
    by (simp add: assms Let_def) (rule exI, rule conjI, rule refl, blast)
qed

lemma activate_subscription_Inl:
  assumes r: "activate_subscription ctx p s = (Inl e, t)"
  shows "\<not> exn_is InvariantViolationError e"
proof (cases "locked_subscription p s")
  case (Inl e')
  then have "e = e'" using r by (simp add: activate_subscription_def)
  then show ?thesis using locked_subscription_Inl [OF Inl] by auto
next
  case (Inr y)
  show ?thesis
  proof (cases y)
    case None
    then show ?thesis using r Inr by (auto simp: activate_subscription_def)
  next
    case (Some x)
    obtain st s1 where cr: "close_replaced (now s) (s_plan x)
        (filter (\<lambda>y. s_tenant y = p_tenant p \<and> is_live y \<and> s_id y \<noteq> s_id x) (subs s)) (now s) s = (st, s1)"
      by (meson surj_pair)
    obtain k where k: "activate_subscription ctx p s = on_ok (pure_op (period_end st
        (case get_plan (s_plan x) (plans s) of Some q \<Rightarrow> pl_period q | None \<Rightarrow> ''month'')) s1) k"
      "\<forall>fin s2. \<exists>u. k fin s2 = (Inr (), u)"
      using activate_subscription_found [OF Inr [unfolded Some] cr refl] by blast
    have "k fin s2 \<noteq> (Inl e, t)" for fin s2 using k(2) by (metis Inl_Inr_False fst_conv)
    then have "\<exists>a b. period_end a b = Inl e" using r unfolding k(1) on_ok_Inl_iff pure_op_iff by blast
    then show ?thesis using period_end_Inl by fastforce
  qed
qed

lemma apply_action_Inl:
  fixes s t :: "'z billing_db_scheme"
  assumes r: "apply_action ctx p cb s = (Inl e, t)" and e: "exn_is InvariantViolationError e"
    and ctx: "actor_user_id (ctx_actor ctx) = Inr u"
  shows "t = s"
proof (cases "cb_action cb")
  case Create
  then show ?thesis using r e by (auto simp: apply_action_def mark_pending_def Let_def result_simps split: if_splits)
next
  case Confirm
  note m = r [unfolded apply_action_def Confirm, simplified, unfolded mark_succeeded_def Let_def]
  show ?thesis using m e
    by (auto simp: result_simps emit_never_fails audit_never_fails [OF ctx] dest: activate_subscription_Inl split: if_splits)
next
  case Cancel
  note m = r [unfolded apply_action_def Cancel, simplified, unfolded mark_canceled_by_provider_def close_payment_eq Let_def]
  have drop: "drop_pending_subscription q st s' = (Inl e, t) \<Longrightarrow> False" for q st s'
    using e by (auto simp: drop_pending_subscription_def result_simps dest: locked_subscription_Inl split: option.splits if_splits)
  show ?thesis using m
    by (auto simp: result_simps emit_never_fails audit_never_fails [OF ctx] dest: drop split: if_splits)
qed (use r in \<open>simp_all add: apply_action_def\<close>)

subsection \<open>One transition\<close>

lemma process_transition_cases:
  fixes s t :: "'z billing_db_scheme"
  assumes r: "process_transition code cb w s = (Inr out, t)" and inv: "billing_inv s"
  obtains (unknown) "find_payment cb (payments s) = Inr None" "out = mk_outcome NotFound None cb"
      "t = set_webhook (w\<lparr>w_status := Rejected, w_error := Some ''payment not found'', w_processed_at := Some (now s)\<rparr>) s"
  | (mismatch) p d where "find_payment cb (payments s) = Inr (Some p)" "amount_ok cb p = Inr False"
      "payment_to_dto p = Inr d" "out = mk_outcome AmountMismatch (Some d) cb"
      "t = set_webhook (w\<lparr>w_tenant := Some (p_tenant p), w_payment := Some (p_id p), w_status := Rejected,
          w_error := Some ''amount mismatch'', w_processed_at := Some (now s)\<rparr>) s"
  | (invalid) p d e where "find_payment cb (payments s) = Inr (Some p)" "amount_ok cb p = Inr True"
      "apply_action (integration_ctx (Some (p_tenant p)) code) p cb s = (Inl e, s)"
      "payment_to_dto p = Inr d" "out = mk_outcome InvalidState (Some d) cb"
      "t = set_webhook (w\<lparr>w_tenant := Some (p_tenant p), w_payment := Some (p_id p), w_status := WFailed,
          w_error := Some (exn_str e), w_processed_at := Some (now s)\<rparr>) s"
  | (fine) p p' d s' where "find_payment cb (payments s) = Inr (Some p)" "amount_ok cb p = Inr True"
      "apply_action (integration_ctx (Some (p_tenant p)) code) p cb s = (Inr p', s')"
      "payment_to_dto p' = Inr d" "out = mk_outcome Ok (Some d) cb"
      "t = set_webhook (w\<lparr>w_tenant := Some (p_tenant p), w_payment := Some (p_id p), w_status := Processed,
          w_processed_at := Some (now s')\<rparr>) s'"
proof -
  from r obtain found where f: "find_payment cb (payments s) = Inr found"
    by (auto simp: process_transition_def result_simps)
  show thesis
  proof (cases found)
    case None
    then show ?thesis using r f unknown by (simp add: process_transition_def)
  next
    case (Some p)
    note fp = f [unfolded Some]
    have p: "p \<in> set (payments s)" using find_payment_Some [OF fp] by simp
    have d: "distinct (map p_id (payments s))" using inv by (simp add: billing_inv_def pays_ok_def)
    from r fp obtain ok where ok: "amount_ok cb p = Inr ok" by (auto simp: process_transition_def result_simps Let_def)
    show ?thesis
    proof (cases ok)
      case False
      then show ?thesis using r fp ok mismatch
        by (auto simp: process_transition_def result_simps Let_def)
    next
      case True
      let ?ctx = "integration_ctx (Some (p_tenant p)) code"
      obtain a s' where a: "apply_action ?ctx p cb s = (a, s')" by (meson surj_pair)
      show ?thesis
      proof (cases a)
        case (Inr p')
        then show ?thesis using r fp ok True a fine
          by (auto simp: process_transition_def result_simps Let_def)
      next
        case (Inl e)
        then have e: "exn_is InvariantViolationError e"
          using r fp ok True a by (auto simp: process_transition_def result_simps Let_def split: if_splits)
        have s': "s' = s" using apply_action_Inl [OF a [unfolded Inl] e integration_actor] .
        have "reload_payment p s = p" using find_key_unique [OF d p] by (simp add: reload_payment_def)
        then show ?thesis using r fp ok True a Inl e s' invalid
          by (auto simp: process_transition_def result_simps Let_def)
      qed
    qed
  qed
qed

lemma process_transition_state:
  fixes s t :: "'z billing_db_scheme"
  assumes r: "process_transition code cb w s = (Inr out, t)" and s: "billing_state s"
  shows "billing_state t \<and> grows s t"
proof -
  have inv: "billing_inv s" using s by (simp add: billing_state_def)
  from r inv show ?thesis
  proof (cases rule: process_transition_cases)
    case (fine p p' d s')
    have p: "p \<in> set (payments s)" using find_payment_Some [OF fine(1)] by simp
    note a = apply_action_Inr [OF fine(3) inv p]
    have "billing_state s'" using billing_state_grows [OF s] a by blast
    then have t: "billing_state t \<and> grows s' t" unfolding fine(6) by (rule same_money_state [OF same_money_set_webhook])
    have "grows s s'" using a by simp
    then show ?thesis using t grows_trans [of s s' t] by simp
  next
    case unknown
    show ?thesis unfolding unknown(3) by (rule same_money_state [OF same_money_set_webhook s])
  next
    case (mismatch p d)
    show ?thesis unfolding mismatch(5) by (rule same_money_state [OF same_money_set_webhook s])
  next
    case (invalid p d e)
    show ?thesis unfolding invalid(6) by (rule same_money_state [OF same_money_set_webhook s])
  qed
qed

subsection \<open>The whole dispatch\<close>

lemma new_uuid_state: "billing_state s \<Longrightarrow> billing_state (s\<lparr>uuid_next := Suc (uuid_next s), webhooks := ws\<rparr>)
    \<and> grows s (s\<lparr>uuid_next := Suc (uuid_next s), webhooks := ws\<rparr>)"
  by (rule same_money_state) (simp_all add: same_money_def)

definition ledger_row :: "string \<Rightarrow> provider_callback \<Rightarrow> raw_webhook \<Rightarrow> uuid \<Rightarrow> webhook" where
  "ledger_row code cb raw i =
     \<lparr>w_id = i, w_provider = code, w_dedup = dedup_key cb, w_tenant = None, w_payment = None, w_body = rw_body raw,
      w_headers = redact_headers (rw_headers raw), w_sig = Some True, w_status = Received, w_error = None,
      w_processed_at = None\<rparr>"

definition in_ledger :: "string \<Rightarrow> provider_callback \<Rightarrow> webhook list \<Rightarrow> bool" where
  "in_ledger code cb rows = list_ex (\<lambda>x. w_provider x = code \<and> w_dedup x = dedup_key cb) rows"

lemma dispatch_signed:
  assumes "cb_sig cb" and "cb_action cb \<notin> set READ_ONLY_ACTIONS"
  shows "dispatch cr code cb raw s =
    (if in_ledger code cb (webhooks s)
     then (replay code (dedup_key cb) cb (s\<lparr>uuid_next := Suc (uuid_next s)\<rparr>), s\<lparr>uuid_next := Suc (uuid_next s)\<rparr>)
     else process_transition code cb (ledger_row code cb raw (uuid_gen s (uuid_next s)))
       (s\<lparr>uuid_next := Suc (uuid_next s),
          webhooks := webhooks s @ [ledger_row code cb raw (uuid_gen s (uuid_next s))]\<rparr>))"
  using assms
  by (auto simp: dispatch_def claim_ledger_def new_uuid7_def in_ledger_def Let_def ledger_row_def insert_webhook_def pure_op_def)

lemma dispatch_state:
  fixes s t :: "'z billing_db_scheme"
  assumes r: "dispatch cr code cb raw s = (Inr out, t)" and s: "billing_state s"
  shows "billing_state t \<and> grows s t"
proof (cases "cb_sig cb \<and> cb_action cb \<notin> set READ_ONLY_ACTIONS")
  case False
  then consider "t = s" | ws where "t = s\<lparr>uuid_next := Suc (uuid_next s), webhooks := ws\<rparr>"
    using r by (auto simp: dispatch_def journal_rejected_def new_uuid7_def pure_op_iff split: if_splits)
  then show ?thesis using s new_uuid_state [OF s] by cases simp_all
next
  case True
  then have sg: "cb_sig cb" "cb_action cb \<notin> set READ_ONLY_ACTIONS" by simp_all
  show ?thesis
  proof (cases "in_ledger code cb (webhooks s)")
    case True
    then have "t = s\<lparr>uuid_next := Suc (uuid_next s)\<rparr>" using r dispatch_signed [OF sg, of cr code raw s] by simp
    then show ?thesis using new_uuid_state [OF s, of "webhooks s"] by simp
  next
    case False
    let ?s1 = "s\<lparr>uuid_next := Suc (uuid_next s),
          webhooks := webhooks s @ [ledger_row code cb raw (uuid_gen s (uuid_next s))]\<rparr>"
    have "process_transition code cb (ledger_row code cb raw (uuid_gen s (uuid_next s))) ?s1 = (Inr out, t)"
      using r dispatch_signed [OF sg, of cr code raw s] False by simp
    then have "billing_state t \<and> grows ?s1 t" using new_uuid_state [OF s] by (intro process_transition_state) auto
    then show ?thesis using new_uuid_state [OF s] grows_trans [of s ?s1 t] by blast
  qed
qed

subsection \<open>Replay\<close>

lemma replay_cong:
  assumes "payments t = payments s" and "webhooks t = webhooks s"
  shows "replay code key cb t = replay code key cb s"
  unfolding replay_def assms ..

lemma find_ledger_row:
  assumes "\<not> in_ledger code cb rows" and "webhooks s = rows @ [w]" and "w_id w' = w_id w"
    and "w_provider w' = code" and "w_dedup w' = dedup_key cb"
  shows "find (\<lambda>x. w_provider x = code \<and> w_dedup x = dedup_key cb) (webhooks (set_webhook w' s)) = Some w'"
proof -
  have "webhooks (set_webhook w' s) = upd_where (\<lambda>x. w_id x = w_id w') (\<lambda>_. w') (rows @ [w])"
    by (simp add: set_webhook_def assms(2))
  then show ?thesis
    using assms(1,3-5) by (simp only:) (rule find_first_updated; auto simp: in_ledger_def list_ex_iff)
qed

lemma dispatch_replays:
  fixes s u :: "'z billing_db_scheme"
  assumes sg: "cb_sig cb" "cb_action cb \<notin> set READ_ONLY_ACTIONS" and inv: "billing_inv s"
    and r: "dispatch cr code cb raw s = (Inr out, u)"
  shows "in_ledger code cb (webhooks u) \<and>
    (replay code (dedup_key cb) cb u = Inr out \<or>
     (\<exists>d. out = mk_outcome Ok (Some d) cb \<and> replay code (dedup_key cb) cb u = Inr (mk_outcome AlreadyProcessed (Some d) cb)))"
proof (cases "in_ledger code cb (webhooks s)")
  case True
  then have "u = s\<lparr>uuid_next := Suc (uuid_next s)\<rparr>" "replay code (dedup_key cb) cb u = Inr out"
    using r dispatch_signed [OF sg, of cr code raw s] by auto
  then show ?thesis using True by simp
next
  case False
  let ?w = "ledger_row code cb raw (uuid_gen s (uuid_next s))"
  let ?s1 = "s\<lparr>uuid_next := Suc (uuid_next s), webhooks := webhooks s @ [?w]\<rparr>"
  have pt: "process_transition code cb ?w ?s1 = (Inr out, u)"
    using r dispatch_signed [OF sg, of cr code raw s] False by simp
  have inv1: "billing_inv ?s1" using inv by (simp add: billing_inv_def)
  have d: "distinct (map p_id (payments s))" using inv by (simp add: billing_inv_def pays_ok_def)
  have row: "find (\<lambda>x. w_provider x = code \<and> w_dedup x = dedup_key cb) (webhooks (set_webhook w' s')) = Some w'"
    if "w_id w' = w_id ?w" "w_provider w' = w_provider ?w" "w_dedup w' = w_dedup ?w" "webhooks s' = webhooks ?s1"
    for w' and s' :: "'z billing_db_scheme"
    using that by (intro find_ledger_row [OF False, of s' ?w]) (simp_all add: ledger_row_def)
  have led: "in_ledger code cb (webhooks x)"
    if "find (\<lambda>x. w_provider x = code \<and> w_dedup x = dedup_key cb) (webhooks x) = Some w'" for x :: "'z billing_db_scheme" and w'
    using find_Some_set [OF that] by (auto simp: in_ledger_def list_ex_iff)
  from pt inv1 show ?thesis
  proof (cases rule: process_transition_cases)
    case unknown
    note f = row [of "?w\<lparr>w_status := Rejected, w_error := Some ''payment not found'', w_processed_at := Some (now ?s1)\<rparr>" ?s1]
    show ?thesis unfolding unknown(3) using f led [OF f] unknown(2)
      by (simp add: replay_def ledger_row_def mk_outcome_def)
  next
    case (mismatch p dt)
    have p: "p \<in> set (payments s)" using find_payment_Some [OF mismatch(1)] by simp
    note f = row [of "?w\<lparr>w_tenant := Some (p_tenant p), w_payment := Some (p_id p), w_status := Rejected,
          w_error := Some ''amount mismatch'', w_processed_at := Some (now ?s1)\<rparr>" ?s1]
    show ?thesis unfolding mismatch(5) using f led [OF f] mismatch(3,4) find_key_unique [OF d p]
      by (simp add: replay_def mk_outcome_def)
  next
    case (invalid p dt e)
    have p: "p \<in> set (payments s)" using find_payment_Some [OF invalid(1)] by simp
    note f = row [of "?w\<lparr>w_tenant := Some (p_tenant p), w_payment := Some (p_id p), w_status := WFailed,
          w_error := Some (exn_str e), w_processed_at := Some (now ?s1)\<rparr>" ?s1]
    show ?thesis unfolding invalid(6) using f led [OF f] invalid(4,5) find_key_unique [OF d p]
      by (simp add: replay_def mk_outcome_def)
  next
    case (fine p p' dt s')
    have p: "p \<in> set (payments ?s1)" using find_payment_Some [OF fine(1)] by simp
    note a = apply_action_Inr [OF fine(3) inv1 p]
    have pp: "find (\<lambda>x. p_id x = p_id p) (payments s') = Some p'"
      using a find_set_payment [of ?s1 p p'] d p by simp
    note f = row [of "?w\<lparr>w_tenant := Some (p_tenant p), w_payment := Some (p_id p), w_status := Processed,
          w_processed_at := Some (now s')\<rparr>" s']
    have wh: "webhooks s' = webhooks ?s1" using a by simp
    show ?thesis unfolding fine(6) using f led [OF f] fine(4,5) pp wh
      by (simp add: replay_def mk_outcome_def)
  qed
qed

text \<open>What the processor relies on of a provider: a callback carries the provider's code, and a
  repeated success is answered like the first one.\<close>

locale provider_dialect =
  fixes port :: provider_port and code :: string
  assumes parse_code: "pp_parse port raw = Inr cb \<Longrightarrow> cb_provider cb = code"
    and repeat_as_first: "pp_respond port (mk_outcome AlreadyProcessed d cb) = pp_respond port (mk_outcome Ok d cb)"
begin

lemma replay_same_answer:
  fixes s t :: "'z billing_db_scheme"
  assumes r: "process cr ports code raw s = (Inr resp, t)" and port: "ports code = Some port"
    and cb: "pp_parse port raw = Inr cb" and sg: "cb_sig cb" "cb_action cb \<notin> set READ_ONLY_ACTIONS" and inv: "billing_inv s"
  shows "process cr ports code raw t = (Inr resp, t\<lparr>uuid_next := Suc (uuid_next t)\<rparr>)"
proof -
  from r port cb obtain out u where u: "dispatch cr code cb raw (s\<lparr>pending_events := []\<rparr>) = (Inr out, u)" "t = commit u"
    and resp: "pp_respond port out = Inr resp"
    by (auto simp: process_def result_simps unit_of_work_ok)
  have inv0: "billing_inv (s\<lparr>pending_events := []\<rparr>)" using inv by (simp add: billing_inv_def)
  note dr = dispatch_replays [OF sg inv0 u(1)]
  have same: "replay code (dedup_key cb) cb (t\<lparr>uuid_next := k\<rparr>) = replay code (dedup_key cb) cb u" for k
    by (rule replay_cong) (simp_all add: u(2) commit_def)
  obtain out' where out': "replay code (dedup_key cb) cb u = Inr out'" "pp_respond port out' = Inr resp"
    using dr resp repeat_as_first by metis
  have "in_ledger code cb (webhooks t)" using dr by (simp add: u(2) commit_def)
  moreover have p: "t\<lparr>pending_events := []\<rparr> = t" by (simp add: u(2) commit_def)
  ultimately have d2: "dispatch cr code cb raw (t\<lparr>pending_events := []\<rparr>) = (Inr out', t\<lparr>uuid_next := Suc (uuid_next t)\<rparr>)"
    using dispatch_signed [OF sg, of cr code raw t] same out'(1) by simp
  have "commit (t\<lparr>uuid_next := Suc (uuid_next t)\<rparr>) = t\<lparr>uuid_next := Suc (uuid_next t)\<rparr>"
    by (simp add: u(2) commit_def)
  then have "unit_of_work (dispatch cr code cb raw) t = (Inr out', t\<lparr>uuid_next := Suc (uuid_next t)\<rparr>)"
    unfolding unit_of_work_ok using d2 by metis
  then show ?thesis using port cb out'(2) by (simp add: process_def)
qed

end

lemma payme_parse_Inr:
  assumes "payme_parse cr pm raw = Inr cb"
  obtains data action params txn ref amt auth where "decode_jsonrpc cr (rw_body raw) = Inr data"
    "METHOD_ACTIONS (py_str (jget data ''method'')) = Some action"
    "payme_normalize action params = Inr (txn, ref, amt)" "payme_auth_ok pm raw = Inr auth"
    "cb_provider cb = ''payme''" "cb_txn cb = txn" "cb_action cb = action" "cb_reference cb = ref" "cb_amount cb = amt"
    "cb_sig cb = auth"
proof -
  from assms obtain data where d: "decode_jsonrpc cr (rw_body raw) = Inr data"
    by (auto simp: payme_parse_def and_then_Inr_iff)
  let ?m = "jget data ''method''"
  from assms d obtain action where a: "(if ?m \<noteq> JNull then METHOD_ACTIONS (py_str ?m) else None) = Some action"
    by (cases "if ?m \<noteq> JNull then METHOD_ACTIONS (py_str ?m) else None") (auto simp: payme_parse_def Let_def)
  let ?p = "if jtruthy (jget data ''params'') then jget data ''params'' else JObj []"
  from assms d a obtain params where p: "?p = JObj params"
    by (cases ?p) (auto simp: payme_parse_def Let_def)
  have "METHOD_ACTIONS (py_str ?m) = Some action" using a by (simp split: if_splits)
  then show thesis using assms d a p that
    by (auto simp: payme_parse_def Let_def and_then_Inr_iff)
qed

interpretation payme_d: provider_dialect "payme_port cr pm" "''payme''" for cr pm
proof
  fix raw cb assume "pp_parse (payme_port cr pm) raw = Inr cb"
  then show "cb_provider cb = ''payme''" by (auto simp: payme_port_def elim: payme_parse_Inr)
next
  fix d cb
  show "pp_respond (payme_port cr pm) (mk_outcome AlreadyProcessed d cb) = pp_respond (payme_port cr pm) (mk_outcome Ok d cb)"
    by (simp add: payme_port_def payme_respond_def mk_outcome_def payme_request_id_def payme_success_result_def Let_def)
qed

interpretation click_d: provider_dialect "click_port cr ck" "''click''" for cr ck
proof
  fix raw cb assume "pp_parse (click_port cr ck) raw = Inr cb"
  then show "cb_provider cb = ''click''"
    by (auto simp: click_port_def click_parse_def Let_def result_simps split: option.split_asm)
next
  fix d cb
  show "pp_respond (click_port cr ck) (mk_outcome AlreadyProcessed d cb) = pp_respond (click_port cr ck) (mk_outcome Ok d cb)"
    by (simp add: click_port_def click_respond_def mk_outcome_def Let_def)
qed

interpretation stripe_d: provider_dialect "stripe_port cr st" "''stripe''" for cr st
proof
  fix raw cb assume "pp_parse (stripe_port cr st) raw = Inr cb"
  then show "cb_provider cb = ''stripe''"
    by (auto simp: stripe_port_def stripe_parse_def Let_def result_simps)
next
  fix d cb
  show "pp_respond (stripe_port cr st) (mk_outcome AlreadyProcessed d cb) = pp_respond (stripe_port cr st) (mk_outcome Ok d cb)"
    by (simp add: stripe_port_def stripe_respond_def mk_outcome_def)
qed

subsection \<open>What a callback may change\<close>

lemma after_last_colon:
  assumes "CHR '':'' \<notin> set h" and "CHR '':'' \<notin> set a" and "xs @ CHR '':'' # h = ys @ CHR '':'' # a"
  shows "h = a"
proof -
  have "takeWhile (\<lambda>c. c \<noteq> CHR '':'') (rev (zs @ CHR '':'' # b)) = rev b" if "CHR '':'' \<notin> set b" for zs b
  proof -
    have "\<forall>x \<in> set (rev b). x \<noteq> CHR '':''" using that by auto
    then show ?thesis by (simp add: takeWhile_append2 del: set_rev)
  qed
  from this [OF assms(1), of xs] this [OF assms(2), of ys] show ?thesis by (simp add: assms(3))
qed

lemma action_str_plain: "CHR '':'' \<notin> set (action_str a)" "length (action_str a) \<le> 7"
  by (cases a; simp)+

definition hex_digest :: "(string \<Rightarrow> string) \<Rightarrow> bool" where
  \<comment> \<open>\<^verbatim>\<open>hashlib.sha256(...).hexdigest()\<close>: 64 hexadecimal digits\<close>
  "hex_digest f \<longleftrightarrow> (\<forall>x. length (f x) = 64 \<and> (\<forall>c \<in> set (f x). c \<in> set ''0123456789abcdef''))"

lemma rejected_key_apart:
  assumes "hex_digest (sha256_hex cr)"
  shows "rejected_key cr raw \<noteq> dedup_key cb"
proof
  assume "rejected_key cr raw = dedup_key cb"
  then have eq: "''rejected'' @ CHR '':'' # sha256_hex cr (rw_body raw @ ''|'' @ form_repr (rw_form raw)) =
      (case cb_txn cb of Some x \<Rightarrow> x | None \<Rightarrow> ''None'') @ CHR '':'' # action_str (cb_action cb)"
    by (simp add: rejected_key_def dedup_key_def)
  have hx: "CHR '':'' \<notin> set (sha256_hex cr x)" "length (sha256_hex cr x) = 64" for x
  proof -
    have all: "\<forall>c \<in> set (sha256_hex cr x). c \<in> set ''0123456789abcdef''" "length (sha256_hex cr x) = 64"
      using assms unfolding hex_digest_def by blast+
    have "CHR '':'' \<notin> set ''0123456789abcdef''" by simp
    then show "CHR '':'' \<notin> set (sha256_hex cr x)" using all(1) by blast
    show "length (sha256_hex cr x) = 64" by (rule all(2))
  qed
  have "sha256_hex cr (rw_body raw @ ''|'' @ form_repr (rw_form raw)) = action_str (cb_action cb)"
    by (rule after_last_colon [OF hx(1) action_str_plain(1) eq])
  then show False
    using hx(2) [of "rw_body raw @ ''|'' @ form_repr (rw_form raw)"] action_str_plain(2) [of "cb_action cb"] by simp
qed

lemma dispatch_unsigned:
  assumes "\<not> cb_sig cb"
  shows "dispatch cr code cb raw s =
    (Inr (mk_outcome InvalidSignature None cb),
     if cb_action cb \<in> set READ_ONLY_ACTIONS then s else journal_rejected cr code raw s)"
  using assms by (simp add: dispatch_def handle_read_only_def)

lemma journal_rejected_sel [simp]:
  "payments (journal_rejected cr code raw s) = payments s" "subs (journal_rejected cr code raw s) = subs s"
  "plans (journal_rejected cr code raw s) = plans s" "audit_log (journal_rejected cr code raw s) = audit_log s"
  "pending_events (journal_rejected cr code raw s) = pending_events s" "published (journal_rejected cr code raw s) = published s"
  by (simp_all add: journal_rejected_def new_uuid7_def)

lemma journal_rejected_rows:
  "x \<in> set (webhooks (journal_rejected cr code raw s)) \<Longrightarrow> x \<in> set (webhooks s) \<or> w_dedup x = rejected_key cr raw \<and> w_status x = Rejected"
  by (auto simp: journal_rejected_def new_uuid7_def insert_webhook_def split: if_splits)

text \<open>The rows of other tenants are untouched by an action on a payment.\<close>

lemma filter_map_same:
  "(\<And>y. y \<in> set rows \<Longrightarrow> filter P [f y] = filter P [y]) \<Longrightarrow> filter P (map f rows) = filter P rows"
proof (induction rows)
  case (Cons y ys)
  have "filter P [f y] = filter P [y]" by (rule Cons.prems) simp
  moreover have "filter P (map f ys) = filter P ys" by (rule Cons.IH) (rule Cons.prems, simp)
  ultimately show ?case by (metis append_Cons append_Nil filter_append list.simps(9))
qed simp

lemma activated_isolated:
  assumes "distinct (map s_id rows)" and "x \<in> set rows" and "s_id x' = s_id x" and "s_tenant x = t" and "s_tenant x' = t"
  shows "filter (\<lambda>y. s_tenant y \<noteq> t) (activated n t x' rows) = filter (\<lambda>y. s_tenant y \<noteq> t) rows"
proof -
  have "s_tenant y = t" if "y \<in> set rows" "s_id y = s_id x'" for y
    using key_unique [OF assms(1) that(1) assms(2)] that(2) assms(3,4) by simp
  then have "\<forall>y \<in> set rows. filter (\<lambda>y. s_tenant y \<noteq> t)
      [if s_id y = s_id x' then x' else if s_tenant y = t \<and> is_live y then closed_sub n y else y] = filter (\<lambda>y. s_tenant y \<noteq> t) [y]"
    using assms(5) by auto
  then show ?thesis unfolding activated_def by (intro filter_map_same) blast
qed

lemma set_sub_isolated:
  assumes "distinct (map s_id (subs s))" and "x \<in> set (subs s)" and "s_id x' = s_id x" and "s_tenant x = t" and "s_tenant x' = t"
  shows "filter (\<lambda>y. s_tenant y \<noteq> t) (subs (set_sub x' s)) = filter (\<lambda>y. s_tenant y \<noteq> t) (subs s)"
proof -
  have "s_tenant y = t" if "y \<in> set (subs s)" "s_id y = s_id x'" for y
    using key_unique [OF assms(1) that(1) assms(2)] that(2) assms(3,4) by simp
  then have "filter (\<lambda>y. s_tenant y \<noteq> t) (upd_where (\<lambda>y. s_id y = s_id x') (\<lambda>_. x') rows) = filter (\<lambda>y. s_tenant y \<noteq> t) rows"
    if "set rows \<subseteq> set (subs s)" for rows
    using that assms(5) by (induction rows) auto
  then show ?thesis by (simp add: set_sub_def)
qed

lemma apply_action_isolated:
  fixes s t :: "'z billing_db_scheme"
  assumes r: "apply_action ctx p cb s = (Inr p', t)" and inv: "billing_inv s" and p: "p \<in> set (payments s)"
  shows "filter (\<lambda>y. s_tenant y \<noteq> p_tenant p) (subs t) = filter (\<lambda>y. s_tenant y \<noteq> p_tenant p) (subs s)"
proof -
  have d: "distinct (map s_id (subs s))" using inv by (simp add: billing_inv_def subs_ok_def)
  consider (create) x where "mark_pending p x s = (Inr p', t)"
    | (confirm) "mark_succeeded ctx p s = (Inr p', t)"
    | (cancel) "close_payment ctx p Canceled (cb_reason cb) s = (Inr p', t)"
    using r by (auto simp: apply_action_def mark_canceled_by_provider_def split: callback_action.splits if_splits)
  then show ?thesis
  proof cases
    case create
    then show ?thesis by (auto simp: mark_pending_iff)
  next
    case confirm
    note m = mark_succeeded_Inr [OF confirm d]
    show ?thesis
    proof (cases "p_purpose p = ''subscription''")
      case True
      then obtain x fin where x: "activates p s x fin"
        "same_tables (set_payment p' (s\<lparr>subs := activated (now s) (p_tenant p) (active_sub s x fin) (subs s)\<rparr>)) t"
        using m by auto
      have "x \<in> set (subs s)" "s_tenant x = p_tenant p"
        using locked_subscription_sub_of [of p s x] x(1) by (simp_all add: activates_def)
      then show ?thesis using activated_isolated [OF d, of x "active_sub s x fin"] same_tables_D [OF x(2)] by simp
    next
      case False
      then have "same_tables (set_payment p' s) t" using m by auto
      then show ?thesis by (simp add: same_tables_def)
    qed
  next
    case cancel
    from close_payment_Inr [OF cancel] consider "same_tables (set_payment p' s) t"
      | x where "x \<in> set (subs s)" "s_tenant x = p_tenant p"
        "same_tables (set_sub (dropped_sub (now s) Canceled x) (set_payment p' s)) t" by blast
    then show ?thesis
    proof cases
      case (2 x)
      then show ?thesis
        using set_sub_isolated [of "set_payment p' s" x "dropped_sub (now s) Canceled x" "p_tenant p"] d
        by (simp add: same_tables_def)
    qed (simp add: same_tables_def)
  qed
qed

lemma set_payment_isolated:
  assumes "distinct (map p_id (payments s))" and "p \<in> set (payments s)" and "p_id p' = p_id p" and "p_tenant p' = p_tenant p"
  shows "filter (\<lambda>y. p_tenant y \<noteq> p_tenant p) (payments (set_payment p' s)) = filter (\<lambda>y. p_tenant y \<noteq> p_tenant p) (payments s)"
proof -
  have "p_tenant y = p_tenant p" if "y \<in> set (payments s)" "p_id y = p_id p'" for y
    using key_unique [OF assms(1) that(1) assms(2)] that(2) assms(3) by simp
  then have "filter (\<lambda>y. p_tenant y \<noteq> p_tenant p) (upd_where (\<lambda>y. p_id y = p_id p') (\<lambda>_. p') rows) = filter (\<lambda>y. p_tenant y \<noteq> p_tenant p) rows"
    if "set rows \<subseteq> set (payments s)" for rows
    using that assms(4) by (induction rows) auto
  then show ?thesis by (simp add: set_payment_def)
qed

text \<open>Every effect of a committed dispatch on the money tables comes from one authenticated,
  first-time action on one located payment whose amount reconciles.\<close>

lemma dispatch_effect:
  fixes s u :: "'z billing_db_scheme"
  assumes r: "dispatch cr code cb raw s = (Inr out, u)" and inv: "billing_inv s"
  shows "payments u = payments s \<and> subs u = subs s \<and> pending_events u = pending_events s \<and> audit_log u = audit_log s \<or>
    cb_sig cb \<and> cb_action cb \<notin> set READ_ONLY_ACTIONS \<and> \<not> in_ledger code cb (webhooks s) \<and>
    (\<exists>p p' (s1 :: 'z billing_db_scheme) s2. find_payment cb (payments s) = Inr (Some p) \<and> amount_ok cb p = Inr True \<and>
       payments s1 = payments s \<and> subs s1 = subs s \<and> plans s1 = plans s \<and> now s1 = now s \<and> billing_inv s1 \<and>
       apply_action (integration_ctx (Some (p_tenant p)) code) p cb s1 = (Inr p', s2) \<and>
       payments u = payments s2 \<and> subs u = subs s2)"
proof (cases "cb_sig cb \<and> cb_action cb \<notin> set READ_ONLY_ACTIONS")
  case False
  then have "payments u = payments s \<and> subs u = subs s \<and> pending_events u = pending_events s \<and> audit_log u = audit_log s"
    using r by (auto simp: dispatch_def pure_op_iff split: if_splits)
  then show ?thesis by blast
next
  case True
  then have sg: "cb_sig cb" "cb_action cb \<notin> set READ_ONLY_ACTIONS" by simp_all
  show ?thesis
  proof (cases "in_ledger code cb (webhooks s)")
    case True
    then have "u = s\<lparr>uuid_next := Suc (uuid_next s)\<rparr>" using r dispatch_signed [OF sg, of cr code raw s] by auto
    then show ?thesis by simp
  next
    case False
    let ?w = "ledger_row code cb raw (uuid_gen s (uuid_next s))"
    let ?s1 = "s\<lparr>uuid_next := Suc (uuid_next s), webhooks := webhooks s @ [?w]\<rparr>"
    have pt: "process_transition code cb ?w ?s1 = (Inr out, u)"
      using r dispatch_signed [OF sg, of cr code raw s] False by simp
    have inv1: "billing_inv ?s1" using inv by (simp add: billing_inv_def)
    from pt inv1 show ?thesis
    proof (cases rule: process_transition_cases)
      case (fine p p' d s')
      have f: "find_payment cb (payments s) = Inr (Some p)" using fine(1) by simp
      have pu: "payments u = payments s'" "subs u = subs s'" by (simp_all add: fine(6))
      show ?thesis
        by (rule disjI2, rule conjI [OF sg(1)], rule conjI [OF sg(2)], rule conjI [OF False],
            rule exI [of _ p], rule exI [of _ p'], rule exI [of _ ?s1], rule exI [of _ s'])
          (use f fine(2,3) inv1 pu in simp)
    qed simp_all
  qed
qed
end
