(* ===== verification/Billing_Jobs.thy ===== *)
theory Billing_Jobs
  imports Webhook_Laws
begin

section \<open>Billing jobs and subscribers\<close>

text \<open>
  \<^verbatim>\<open>core/billing/jobs.py\<close> and the subscriber of \<^verbatim>\<open>core/billing/subscribers.py\<close>.  A
  sweep scans once, then handles each row it found in a transaction of its own.
\<close>

definition SWEEP_BATCH :: nat where
  "SWEEP_BATCH = 500"

definition LIVE_STATES :: "payment_status list" where
  "LIVE_STATES = [Created, Pending]"

definition job_ctx :: "uuid option \<Rightarrow> string \<Rightarrow> tenant_context" where
  "job_ctx t job = mk_ctx t \<lparr>act_kind = System, actor_id = Some job\<rparr>"

record billing_settings =
  payment_checkout_ttl_seconds :: int
  billing_auto_subscribe :: bool
  billing_default_plan_code :: string

subsection \<open>Abandoned checkouts\<close>

definition is_stale :: "billing_settings \<Rightarrow> datetime \<Rightarrow> payment \<Rightarrow> bool" where
  "is_stale cfg n p =
     (p_status p \<in> set LIVE_STATES \<and> instant (p_created p) < instant n - payment_checkout_ttl_seconds cfg * 1000000)"

definition stale_targets :: "billing_settings \<Rightarrow> 'z billing_db_scheme \<Rightarrow> (uuid \<times> uuid) list" where
  "stale_targets cfg s =
     map (\<lambda>p. (p_id p, p_tenant p)) (system_find (is_stale cfg (now s)) (sort_key p_created) SWEEP_BATCH (payments s))"

definition expire_one :: "uuid \<Rightarrow> uuid \<Rightarrow> 'z billing_db_scheme \<Rightarrow> (bool, 'z billing_db_scheme) op_res" where
  "expire_one i t s =
     (case find (\<lambda>p. p_id p = i) (payments s) of
        None \<Rightarrow> ret False s
      | Some p \<Rightarrow>
          if p_status p \<notin> set LIVE_STATES then ret False s
          else (case mark_expired (job_ctx (Some t) ''billing.expiry'') p s of
                  (Inr _, s') \<Rightarrow> ret True s'
                | (Inl e, s') \<Rightarrow> if exn_is InvariantViolationError e then ret False s' else raise e s'))"

fun expire_loop :: "(uuid \<times> uuid) list \<Rightarrow> nat \<Rightarrow> 'z billing_db_scheme \<Rightarrow> (nat, 'z billing_db_scheme) op_res" where
  "expire_loop [] expired s = ret expired s"
| "expire_loop ((i, t) # targets) expired s =
     on_ok (unit_of_work (expire_one i t) s) (\<lambda>b s. expire_loop targets (if b then Suc expired else expired) s)"

definition expire_stale_checkouts :: "billing_settings \<Rightarrow> 'z billing_db_scheme \<Rightarrow> (nat, 'z billing_db_scheme) op_res" where
  "expire_stale_checkouts cfg s = expire_loop (stale_targets cfg s) 0 s"

subsection \<open>Ended periods\<close>

definition is_due :: "datetime \<Rightarrow> subscription \<Rightarrow> bool" where
  "is_due n x = (is_live x \<and> s_end x \<le> n)"

definition due_targets :: "'z billing_db_scheme \<Rightarrow> (uuid \<times> uuid) list" where
  "due_targets s =
     map (\<lambda>x. (s_id x, s_tenant x)) (system_find (is_due (now s)) (sort_key s_end) SWEEP_BATCH (subs s))"

fun period_loop :: "string option \<Rightarrow> (uuid \<times> uuid) list \<Rightarrow> nat \<Rightarrow> 'z billing_db_scheme \<Rightarrow> (nat, 'z billing_db_scheme) op_res" where
  "period_loop fallback [] acted s = ret acted s"
| "period_loop fallback ((i, t) # targets) acted s =
     on_ok (unit_of_work (close_ended_period (job_ctx (Some t) ''billing.period_end'') i fallback) s) (\<lambda>b s.
       period_loop fallback targets (if b then Suc acted else acted) s)"

definition expire_ended_subscriptions :: "billing_settings \<Rightarrow> 'z billing_db_scheme \<Rightarrow> (nat, 'z billing_db_scheme) op_res" where
  "expire_ended_subscriptions cfg s =
     (let fallback = (if billing_auto_subscribe cfg then Some (billing_default_plan_code cfg) else None)
      in period_loop fallback (due_targets s) 0 s)"

subsection \<open>New tenants\<close>

definition auto_subscribe_new_tenant :: "billing_settings \<Rightarrow> tenant_context \<Rightarrow> envelope \<Rightarrow> 'z billing_db_scheme \<Rightarrow>
    (unit, 'z billing_db_scheme) op_res" where
  "auto_subscribe_new_tenant cfg hctx ev s =
     (let raw = jget (ev_payload ev) ''tenant_id'' in
      if \<not> billing_auto_subscribe cfg \<or> \<not> jtruthy raw then ret () s
      else (case uuid_parse (py_str raw) of
              None \<Rightarrow> raise (ValueError ''badly formed hexadecimal UUID string'') s
            | Some t \<Rightarrow>
                (case auto_subscribe (job_ctx (Some t) ''billing.auto_subscribe'') (billing_default_plan_code cfg) s of
                   (Inl e, s') \<Rightarrow> if is_domain e then ret () s' else raise e s'
                 | (Inr _, s') \<Rightarrow> ret () s')))"

end
