(* ===== verification/Job_Laws.thy ===== *)
theory Job_Laws
  imports Billing_Jobs
begin

section \<open>Laws of the billing jobs\<close>

text \<open>
  The sweeps characterised on the whole table: which payments the expiry sweep closes, and that no
  live subscription is left past its period.
\<close>

subsection \<open>Abandoned checkouts\<close>

lemma job_actor: "actor_user_id (ctx_actor (job_ctx t job)) = Inr None"
  by (simp add: job_ctx_def mk_ctx_def actor_user_id_def)

lemma mark_expired_Inl:
  assumes r: "mark_expired ctx p s = (Inl e, t)" and e: "exn_is InvariantViolationError e"
    and ctx: "actor_user_id (ctx_actor ctx) = Inr u"
  shows "\<not> can_transition (p_status p) Expired"
proof -
  have drop: "drop_pending_subscription q st s' = (Inl e, t) \<Longrightarrow> False" for q st s'
    using e by (auto simp: drop_pending_subscription_def result_simps dest: locked_subscription_Inl split: option.splits if_splits)
  show ?thesis using r [unfolded mark_expired_def close_payment_eq Let_def]
    by (auto simp: result_simps emit_never_fails audit_never_fails [OF ctx] assert_transition_def dest: drop split: if_splits)
qed

definition expired_row :: "datetime \<Rightarrow> payment \<Rightarrow> payment" where
  "expired_row n p = (if p_status p \<in> set LIVE_STATES then closed_payment n Expired None p else p)"

lemma expired_row_sel [simp]: "p_id (expired_row n p) = p_id p" "p_tenant (expired_row n p) = p_tenant p"
  by (simp_all add: expired_row_def)

lemma expired_row_again: "expired_row n (expired_row n p) = expired_row n p"
  by (simp add: expired_row_def LIVE_STATES_def)

lemma live_can_expire: "st \<in> set LIVE_STATES \<Longrightarrow> can_transition st Expired"
  by (auto simp: LIVE_STATES_def can_transition_def)

lemma expire_one_Inr:
  fixes s u :: "'z billing_db_scheme"
  assumes r: "expire_one i t s = (Inr b, u)" and s: "billing_state s"
  shows "payments u = map (\<lambda>p. if p_id p = i then expired_row (now s) p else p) (payments s)
    \<and> now u = now s \<and> billing_state u \<and> grows s u"
proof -
  have inv: "billing_inv s" and d: "distinct (map p_id (payments s))"
    using s by (simp_all add: billing_state_def billing_inv_def pays_ok_def)
  show ?thesis
  proof (cases "find (\<lambda>p. p_id p = i) (payments s)")
    case None
    then have "\<forall>p \<in> set (payments s). p_id p \<noteq> i" by (simp add: find_None_set)
    then have "map (\<lambda>p. if p_id p = i then expired_row (now s) p else p) (payments s) = payments s"
      by (simp add: map_idI)
    then show ?thesis using r None s by (simp add: expire_one_def)
  next
    case (Some p)
    have p: "p \<in> set (payments s)" "p_id p = i" using find_Some_set [OF Some] by simp_all
    have uniq: "q = p" if "q \<in> set (payments s)" "p_id q = i" for q
      using key_unique [OF d that(1) p(1)] that(2) p(2) by simp
    show ?thesis
    proof (cases "p_status p \<in> set LIVE_STATES")
      case False
      then have "map (\<lambda>q. if p_id q = i then expired_row (now s) q else q) (payments s) = payments s"
        using uniq by (auto simp: expired_row_def intro!: map_idI)
      then show ?thesis using r Some False s by (simp add: expire_one_def)
    next
      case True
      let ?ctx = "job_ctx (Some t) ''billing.expiry''"
      obtain a v where a: "close_payment ?ctx p Expired None s = (a, v)" by (meson surj_pair)
      obtain p' where ok: "a = Inr p'" "u = v"
        using r Some True a mark_expired_Inl [of ?ctx p s _ v, OF _ _ job_actor] live_can_expire [OF True]
        by (cases a) (auto simp: expire_one_def mark_expired_def split: if_splits)
      note c = close_payment_Inr [OF a [unfolded ok(1)]]
      have p': "p' = expired_row (now s) p" using c True by (simp add: expired_row_def)
      have "payments v = payments (set_payment p' s) \<and> now v = now s" using c by (auto simp: same_tables_def)
      moreover have "payments (set_payment p' s) = map (\<lambda>q. if p_id q = i then expired_row (now s) q else q) (payments s)"
        using uniq p(2) by (auto simp: set_payment_def upd_where_def p')
      ultimately show ?thesis
        using close_payment_inv [OF inv p(1) _ a [unfolded ok(1)]] close_payment_grows [OF a [unfolded ok(1)]]
          billing_state_grows [OF s] ok(2) by simp
    qed
  qed
qed

lemma billing_state_pending [simp]: "billing_state (s\<lparr>pending_events := q\<rparr>) = billing_state s"
  by (simp add: billing_state_def billing_inv_def unused_ids_def pay_ids_def sub_ids_def)

lemma billing_state_commit [simp]: "billing_state (commit s) = billing_state s"
  by (simp add: commit_def billing_state_def billing_inv_def unused_ids_def pay_ids_def sub_ids_def)

lemma commit_sel [simp]:
  "payments (commit s) = payments s" "subs (commit s) = subs s" "plans (commit s) = plans s" "webhooks (commit s) = webhooks s"
  "now (commit s) = now s" "audit_log (commit s) = audit_log s" "uuid_gen (commit s) = uuid_gen s" "uuid_next (commit s) = uuid_next s"
  "pending_events (commit s) = []"
  by (simp_all add: commit_def)

lemma expire_loop_Inr:
  fixes s u :: "'z billing_db_scheme"
  assumes "expire_loop targets k s = (Inr n, u)" and "billing_state s"
  shows "payments u = map (\<lambda>p. if p_id p \<in> fst ` set targets then expired_row (now s) p else p) (payments s)
    \<and> now u = now s \<and> billing_state u"
  using assms
proof (induction targets k s rule: expire_loop.induct)
  case (2 i t targets k s)
  obtain b v where v: "expire_one i t (s\<lparr>pending_events := []\<rparr>) = (Inr b, v)"
    and rest: "expire_loop targets (if b then Suc k else k) (commit v) = (Inr n, u)"
    using "2.prems"(1) by (auto simp: result_simps unit_of_work_ok)
  note e = expire_one_Inr [OF v]
  have e': "payments v = map (\<lambda>p. if p_id p = i then expired_row (now s) p else p) (payments s)" "now v = now s" "billing_state v"
    using e "2.prems"(2) by simp_all
  have u: "unit_of_work (expire_one i t) s = (Inr b, commit v)" using v by (auto simp: unit_of_work_ok)
  have IH: "payments u = map (\<lambda>p. if p_id p \<in> fst ` set targets then expired_row (now v) p else p) (payments v)
      \<and> now u = now v \<and> billing_state u"
    using "2.IH" [OF u rest] e'(3) by simp
  have "map (\<lambda>p. if p_id p \<in> fst ` set targets then expired_row (now v) p else p) (payments v)
      = map (\<lambda>p. if p_id p \<in> fst ` set ((i, t) # targets) then expired_row (now s) p else p) (payments s)"
    by (simp add: e' expired_row_again)
  then show ?case using IH e'(2) by simp
qed simp

lemma set_system_find: "set (system_find P (sort_key f) n rows) \<subseteq> {x \<in> set rows. P x}"
  unfolding system_find_def by (rule order_trans [OF set_take_subset]) auto

lemma system_find_all: "length (filter P rows) \<le> n \<Longrightarrow> set (system_find P (sort_key f) n rows) = {x \<in> set rows. P x}"
  by (auto simp: system_find_def)

lemma length_system_find: "length (system_find P ordr n rows) \<le> n"
  by (simp add: system_find_def)

subsection \<open>Ended periods\<close>

lemma roll_forward_after: "roll_forward start fin period t = Inr (a, b) \<Longrightarrow> t < b"
proof (induction start fin period t rule: roll_forward.induct)
  case (1 start fin period t)
  then show ?case
    by (cases "fin \<le> t") (auto simp: roll_forward.simps [of start] not_le split: sum.splits)
qed

lemma auto_subscribe_subs:
  fixes s u :: "'z billing_db_scheme"
  assumes r: "auto_subscribe ctx code s = (Inr (), u)"
  shows "now u = now s \<and> (subs u = subs s \<or> (\<exists>x. subs u = subs s @ [x] \<and> is_live x \<and> now s < s_end x \<and> tenant_id ctx = Some (s_tenant x)))"
proof -
  from r obtain t pl where t: "tenant_id ctx = Some t" and pl: "plan_by_code code (plans s) = Inr pl" and pr: "pl_price pl = 0"
    by (auto simp: auto_subscribe_def repo_init_def result_simps split: option.splits if_splits)
  show ?thesis
  proof (cases "repo_find s_tenant t is_live (subs s)")
    case (Cons x xs)
    then have "u = s" using r t pl pr by (simp add: auto_subscribe_def repo_init_def)
    then show ?thesis by simp
  next
    case Nil
    let ?i = "uuid_gen s (uuid_next s)"
    let ?s1 = "s\<lparr>uuid_next := Suc (uuid_next s)\<rparr>"
    let ?x = "\<lambda>fin. new_sub ?i t pl (if pl_trial_days pl > 0 then Trialing else Active) (now s) fin"
    from r t pl pr Nil obtain fin p eid where pe: "period_end (now s) (pl_period pl) = Inr fin"
      and e: "emit ''billing'' ctx ''billing.subscription.activated'' p (?s1\<lparr>subs := subs s @ [?x fin]\<rparr>) = (Inr eid, u)"
      by (auto simp: auto_subscribe_def repo_init_def new_uuid7_def result_simps repo_add_sub Let_def cong: if_cong split: if_splits)
    have st: "same_tables (?s1\<lparr>subs := subs s @ [?x fin]\<rparr>) u"
      using emit_tables [of "?s1\<lparr>subs := subs s @ [?x fin]\<rparr>" "''billing''" ctx "''billing.subscription.activated''" p]
      by (simp add: e)
    have "is_live (?x fin)" by (simp add: is_live_def LIVE_SUBSCRIPTION_STATES_def)
    moreover have "now s < s_end (?x fin)" using period_end_later [OF pe] by (simp add: new_sub_def)
    ultimately show ?thesis using same_tables_D [OF st] t by auto
  qed
qed

lemma close_ended_acts:
  assumes r: "close_ended_period ctx i fb s = (Inr b, u)" and d: "distinct (map s_id (subs s))"
    and x: "x \<in> set (subs s)" "s_id x = i" "tenant_id ctx = Some (s_tenant x)" "is_due (now s) x"
  shows b
proof -
  have "find (\<lambda>y. s_id y = i \<and> s_tenant y = s_tenant x) (subs s) = Some x"
  proof (cases "find (\<lambda>y. s_id y = i \<and> s_tenant y = s_tenant x) (subs s)")
    case (Some y)
    then show ?thesis using find_Some_set [OF Some] key_unique [OF d _ x(1), of y] x(2) by auto
  qed (use x in \<open>auto simp: find_None_set\<close>)
  then show ?thesis
    using r x(3,4) unfolding close_ended_period_def repo_init_def Let_def
    by (auto simp: result_simps is_due_def emit_valid split: if_splits option.splits prod.splits sum.splits)
qed

lemma close_ended_due:
  fixes s u :: "'z billing_db_scheme"
  assumes r: "close_ended_period (job_ctx (Some t) job) i fb s = (Inr b, u)" and inv: "billing_inv s"
  shows "now u = now s \<and> (\<forall>x \<in> set (subs u). is_due (now s) x \<longrightarrow> x \<in> set (subs s) \<and> (s_id x, s_tenant x) \<noteq> (i, t))"
proof -
  have d: "distinct (map s_id (subs s))" using inv by (simp add: billing_inv_def subs_ok_def)
  have ten: "tenant_id (job_ctx (Some t) job) = Some t" by (simp add: job_ctx_def mk_ctx_def)
  have others: "\<forall>y \<in> set (subs (set_sub x' s)). is_due (now s) y \<longrightarrow> y \<in> set (subs s) \<and> (s_id y, s_tenant y) \<noteq> (i, t)"
    if "x \<in> set (subs s)" "s_id x = i" "s_id x' = i" "\<not> is_due (now s) x'" for x x'
  proof -
    have "set (subs (set_sub x' s)) = insert x' (set (subs s) - {x})" using that by (intro set_set_sub [OF d]) simp_all
    moreover have "y = x" if "y \<in> set (subs s)" "s_id y = i" for y
      using key_unique [OF d that(1) \<open>x \<in> set (subs s)\<close>] that(2) \<open>s_id x = i\<close> by simp
    ultimately show ?thesis using that(4) by auto
  qed
  from r show ?thesis
  proof (cases rule: close_ended_period_cases)
    case skip
    then show ?thesis using close_ended_acts [OF r d] ten by auto
  next
    case (roll x pl st fin)
    have "now s < fin" by (rule roll_forward_after [OF roll(10)])
    then show ?thesis unfolding roll(11) using roll(2,3)
      by (intro conjI others [of x]) (simp_all add: is_due_def not_le)
  next
    case (close x s1)
    let ?x = "x\<lparr>s_status := (if s_cancel_at_end x then SubCanceled else SubExpired),
         s_canceled_at := (if s_canceled_at x = None \<and> s_cancel_at_end x then Some (now s) else s_canceled_at x)\<rparr>"
    have "\<not> is_due (now s) ?x" by (simp add: is_due_def is_live_def LIVE_SUBSCRIPTION_STATES_def)
    then have o1: "\<forall>y \<in> set (subs s1). is_due (now s) y \<longrightarrow> y \<in> set (subs s) \<and> (s_id y, s_tenant y) \<noteq> (i, t)"
      using others [of x ?x] close(2,3) same_tables_D [OF close(7)] by simp
    have n1: "now s1 = now s" using same_tables_D [OF close(7)] by simp
    from close(8) show ?thesis
    proof
      assume "\<exists>code. fb = Some code \<and> code \<noteq> [] \<and> auto_subscribe (job_ctx (Some t) job) code s1 = (Inr (), u)"
      then obtain code where "auto_subscribe (job_ctx (Some t) job) code s1 = (Inr (), u)" by blast
      from auto_subscribe_subs [OF this] show ?thesis using o1 n1 by (auto simp: is_due_def not_le)
    qed (use o1 n1 in simp)
  qed
qed

lemma period_loop_Inr:
  fixes s u :: "'z billing_db_scheme"
  assumes "period_loop fb targets k s = (Inr n, u)" and "billing_state s"
    and "\<forall>x \<in> set (subs s). is_due (now s) x \<longrightarrow> (s_id x, s_tenant x) \<in> set targets"
  shows "now u = now s \<and> billing_state u \<and> (\<forall>x \<in> set (subs u). \<not> is_due (now s) x)"
  using assms
proof (induction fb targets k s rule: period_loop.induct)
  case (2 fb i t targets k s)
  let ?op = "close_ended_period (job_ctx (Some t) ''billing.period_end'') i fb"
  obtain b v where v: "?op (s\<lparr>pending_events := []\<rparr>) = (Inr b, v)"
    and rest: "period_loop fb targets (if b then Suc k else k) (commit v) = (Inr n, u)"
    using "2.prems"(1) by (auto simp: result_simps unit_of_work_ok)
  have u: "unit_of_work ?op s = (Inr b, commit v)" using v by (auto simp: unit_of_work_ok)
  have st: "billing_state (s\<lparr>pending_events := []\<rparr>)" using "2.prems"(2) by simp
  have sv: "billing_state v" using close_ended_period_state [OF v st] by simp
  have due: "now v = now s \<and> (\<forall>x \<in> set (subs v). is_due (now s) x \<longrightarrow> x \<in> set (subs s) \<and> (s_id x, s_tenant x) \<noteq> (i, t))"
    using close_ended_due [OF v] st by (simp add: billing_state_def)
  have "\<forall>x \<in> set (subs (commit v)). is_due (now (commit v)) x \<longrightarrow> (s_id x, s_tenant x) \<in> set targets"
    using due "2.prems"(3) by auto
  then show ?case using "2.IH" [OF u rest] sv due by simp
qed simp
end
