(* ===== verification/Billing_System.thy ===== *)
theory Billing_System
  imports Job_Laws
begin

section \<open>The billing system as a transition system\<close>

text \<open>
  Every committed transaction of the billing component, in any order and interleaving: intake,
  subscription start and cancellation, finalizers, provider callbacks, the rows of the sweeps, the
  free plan of a new tenant.  Transactions that fail leave the tables as they were.  What other
  transactions commit while an insertion waits on a unique index is itself a run of the system.
\<close>

inductive bstep :: "'z billing_db_scheme \<Rightarrow> 'z billing_db_scheme \<Rightarrow> bool" where
  create: "\<lbrakk>\<forall>x. bstep\<^sup>*\<^sup>* x (race env x);
    unit_of_work (create_payment env ctx amt purpose reference provider idem url sub_id) s = (Inr c, t)\<rbrakk> \<Longrightarrow> bstep s t"
| start: "\<lbrakk>\<forall>x. bstep\<^sup>*\<^sup>* x (race env x);
    unit_of_work (start_subscription env acc ctx code provider) s = (Inr c, t)\<rbrakk> \<Longrightarrow> bstep s t"
| cancel_pay: "unit_of_work (cancel_payment ctx i) s = (Inr d, t) \<Longrightarrow> bstep s t"
| cancel_sub: "unit_of_work (cancel_subscription acc ctx) s = (Inr sd, t) \<Longrightarrow> bstep s t"
| subscribe_free: "unit_of_work (auto_subscribe ctx code) s = (Inr (), t) \<Longrightarrow> bstep s t"
| fail: "p \<in> set (payments s) \<Longrightarrow> unit_of_work (mark_failed ctx p reason) s = (Inr q, t) \<Longrightarrow> bstep s t"
| callback: "unit_of_work (dispatch cr prov cb raw) s = (Inr out, t) \<Longrightarrow> bstep s t"
| expire: "unit_of_work (expire_one i tn) s = (Inr b, t) \<Longrightarrow> bstep s t"
| end_period: "unit_of_work (close_ended_period ctx i fb) s = (Inr b, t) \<Longrightarrow> bstep s t"
| rolled_back: "uuid_next s \<le> n \<Longrightarrow> bstep s (s\<lparr>uuid_next := n, published := es, pending_events := []\<rparr>)"
| tick: "now s \<le> n \<Longrightarrow> valid_datetime n \<Longrightarrow> bstep s (s\<lparr>now := n\<rparr>)"
| seed_plans: "bstep s (s\<lparr>plans := ps\<rparr>)"

subsection \<open>How a payment evolves\<close>

text \<open>The terms of a payment never change, and its status moves along the state machine.\<close>

definition pay_evolves :: "payment \<Rightarrow> payment \<Rightarrow> bool" where
  "pay_evolves p q \<longleftrightarrow> p_id q = p_id p \<and> p_tenant q = p_tenant p \<and> p_amount q = p_amount p \<and> p_currency q = p_currency p
     \<and> p_purpose q = p_purpose p \<and> p_reference q = p_reference p \<and> p_provider q = p_provider p \<and> p_idem q = p_idem p
     \<and> p_created q = p_created p \<and> pay_step\<^sup>*\<^sup>* (p_status p) (p_status q)"

definition evolves :: "'z billing_db_scheme \<Rightarrow> 'z billing_db_scheme \<Rightarrow> bool" where
  "evolves s t \<longleftrightarrow> (\<forall>p \<in> set (payments s). \<exists>q \<in> set (payments t). pay_evolves p q)"

lemma pay_evolves_refl [simp]: "pay_evolves p p"
  by (simp add: pay_evolves_def)

lemma pay_evolves_trans: "pay_evolves p q \<Longrightarrow> pay_evolves q r \<Longrightarrow> pay_evolves p r"
  by (auto simp: pay_evolves_def)

lemma evolves_same: "payments t = payments s \<Longrightarrow> evolves s t"
  unfolding evolves_def using pay_evolves_refl by metis

lemma evolves_trans: "evolves s t \<Longrightarrow> evolves t u \<Longrightarrow> evolves s u"
  unfolding evolves_def using pay_evolves_trans by metis

lemma evolves_set_payment:
  assumes "payments t = payments (set_payment q s)" and "p \<in> set (payments s)" and "pay_evolves p q" and "distinct (map p_id (payments s))"
  shows "evolves s t"
proof -
  have "set (payments t) = insert q (set (payments s) - {p})"
    unfolding assms(1) by (rule set_set_payment) (use assms in \<open>simp_all add: pay_evolves_def\<close>)
  then show ?thesis unfolding evolves_def using assms(3) pay_evolves_refl by (metis DiffI insertI1 insertI2 singletonD)
qed

lemma evolves_pending [simp]:
  "evolves (s\<lparr>pending_events := q\<rparr>) t = evolves s t" "evolves s (commit t) = evolves s t"
  by (simp_all add: evolves_def)

lemma grows_pending [simp]: "grows (s\<lparr>pending_events := q\<rparr>) t = grows s t" "grows s (commit t) = grows s t"
  by (simp_all add: grows_def drawn_def pay_ids_def sub_ids_def)

lemma pay_step_one: "can_transition a b \<Longrightarrow> pay_step\<^sup>*\<^sup>* a b"
  by (blast intro: pay_step.intros)

lemma closed_evolves: "can_transition (p_status p) st \<Longrightarrow> pay_evolves p (closed_payment n st r p)"
  by (simp add: pay_evolves_def pay_step_one closed_payment_def stamp_meta_def split: option.splits)

lemma close_payment_evolves:
  assumes "close_payment ctx p st r s = (Inr q, t)" and "p \<in> set (payments s)" and "billing_inv s"
  shows "evolves s t"
proof -
  note c = close_payment_Inr [OF assms(1)]
  then have "payments t = payments (set_payment q s)" by (auto simp: same_tables_def)
  then show ?thesis by (rule evolves_set_payment [OF _ assms(2)])
    (use c assms(3) closed_evolves in \<open>simp_all add: billing_inv_def pays_ok_def\<close>)
qed

lemma apply_action_evolves:
  fixes s t :: "'z billing_db_scheme"
  assumes r: "apply_action ctx p cb s = (Inr q, t)" and p: "p \<in> set (payments s)" and inv: "billing_inv s"
  shows "evolves s t"
proof -
  have d: "distinct (map s_id (subs s))" "distinct (map p_id (payments s))" using inv by (simp_all add: billing_inv_def subs_ok_def pays_ok_def)
  note a = apply_action_Inr [OF r inv p]
  consider (create) x where "mark_pending p x s = (Inr q, t)"
    | (confirm) "mark_succeeded ctx p s = (Inr q, t)"
    | (cancel) "close_payment ctx p Canceled (cb_reason cb) s = (Inr q, t)"
    using r by (auto simp: apply_action_def mark_canceled_by_provider_def split: callback_action.splits if_splits)
  then have "pay_evolves p q"
  proof cases
    case create
    then have "q = pending_payment (now s) x p" by (simp add: mark_pending_iff)
    then show ?thesis using a by (simp add: pay_evolves_def pay_step_one pending_payment_def stamp_meta_def)
  next
    case confirm
    then have "q = succeeded_payment (now s) p" using mark_succeeded_Inr [OF confirm d(1)] by simp
    then show ?thesis using a by (simp add: pay_evolves_def pay_step_one succeeded_payment_def)
  next
    case cancel
    then show ?thesis using close_payment_Inr [OF cancel] closed_evolves by blast
  qed
  then show ?thesis using evolves_set_payment [OF _ p _ d(2)] a by blast
qed

lemma dispatch_evolves:
  fixes s u :: "'z billing_db_scheme"
  assumes r: "dispatch cr code cb raw s = (Inr out, u)" and inv: "billing_inv s"
  shows "evolves s u"
  using dispatch_effect [OF r inv]
proof (elim disjE conjE exE)
  fix p p' and s1 s2 :: "'z billing_db_scheme"
  assume f: "find_payment cb (payments s) = Inr (Some p)" and e: "payments s1 = payments s" "billing_inv s1"
    "apply_action (integration_ctx (Some (p_tenant p)) code) p cb s1 = (Inr p', s2)" "payments u = payments s2"
  have "p \<in> set (payments s1)" using find_payment_Some [OF f] e(1) by simp
  from apply_action_evolves [OF e(3) this e(2)] show ?thesis using e(1,4) by (simp add: evolves_def)
qed (simp_all add: evolves_same)

text \<open>What other transactions may do during an operation.\<close>

definition race_evolves :: "'z billing_db_scheme pay_env \<Rightarrow> bool" where
  "race_evolves env \<longleftrightarrow> (\<forall>s. billing_state s \<longrightarrow> evolves s (race env s))"

lemma create_payment_evolves:
  fixes s u :: "'z billing_db_scheme"
  assumes r: "create_payment env ctx amt purpose reference provider idem url sub_id s = (Inr c, u)"
    and s: "billing_state s" and env: "race_ok env" "race_evolves env"
  shows "evolves s u"
proof -
  obtain t where t: "tenant_id ctx = Some t"
    using r by (auto simp: create_payment_def repo_init_def result_simps split: option.splits)
  let ?s1 = "s\<lparr>uuid_next := Suc (uuid_next s)\<rparr>"
  let ?s2 = "race env ?s1"
  have "billing_state ?s1" using new_uuid_state [OF s, of "webhooks s"] by simp
  then have e2: "evolves s ?s2" using env(2) by (simp add: race_evolves_def evolves_def)
  from r t show ?thesis
  proof (cases rule: create_payment_cases)
    case replay
    then show ?thesis by (simp add: evolves_same)
  next
    case lost
    then show ?thesis using e2 by simp
  next
    case (inserted f d)
    let ?i = "uuid_gen s (uuid_next s)"
    let ?p = "new_payment ?i t amt purpose reference provider idem sub_id (now s)"
    have pu: "payments u = payments (set_payment (?p\<lparr>p_meta := checkout_meta [] c\<rparr>) (?s2\<lparr>payments := payments ?s2 @ [?p]\<rparr>))"
      using same_tables_D [OF inserted(7)] by simp
    have "?i \<notin> pay_ids ?s2" by (rule race_fresh [OF env(1) s])
    then have "set (payments ?s2) \<subseteq> set (payments u)"
      unfolding pu by (auto simp: set_payment_def upd_where_def new_payment_def pay_ids_def image_iff)
    then have "evolves ?s2 u" unfolding evolves_def using pay_evolves_refl by blast
    then show ?thesis by (rule evolves_trans [OF e2])
  qed
qed

lemma start_subscription_evolves:
  fixes s u :: "'z billing_db_scheme"
  assumes r: "start_subscription env acc ctx code provider s = (Inr c, u)"
    and s: "billing_state s" and env: "race_ok env" "race_evolves env"
  shows "evolves s u"
proof -
  have co: "evolves s' u" if "checkout_for env ctx x provider s' = (Inr c, u)" "billing_state s'" for x s'
    using that(1) create_payment_evolves [OF _ that(2) env] unfolding checkout_for_def on_ok_Inr_iff pure_op_iff by blast
  from r obtain t pl where t: "tenant_id ctx = Some t" and pl: "plan_by_code code (plans s) = Inr pl" and pr: "pl_price pl \<noteq> 0"
    and g: "guard_require acc ctx SUBSCRIPTION_MANAGE = Inr ()"
    by (auto simp: start_subscription_def repo_init_def result_simps split: option.splits if_splits)
  let ?s2 = "race env (s\<lparr>uuid_next := Suc (uuid_next s)\<rparr>)"
  show ?thesis
  proof (cases "repo_find s_tenant t (\<lambda>x. s_status x = SubPending) (subs s)")
    case (Cons x xs)
    then have "checkout_for env ctx x provider s = (Inr c, u)"
      using r t pl pr g by (simp add: start_subscription_def repo_init_def split: if_splits)
    then show ?thesis using s by (rule co)
  next
    case Nil
    let ?i = "uuid_gen s (uuid_next s)"
    from r t pl pr g Nil obtain fin where nc: "\<not> sub_conflict (new_sub ?i t pl SubPending (now s) fin) (subs ?s2)"
      and c: "checkout_for env ctx (new_sub ?i t pl SubPending (now s) fin) provider
        (?s2\<lparr>subs := subs ?s2 @ [new_sub ?i t pl SubPending (now s) fin]\<rparr>) = (Inr c, u)"
      by (auto simp: start_subscription_def repo_init_def new_uuid7_def result_simps repo_add_sub Let_def split: if_splits)
    note rc = race_fresh [OF env(1) s]
    let ?x = "new_sub ?i t pl SubPending (now s) fin"
    have "billing_state (?s2\<lparr>subs := subs ?s2 @ [?x]\<rparr>)"
      by (rule insert_sub_state(1) [OF s rc(2) rc(1)]) (use rc nc in simp_all)
    from co [OF c this] have "evolves ?s2 u" by (simp add: evolves_def)
    moreover have "billing_state (s\<lparr>uuid_next := Suc (uuid_next s)\<rparr>)" using new_uuid_state [OF s, of "webhooks s"] by simp
    then have "evolves s ?s2" using env(2) by (simp add: race_evolves_def evolves_def)
    ultimately show ?thesis using evolves_trans by blast
  qed
qed

lemma cancel_subscription_pays:
  assumes r: "cancel_subscription acc ctx s = (Inr d, u)"
  shows "payments u = payments s"
proof -
  from r obtain x' p eid where e: "emit ''billing'' ctx ''billing.subscription.canceled'' p (set_sub x' s) = (Inr eid, u)"
    by (auto simp: cancel_subscription_def repo_init_def result_simps Let_def split: option.splits list.splits)
  have "same_tables (set_sub x' s) u"
    using emit_tables [of "set_sub x' s" "''billing''" ctx "''billing.subscription.canceled''" p] by (simp add: e)
  then show ?thesis by (simp add: same_tables_def)
qed

lemma auto_subscribe_pays:
  assumes r: "auto_subscribe ctx code s = (Inr (), u)"
  shows "payments u = payments s"
proof (cases "u = s")
  case False
  from r False obtain p eid xs where
    e: "emit ''billing'' ctx ''billing.subscription.activated'' p (s\<lparr>uuid_next := Suc (uuid_next s), subs := xs\<rparr>) = (Inr eid, u)"
    by (auto simp: auto_subscribe_def repo_init_def new_uuid7_def result_simps repo_add_sub Let_def cong: if_cong
        split: option.splits if_splits)
  have "same_tables (s\<lparr>uuid_next := Suc (uuid_next s), subs := xs\<rparr>) u"
    using emit_tables [of "s\<lparr>uuid_next := Suc (uuid_next s), subs := xs\<rparr>" "''billing''" ctx "''billing.subscription.activated''" p]
    by (simp add: e)
  then show ?thesis by (simp add: same_tables_def)
qed simp

lemma close_ended_period_pays:
  fixes s u :: "'z billing_db_scheme"
  assumes r: "close_ended_period ctx i fb s = (Inr b, u)"
  shows "payments u = payments s"
  using r
proof (cases rule: close_ended_period_cases)
  case (close x s1)
  have "payments s1 = payments s" using same_tables_D [OF close(7)] by simp
  then show ?thesis using close(8) auto_subscribe_pays [of ctx _ s1 u] by auto
qed simp_all

lemma expire_one_evolves:
  fixes s u :: "'z billing_db_scheme"
  assumes r: "expire_one i t s = (Inr b, u)" and s: "billing_state s"
  shows "evolves s u"
proof -
  have "pay_evolves p (if p_id p = i then expired_row (now s) p else p)" for p
    using closed_evolves [OF live_can_expire] by (auto simp: expired_row_def)
  moreover have "set (payments u) = (\<lambda>p. if p_id p = i then expired_row (now s) p else p) ` set (payments s)"
    using expire_one_Inr [OF r s] by simp
  ultimately show ?thesis unfolding evolves_def by blast
qed

lemma expire_one_state:
  assumes "expire_one i t s = (Inr b, u)" and "billing_state s"
  shows "billing_state u \<and> grows s u"
  using expire_one_Inr [OF assms] by simp

subsection \<open>Reachability\<close>

abbreviation steady :: "'z billing_db_scheme \<Rightarrow> 'z billing_db_scheme \<Rightarrow> bool" where
  "steady s t \<equiv> billing_state s \<longrightarrow> billing_state t \<and> grows s t \<and> evolves s t"

lemma steady_trans: "steady s t \<Longrightarrow> steady t u \<Longrightarrow> steady s u"
  using grows_trans evolves_trans by blast

lemma steady_run:
  assumes "(\<lambda>x y. bstep x y \<and> steady x y)\<^sup>*\<^sup>* s t"
  shows "steady s t"
  using assms
proof (induction rule: rtranclp_induct)
  case base
  show ?case by (simp add: evolves_same)
next
  case (step t u)
  then show ?case using steady_trans [of s t u] by simp
qed

lemma steady_race:
  assumes "\<forall>x. (\<lambda>x y. bstep x y \<and> steady x y)\<^sup>*\<^sup>* x (race env x)"
  shows "race_ok env" and "race_evolves env"
  using assms steady_run by (auto simp: race_ok_def race_evolves_def billing_state_def)

lemma steady_uow:
  assumes "unit_of_work body s = (Inr x, t)"
    and "\<And>s u. body s = (Inr x, u) \<Longrightarrow> billing_state s \<Longrightarrow> billing_state u \<and> grows s u"
    and "\<And>s u. body s = (Inr x, u) \<Longrightarrow> billing_state s \<Longrightarrow> evolves s u"
  shows "steady s t"
  using assms(1) assms(2,3) [of "s\<lparr>pending_events := []\<rparr>"] unfolding unit_of_work_ok by auto

lemma close_payment_state:
  assumes "close_payment ctx p st r s = (Inr q, t)" and "p \<in> set (payments s)" and "st \<noteq> Succeeded" and "billing_state s"
  shows "billing_state t \<and> grows s t"
  using close_payment_inv [OF _ assms(2,3,1)] close_payment_grows [OF assms(1)] billing_state_grows [OF assms(4)] assms(4)
  by (simp add: billing_state_def)

lemma cancel_payment_Inr:
  assumes "cancel_payment ctx i s = (Inr d, t)"
  obtains p q where "p \<in> set (payments s)" "close_payment ctx p Canceled None s = (Inr q, t)"
  using assms by (auto simp: cancel_payment_def repo_init_def result_simps dest!: find_Some_set split: option.splits)

lemma cancel_payment_state:
  assumes r: "cancel_payment ctx i s = (Inr d, t)" and s: "billing_state s"
  shows "billing_state t \<and> grows s t"
proof -
  from r obtain p q where pq: "p \<in> set (payments s)" "close_payment ctx p Canceled None s = (Inr q, t)" by (rule cancel_payment_Inr)
  show ?thesis by (rule close_payment_state [OF pq(2,1) _ s]) simp
qed

lemma cancel_payment_evolves:
  assumes r: "cancel_payment ctx i s = (Inr d, t)" and s: "billing_state s"
  shows "evolves s t"
proof -
  from r obtain p q where pq: "p \<in> set (payments s)" "close_payment ctx p Canceled None s = (Inr q, t)" by (rule cancel_payment_Inr)
  show ?thesis by (rule close_payment_evolves [OF pq(2,1)]) (use s in \<open>simp add: billing_state_def\<close>)
qed

lemma steady_same:
  assumes "subs t = subs s" "payments t = payments s" "uuid_gen t = uuid_gen s" "uuid_next s \<le> uuid_next t"
    and "valid_datetime (now s) \<Longrightarrow> valid_datetime (now t)"
  shows "steady s t"
proof -
  have "grows s t" using assms by (simp add: grows_def pay_ids_def sub_ids_def)
  then show ?thesis using assms grows_unused by (auto simp: billing_state_def billing_inv_def evolves_same)
qed

lemma bstep_steady: "bstep s t \<Longrightarrow> steady s t"
proof (induction rule: bstep.induct)
  case (create env ctx amt purpose reference provider idem url sub_id s c t)
  note env = steady_race [OF create(1)]
  show ?case by (rule steady_uow [OF create(2)])
    (rule create_payment_state [OF _ _ env(1)] create_payment_evolves [OF _ _ env]; assumption)+
next
  case (start env acc ctx code provider s c t)
  note env = steady_race [OF start(1)]
  show ?case by (rule steady_uow [OF start(2)])
    (rule start_subscription_state [OF _ _ env(1)] start_subscription_evolves [OF _ _ env]; assumption)+
next
  case (cancel_pay ctx i s d t)
  show ?case
    by (rule steady_uow [OF cancel_pay]) (rule cancel_payment_state cancel_payment_evolves; assumption)+
next
  case (cancel_sub acc ctx s sd t)
  show ?case by (rule steady_uow [OF cancel_sub]) (erule cancel_subscription_state evolves_same [OF cancel_subscription_pays]; assumption?)+
next
  case (subscribe_free ctx code s t)
  show ?case by (rule steady_uow [OF subscribe_free]) (erule auto_subscribe_state evolves_same [OF auto_subscribe_pays]; assumption?)+
next
  case (fail p s ctx reason q t)
  then obtain u where u: "close_payment ctx p Failed (Some reason) (s\<lparr>pending_events := []\<rparr>) = (Inr q, u)" "t = commit u"
    by (auto simp: unit_of_work_ok mark_failed_def)
  have inv: "billing_inv (s\<lparr>pending_events := []\<rparr>)" if "billing_state s" using that by (simp add: billing_state_def billing_inv_def)
  show ?case using close_payment_state [OF u(1)] close_payment_evolves [OF u(1)] fail(1) inv u(2) by simp
next
  case (callback cr prov cb raw s out t)
  show ?case by (rule steady_uow [OF callback]) (erule dispatch_state dispatch_evolves; simp add: billing_state_def)+
next
  case (expire i tn s b t)
  show ?case by (rule steady_uow [OF expire]) (erule expire_one_state expire_one_evolves; assumption)+
next
  case (end_period ctx i fb s b t)
  show ?case by (rule steady_uow [OF end_period]) (erule close_ended_period_state evolves_same [OF close_ended_period_pays]; assumption?)+
next
  case (rolled_back s n es)
  then show ?case by (intro steady_same) simp_all
next
  case (tick s n)
  then show ?case by (intro steady_same) simp_all
next
  case (seed_plans s ps)
  then show ?case by (intro steady_same) simp_all
qed

lemma run_steady:
  assumes "bstep\<^sup>*\<^sup>* s t"
  shows "steady s t"
  using assms
proof (induction rule: rtranclp_induct)
  case base
  show ?case by (simp add: evolves_same)
next
  case (step t u)
  then show ?case using steady_trans [of s t u] bstep_steady [of t u] by simp
qed

subsection \<open>The sweeps and the callback endpoint are runs\<close>

lemma expire_loop_run: "expire_loop targets k s = (Inr n, t) \<Longrightarrow> bstep\<^sup>*\<^sup>* s t"
proof (induction targets k s rule: expire_loop.induct)
  case (2 i tn targets k s)
  then obtain b u where u: "unit_of_work (expire_one i tn) s = (Inr b, u)"
    and r: "expire_loop targets (if b then Suc k else k) u = (Inr n, t)" by (auto simp: result_simps)
  show ?case by (rule converse_rtranclp_into_rtranclp [OF bstep.expire [OF u] "2.IH" [OF u r]])
qed simp

lemma period_loop_run: "period_loop fb targets k s = (Inr n, t) \<Longrightarrow> bstep\<^sup>*\<^sup>* s t"
proof (induction fb targets k s rule: period_loop.induct)
  case (2 fb i tn targets k s)
  let ?op = "close_ended_period (job_ctx (Some tn) ''billing.period_end'') i fb"
  from "2.prems" obtain b u where u: "unit_of_work ?op s = (Inr b, u)"
    and r: "period_loop fb targets (if b then Suc k else k) u = (Inr n, t)" by (auto simp: result_simps)
  show ?case by (rule converse_rtranclp_into_rtranclp [OF bstep.end_period [OF u] "2.IH" [OF u r]])
qed simp

lemma process_run:
  assumes "process cr ports code raw s = (Inr resp, t)"
  shows "bstep s t"
  using assms by (auto simp: process_def result_simps split: option.splits intro: bstep.callback)

end
