(* ===== verification/Adapter_Laws.thy ===== *)
theory Adapter_Laws
  imports Webhook_Laws
begin

section \<open>Laws of the provider adapters\<close>

text \<open>
  What the three adapters promise the payment service (\<open>checkout_port\<close>), the amounts they send
  and read back, and what a signature has to be for a callback to count as authentic.
\<close>

subsection \<open>Checkouts\<close>

interpretation payme_co: checkout_port "''payme''" "payme_create_checkout pm" for pm
  by unfold_locales (auto simp: payme_create_checkout_def result_simps Let_def)

interpretation click_co: checkout_port "''click''" "click_create_checkout ck" for ck
  by unfold_locales (auto simp: click_create_checkout_def result_simps Let_def)

interpretation stripe_co: checkout_port "''stripe''" "\<lambda>d url. fst (stripe_create_checkout st http t br d url)" for st http t br
  by unfold_locales (auto simp: stripe_create_checkout_def result_simps Let_def split: prod.splits if_splits)

text \<open>The providers an installation can enable.\<close>

definition installed :: "payme \<Rightarrow> click \<Rightarrow> stripe \<Rightarrow> http_client \<Rightarrow> rat \<Rightarrow> breaker \<Rightarrow> string \<Rightarrow> checkout_fn option" where
  "installed pm ck st http t br code =
     (if code = ''payme'' then Some (payme_create_checkout pm)
      else if code = ''click'' then Some (click_create_checkout ck)
      else if code = ''stripe'' then Some (\<lambda>d url. fst (stripe_create_checkout st http t br d url)) else None)"

lemma installed_port: "installed pm ck st http t br code = Some f \<Longrightarrow> checkout_port code f"
  by (auto simp: installed_def payme_co.checkout_port_axioms click_co.checkout_port_axioms
      stripe_co.checkout_port_axioms split: if_splits)

subsection \<open>Amounts\<close>

lemma tiyin_roundtrip: "0 \<le> m_amount m \<Longrightarrow> to_tiyin m = Inr n \<Longrightarrow> minor_units_from_tiyin (JInt n) = Inr (m_amount m)"
  by (auto simp: to_tiyin_def minor_units_from_tiyin_def TIYIN_PER_SUM_def Let_def split: if_splits)

lemma tiyin_exact: "minor_units_from_tiyin (JInt n) = Inr a \<Longrightarrow> to_tiyin \<lparr>m_amount = a, m_currency = PAYME_CURRENCY\<rparr> = Inr n"
  by (auto simp: to_tiyin_def minor_units_from_tiyin_def TIYIN_PER_SUM_def Let_def split: if_splits)

lemma digits_value_snoc: "digits_value (s @ [c]) = 10 * digits_value s + (py_ord c - 48)"
  by (simp add: digits_value_def)

lemma digits_value_show_nat: "digits_value (show_nat n) = n"
proof (induction n rule: show_nat.induct)
  case (1 n)
  show ?case
  proof (cases "n < 10")
    case True
    then show ?thesis by (simp add: show_nat.simps [of n] digits_value_def py_ord_digit_char)
  next
    case False
    then have "show_nat n = show_nat (n div 10) @ [digit_char (n mod 10)]" by (simp add: show_nat.simps [of n])
    then show ?thesis using 1 False by (simp add: digits_value_snoc py_ord_digit_char)
  qed
qed

lemma digit_lower: "ch_dec c \<Longrightarrow> ch_to_lower c = c"
  by (auto simp: ch_dec_def ch_to_lower_def ch_upper_def)

lemma py_lower_digits: "list_all (\<lambda>c. ch_to_lower c = c) s \<Longrightarrow> py_lower s = s"
  by (simp add: py_lower_def map_idI list_all_iff)

lemma decimal_of_sum:
  assumes "fr = [] \<or> fr = ''.00''"
  shows "decimal_of (show_nat n @ fr) = Some (DFin False (if fr = [] then n else 100 * n) (- int (length fr - 1)))"
proof -
  let ?s = "show_nat n @ fr"
  have sp: "strip ch_space ?s = ?s" using assms show_nat_plain by (intro strip_absent) (auto simp: ch_space_def py_ord_def)
  have us: "filter (\<lambda>c. c \<noteq> CHR ''_'') ?s = ?s" using assms show_nat_plain by (intro filter_True) auto
  have dl: "list_all (\<lambda>c. ch_to_lower c = c) (show_nat n)" using show_nat_plain digit_lower by (simp add: list_all_iff)
  have "list_all (\<lambda>c. ch_to_lower c = c) fr" using assms by (elim disjE; hypsubst; code_simp)
  with dl have lo: "py_lower ?s = ?s" by (intro py_lower_digits) simp
  obtain c cs where c: "show_nat n = c # cs" by (cases "show_nat n") auto
  have cd: "ch_dec c" "c \<noteq> CHR ''-''" "c \<noteq> CHR ''+''" using show_nat_plain [of c n] c by auto
  then have nx: "c \<noteq> CHR ''i''" "c \<noteq> CHR ''n''" "c \<noteq> CHR ''s''" by (auto simp: ch_dec_def py_ord_def)
  have all: "list_all ch_dec (show_nat n)" using show_nat_plain by (auto simp: list_all_iff)
  have tw: "takeWhile ch_dec ?s = show_nat n" "dropWhile ch_dec ?s = fr"
    using all assms by (auto simp: list_all_iff ch_dec_def py_ord_def takeWhile_append dropWhile_append)
  have dv: "digits_value (show_nat n @ ''00'') = 100 * n"
    using digits_value_snoc [of "show_nat n @ ''0''" "CHR ''0''"] digits_value_snoc [of "show_nat n" "CHR ''0''"]
    by (simp add: digits_value_show_nat py_ord_def)
  have "decimal_of ?s = decimal_number False ?s"
    unfolding decimal_of_def Let_def sp us lo using cd nx by (simp add: c)
  then show ?thesis using assms tw dv
    by (auto simp: decimal_number_def Let_def digits_value_show_nat ch_dec_def py_ord_def)
qed

lemma sum_roundtrip:
  assumes "0 \<le> m_amount m" and "to_sum_amount m = Inr v" and "fr = [] \<or> fr = ''.00''"
  shows "minor_units_from_sum (v @ fr) = Inr (m_amount m)"
  using assms decimal_of_sum [OF assms(3), of "nat (m_amount m)"]
  by (auto simp: to_sum_amount_def show_int_def minor_units_from_sum_def split: if_splits)

lemma upper_lower:
  assumes "ch_upper c"
  shows "ch_to_upper (ch_to_lower c) = c \<and> py_ord (ch_to_lower c) \<noteq> 223"
proof -
  have "py_ord (ch_to_lower c) = py_ord c + 32" using assms by (auto simp: ch_to_lower_def ch_upper_def py_ord_def)
  then show ?thesis using assms by (auto simp: ch_to_upper_def ch_upper_def py_ord_def)
qed

lemma py_upper_lower: "list_all ch_upper s \<Longrightarrow> py_upper (py_lower s) = s"
  using upper_lower by (induction s) (simp_all add: py_upper_def py_lower_def)

lemma stripe_roundtrip:
  assumes "valid_money m"
  shows "minor_units_from_stripe (JInt (to_stripe_amount m)) (JStr (py_lower (m_currency m))) = Inr m"
proof -
  have "list_all ch_upper (m_currency m)"
    using assms by (auto simp: valid_money_def py_isalpha_def py_isupper_def ch_alpha_def list_all_iff list_ex_iff)
  moreover have "mk_money (m_amount m) (m_currency m) = Inr m" using assms by (simp add: mk_money_Inr)
  ultimately show ?thesis using assms py_upper_lower [of "m_currency m"]
    by (auto simp: minor_units_from_stripe_def to_stripe_amount_def normalize_currency_def valid_money_def py_str_def py_lower_def Let_def)
qed

subsection \<open>Authenticity\<close>

lemma compare_digest_Inr: "compare_digest a b = Inr True \<Longrightarrow> a = b"
  by (auto simp: compare_digest_def split: if_splits)

lemma any_matches_Inr: "any_matches x cs = Inr True \<Longrightarrow> x \<in> set cs"
  by (induction cs) (auto simp: result_simps split: if_splits dest: compare_digest_Inr)

lemma stripe_signature_True:
  assumes "stripe_signature_ok cr st raw = Inr True"
  obtains header ts sigs n where "raw_header raw ''stripe-signature'' = Some header"
    "parse_signature_header header = (Some ts, sigs)" "py_int 10 ts = Some n"
    "abs (st_clock st - n * 1000000) \<le> st_tolerance st * 1000000"
    "hmac_sha256_hex cr (st_webhook_secret st) (ts @ ''.'' @ rw_body raw) \<in> set sigs"
  using assms that
  by (auto simp: stripe_signature_ok_def split: option.splits prod.splits if_splits dest: any_matches_Inr)

lemma click_sign_True:
  "click_sign_ok cr ck form a = Inr True \<Longrightarrow> form_get form ''sign_string'' [] = click_sign cr ck form a"
  by (auto simp: click_sign_ok_def dest: compare_digest_Inr)

lemma payme_auth_True:
  assumes "payme_auth_ok pm raw = Inr True"
  obtains header bytes where "raw_header raw ''authorization'' = Some header" "startswith (py_lower header) ''basic ''"
    "b64_decode (strip ch_space (drop 6 header)) = Some bytes" "map char_of bytes = pm_expected_auth pm"
  using assms that
  by (auto simp: payme_auth_ok_def Let_def split: option.splits if_splits dest: compare_digest_Inr)
end
