(* ===== verification/Billing_Example.thy ===== *)
theory Billing_Example
  imports Billing_System Adapter_Laws
begin

section \<open>A concrete installation\<close>

text \<open>
  One tenant, one paid and one free plan, Payme enabled.  \<open>ex_db\<close> is the state before the
  tenant buys the paid plan, \<open>ex_open\<close> the state with the checkout open and \<open>ex_due\<close> a
  state with subscriptions past their period.  The decoder of request bodies knows the requests of the
  scenario.
\<close>

definition ex_now :: datetime where
  "ex_now = Datetime 2026 1 31 36000000000"

definition ex_plan :: plan where
  "ex_plan = \<lparr>pl_id = 7, pl_code = ''pro'', pl_name = [], pl_price = 90000, pl_currency = ''UZS'', pl_period = ''month'',
     pl_trial_days = 0, pl_active = True\<rparr>"

definition ex_free :: plan where
  "ex_free = \<lparr>pl_id = 8, pl_code = ''free'', pl_name = [], pl_price = 0, pl_currency = ''UZS'', pl_period = ''month'',
     pl_trial_days = 0, pl_active = True\<rparr>"

definition ex_db :: billing_db where
  "ex_db = \<lparr>now = ex_now, uuid_gen = (\<lambda>k. k + 1000), uuid_next = 0, pending_events = [], published = [], audit_log = [],
     processed_events = [], plans = [ex_plan, ex_free], subs = [], payments = [], webhooks = []\<rparr>"

definition ex_payme :: payme where
  "ex_payme = \<lparr>pm_merchant_id = ''m1'', pm_expected_auth = ''Paycom:key'', pm_ms = (\<lambda>_. 0)\<rparr>"

definition ex_env :: "billing_db pay_env" where
  "ex_env = \<lparr>providers = (\<lambda>code. if code = ''payme'' then Some (payme_create_checkout ex_payme) else None),
     enabled_providers = [''payme''], host_ok = (\<lambda>_. True), race = (\<lambda>s. s)\<rparr>"

definition ex_ctx :: tenant_context where
  "ex_ctx = mk_ctx (Some 1) \<lparr>act_kind = User, actor_id = Some (uuid_str 2)\<rparr>"

definition ex_acc :: access where
  "ex_acc = (\<lambda>_. [SUBSCRIPTION_MANAGE, SUBSCRIPTION_READ, PLAN_READ])"

subsection \<open>Requests\<close>

definition ex_create_body :: json where
  "ex_create_body = JObj [(''id'', JInt 1), (''method'', JStr ''CreateTransaction''),
     (''params'', JObj [(''id'', JStr ''tx1''), (''amount'', JInt 9000000),
        (''account'', JObj [(''payment_id'', JStr (uuid_str 1001))])])]"

definition ex_perform_body :: json where
  "ex_perform_body = JObj [(''id'', JInt 2), (''method'', JStr ''PerformTransaction''),
     (''params'', JObj [(''id'', JStr ''tx1'')])]"

definition ex_crypto :: crypto where
  "ex_crypto = \<lparr>json_loads = map_of [(''create'', ex_create_body), (''perform'', ex_perform_body)],
     md5_hex = (\<lambda>_. replicate 32 CHR ''0''), sha256_hex = (\<lambda>_. replicate 64 CHR ''0''),
     hmac_sha256_hex = (\<lambda>_ _. replicate 64 CHR ''0'')\<rparr>"

definition ex_raw :: "string \<Rightarrow> string \<Rightarrow> raw_webhook" where
  "ex_raw key body = \<lparr>rw_headers = [(''Authorization'', ''Basic '' @ b64_encode (utf8_encode (''Paycom:'' @ key)))], rw_body = body,
     rw_form = []\<rparr>"

definition ex_ports :: "string \<Rightarrow> provider_port option" where
  "ex_ports code = (if code = ''payme'' then Some (payme_port ex_crypto ex_payme) else None)"

subsection \<open>The open checkout\<close>

definition ex_sub :: subscription where
  "ex_sub = \<lparr>s_id = 1000, s_tenant = 1, s_plan = 7, s_status = SubPending, s_price = 90000, s_currency = ''UZS'',
     s_start = ex_now, s_end = Datetime 2026 2 28 36000000000, s_cancel_at_end = False, s_canceled_at = None, s_created = ex_now\<rparr>"

definition ex_pay :: payment where
  "ex_pay = \<lparr>p_id = 1001, p_tenant = 1, p_subscription = Some 1000, p_purpose = ''subscription'', p_reference = uuid_str 1000,
     p_amount = 90000, p_currency = ''UZS'', p_status = Pending, p_provider = ''payme'', p_txn = Some ''tx1'',
     p_idem = ''subscription:'' @ uuid_str 1000, p_failure = None, p_paid_at = None, p_meta = [], p_created = ex_now\<rparr>"

definition ex_open :: billing_db where
  "ex_open = ex_db\<lparr>uuid_next := 3, subs := [ex_sub], payments := [ex_pay]\<rparr>"

definition ex_confirm :: provider_callback where
  "ex_confirm = \<lparr>cb_provider = ''payme'', cb_txn = Some ''tx1'', cb_action = Confirm, cb_reference = [], cb_amount = None,
     cb_raw = [(''id'', JInt 2), (''method'', JStr ''PerformTransaction''), (''params'', JObj [(''id'', JStr ''tx1'')])],
     cb_sig = True, cb_reason = None\<rparr>"

subsection \<open>Evaluation\<close>

text \<open>The continuation of a composed operation is evaluated once its first part has been.\<close>

lemma on_ok_weak_cong: "r = r' \<Longrightarrow> on_ok r k = on_ok r' k"
  by simp

lemma and_then_weak_cong: "r = r' \<Longrightarrow> and_then r k = and_then r' k"
  by simp

lemmas run_cong = on_ok_weak_cong and_then_weak_cong let_weak_cong

lemmas ex_defs = ex_db_def ex_env_def ex_ctx_def ex_acc_def ex_plan_def ex_free_def ex_now_def ex_sub_def ex_pay_def
  ex_open_def ex_confirm_def mk_ctx_def

lemmas run_defs = repo_init_def guard_require_def has_permission_def access_require_def uuid_parse_str
  repo_find_filter repo_add_def new_uuid7_def emit_valid Let_def mk_money_def py_isalpha_def py_isupper_def ch_alpha_def ch_upper_def
  ch_lower_def py_ord_def meta_time_def jget_def payment_to_dto_def period_end_def replace_date_def month_len_def is_leap_def

lemmas intake_defs = create_payment_def validate_return_url_def by_idempotency_key_def stamp_payment_def payment_conflict_def
  idem_conflict_def txn_conflict_def payme_create_checkout_def to_tiyin_def PAYME_CURRENCY_def

lemmas start_defs = start_subscription_def plan_by_code_def checkout_for_def new_sub_def sub_conflict_def stamp_sub_def

lemmas callback_defs = dispatch_signed in_ledger_def process_transition_def find_payment_def find_by_txn_def as_uuid_def system_get_one_def
  amount_ok_def apply_action_def mark_succeeded_def activate_subscription_def locked_subscription_def get_plan_def pay_audit_def
  audit_record_def actor_user_id_def integration_ctx_def READ_ONLY_ACTIONS_def assert_transition_def can_transition_def set_payment_def set_sub_def
  is_live_def LIVE_SUBSCRIPTION_STATES_def set_webhook_def

lemma ex_db_state: "billing_state ex_db"
  by (simp add: billing_state_def billing_inv_def subs_ok_def pays_ok_def paid_ok_def unused_ids_def pay_ids_def sub_ids_def
      ex_db_def ex_now_def valid_datetime_def month_len_def inj_def)

lemma ex_open_state: "billing_state ex_open"
  by (simp add: billing_state_def billing_inv_def subs_ok_def pays_ok_def paid_ok_def unused_ids_def pay_ids_def sub_ids_def
      payment_ok_def ex_defs run_defs valid_datetime_def inj_def)

lemma ex_start: "\<exists>c t. unit_of_work (start_subscription ex_env (Some ex_acc) ex_ctx ''pro'' ''payme'') ex_db = (Inr c, t)"
  by (simp add: unit_of_work_def ex_defs start_defs run_defs intake_defs cong: run_cong)

lemma ex_race: "\<forall>x. bstep\<^sup>*\<^sup>* x (race ex_env x)"
  by (simp add: ex_env_def)

lemma ex_confirmed: "\<exists>out t. dispatch ex_crypto ''payme'' ex_confirm (ex_raw ''key'' ''perform'') ex_open = (Inr out, t)"
  by (simp add: callback_defs ex_defs run_defs cong: run_cong)


lemma ex_auth: "payme_auth_ok ex_payme (ex_raw ''key'' body) = Inr True"
  by code_simp

lemma ex_raw_body [simp]: "rw_body (ex_raw key body) = body"
  by (simp add: ex_raw_def)

lemma ex_parse: "payme_parse ex_crypto ex_payme (ex_raw ''key'' ''perform'') = Inr ex_confirm"
  by (simp add: payme_parse_def decode_jsonrpc_def ex_crypto_def ex_auth ex_perform_body_def ex_confirm_def
      jget_def jhas_def METHOD_ACTIONS_def payme_normalize_def py_str_def jget_or_def Let_def cong: run_cong)

lemma ex_processed: "\<exists>resp t. process ex_crypto ex_ports ''payme'' (ex_raw ''key'' ''perform'') ex_open = (Inr resp, t)"
  by (simp add: process_def ex_ports_def payme_port_def ex_parse unit_of_work_def callback_defs ex_defs run_defs
      payme_respond_def mk_outcome_def payme_success_result_def payme_request_id_def cong: run_cong)

end
