(* ===== verification/Billing_Properties.thy ===== *)
theory Billing_Properties
  imports Billing_Example
begin

section \<open>Properties of billing\<close>

text \<open>
  The theorems a reader of \<^verbatim>\<open>core/billing\<close> looks for, each with an instance.
\<close>

subsection \<open>Every run of the system\<close>

lemma at_most_one_filter:
  assumes "distinct (map key rows)" and "\<And>x y. x \<in> set rows \<Longrightarrow> y \<in> set rows \<Longrightarrow> P x \<Longrightarrow> P y \<Longrightarrow> x = y"
  shows "length (filter P rows) \<le> 1"
proof (rule ccontr)
  assume "\<not> ?thesis"
  then obtain x y zs where e: "filter P rows = x # y # zs"
    by (metis One_nat_def Suc_le_mono le0 length_Cons list.size(3) neq_Nil_conv)
  have "set (filter P rows) \<subseteq> {r \<in> set rows. P r}" by auto
  then have "x = y" using assms(2) [of x y] unfolding e by auto
  moreover have "distinct (filter P rows)" using assms(1) by (simp add: distinct_map)
  ultimately show False unfolding e by simp
qed

lemma one_subscription:
  assumes "subs_ok xs"
  shows "length (filter (\<lambda>x. s_tenant x = tn \<and> is_live x) xs) \<le> 1"
    and "length (filter (\<lambda>x. s_tenant x = tn \<and> s_status x = SubPending) xs) \<le> 1"
  by (rule at_most_one_filter [of s_id]; use assms in \<open>auto simp: subs_ok_def\<close>)+

lemma extended_start_Cons:
  "extended_start pl (o' # olds) n = extended_start pl olds (if s_plan o' = pl \<and> n < s_end o' then s_end o' else n)"
  by (simp add: extended_start_def)

lemma extended_start_bounds:
  "n \<le> extended_start pl olds n \<and> (\<forall>y \<in> set olds. s_plan y = pl \<longrightarrow> s_end y \<le> extended_start pl olds n)"
proof (induction olds arbitrary: n)
  case (Cons o' olds)
  let ?n = "if s_plan o' = pl \<and> n < s_end o' then s_end o' else n"
  have b: "n \<le> ?n" "s_plan o' = pl \<longrightarrow> s_end o' \<le> ?n" by auto
  note ih = Cons.IH [of ?n]
  have "n \<le> extended_start pl olds ?n" using b(1) ih by (blast intro: order_trans)
  moreover have "s_plan o' = pl \<longrightarrow> s_end o' \<le> extended_start pl olds ?n" using b(2) ih by (blast intro: order_trans)
  ultimately show ?case unfolding extended_start_Cons using ih by simp
qed (simp add: extended_start_def)

lemma extended_start_reached:
  "extended_start pl olds n = n \<or> (\<exists>y \<in> set olds. s_plan y = pl \<and> extended_start pl olds n = s_end y)"
proof (induction olds arbitrary: n)
  case (Cons o' olds)
  show ?case using Cons.IH [of "if s_plan o' = pl \<and> n < s_end o' then s_end o' else n"]
    unfolding extended_start_Cons by (auto split: if_splits)
qed (simp add: extended_start_def)

text \<open>What the success of a subscription payment does to the two tables.\<close>

definition paid_period :: "'z billing_db_scheme \<Rightarrow> subscription \<Rightarrow> subscription \<Rightarrow> bool" where
  "paid_period s x x' \<longleftrightarrow>
     (let others = {y \<in> set (subs s). s_tenant y = s_tenant x \<and> is_live y \<and> s_id y \<noteq> s_id x \<and> s_plan y = s_plan x}
      in now s \<le> s_start x' \<and> (\<forall>y \<in> others. s_end y \<le> s_start x') \<and> (s_start x' = now s \<or> (\<exists>y \<in> others. s_start x' = s_end y)))
     \<and> period_end (s_start x') (case find (\<lambda>pl. pl_id pl = s_plan x) (plans s) of Some pl \<Rightarrow> pl_period pl | None \<Rightarrow> ''month'') = Inr (s_end x')"

lemma success_effect:
  fixes s t :: "'z billing_db_scheme"
  assumes r: "mark_succeeded ctx p s = (Inr q, t)" and inv: "billing_inv s" and sub: "p_purpose p = ''subscription''"
  obtains x x' where "x \<in> set (subs s)" "sub_of p = Some (s_id x)" "s_tenant x = p_tenant p"
    "x' = x\<lparr>s_status := Active, s_cancel_at_end := False, s_start := s_start x', s_end := s_end x'\<rparr>"
    "paid_period s x x'" "s_start x' < s_end x'"
    "subs t = activated (now s) (p_tenant p) x' (subs s)" "q = succeeded_payment (now s) p" "payments t = payments (set_payment q s)"
proof -
  have d: "distinct (map s_id (subs s))" using inv by (simp add: billing_inv_def subs_ok_def)
  from mark_succeeded_Inr [OF r d] sub obtain x fin where q: "q = succeeded_payment (now s) p" and x: "activates p s x fin"
    and st: "same_tables (set_payment q (s\<lparr>subs := activated (now s) (p_tenant p) (active_sub s x fin) (subs s)\<rparr>)) t" by auto
  have xs: "x \<in> set (subs s)" "sub_of p = Some (s_id x)" "s_tenant x = p_tenant p"
    using x locked_subscription_sub_of [of p s x] by (simp_all add: activates_def)
  let ?x = "active_sub s x fin"
  have pe: "period_end (s_start ?x) (case find (\<lambda>pl. pl_id pl = s_plan x) (plans s) of Some pl \<Rightarrow> pl_period pl | None \<Rightarrow> ''month'') = Inr (s_end ?x)"
    using x by (simp add: activates_def get_plan_def active_sub_def)
  have "paid_period s x ?x"
    unfolding paid_period_def Let_def
    using pe extended_start_bounds [of "now s" "s_plan x" "live_others (s_tenant x) x (subs s)"]
      extended_start_reached [of "s_plan x" "live_others (s_tenant x) x (subs s)" "now s"] by (auto simp: active_sub_def)
  moreover have "s_start ?x < s_end ?x" using period_end_later [OF pe] .
  moreover have "subs t = activated (now s) (p_tenant p) ?x (subs s)" "payments t = payments (set_payment q s)"
    using same_tables_D [OF st] by (simp_all add: set_payment_def)
  ultimately show ?thesis using xs q by (intro that [of x ?x]) (simp_all add: active_sub_def)
qed

text \<open>A callback that makes a subscription payment succeed leaves its subscription active.\<close>

lemma callback_activates:
  fixes s u :: "'z billing_db_scheme"
  assumes r: "dispatch cr code cb raw s = (Inr out, u)" and inv: "billing_inv s"
    and q: "q \<in> set (payments u)" "q \<notin> set (payments s)" "p_purpose q = ''subscription''" "p_status q = Succeeded"
  shows "\<exists>x \<in> set (subs u). sub_of q = Some (s_id x) \<and> s_tenant x = p_tenant q \<and> s_status x = Active
    \<and> now s \<le> s_start x \<and> s_start x < s_end x"
  using dispatch_effect [OF r inv]
proof (elim disjE conjE exE)
  fix p p' and s1 s2 :: "'z billing_db_scheme"
  assume f: "find_payment cb (payments s) = Inr (Some p)" and e: "payments s1 = payments s" "now s1 = now s" "billing_inv s1"
    "apply_action (integration_ctx (Some (p_tenant p)) code) p cb s1 = (Inr p', s2)" "payments u = payments s2" "subs u = subs s2"
  have p: "p \<in> set (payments s1)" using find_payment_Some [OF f] e(1) by simp
  have "q \<in> set (payments (set_payment p' s1))" using apply_action_Inr [OF e(4,3) p] q(1) e(5) by simp
  then have qp: "q = p'" using q(2) e(1) by (auto simp: set_payment_def upd_where_def split: if_splits)
  have "mark_succeeded (integration_ctx (Some (p_tenant p)) code) p s1 = (Inr p', s2)"
    using e(4) q(4) qp unfolding apply_action_def mark_canceled_by_provider_def
    by (auto simp: mark_pending_iff dest: close_payment_Inr split: callback_action.splits if_splits)
  note m = this
  have pp: "p_purpose p = ''subscription''"
    using mark_succeeded_Inr [OF m] e(3) q(3) qp by (auto simp: billing_inv_def subs_ok_def)
  obtain x x' where x: "x \<in> set (subs s1)" "sub_of p = Some (s_id x)" "s_tenant x = p_tenant p"
    "x' = x\<lparr>s_status := Active, s_cancel_at_end := False, s_start := s_start x', s_end := s_end x'\<rparr>"
    "paid_period s1 x x'" "s_start x' < s_end x'" "subs s2 = activated (now s1) (p_tenant p) x' (subs s1)" "p' = succeeded_payment (now s1) p"
    using success_effect [OF m e(3) pp] by metis
  have x': "s_id x' = s_id x" "s_tenant x' = s_tenant x" "s_status x' = Active" by (subst x(4), simp)+
  have "x' \<in> set (subs u)" unfolding e(6) x(7) activated_def using x(1) x'(1) by force
  moreover have "sub_of q = Some (s_id x')" "s_tenant x' = p_tenant q" using x(2,3,8) x' qp by (simp_all add: sub_of_def succeeded_payment_def split: option.splits)
  moreover have "now s \<le> s_start x'" using x(5) e(2) by (simp add: paid_period_def Let_def)
  ultimately show ?thesis using x'(3) x(6) by blast
qed (use q in simp_all)

text \<open>C1. Whatever transactions of the billing component commit, in whatever order and however their
  insertions race on the unique indexes, from a consistent state only consistent states are reached.
  In particular no tenant ever has two live subscriptions or two open checkouts, and what was paid for is
  activated: the callback by which a subscription payment succeeds leaves its subscription active, in a
  period that starts no earlier than that moment and is not empty, and no subscription with a succeeded
  payment is ever found waiting for payment.\<close>

theorem billing_runs_safe:
  assumes "billing_state s" and "bstep\<^sup>*\<^sup>* s t"
  shows "billing_state t
    \<and> (\<forall>tn. length (filter (\<lambda>x. s_tenant x = tn \<and> is_live x) (subs t)) \<le> 1
          \<and> length (filter (\<lambda>x. s_tenant x = tn \<and> s_status x = SubPending) (subs t)) \<le> 1)
    \<and> (\<forall>p \<in> set (payments t). p_purpose p = ''subscription'' \<longrightarrow> p_status p = Succeeded \<longrightarrow>
          (\<exists>x \<in> set (subs t). sub_of p = Some (s_id x) \<and> s_tenant x = p_tenant p \<and> s_status x \<noteq> SubPending))
    \<and> (\<forall>cr prov cb raw out u. unit_of_work (dispatch cr prov cb raw) t = (Inr out, u) \<longrightarrow>
          (\<forall>q \<in> set (payments u) - set (payments t). p_purpose q = ''subscription'' \<longrightarrow> p_status q = Succeeded \<longrightarrow>
            (\<exists>x \<in> set (subs u). sub_of q = Some (s_id x) \<and> s_tenant x = p_tenant q \<and> s_status x = Active
               \<and> now t \<le> s_start x \<and> s_start x < s_end x)))"
proof -
  have t: "billing_state t" using run_steady [OF assms(2)] assms(1) by blast
  then have ok: "subs_ok (subs t)" "paid_ok (payments t) (subs t)" by (simp_all add: billing_state_def billing_inv_def)
  have inv: "billing_inv (t\<lparr>pending_events := []\<rparr>)" using t by (simp add: billing_state_def billing_inv_def)
  have act: "\<exists>x \<in> set (subs u). sub_of q = Some (s_id x) \<and> s_tenant x = p_tenant q \<and> s_status x = Active \<and> now t \<le> s_start x \<and> s_start x < s_end x"
    if run: "unit_of_work (dispatch cr prov cb raw) t = (Inr out, u)" and q: "q \<in> set (payments u) - set (payments t)" "p_purpose q = ''subscription''" "p_status q = Succeeded"
    for cr prov cb raw out u q
  proof -
    from run obtain w where w: "dispatch cr prov cb raw (t\<lparr>pending_events := []\<rparr>) = (Inr out, w)" "u = commit w" by (auto simp: unit_of_work_ok)
    show ?thesis using callback_activates [OF w(1) inv, of q] q w(2) by simp
  qed
  show ?thesis using t ok one_subscription act unfolding paid_ok_def by blast
qed

lemma ex_confirm_pays:
  "\<exists>out u. unit_of_work (dispatch ex_crypto ''payme'' ex_confirm (ex_raw ''key'' ''perform'')) ex_open = (Inr out, u)
     \<and> (\<exists>q \<in> set (payments u) - set (payments ex_open). p_purpose q = ''subscription'' \<and> p_status q = Succeeded)"
  by (simp add: unit_of_work_def commit_def callback_defs ex_defs run_defs cong: run_cong)

theorem billing_runs_safe_witness:
  "billing_state ex_open \<and> (\<exists>out u. unit_of_work (dispatch ex_crypto ''payme'' ex_confirm (ex_raw ''key'' ''perform'')) ex_open = (Inr out, u)
     \<and> bstep\<^sup>*\<^sup>* ex_open u \<and> billing_state u \<and> (\<exists>x \<in> set (subs u). s_status x = Active))"
proof -
  obtain out u q where u: "unit_of_work (dispatch ex_crypto ''payme'' ex_confirm (ex_raw ''key'' ''perform'')) ex_open = (Inr out, u)"
    and q: "q \<in> set (payments u) - set (payments ex_open)" "p_purpose q = ''subscription''" "p_status q = Succeeded" using ex_confirm_pays by blast
  have r: "bstep\<^sup>*\<^sup>* ex_open u" using bstep.callback [OF u] by blast
  have "\<exists>x \<in> set (subs u). s_status x = Active" using billing_runs_safe [OF ex_open_state rtranclp.rtrancl_refl] u q by blast
  moreover have "billing_state u" using billing_runs_safe [OF ex_open_state r] by blast
  ultimately show ?thesis using ex_open_state u r by blast
qed

text \<open>C3. A payment is never lost and never rewritten: through any run its row stays, its tenant,
  amount, currency, purpose, reference, provider and idempotency key stay what they were, and its
  status only moves along the state machine, so a payment that succeeded stays succeeded.\<close>

theorem payments_only_evolve:
  assumes "billing_state s" and "bstep\<^sup>*\<^sup>* s t" and "p \<in> set (payments s)"
  shows "\<exists>q \<in> set (payments t). pay_evolves p q \<and> (p_status p \<in> {Succeeded, Failed, Canceled} \<longrightarrow> p_status q = p_status p)"
proof -
  have "evolves s t" using run_steady [OF assms(2)] assms(1) by blast
  then obtain q where q: "q \<in> set (payments t)" "pay_evolves p q" using assms(3) by (auto simp: evolves_def)
  have "pay_step\<^sup>*\<^sup>* (p_status p) (p_status q)" using q(2) by (simp add: pay_evolves_def)
  then have "p_status p \<in> {Succeeded, Failed, Canceled} \<longrightarrow> p_status q = p_status p"
    using succeeded_final by (cases rule: converse_rtranclpE) auto
  then show ?thesis using q by blast
qed

theorem payments_only_evolve_witness:
  "\<exists>out t. unit_of_work (dispatch ex_crypto ''payme'' ex_confirm (ex_raw ''key'' ''perform'')) ex_open = (Inr out, t)
     \<and> (\<exists>q \<in> set (payments t). pay_evolves ex_pay q)"
proof -
  have "ex_open\<lparr>pending_events := []\<rparr> = ex_open" by (simp add: ex_open_def ex_db_def)
  then obtain out t where t: "unit_of_work (dispatch ex_crypto ''payme'' ex_confirm (ex_raw ''key'' ''perform'')) ex_open = (Inr out, t)"
    using ex_confirmed by (auto simp: unit_of_work_ok)
  have "ex_pay \<in> set (payments ex_open)" by (simp add: ex_open_def)
  from payments_only_evolve [OF ex_open_state _ this] show ?thesis using t bstep.callback [OF t] by blast
qed

subsection \<open>Intake\<close>

text \<open>C9. Taking a payment is idempotent: once a request has been answered, repeating it with the same
  key returns the same checkout and changes nothing, for each of the installed providers and whatever
  other transactions did in between the lookup and the insertion of the first request.\<close>

theorem payment_intake_idempotent:
  fixes s u :: "'z billing_db_scheme"
  assumes r: "create_payment env ctx amt purpose reference provider idem url sub_id s = (Inr c, u)"
    and prov: "providers env provider = installed pm ck st http t br provider"
  shows "create_payment env ctx amt purpose reference provider idem url sub_id u = (Inr c, u)"
proof -
  have port: "checkout_port provider f" if "providers env provider = Some f" for f
    using that unfolding prov by (rule installed_port)
  from create_payment_replays [OF r port] obtain t q where "tenant_id ctx = Some t"
    "by_idempotency_key t idem (payments u) = Some q"
    "replay_checkout q (m_amount amt, m_currency amt, purpose, reference, provider) = Inr c" by blast
  then show ?thesis by (rule create_payment_again) (use create_payment_valid_args [OF r] in simp_all)
qed

definition ex_intake :: "billing_db \<Rightarrow> (checkout_dto, billing_db) op_res" where
  "ex_intake = create_payment ex_env ex_ctx \<lparr>m_amount = 5000, m_currency = ''UZS''\<rparr> ''order'' ''A-1'' ''payme'' ''key-1'' None None"

lemma ex_intake_ok: "\<exists>c u. ex_intake ex_db = (Inr c, u)"
  by (simp add: ex_intake_def ex_defs run_defs intake_defs cong: run_cong)

theorem payment_intake_idempotent_witness:
  "\<exists>c u. ex_intake ex_db = (Inr c, u) \<and> ex_intake u = (Inr c, u)"
proof -
  obtain c u where r: "ex_intake ex_db = (Inr c, u)" using ex_intake_ok by blast
  have prov: "providers ex_env ''payme'' = installed ex_payme undefined undefined undefined undefined undefined ''payme''"
    by (simp add: ex_env_def installed_def)
  show ?thesis using payment_intake_idempotent [OF r [unfolded ex_intake_def] prov] r by (auto simp: ex_intake_def)
qed

text \<open>C16. An idempotency key is spent on one request: a request with the key of a different payment is
  refused with a conflict and takes no money, also when that payment is inserted by a concurrent
  request after this one looked the key up.\<close>

theorem payment_key_conflict:
  fixes s u :: "'z billing_db_scheme"
  assumes ctx: "tenant_id ctx = Some t" and prov: "providers env provider = Some f"
    and pos: "0 < m_amount amt" and url: "validate_return_url (host_ok env) url = Inr ()"
    and q: "by_idempotency_key t idem (payments u) = Some q"
    and diff: "(p_amount q, p_currency q, p_purpose q, p_reference q, p_provider q) \<noteq> (m_amount amt, m_currency amt, purpose, reference, provider)"
    and u: "u = s \<or> by_idempotency_key t idem (payments s) = None \<and> u = race env (s\<lparr>uuid_next := Suc (uuid_next s)\<rparr>)"
  shows "create_payment env ctx amt purpose reference provider idem url sub_id s =
    (Inl (Domain ConflictError ''idempotency key already used for a different payment''), u)"
proof -
  have rp: "replay_checkout q (m_amount amt, m_currency amt, purpose, reference, provider) =
      Inl (Domain ConflictError ''idempotency key already used for a different payment'')"
    by (rule replay_other) (use diff in \<open>simp add: pay_request_of_def\<close>)
  from u show ?thesis
  proof
    assume "u = s"
    then show ?thesis using create_payment_again [OF ctx, of idem s q] q rp prov pos url by simp
  next
    assume a: "by_idempotency_key t idem (payments s) = None \<and> u = race env (s\<lparr>uuid_next := Suc (uuid_next s)\<rparr>)"
    let ?p = "new_payment (uuid_gen s (uuid_next s)) t amt purpose reference provider idem sub_id (now s)"
    have "payment_conflict ?p (payments u)"
      using find_Some_set [OF q [unfolded by_key_find]]
      by (auto simp: payment_conflict_def idem_conflict_def list_ex_iff new_payment_def)
    then show ?thesis using a q rp create_payment_new [OF ctx prov pos url, of idem s] by (simp add: Let_def)
  qed
qed

theorem payment_key_conflict_witness:
  "create_payment ex_env ex_ctx \<lparr>m_amount = 1, m_currency = ''UZS''\<rparr> ''order'' ''A-2'' ''payme'' (p_idem ex_pay) None None ex_open =
     (Inl (Domain ConflictError ''idempotency key already used for a different payment''), ex_open)"
proof (rule payment_key_conflict [where t = 1 and q = ex_pay and f = "payme_create_checkout ex_payme"])
  show "by_idempotency_key 1 (p_idem ex_pay) (payments ex_open) = Some ex_pay"
    by (simp add: by_key_find ex_open_def ex_pay_def)
qed (simp_all add: ex_ctx_def mk_ctx_def ex_env_def validate_return_url_def ex_pay_def)


subsection \<open>Activation\<close>

text \<open>C5. A succeeded subscription payment activates exactly its subscription, in the same transaction:
  the payment is stamped, its subscription becomes active for one period of its plan, which starts now or,
  where that is later, when the last of the periods already paid for on the same plan ends, every other live
  subscription of the tenant is closed, and nothing else in the two tables changes.\<close>

theorem success_activates:
  fixes s t :: "'z billing_db_scheme"
  assumes r: "mark_succeeded ctx p s = (Inr q, t)" and inv: "billing_inv s" and sub: "p_purpose p = ''subscription''"
  shows "\<exists>x x'. x \<in> set (subs s) \<and> sub_of p = Some (s_id x) \<and> s_tenant x = p_tenant p
    \<and> x' = x\<lparr>s_status := Active, s_cancel_at_end := False, s_start := s_start x', s_end := s_end x'\<rparr>
    \<and> now s \<le> s_start x' \<and> s_start x' < s_end x'
    \<and> (\<forall>y \<in> set (subs s). s_tenant y = p_tenant p \<longrightarrow> is_live y \<longrightarrow> s_id y \<noteq> s_id x \<longrightarrow> s_plan y = s_plan x \<longrightarrow> s_end y \<le> s_start x')
    \<and> (s_start x' = now s \<or> (\<exists>y \<in> set (subs s). s_tenant y = p_tenant p \<and> is_live y \<and> s_id y \<noteq> s_id x \<and> s_plan y = s_plan x \<and> s_start x' = s_end y))
    \<and> period_end (s_start x') (case find (\<lambda>pl. pl_id pl = s_plan x) (plans s) of Some pl \<Rightarrow> pl_period pl | None \<Rightarrow> ''month'') = Inr (s_end x')
    \<and> subs t = map (\<lambda>y. if s_id y = s_id x then x'
         else if s_tenant y = p_tenant p \<and> is_live y then y\<lparr>s_status := SubCanceled, s_canceled_at := Some (now s)\<rparr> else y) (subs s)
    \<and> payments t = payments (set_payment (p\<lparr>p_status := Succeeded, p_paid_at := Some (now s)\<rparr>) s)"
proof -
  from r inv sub obtain x x' where x: "x \<in> set (subs s)" "sub_of p = Some (s_id x)" "s_tenant x = p_tenant p"
    "x' = x\<lparr>s_status := Active, s_cancel_at_end := False, s_start := s_start x', s_end := s_end x'\<rparr>" "paid_period s x x'" "s_start x' < s_end x'"
    "subs t = activated (now s) (p_tenant p) x' (subs s)" "q = succeeded_payment (now s) p" "payments t = payments (set_payment q s)" by (rule success_effect)
  have "s_id x' = s_id x" by (subst x(4), simp)
  then have "subs t = map (\<lambda>y. if s_id y = s_id x then x'
         else if s_tenant y = p_tenant p \<and> is_live y then y\<lparr>s_status := SubCanceled, s_canceled_at := Some (now s)\<rparr> else y) (subs s)"
    using x(7) by (simp add: activated_def closed_sub_def)
  moreover have "payments t = payments (set_payment (p\<lparr>p_status := Succeeded, p_paid_at := Some (now s)\<rparr>) s)" using x(8,9) by (simp add: succeeded_payment_def)
  moreover note x(1-4,6) x(5) [unfolded paid_period_def Let_def x(3)]
  ultimately show ?thesis 
    by - (rule exI [where x = x], rule exI [where x = x'], elim conjE, (rule conjI, assumption)+, blast)
qed

lemma ex_success: "\<exists>q t. mark_succeeded ex_ctx ex_pay ex_open = (Inr q, t)"
  by (simp add: callback_defs ex_defs run_defs cong: run_cong)

theorem success_activates_witness:
  "\<exists>q t x'. mark_succeeded ex_ctx ex_pay ex_open = (Inr q, t) \<and> x' \<in> set (subs t) \<and> s_id x' = 1000 \<and> s_status x' = Active
     \<and> period_end (s_start x') ''month'' = Inr (s_end x')"
proof -
  obtain q t where r: "mark_succeeded ex_ctx ex_pay ex_open = (Inr q, t)" using ex_success by blast
  have inv: "billing_inv ex_open" using ex_open_state by (simp add: billing_state_def)
  have sub: "p_purpose ex_pay = ''subscription''" by (simp add: ex_pay_def)
  from success_activates [OF r inv sub] obtain x x' where x: "x \<in> set (subs ex_open)"
    "x' = x\<lparr>s_status := Active, s_cancel_at_end := False, s_start := s_start x', s_end := s_end x'\<rparr>"
    "period_end (s_start x') (case find (\<lambda>pl. pl_id pl = s_plan x) (plans ex_open) of Some pl \<Rightarrow> pl_period pl | None \<Rightarrow> ''month'') = Inr (s_end x')"
    "subs t = map (\<lambda>y. if s_id y = s_id x then x' else if s_tenant y = p_tenant ex_pay \<and> is_live y
        then y\<lparr>s_status := SubCanceled, s_canceled_at := Some (now ex_open)\<rparr> else y) (subs ex_open)"
    by (elim exE conjE) (rule that)
  have x': "s_id x' = s_id x" "s_status x' = Active" by (subst x(2), simp)+
  have "x = ex_sub" using x(1) by (simp add: ex_open_def)
  then show ?thesis using r x(3,4) x' by (auto simp: ex_open_def ex_sub_def ex_db_def ex_plan_def split: if_splits)
qed

subsection \<open>Provider callbacks\<close>

text \<open>C10. Providers redeliver callbacks.  For each of the three providers, delivering an authentic
  callback again gets byte for byte the answer of the first delivery and changes no table and
  publishes nothing; only an identifier is drawn.\<close>

theorem callback_redelivery:
  fixes s t :: "'z billing_db_scheme"
  assumes r: "process cr ports code raw s = (Inr resp, t)" and port: "ports code = Some port"
    and which: "(code, port) \<in> {(''payme'', payme_port cr pm), (''click'', click_port cr ck), (''stripe'', stripe_port cr st)}"
    and cb: "pp_parse port raw = Inr cb" and sg: "cb_sig cb" "cb_action cb \<notin> set READ_ONLY_ACTIONS" and inv: "billing_inv s"
  shows "process cr ports code raw t = (Inr resp, t\<lparr>uuid_next := Suc (uuid_next t)\<rparr>)"
proof -
  from which consider (pm) "code = ''payme''" "port = payme_port cr pm" | (ck) "code = ''click''" "port = click_port cr ck"
    | (st) "code = ''stripe''" "port = stripe_port cr st" by auto
  then show ?thesis
  proof cases
    case pm
    show ?thesis unfolding pm(1) by (rule payme_d.replay_same_answer [OF r [unfolded pm(1)] port [unfolded pm] cb [unfolded pm(2)] sg inv])
  next
    case ck
    show ?thesis unfolding ck(1) by (rule click_d.replay_same_answer [OF r [unfolded ck(1)] port [unfolded ck] cb [unfolded ck(2)] sg inv])
  next
    case st
    show ?thesis unfolding st(1) by (rule stripe_d.replay_same_answer [OF r [unfolded st(1)] port [unfolded st] cb [unfolded st(2)] sg inv])
  qed
qed

theorem callback_redelivery_witness:
  "\<exists>resp t. process ex_crypto ex_ports ''payme'' (ex_raw ''key'' ''perform'') ex_open = (Inr resp, t)
     \<and> process ex_crypto ex_ports ''payme'' (ex_raw ''key'' ''perform'') t = (Inr resp, t\<lparr>uuid_next := Suc (uuid_next t)\<rparr>)"
proof -
  obtain resp t where r: "process ex_crypto ex_ports ''payme'' (ex_raw ''key'' ''perform'') ex_open = (Inr resp, t)"
    using ex_processed by blast
  have "process ex_crypto ex_ports ''payme'' (ex_raw ''key'' ''perform'') t = (Inr resp, t\<lparr>uuid_next := Suc (uuid_next t)\<rparr>)"
    by (rule callback_redelivery [OF r, of "payme_port ex_crypto ex_payme" ex_payme undefined undefined ex_confirm])
      (use ex_open_state in \<open>simp_all add: ex_ports_def payme_port_def ex_parse ex_confirm_def READ_ONLY_ACTIONS_def billing_state_def\<close>)
  then show ?thesis using r by blast
qed

end
