(* ===== verification/Callback_Properties.thy ===== *)
theory Callback_Properties
  imports Billing_Properties
begin

section \<open>Properties of callbacks and sweeps\<close>

text \<open>
  What a provider callback may change, what proves it authentic, and what the two billing sweeps
  leave behind.
\<close>

subsection \<open>Callbacks\<close>

text \<open>The payment a callback is about, and the row its action makes of it.\<close>

lemma find_payment_named:
  assumes "find_payment cb rows = Inr (Some p)"
  shows "p \<in> set rows \<and> p_provider p = cb_provider cb \<and>
    (cb_reference cb \<noteq> [] \<and> uuid_parse (cb_reference cb) = Some (p_id p)
     \<or> cb_txn cb \<noteq> None \<and> cb_txn cb \<noteq> Some [] \<and> p_txn p = cb_txn cb
       \<and> (\<forall>r \<in> set rows. p_provider r = cb_provider cb \<longrightarrow> cb_reference cb \<noteq> [] \<longrightarrow> uuid_parse (cb_reference cb) \<noteq> Some (p_id r)))"
proof -
  have txn: "p \<in> set rows \<and> p_provider p = cb_provider cb \<and> cb_txn cb \<noteq> None \<and> cb_txn cb \<noteq> Some [] \<and> p_txn p = cb_txn cb" if "find_by_txn cb rows = Inr (Some p)"
    using that by (auto simp: find_by_txn_def dest: system_get_one_Some split: option.splits if_splits)
  show ?thesis
  proof (cases "if cb_reference cb = [] then None else as_uuid (cb_reference cb)")
    case None
    then show ?thesis using assms txn by (auto simp: find_payment_def as_uuid_def split: if_splits)
  next
    case (Some i)
    then have i: "cb_reference cb \<noteq> []" "uuid_parse (cb_reference cb) = Some i" by (auto simp: as_uuid_def split: if_splits)
    from assms Some obtain found where f: "system_get_one (\<lambda>p. p_id p = i \<and> p_provider p = cb_provider cb) rows = Inr found"
      "(case found of Some p \<Rightarrow> Inr (Some p) | None \<Rightarrow> find_by_txn cb rows) = Inr (Some p)"
      by (auto simp: find_payment_def result_simps)
    show ?thesis
      using f i txn by (cases found) (auto dest: system_get_one_Some simp: system_get_one_None)
  qed
qed

lemma apply_action_row:
  fixes s t :: "'z billing_db_scheme"
  assumes r: "apply_action ctx p cb s = (Inr q, t)" and inv: "billing_inv s"
  shows "q = p\<lparr>p_status := p_status q, p_txn := p_txn q, p_paid_at := p_paid_at q, p_failure := p_failure q, p_meta := p_meta q\<rparr>
    \<and> (cb_action cb, p_status q) \<in> {(Create, Pending), (Confirm, Succeeded), (Cancel, Canceled)}
    \<and> p_txn q = (if cb_action cb = Create then Some (case cb_txn cb of Some x \<Rightarrow> x | None \<Rightarrow> []) else p_txn p)
    \<and> p_paid_at q = (if cb_action cb = Confirm then Some (now s) else p_paid_at p)"
proof -
  have d: "distinct (map s_id (subs s))" using inv by (simp add: billing_inv_def subs_ok_def)
  consider (create) "cb_action cb = Create" "mark_pending p (case cb_txn cb of Some x \<Rightarrow> x | None \<Rightarrow> []) s = (Inr q, t)"
    | (confirm) "cb_action cb = Confirm" "mark_succeeded ctx p s = (Inr q, t)"
    | (cancel) "cb_action cb = Cancel" "close_payment ctx p Canceled (cb_reason cb) s = (Inr q, t)"
    using r by (auto simp: apply_action_def mark_canceled_by_provider_def split: callback_action.splits if_splits)
  then show ?thesis
  proof cases
    case create
    then have "q = pending_payment (now s) (case cb_txn cb of Some x \<Rightarrow> x | None \<Rightarrow> []) p" by (simp add: mark_pending_iff)
    then show ?thesis using create(1) by (simp add: pending_payment_def stamp_meta_def)
  next
    case confirm
    then show ?thesis using mark_succeeded_Inr [OF confirm(2) d] by (simp add: succeeded_payment_def)
  next
    case cancel
    then show ?thesis using close_payment_Inr [OF cancel(2)] by (simp add: closed_payment_def stamp_meta_def split: option.splits)
  qed
qed

lemma amount_ok_iff: "amount_ok cb p = Inr True \<longleftrightarrow> (\<forall>a. cb_amount cb = Some a \<longrightarrow> mk_money (p_amount p) (p_currency p) = Inr a)"
  by (auto simp: amount_ok_def result_simps split: option.splits)

text \<open>C2. A callback moves money only when it is authentic, is the first delivery of its transaction
  and action, and names a payment of that provider, by the payment's id or, where no payment of that
  provider has the id, by the provider's transaction, and its amount, where it states one, is the
  ledger's.  Then it makes on that payment the one transition its action stands for, if the state machine
  allows it: create to pending, confirm to succeeded, cancel to canceled; no other payment, none of the
  terms of this one and no row of another tenant changes.\<close>

theorem callback_effect:
  fixes s u :: "'z billing_db_scheme"
  assumes r: "dispatch cr code cb raw s = (Inr out, u)" and inv: "billing_inv s"
    and changed: "payments u \<noteq> payments s \<or> subs u \<noteq> subs s"
  shows "cb_sig cb \<and> \<not> in_ledger code cb (webhooks s) \<and>
    (\<exists>p q. p \<in> set (payments s) \<and> p_provider p = cb_provider cb
       \<and> (cb_reference cb \<noteq> [] \<and> uuid_parse (cb_reference cb) = Some (p_id p)
          \<or> cb_txn cb \<noteq> None \<and> cb_txn cb \<noteq> Some [] \<and> p_txn p = cb_txn cb
            \<and> (\<forall>r \<in> set (payments s). p_provider r = cb_provider cb \<longrightarrow> cb_reference cb \<noteq> [] \<longrightarrow> uuid_parse (cb_reference cb) \<noteq> Some (p_id r)))
       \<and> (\<forall>a. cb_amount cb = Some a \<longrightarrow> mk_money (p_amount p) (p_currency p) = Inr a)
       \<and> can_transition (p_status p) (p_status q)
       \<and> (cb_action cb, p_status q) \<in> {(Create, Pending), (Confirm, Succeeded), (Cancel, Canceled)}
       \<and> q = p\<lparr>p_status := p_status q, p_txn := p_txn q, p_paid_at := p_paid_at q, p_failure := p_failure q, p_meta := p_meta q\<rparr>
       \<and> p_txn q = (if cb_action cb = Create then Some (case cb_txn cb of Some x \<Rightarrow> x | None \<Rightarrow> []) else p_txn p)
       \<and> p_paid_at q = (if cb_action cb = Confirm then Some (now s) else p_paid_at p)
       \<and> p_id q = p_id p \<and> p_tenant q = p_tenant p
       \<and> payments u = payments (set_payment q s)
       \<and> filter (\<lambda>x. s_tenant x \<noteq> p_tenant p) (subs u) = filter (\<lambda>x. s_tenant x \<noteq> p_tenant p) (subs s))"
proof -
  obtain p q and s1 s2 :: "'z billing_db_scheme"
    where a: "cb_sig cb" "\<not> in_ledger code cb (webhooks s)" "find_payment cb (payments s) = Inr (Some p)"
    "amount_ok cb p = Inr True" "payments s1 = payments s" "subs s1 = subs s" "now s1 = now s" "billing_inv s1"
    "apply_action (integration_ctx (Some (p_tenant p)) code) p cb s1 = (Inr q, s2)" "payments u = payments s2" "subs u = subs s2"
    using dispatch_effect [OF r inv] changed by metis
  note named = find_payment_named [OF a(3)]
  have p1: "p \<in> set (payments s1)" using named a(5) by simp
  note e = apply_action_Inr [OF a(9) a(8) p1]
  note row = apply_action_row [OF a(9,8), unfolded a(7)]
  have pays: "payments u = payments (set_payment q s)" using e a(5,10) by (simp add: set_payment_def)
  have "filter (\<lambda>x. s_tenant x \<noteq> p_tenant p) (subs u) = filter (\<lambda>x. s_tenant x \<noteq> p_tenant p) (subs s)"
    using apply_action_isolated [OF a(9) a(8) p1] a(6,11) by simp
  then show ?thesis
    using a(4) [unfolded amount_ok_iff] named e row pays
    by - (rule conjI [OF a(1)], rule conjI [OF a(2)], rule exI [where x = p], rule exI [where x = q], elim conjE, intro conjI)
qed

theorem callback_effect_witness:
  "\<exists>out u. dispatch ex_crypto ''payme'' ex_confirm (ex_raw ''key'' ''perform'') ex_open = (Inr out, u)
     \<and> payments u \<noteq> payments ex_open \<and> \<not> in_ledger ''payme'' ex_confirm (webhooks ex_open)
     \<and> (\<exists>q. p_status q = Succeeded \<and> payments u = payments (set_payment q ex_open))"
proof -
  have "\<exists>out u. dispatch ex_crypto ''payme'' ex_confirm (ex_raw ''key'' ''perform'') ex_open = (Inr out, u) \<and> payments u \<noteq> payments ex_open"
    by (simp add: callback_defs ex_defs run_defs cong: run_cong)
  then obtain out u where r: "dispatch ex_crypto ''payme'' ex_confirm (ex_raw ''key'' ''perform'') ex_open = (Inr out, u)"
    and c: "payments u \<noteq> payments ex_open" by blast
  have "billing_inv ex_open" using ex_open_state by (simp add: billing_state_def)
  note e = callback_effect [OF r this disjI1 [OF c]]
  then obtain q where q: "(cb_action ex_confirm, p_status q) \<in> {(Create, Pending), (Confirm, Succeeded), (Cancel, Canceled)}"
    "payments u = payments (set_payment q ex_open)" by (elim conjE exE) (rule that)
  have "p_status q = Succeeded" using q(1) by (simp add: ex_confirm_def)
  then show ?thesis using r c q(2) conjunct1 [OF conjunct2 [OF e]] by (intro exI conjI)
qed

text \<open>C12. A callback that fails authentication is answered as such and changes no payment, no
  subscription, no audit row and queues no event, and the row it may leave in the ledger never takes
  the deduplication key of a genuine callback, so a forger cannot make a genuine one look
  delivered.\<close>

theorem forged_callback_inert:
  fixes s u :: "'z billing_db_scheme"
  assumes sg: "\<not> cb_sig cb" and hex: "hex_digest (sha256_hex cr)" and r: "dispatch cr code cb raw s = (res, u)"
  shows "res = Inr (mk_outcome InvalidSignature None cb) \<and> payments u = payments s \<and> subs u = subs s
    \<and> audit_log u = audit_log s \<and> pending_events u = pending_events s
    \<and> in_ledger code' cb' (webhooks u) = in_ledger code' cb' (webhooks s)"
proof -
  have "in_ledger code' cb' (webhooks (journal_rejected cr code raw s)) = in_ledger code' cb' (webhooks s)"
    using rejected_key_apart [OF hex, of raw cb']
    by (auto simp: journal_rejected_def new_uuid7_def insert_webhook_def in_ledger_def)
  then show ?thesis using r by (cases "cb_action cb \<in> set READ_ONLY_ACTIONS") (auto simp: dispatch_unsigned [OF sg])
qed

theorem forged_callback_inert_witness:
  "\<exists>u. dispatch ex_crypto ''payme'' (ex_confirm\<lparr>cb_sig := False\<rparr>) (ex_raw ''bad'' ''perform'') ex_open
      = (Inr (mk_outcome InvalidSignature None (ex_confirm\<lparr>cb_sig := False\<rparr>)), u)
     \<and> payments u = payments ex_open \<and> \<not> in_ledger ''payme'' ex_confirm (webhooks u)"
proof -
  let ?d = "dispatch ex_crypto ''payme'' (ex_confirm\<lparr>cb_sig := False\<rparr>) (ex_raw ''bad'' ''perform'') ex_open"
  have "hex_digest (sha256_hex ex_crypto)" by (simp add: hex_digest_def ex_crypto_def)
  from forged_callback_inert [OF _ this, of "ex_confirm\<lparr>cb_sig := False\<rparr>" "''payme''" "ex_raw ''bad'' ''perform''" ex_open "fst ?d" "snd ?d" "''payme''" ex_confirm]
  show ?thesis by (intro exI [of _ "snd ?d"]) (simp add: prod_eq_iff in_ledger_def ex_open_def ex_db_def)
qed

text \<open>C11. A callback only counts as authentic when it carries what only the provider can produce: for
  Payme the merchant credentials in the Basic header, for Click the digest over the callback's fields
  and the secret key, for Stripe an HMAC over the timestamp and the body with a timestamp inside the
  tolerance window.\<close>

theorem callback_authentic:
  assumes "cb_sig cb"
  shows "(payme_parse cr pm raw = Inr cb \<longrightarrow>
      (\<exists>header bytes. raw_header raw ''authorization'' = Some header \<and> startswith (py_lower header) ''basic ''
         \<and> b64_decode (strip ch_space (drop 6 header)) = Some bytes \<and> map char_of bytes = pm_expected_auth pm))
    \<and> (click_parse cr ck raw = Inr cb \<longrightarrow>
      (\<exists>a. map_of (rw_form raw) ''action'' = Some a \<and> form_get (rw_form raw) ''sign_string'' [] = click_sign cr ck (rw_form raw) a))
    \<and> (stripe_parse cr st raw = Inr cb \<longrightarrow>
      (\<exists>header ts sigs n. raw_header raw ''stripe-signature'' = Some header \<and> parse_signature_header header = (Some ts, sigs)
         \<and> py_int 10 ts = Some n \<and> abs (st_clock st - n * 1000000) \<le> st_tolerance st * 1000000
         \<and> hmac_sha256_hex cr (st_webhook_secret st) (ts @ ''.'' @ rw_body raw) \<in> set sigs))"
proof (intro conjI impI)
  assume "payme_parse cr pm raw = Inr cb"
  then obtain auth where "payme_auth_ok pm raw = Inr auth" "cb_sig cb = auth" by (rule payme_parse_Inr) blast
  then have "payme_auth_ok pm raw = Inr True" using assms by simp
  then show "\<exists>header bytes. raw_header raw ''authorization'' = Some header \<and> startswith (py_lower header) ''basic ''
         \<and> b64_decode (strip ch_space (drop 6 header)) = Some bytes \<and> map char_of bytes = pm_expected_auth pm"
    by (rule payme_auth_True) blast
next
  assume "click_parse cr ck raw = Inr cb"
  then obtain a where "map_of (rw_form raw) ''action'' = Some a" "click_sign_ok cr ck (rw_form raw) a = Inr True"
    using assms by (auto simp: click_parse_def Let_def result_simps split: option.split_asm)
  then show "\<exists>a. map_of (rw_form raw) ''action'' = Some a \<and> form_get (rw_form raw) ''sign_string'' [] = click_sign cr ck (rw_form raw) a"
    using click_sign_True by blast
next
  assume "stripe_parse cr st raw = Inr cb"
  then have "stripe_signature_ok cr st raw = Inr True" using assms by (auto simp: stripe_parse_def Let_def result_simps)
  then show "\<exists>header ts sigs n. raw_header raw ''stripe-signature'' = Some header \<and> parse_signature_header header = (Some ts, sigs)
         \<and> py_int 10 ts = Some n \<and> abs (st_clock st - n * 1000000) \<le> st_tolerance st * 1000000
         \<and> hmac_sha256_hex cr (st_webhook_secret st) (ts @ ''.'' @ rw_body raw) \<in> set sigs"
    by (rule stripe_signature_True) blast
qed

theorem callback_authentic_witness:
  "\<exists>header bytes. raw_header (ex_raw ''key'' ''perform'') ''authorization'' = Some header
     \<and> b64_decode (strip ch_space (drop 6 header)) = Some bytes \<and> map char_of bytes = ''Paycom:key''"
proof -
  have "cb_sig ex_confirm" by (simp add: ex_confirm_def)
  from callback_authentic [OF this, of ex_crypto ex_payme "ex_raw ''key'' ''perform''"] ex_parse
  obtain header bytes where "raw_header (ex_raw ''key'' ''perform'') ''authorization'' = Some header"
    "b64_decode (strip ch_space (drop 6 header)) = Some bytes" "map char_of bytes = pm_expected_auth ex_payme" by blast
  then show ?thesis by (simp add: ex_payme_def)
qed


subsection \<open>Sweeps\<close>







subsection \<open>Instances of the sweeps\<close>










end
