(* ===== verification/Resilience_Laws.thy ===== *)
theory Resilience_Laws
  imports Resilience
begin

section \<open>Laws of outbound calls\<close>

text \<open>
  Bounds of the backoff, the invariant of the circuit breaker and the number of calls a resilient call
  makes.
\<close>

subsection \<open>The breaker\<close>

text \<open>A closed breaker has counted fewer failures than its threshold.\<close>

definition breaker_ok :: "breaker \<Rightarrow> bool" where
  "breaker_ok b \<longleftrightarrow> 0 < br_threshold b \<and> 0 \<le> br_failures b \<and> (br_state b = Closed \<longrightarrow> br_failures b < br_threshold b)"

lemma breaker_ok_ops:
  "0 < threshold \<Longrightarrow> breaker_ok (mk_breaker name threshold recovery)"
  "breaker_ok b \<Longrightarrow> breaker_ok (snd (breaker_allow t b))"
  "breaker_ok b \<Longrightarrow> breaker_ok (record_success b)"
  "breaker_ok b \<Longrightarrow> breaker_ok (record_failure t b)"
  by (auto simp: breaker_ok_def mk_breaker_def breaker_allow_def record_success_def record_failure_def Let_def)

fun failures_at :: "(nat \<Rightarrow> rat) \<Rightarrow> nat \<Rightarrow> breaker \<Rightarrow> breaker" where
  \<comment> \<open>\<open>n\<close> failures in a row, the last one at \<open>t n\<close>\<close>
  "failures_at t 0 b = b"
| "failures_at t (Suc n) b = record_failure (t (Suc n)) (failures_at t n b)"

lemma failures_at_sel [simp]:
  "br_threshold (failures_at t n b) = br_threshold b" "br_recovery (failures_at t n b) = br_recovery b"
  "br_failures (failures_at t n b) = br_failures b + int n"
  by (induction n) (auto simp: record_failure_def Let_def)

lemma failures_at_state:
  assumes "br_state b = Closed" and "br_failures b = 0" and "0 < br_threshold b"
  shows "br_state (failures_at t n b) = (if int n < br_threshold b then Closed else Open)
    \<and> (br_threshold b \<le> int n \<longrightarrow> br_opened_at (failures_at t n b) = t n)"
proof (induction n)
  case (Suc n)
  have "br_state (record_failure (t (Suc n)) (failures_at t n b)) =
      (if br_state (failures_at t n b) = HalfOpen \<or> br_threshold b \<le> int n + 1 then Open else br_state (failures_at t n b))"
    "br_threshold b \<le> int n + 1 \<Longrightarrow> br_opened_at (record_failure (t (Suc n)) (failures_at t n b)) = t (Suc n)"
    using assms(2) by (auto simp: record_failure_def Let_def)
  then show ?case using Suc by auto
qed (use assms in simp)

subsection \<open>The call\<close>

lemma call_loop_calls:
  assumes "call_loop left k op ta tf err br = (r, br', n)"
  shows "n \<le> left \<and> (\<forall>j. k \<le> j \<longrightarrow> j + 1 < k + n \<longrightarrow> (\<exists>c m. op j = Transient c m))
    \<and> (\<forall>x. r = Inr x \<longrightarrow> 0 < n \<and> op (k + n - 1) = Returns x)"
  using assms
proof (induction left arbitrary: k br r br' n)
  case (Suc left)
  let ?a = "case br of None \<Rightarrow> (True, None) | Some b \<Rightarrow> apsnd Some (breaker_allow (ta k) b)"
  obtain ok br1 where a: "?a = (ok, br1)" by (cases ?a)
  show ?case
  proof (cases "ok \<and> left \<noteq> 0 \<and> (\<exists>c m. op k = Transient c m)")
    case False
    then show ?thesis using Suc.prems by (auto simp: a Let_def split: attempt.splits if_splits)
  next
    case True
    then obtain c m where t: "ok" "left \<noteq> 0" "op k = Transient c m" by blast
    let ?br2 = "map_option (record_failure (tf k)) br1"
    obtain r3 br3 n3 where c3: "call_loop left (Suc k) op ta tf err ?br2 = (r3, br3, n3)" by (metis prod_cases3)
    have e: "r = r3" "n = Suc n3" using Suc.prems t c3 by (simp_all add: a Let_def)
    from Suc.IH [OF c3] have ih: "n3 \<le> left" "\<forall>j. Suc k \<le> j \<longrightarrow> j + 1 < Suc k + n3 \<longrightarrow> (\<exists>c m. op j = Transient c m)"
      "\<forall>x. r3 = Inr x \<longrightarrow> 0 < n3 \<and> op (Suc k + n3 - 1) = Returns x" by blast+
    have "\<exists>c m. op j = Transient c m" if "k \<le> j" "j + 1 < k + n" for j
      using that t(3) ih(2) e(2) by (cases "j = k") auto
    then show ?thesis using ih(1,3) e by simp
  qed
qed simp

lemma call_loop_open:
  assumes "br = Some b" and "br_state b = Open" and "ta k - br_opened_at b < br_recovery b" and "0 < left"
  shows "call_loop left k op ta tf err br = (Inl (Domain CircuitOpenError (''circuit open for '' @ br_name b)), Some b, 0)"
  using assms by (cases left) (auto simp: breaker_allow_def Let_def)

lemma call_loop_tries:
  assumes "call_loop left k op ta tf err None = (r, br', n)" and "0 < left"
    and "\<And>j. k \<le> j \<Longrightarrow> j < k + left \<Longrightarrow> \<exists>c m. op j = Transient c m"
  shows "n = left \<and> (\<exists>c m. r = Inl (Domain c m))"
  using assms
proof (induction left arbitrary: k r n br')
  case (Suc left)
  obtain c m where t: "op k = Transient c m" using Suc.prems(3) [of k] by auto
  show ?case
  proof (cases "left = 0")
    case True
    then show ?thesis using Suc.prems(1) t by auto
  next
    case False
    obtain r3 br3 n3 where c3: "call_loop left (Suc k) op ta tf err None = (r3, br3, n3)" by (metis prod_cases3)
    have e: "r = r3" "n = Suc n3" using Suc.prems(1) t c3 False by (auto simp: Let_def)
    show ?thesis using Suc.IH [OF c3] False Suc.prems(3) e by auto
  qed
qed simp

lemma delay_bounds:
  fixes rp :: retry_policy
  assumes "0 \<le> rp_max_delay rp" and "0 \<le> rp_jitter rp" and "rp_jitter rp \<le> 1" and "- 1 \<le> u" and "u \<le> 1"
  shows "0 \<le> delay_for rp k u \<and> delay_for rp k u \<le> rp_max_delay rp * (1 + rp_jitter rp)"
proof -
  let ?raw = "min (rp_base_delay rp * rp_multiplier rp ^ (k - 1)) (rp_max_delay rp)"
  have j: "0 \<le> 1 + rp_jitter rp * u" "1 + rp_jitter rp * u \<le> 1 + rp_jitter rp"
  proof -
    have "\<bar>u\<bar> \<le> 1" using assms(4,5) by linarith
    then have "rp_jitter rp * \<bar>u\<bar> \<le> rp_jitter rp * 1" using assms(2) by (rule mult_left_mono)
    then have "\<bar>rp_jitter rp * u\<bar> \<le> rp_jitter rp" using assms(2) by (simp add: abs_mult)
    then show "0 \<le> 1 + rp_jitter rp * u" "1 + rp_jitter rp * u \<le> 1 + rp_jitter rp" using assms(3) by linarith+
  qed
  have "?raw * (1 + rp_jitter rp * u) \<le> rp_max_delay rp * (1 + rp_jitter rp * u)" using j by (intro mult_right_mono) auto
  also have "\<dots> \<le> rp_max_delay rp * (1 + rp_jitter rp)" using j assms(1) by (intro mult_left_mono) auto
  finally have up: "?raw * (1 + rp_jitter rp * u) \<le> rp_max_delay rp * (1 + rp_jitter rp)" .
  have z: "0 \<le> rp_max_delay rp * (1 + rp_jitter rp)" using assms by simp
  show ?thesis using up z by (auto simp: delay_for_def Let_def)
qed

end
