(* ===== verification/Unit_Of_Work.thy ===== *)
theory Unit_Of_Work
  imports Event_Bus
begin

section \<open>The unit of work in detail\<close>

text \<open>
  \<^verbatim>\<open>shared/service.py\<close> at the level of its objects: the session and what other
  transactions see of the tables, the callbacks registered with the unit of work, the queue of each
  service object, a commit that may fail, and a bus that may refuse to publish.  The components use the
  summary \<^const>\<open>unit_of_work\<close>; \<open>uow_refines\<close> shows that the objects implement it when the
  commit goes through and the bus is bound, and the laws before it say what happens when not.

  The database is a parameter: a commit applies all of the session's changes or none, and a commit that
  raises may still have been applied, because the connection can break after the server committed.
\<close>

subsection \<open>State and operations\<close>

record 'd uow =
  uw_durable :: 'd  \<comment> \<open>the tables as other transactions see them\<close>
  uw_session :: 'd  \<comment> \<open>the tables as the session sees them\<close>
  uw_callbacks :: "string list"  \<comment> \<open>\<^verbatim>\<open>_callbacks\<close>: the services whose \<^verbatim>\<open>_publish_pending\<close> is registered\<close>
  uw_queue :: "string \<Rightarrow> envelope list"  \<comment> \<open>\<^verbatim>\<open>_pending_events\<close> of each service object\<close>
  uw_delivered :: "delivery list"  \<comment> \<open>what the bus has attempted, in order\<close>

datatype commit_result = Committed | CommitFailed exn bool  \<comment> \<open>whether the server applied it all the same\<close>

definition uow_enter :: "'d \<Rightarrow> 'd uow" where
  "uow_enter d = \<lparr>uw_durable = d, uw_session = d, uw_callbacks = [], uw_queue = (\<lambda>_. []), uw_delivered = []\<rparr>"

definition on_commit :: "string \<Rightarrow> 'd uow \<Rightarrow> 'd uow" where
  "on_commit svc w = w\<lparr>uw_callbacks := uw_callbacks w @ [svc]\<rparr>"

definition uow_emit :: "string \<Rightarrow> envelope \<Rightarrow> 'd uow \<Rightarrow> (unit, 'd uow) op_res" where
  "uow_emit svc e w =
     on_ok (pure_op (validate_event_name (ev_name e)) w) (\<lambda>_ w.
       (let w1 = (if uw_queue w svc = [] then on_commit svc w else w)
        in ret () (w1\<lparr>uw_queue := (uw_queue w1)(svc := uw_queue w1 svc @ [e])\<rparr>)))"

definition bus_publish :: "bus \<Rightarrow> envelope \<Rightarrow> 'd uow \<Rightarrow> (unit, 'd uow) op_res" where
  "bus_publish b e w =
     on_ok (pure_op (publish b e) w) (\<lambda>ds w. ret () (w\<lparr>uw_delivered := uw_delivered w @ ds\<rparr>))"

definition uow_emit_now :: "bus \<Rightarrow> envelope \<Rightarrow> 'd uow \<Rightarrow> (unit, 'd uow) op_res" where
  "uow_emit_now b e w =
     on_ok (pure_op (validate_event_name (ev_name e)) w) (\<lambda>_ w. bus_publish b e w)"

fun publish_each :: "bus \<Rightarrow> envelope list \<Rightarrow> 'd uow \<Rightarrow> (unit, 'd uow) op_res" where
  "publish_each b [] w = ret () w"
| "publish_each b (e # es) w = on_ok (bus_publish b e w) (\<lambda>_ w. publish_each b es w)"

definition publish_pending :: "bus \<Rightarrow> string \<Rightarrow> 'd uow \<Rightarrow> (unit, 'd uow) op_res" where
  "publish_pending b svc w = publish_each b (uw_queue w svc) (w\<lparr>uw_queue := (uw_queue w)(svc := [])\<rparr>)"

text \<open>An exception of a callback is logged and the next callback runs.\<close>

definition run_callbacks :: "bus \<Rightarrow> 'd uow \<Rightarrow> 'd uow" where
  "run_callbacks b w = (fold (\<lambda>svc w. snd (publish_pending b svc w)) (uw_callbacks w) w)\<lparr>uw_callbacks := []\<rparr>"

text \<open>\<open>aexit b out exc w\<close>: the exception that leaves the \<^verbatim>\<open>async with\<close> block, if any, and what is
  left.  \<open>out\<close> is how \<^verbatim>\<open>session.commit()\<close> ends.\<close>

definition aexit :: "bus \<Rightarrow> commit_result \<Rightarrow> exn option \<Rightarrow> 'd uow \<Rightarrow> exn option \<times> 'd uow" where
  "aexit b out exc w =
     (case exc of
        Some e \<Rightarrow> (Some e, w\<lparr>uw_session := uw_durable w\<rparr>)
      | None \<Rightarrow>
          (case out of
             CommitFailed e applied \<Rightarrow>
               (let d = (if applied then uw_session w else uw_durable w) in (Some e, w\<lparr>uw_durable := d, uw_session := d\<rparr>))
           | Committed \<Rightarrow> (None, run_callbacks b (w\<lparr>uw_durable := uw_session w\<rparr>))))"

subsection \<open>Bodies\<close>

text \<open>What the body of a unit of work does, one step at a time: a statement on the session, an event of a
  service (queued, or published at once), an exception.\<close>

datatype 'd uow_op = Write "'d \<Rightarrow> 'd" | Emit string envelope | EmitNow envelope | Raise exn

fun uow_step :: "bus \<Rightarrow> 'd uow_op \<Rightarrow> 'd uow \<Rightarrow> (unit, 'd uow) op_res" where
  "uow_step b (Write f) w = ret () (w\<lparr>uw_session := f (uw_session w)\<rparr>)"
| "uow_step b (Emit svc e) w = uow_emit svc e w"
| "uow_step b (EmitNow e) w = uow_emit_now b e w"
| "uow_step b (Raise e) w = raise e w"

fun uow_body :: "bus \<Rightarrow> 'd uow_op list \<Rightarrow> 'd uow \<Rightarrow> exn option \<times> 'd uow" where
  "uow_body b [] w = (None, w)"
| "uow_body b (x # xs) w = (case uow_step b x w of (Inl e, w') \<Rightarrow> (Some e, w') | (Inr _, w') \<Rightarrow> uow_body b xs w')"

definition run_uow :: "bus \<Rightarrow> commit_result \<Rightarrow> 'd uow_op list \<Rightarrow> 'd \<Rightarrow> exn option \<times> 'd uow" where
  "run_uow b out ops d = (case uow_body b ops (uow_enter d) of (exc, w) \<Rightarrow> aexit b out exc w)"

subsection \<open>What a body amounts to\<close>

definition writes :: "'d uow_op list \<Rightarrow> 'd \<Rightarrow> 'd" where
  "writes ops = fold (\<lambda>x. case x of Write f \<Rightarrow> f | _ \<Rightarrow> (\<lambda>d. d)) ops"

definition emitted :: "'d uow_op list \<Rightarrow> (string \<times> envelope) list" where
  "emitted ops = concat (map (\<lambda>x. case x of Emit svc e \<Rightarrow> [(svc, e)] | _ \<Rightarrow> []) ops)"

definition deliveries :: "bus \<Rightarrow> envelope \<Rightarrow> delivery list" where
  "deliveries b e = map (\<lambda>x. if bs_reliable x then Enqueue (handler_id x) (to_wire e) else Call (handler_id x) e)
     (filter (\<lambda>x. pattern_matches (bs_pattern x) (ev_name e)) (subscriptions b))"

definition immediate :: "bus \<Rightarrow> 'd uow_op list \<Rightarrow> delivery list" where
  "immediate b ops = concat (map (\<lambda>x. case x of EmitNow e \<Rightarrow> deliveries b e | _ \<Rightarrow> []) ops)"

text \<open>The bus refuses an event that has a reliable subscriber while no queue is bound.\<close>

definition refused :: "bus \<Rightarrow> envelope \<Rightarrow> bool" where
  "refused b e \<longleftrightarrow> \<not> enqueue_bound b \<and> (\<exists>x \<in> set (subscriptions b). bs_reliable x \<and> pattern_matches (bs_pattern x) (ev_name e))"

text \<open>The exception a step raises, if any: the body's own, a name that is no event name, or the bus's refusal
  of an event that is to be published at once.\<close>

fun raises :: "bus \<Rightarrow> 'd uow_op \<Rightarrow> exn option" where
  "raises b (Write f) = None"
| "raises b (Emit svc e) = (if EVENT_NAME_RE (ev_name e) then None else Some (ValueError (''invalid event name '' @ ev_name e)))"
| "raises b (EmitNow e) =
     (if \<not> EVENT_NAME_RE (ev_name e) then Some (ValueError (''invalid event name '' @ ev_name e))
      else if refused b e then Some (RuntimeError ''EventBus has reliable subscribers but no enqueue bound'') else None)"
| "raises b (Raise e) = Some e"

definition services :: "(string \<times> envelope) list \<Rightarrow> string list" where
  \<comment> \<open>in the order of their first event\<close>
  "services es = rev (remdups (rev (map fst es)))"

definition events_of :: "string \<Rightarrow> (string \<times> envelope) list \<Rightarrow> envelope list" where
  "events_of svc es = map snd (filter (\<lambda>p. fst p = svc) es)"

lemma publish_named:
  assumes "EVENT_NAME_RE (ev_name e)"
  shows "publish b e = (if refused b e then Inl (RuntimeError ''EventBus has reliable subscribers but no enqueue bound'') else Inr (deliveries b e))"
  using assms by (auto simp: publish_def validate_event_name_def refused_def deliveries_def subscriptions_for_def list_ex_iff Let_def)

lemma services_snoc: "services (es @ [(svc, e)]) = (if svc \<in> fst ` set es then services es else services es @ [svc])"
  by (simp add: services_def)

lemma set_services: "set (services es) = fst ` set es"
  by (simp add: services_def)

lemma distinct_services: "distinct (services es)"
  by (simp add: services_def)

lemma events_of_snoc: "events_of v (es @ [(svc, e)]) = events_of v es @ (if v = svc then [e] else [])"
  by (simp add: events_of_def)

lemma events_of_Nil: "events_of v es = [] \<longleftrightarrow> v \<notin> fst ` set es"
  by (force simp: events_of_def filter_empty_conv)

subsection \<open>Running a body\<close>

text \<open>After the steps \<open>ops\<close> only the session has changed, each service that emitted has registered its
  callback once, at its first event, and its queue holds its events in order.\<close>

definition uow_at :: "bus \<Rightarrow> 'd \<Rightarrow> 'd uow_op list \<Rightarrow> 'd uow \<Rightarrow> bool" where
  "uow_at b d ops w \<longleftrightarrow> uw_durable w = d \<and> uw_session w = writes ops d \<and> uw_callbacks w = services (emitted ops)
     \<and> (\<forall>v. uw_queue w v = events_of v (emitted ops)) \<and> uw_delivered w = immediate b ops
     \<and> (\<forall>(v, e) \<in> set (emitted ops). EVENT_NAME_RE (ev_name e))"

lemma uow_at_enter: "uow_at b d [] (uow_enter d)"
  by (simp add: uow_at_def uow_enter_def writes_def emitted_def services_def events_of_def immediate_def)

lemma uow_step_at:
  assumes at: "uow_at b d ops w" and r: "uow_step b x w = (Inr u, w')"
  shows "uow_at b d (ops @ [x]) w'"
proof (cases x)
  case (Emit svc e)
  have n: "EVENT_NAME_RE (ev_name e)" using r Emit by (auto simp: uow_emit_def validate_event_name_def result_simps split: if_splits)
  have q: "uw_queue w svc = [] \<longleftrightarrow> svc \<notin> fst ` set (emitted ops)" using at by (simp add: uow_at_def events_of_Nil)
  have em: "emitted (ops @ [x]) = emitted ops @ [(svc, e)]" using Emit by (simp add: emitted_def)
  show ?thesis
    using r at n q unfolding uow_at_def em services_snoc events_of_snoc
    by (auto simp: Emit uow_emit_def on_commit_def validate_event_name_def Let_def result_simps writes_def immediate_def split: if_splits)
next
  case (EmitNow e)
  then have n: "EVENT_NAME_RE (ev_name e)" using r by (auto simp: uow_emit_now_def validate_event_name_def result_simps split: if_splits)
  then show ?thesis
    using r at EmitNow
    by (auto simp: uow_at_def uow_emit_now_def bus_publish_def publish_named validate_event_name_def result_simps writes_def immediate_def emitted_def split: if_splits)
qed (use assms in \<open>auto simp: uow_at_def writes_def immediate_def emitted_def result_simps\<close>)

lemma uow_step_err: "uow_step b x w = (Inl e, w') \<Longrightarrow> w' = w"
  by (cases x) (auto simp: uow_emit_def uow_emit_now_def bus_publish_def Let_def result_simps pure_op_def split: sum.splits if_splits)

lemma uow_step_raises:
  "uow_step b x w = (r, w') \<Longrightarrow> (case r of Inl e \<Rightarrow> raises b x = Some e | Inr _ \<Rightarrow> raises b x = None)"
  by (cases x) (auto simp: uow_emit_def uow_emit_now_def bus_publish_def publish_named validate_event_name_def Let_def
      result_simps pure_op_def split: if_splits)

lemma uow_body_at:
  assumes "uow_at b d pre w" and "uow_body b ops w = (exc, w')"
  shows "uow_at b d (pre @ takeWhile (\<lambda>x. raises b x = None) ops) w'
    \<and> exc = (case dropWhile (\<lambda>x. raises b x = None) ops of [] \<Rightarrow> None | x # _ \<Rightarrow> raises b x)"
  using assms
proof (induction ops arbitrary: pre w)
  case (Cons x xs)
  obtain r w1 where s: "uow_step b x w = (r, w1)" by (meson surj_pair)
  show ?case
  proof (cases r)
    case (Inl e)
    then have "exc = Some e" "w' = w1" "w1 = w" using Cons.prems(2) s uow_step_err [of b x w e w1] by simp_all
    then show ?thesis using Cons.prems(1) uow_step_raises [OF s] Inl by simp
  next
    case (Inr u)
    then have "uow_body b xs w1 = (exc, w')" "uow_at b d (pre @ [x]) w1"
      using Cons.prems s uow_step_at [of b d pre w x u w1] by simp_all
    from Cons.IH [OF this(2,1)] show ?thesis using uow_step_raises [OF s] Inr by simp
  qed
qed simp

subsection \<open>Publication\<close>

text \<open>A queue is published up to the first event the bus refuses; the rest of it is dropped.\<close>

definition published_of :: "bus \<Rightarrow> envelope list \<Rightarrow> delivery list" where
  "published_of b es = concat (map (deliveries b) (takeWhile (\<lambda>e. \<not> refused b e) es))"

lemma publish_each_eq:
  assumes "\<forall>e \<in> set es. EVENT_NAME_RE (ev_name e)"
  shows "snd (publish_each b es w) = w\<lparr>uw_delivered := uw_delivered w @ published_of b es\<rparr>"
  using assms
proof (induction es arbitrary: w)
  case (Cons e es)
  then show ?case
    by (cases "refused b e") (simp_all add: bus_publish_def publish_named published_of_def result_simps)
qed (simp add: published_of_def)

lemma callbacks_eq:
  assumes "\<forall>v \<in> set svcs. \<forall>e \<in> set (uw_queue w v). EVENT_NAME_RE (ev_name e)" and "distinct svcs"
  shows "fold (\<lambda>svc w. snd (publish_pending b svc w)) svcs w
    = w\<lparr>uw_queue := (\<lambda>v. if v \<in> set svcs then [] else uw_queue w v),
        uw_delivered := uw_delivered w @ concat (map (\<lambda>v. published_of b (uw_queue w v)) svcs)\<rparr>"
  using assms
proof (induction svcs arbitrary: w)
  case (Cons v svcs)
  let ?w = "w\<lparr>uw_queue := (uw_queue w)(v := []), uw_delivered := uw_delivered w @ published_of b (uw_queue w v)\<rparr>"
  have one: "snd (publish_pending b v w) = ?w" using Cons.prems(1) by (simp add: publish_pending_def publish_each_eq)
  have n: "\<forall>u \<in> set svcs. \<forall>e \<in> set (uw_queue ?w u). EVENT_NAME_RE (ev_name e)" using Cons.prems by simp
  have m: "map (\<lambda>u. published_of b (uw_queue ?w u)) svcs = map (\<lambda>u. published_of b (uw_queue w u)) svcs"
    using Cons.prems(2) by (intro map_cong) auto
  have q: "(\<lambda>u. if u \<in> set svcs then [] else uw_queue ?w u) = (\<lambda>u. if u \<in> set (v # svcs) then [] else uw_queue w u)"
    by auto
  show ?case using Cons.IH [OF n] Cons.prems(2) unfolding q m by (simp add: one)
qed simp

lemma run_callbacks_at:
  assumes "uow_at b d ops w"
  shows "run_callbacks b (w\<lparr>uw_durable := uw_session w\<rparr>)
    = \<lparr>uw_durable = writes ops d, uw_session = writes ops d, uw_callbacks = [], uw_queue = (\<lambda>_. []),
       uw_delivered = immediate b ops @ concat (map (\<lambda>v. published_of b (events_of v (emitted ops))) (services (emitted ops)))\<rparr>"
proof -
  have n: "\<forall>v \<in> set (services (emitted ops)). \<forall>e \<in> set (events_of v (emitted ops)). EVENT_NAME_RE (ev_name e)"
    using assms by (fastforce simp: uow_at_def events_of_def)
  have "events_of v (emitted ops) = []" if "v \<notin> set (services (emitted ops))" for v using that by (simp add: set_services events_of_Nil)
  moreover have "uw_queue w = (\<lambda>v. events_of v (emitted ops))" using assms by (auto simp: uow_at_def)
  ultimately show ?thesis
    using assms callbacks_eq [of "services (emitted ops)" "w\<lparr>uw_durable := uw_session w\<rparr>" b] n distinct_services [of "emitted ops"]
    by (cases w) (auto simp: run_callbacks_def uow_at_def fun_eq_iff)
qed

subsection \<open>Refinement of the summary\<close>

text \<open>The same body over the state of \<^const>\<open>unit_of_work\<close>.\<close>

fun abs_op :: "'z infra_scheme uow_op \<Rightarrow> 'z infra_scheme \<Rightarrow> (unit, 'z infra_scheme) op_res" where
  "abs_op (Write f) s = ret () (f s)"
| "abs_op (Emit svc e) s =
     on_ok (pure_op (validate_event_name (ev_name e)) s) (\<lambda>_ s. ret () (s\<lparr>pending_events := pending_events s @ [(svc, e)]\<rparr>))"
| "abs_op (EmitNow e) s =
     on_ok (pure_op (validate_event_name (ev_name e)) s) (\<lambda>_ s. ret () (s\<lparr>published := published s @ [e]\<rparr>))"
| "abs_op (Raise e) s = raise e s"

fun abs_body :: "'z infra_scheme uow_op list \<Rightarrow> 'z infra_scheme \<Rightarrow> (unit, 'z infra_scheme) op_res" where
  "abs_body [] s = ret () s"
| "abs_body (x # xs) s = on_ok (abs_op x s) (\<lambda>_ s. abs_body xs s)"

definition now_events :: "'d uow_op list \<Rightarrow> envelope list" where
  "now_events ops = concat (map (\<lambda>x. case x of EmitNow e \<Rightarrow> [e] | _ \<Rightarrow> []) ops)"

text \<open>A statement on the tables leaves the two lists of events to the unit of work.\<close>

definition tables_only :: "'z infra_scheme uow_op \<Rightarrow> bool" where
  "tables_only x \<longleftrightarrow> (\<forall>f s p q. x = Write f \<longrightarrow>
     f (s\<lparr>pending_events := p, published := q\<rparr>) = (f s)\<lparr>pending_events := p, published := q\<rparr>)"

definition uow_sim :: "bus \<Rightarrow> 'z infra_scheme \<Rightarrow> 'z infra_scheme uow_op list \<Rightarrow> 'z infra_scheme uow \<Rightarrow> 'z infra_scheme \<Rightarrow> bool" where
  "uow_sim b s ops w t \<longleftrightarrow> uow_at b s ops w
     \<and> t = (writes ops s)\<lparr>pending_events := emitted ops, published := published s @ now_events ops\<rparr>"

lemma uow_sim_step:
  assumes b: "enqueue_bound b" and x: "tables_only x" and sim: "uow_sim b s ops w t"
  shows "(\<exists>e. uow_step b x w = (Inl e, w) \<and> abs_op x t = (Inl e, t))
    \<or> (\<exists>w' t'. uow_step b x w = (Inr (), w') \<and> abs_op x t = (Inr (), t') \<and> uow_sim b s (ops @ [x]) w' t')"
proof -
  have at: "uow_at b s ops w" using sim by (simp add: uow_sim_def)
  have ok: "publish b e = Inr (deliveries b e)" if "EVENT_NAME_RE (ev_name e)" for e
    using that b by (simp add: publish_named refused_def)
  obtain r w' where s: "uow_step b x w = (r, w')" by (meson surj_pair)
  show ?thesis
  proof (cases r)
    case (Inl e)
    then have "w' = w" using s uow_step_err by blast
    moreover have "abs_op x t = (Inl e, t)"
      using s Inl ok by (cases x) (auto simp: uow_emit_def uow_emit_now_def bus_publish_def validate_event_name_def result_simps Let_def split: if_splits)
    ultimately show ?thesis using s Inl by blast
  next
    case (Inr u)
    have "\<exists>t'. abs_op x t = (Inr (), t') \<and> t' = (writes (ops @ [x]) s)\<lparr>pending_events := emitted (ops @ [x]), published := published s @ now_events (ops @ [x])\<rparr>"
      using s Inr sim x
      by (cases x) (auto simp: uow_sim_def tables_only_def writes_def emitted_def now_events_def uow_emit_def uow_emit_now_def
          validate_event_name_def result_simps split: if_splits)
    then show ?thesis using s Inr uow_step_at [OF at s [unfolded Inr]] by (auto simp: uow_sim_def)
  qed
qed

lemma uow_sim_body:
  assumes b: "enqueue_bound b" and x: "list_all tables_only ops" and sim: "uow_sim b s pre w t"
    and r: "uow_body b ops w = (exc, w')"
  shows "\<exists>ran t'. uow_sim b s ran w' t' \<and> abs_body ops t = ((case exc of None \<Rightarrow> Inr () | Some e \<Rightarrow> Inl e), t') \<and> (exc = None \<longrightarrow> ran = pre @ ops)"
  using x sim r
proof (induction ops arbitrary: pre w t)
  case (Cons x xs)
  have "tables_only x" using Cons.prems(1) by simp
  from uow_sim_step [OF b this Cons.prems(2)] show ?case
  proof (elim disjE exE conjE)
    fix e assume "uow_step b x w = (Inl e, w)" "abs_op x t = (Inl e, t)"
    then show ?thesis using Cons.prems(2,3) by auto
  next
    fix w1 t1 assume st: "uow_step b x w = (Inr (), w1)" "abs_op x t = (Inr (), t1)" "uow_sim b s (pre @ [x]) w1 t1"
    then show ?thesis using Cons.IH [OF _ st(3)] Cons.prems(1,3) by auto
  qed
qed auto

lemma bound_published: "enqueue_bound b \<Longrightarrow> published_of b es = concat (map (deliveries b) es)"
proof -
  assume "enqueue_bound b"
  then have "takeWhile (\<lambda>e. \<not> refused b e) es = es" by (simp add: refused_def takeWhile_eq_all_conv)
  then show ?thesis unfolding published_of_def by (rule arg_cong)
qed

lemma immediate_now: "immediate b ops = concat (map (deliveries b) (now_events ops))"
  by (induction ops) (auto simp: immediate_def now_events_def split: uow_op.splits)

lemma published_groups:
  "enqueue_bound b \<Longrightarrow> concat (map (\<lambda>v. published_of b (events_of v es)) (services es)) = concat (map (deliveries b) (publish_order es))"
proof -
  assume b: "enqueue_bound b"
  have "concat (map (\<lambda>v. concat (map d (g v))) vs) = concat (map d (concat (map g vs)))" for d and g :: "string \<Rightarrow> envelope list" and vs
    by (induction vs) auto
  then show ?thesis
    unfolding bound_published [OF b] publish_order_groups services_def events_of_def .
qed

lemma writes_keeps:
  assumes "list_all tables_only ops"
  shows "pending_events (writes ops s) = pending_events s \<and> published (writes ops s) = published s"
  using assms
proof (induction ops arbitrary: s)
  case (Cons x xs)
  have "pending_events (f s) = pending_events s \<and> published (f s) = published s" if "x = Write f" for f
  proof -
    have "\<forall>s p q. f (s\<lparr>pending_events := p, published := q\<rparr>) = (f s)\<lparr>pending_events := p, published := q\<rparr>"
      using Cons.prems that by (simp add: tables_only_def)
    from spec [OF spec [OF spec [OF this, of s], of "pending_events s"], of "published s"]
    have "f s = (f s)\<lparr>pending_events := pending_events s, published := published s\<rparr>" by simp
    from arg_cong [OF this, of pending_events] arg_cong [OF this, of published] show ?thesis by simp
  qed
  then show ?case using Cons by (cases x) (auto simp: writes_def)
qed (simp add: writes_def)

lemma uow_refines:
  assumes b: "enqueue_bound b" and x: "list_all tables_only ops" and s: "pending_events s = []"
    and r: "run_uow b Committed ops s = (r, w)" and u: "unit_of_work (abs_body ops) s = (a, t)"
  shows "a = (case r of None \<Rightarrow> Inr () | Some e \<Rightarrow> Inl e)
    \<and> uw_durable w = t\<lparr>published := published s, uuid_next := uuid_next (uw_durable w)\<rparr>
    \<and> (\<exists>new. published t = published s @ new \<and> uw_delivered w = concat (map (deliveries b) new))"
proof -
  obtain exc w1 where body: "uow_body b ops (uow_enter s) = (exc, w1)" by (meson surj_pair)
  have "s\<lparr>pending_events := []\<rparr> = s" using s by simp
  have "uow_sim b s [] (uow_enter s) s" using s uow_at_enter by (simp add: uow_sim_def writes_def emitted_def now_events_def)
  from uow_sim_body [OF b x this body] obtain ran t1 where sim: "uow_sim b s ran w1 t1"
    and ab: "abs_body ops s = ((case exc of None \<Rightarrow> Inr () | Some e \<Rightarrow> Inl e), t1)" and all: "exc = None \<longrightarrow> ran = ops" by auto
  show ?thesis
  proof (cases exc)
    case None
    have k: "pending_events (writes ops s) = []" "published (writes ops s) = published s" using writes_keeps [OF x, of s] s by simp_all
    have at: "uow_at b s ops w1" and t1: "t1 = (writes ops s)\<lparr>pending_events := emitted ops, published := published s @ now_events ops\<rparr>"
      using sim all None by (simp_all add: uow_sim_def)
    have "r = None" "w = run_callbacks b (w1\<lparr>uw_durable := uw_session w1\<rparr>)" using r body None by (simp_all add: run_uow_def aexit_def)
    moreover have "a = Inr ()" "t = commit t1" using u ab None \<open>s\<lparr>pending_events := []\<rparr> = s\<close> by (simp_all add: unit_of_work_def)
    ultimately show ?thesis
      using k unfolding run_callbacks_at [OF at] published_groups [OF b] immediate_now
      by (auto simp: t1 commit_def intro!: exI [of _ "now_events ops @ publish_order (emitted ops)"])
  next
    case (Some e)
    then have "r = Some e" "uw_durable w = s" "uw_delivered w = immediate b ran"
      using r body sim by (auto simp: run_uow_def aexit_def uow_sim_def uow_at_def)
    moreover have "a = Inl e" "t = rollback s t1" using u ab Some \<open>s\<lparr>pending_events := []\<rparr> = s\<close> by (simp_all add: unit_of_work_def)
    moreover have "published t1 = published s @ now_events ran" using sim by (simp add: uow_sim_def)
    ultimately show ?thesis using s by (simp add: rollback_def immediate_now)
  qed
qed

end
