(* ===== verification/Kernel_Properties.thy ===== *)
theory Kernel_Properties
  imports Callback_Properties Resilience_Laws Unit_Of_Work
begin

section \<open>Properties of the shared kernel and the adapters\<close>

text \<open>
  Amounts and links of the adapters, billing periods, outbound calls, and the guarantees every
  component builds on: atomic units of work with their events, effectively-once handlers, tenant
  isolation and fail-closed permissions.
\<close>

subsection \<open>Adapters\<close>

text \<open>C39. Amounts survive the way to each provider and back: what the checkout tells Payme in tiyin,
  Click in sums (also when Click appends its two decimals) or Stripe in minor units is read back as
  the amount of the payment, which is what the callback's amount is compared with.\<close>

theorem amounts_roundtrip:
  assumes "valid_money m"
  shows "(to_tiyin m = Inr n \<longrightarrow> minor_units_from_tiyin (JInt n) = Inr (m_amount m))
    \<and> (to_sum_amount m = Inr v \<longrightarrow> minor_units_from_sum v = Inr (m_amount m) \<and> minor_units_from_sum (v @ ''.00'') = Inr (m_amount m))
    \<and> minor_units_from_stripe (JInt (to_stripe_amount m)) (JStr (py_lower (m_currency m))) = Inr m"
  using assms tiyin_roundtrip [of m n] sum_roundtrip [of m v "[]"] sum_roundtrip [of m v "''.00''"] stripe_roundtrip [OF assms]
  by (auto simp: valid_money_def)

theorem amounts_roundtrip_witness:
  "minor_units_from_tiyin (JInt 9000000) = Inr 90000 \<and> minor_units_from_sum (show_int 90000 @ ''.00'') = Inr 90000"
proof -
  let ?m = "\<lparr>m_amount = 90000, m_currency = ''UZS''\<rparr>"
  have "valid_money ?m" by (simp add: valid_money_def run_defs)
  from amounts_roundtrip [OF this, of 9000000 "show_int 90000"] show ?thesis
    by (simp add: to_tiyin_def to_sum_amount_def PAYME_CURRENCY_def CLICK_CURRENCY_def TIYIN_PER_SUM_def)
qed

lemma split_on_join:
  assumes "ps \<noteq> []" and "\<And>p. p \<in> set ps \<Longrightarrow> d \<notin> set p"
  shows "split_on d (join_with [d] ps) = ps"
proof -
  have one: "split_on d (p @ d # s) = p # split_on d s" if "d \<notin> set p" for p s
    using that by (induction p) auto
  from assms show ?thesis
  proof (induction ps rule: induct_list012)
    case (2 p)
    then show ?case using split_on_none [of d p] by simp
  next
    case (3 p q ps)
    then show ?case using one [of p] by simp
  qed simp
qed

lemma return_url_plain: "validate_return_url hok (Some u) = Inr () \<Longrightarrow> CHR '';'' \<notin> set u"
  by (auto simp: validate_return_url_def result_simps list_ex_iff split: if_splits)

lemma utf8_encode_bytes: "list_all (\<lambda>b. b < 256) (utf8_encode s)"
proof -
  have "py_ord c < 256" for c by (simp add: py_ord_def)
  then have "py_ord c < 64 * 64" for c by (rule order_less_le_trans) simp
  then have "py_ord c div 64 < 64" for c by (rule less_mult_imp_div_less)
  then have "list_all (\<lambda>b. b < 256) (utf8_bytes c)" for c
    by (auto simp: utf8_bytes_def intro: order_less_trans [OF mod_less_divisor])
  then show ?thesis by (auto simp: utf8_encode_def list_all_iff)
qed

lemma digits_no_semicolon: "CHR '';'' \<notin> set (show_int i)" "CHR '';'' \<notin> set (uuid_str u)"
proof -
  have dv: "digit_val (CHR '';'') = None" by (simp add: digit_val_def py_ord_def)
  have "\<not> ch_dec (CHR '';'')" by (simp add: ch_dec_def py_ord_def)
  then show "CHR '';'' \<notin> set (show_int i)" using show_nat_plain by (auto simp: show_int_def)
  have "CHR '';'' \<notin> set (fixed_digits 16 32 u)"
    using fixed_digits_chars [of 16 "CHR '';''" 32 u] dv digit_val_char by fastforce
  then show "CHR '';'' \<notin> set (uuid_str u)" using uuid_str_chars [of "CHR '';''" u] by auto
qed

text \<open>C38. The Payme checkout link says what the ledger says: its Base64 part decodes to the merchant,
  the payment's identifier and the amount in tiyin, followed by the return address.  Because a return
  address with a semicolon is refused at intake, it cannot smuggle in a second amount or account.\<close>

theorem payme_link_faithful:
  assumes c: "payme_create_checkout pm d url = Inr c" and v: "validate_return_url hok url = Inr ()"
    and m: "CHR '';'' \<notin> set (pm_merchant_id pm)"
  shows "\<exists>enc q. c_url c = ''https://checkout.paycom.uz/'' @ enc \<and> b64_decode enc = Some (utf8_encode q)
    \<and> split_on (CHR '';'') q = [''m='' @ pm_merchant_id pm, ''ac.payment_id='' @ uuid_str (pd_id d),
         ''a='' @ show_int (m_amount (pd_amount d) * 100)] @ (case url of Some u \<Rightarrow> if u = [] then [] else [''c='' @ u] | None \<Rightarrow> [])"
proof -
  let ?ps = "[''m='' @ pm_merchant_id pm, ''ac.payment_id='' @ uuid_str (pd_id d), ''a='' @ show_int (m_amount (pd_amount d) * 100)]
      @ (case url of Some u \<Rightarrow> if u = [] then [] else [''c='' @ u] | None \<Rightarrow> [])"
  let ?q = "join_with '';'' ?ps"
  have "c_url c = ''https://checkout.paycom.uz/'' @ b64_encode (utf8_encode ?q)"
    using c by (auto simp: payme_create_checkout_def to_tiyin_def TIYIN_PER_SUM_def Let_def result_simps simp del: join_with.simps split: if_splits)
  moreover have "b64_decode (b64_encode (utf8_encode ?q)) = Some (utf8_encode ?q)"
    by (rule b64_decode_encode [OF utf8_encode_bytes])
  moreover have "split_on (CHR '';'') ?q = ?ps"
  proof (rule split_on_join)
    show "CHR '';'' \<notin> set p" if "p \<in> set ?ps" for p
      using that m digits_no_semicolon return_url_plain v by (auto split: option.splits if_splits)
  qed simp
  ultimately show ?thesis by blast
qed

theorem payme_link_faithful_witness:
  "\<exists>c enc q. payme_create_checkout ex_payme \<lparr>pd_id = 1001, pd_status = Created, pd_amount = \<lparr>m_amount = 5, m_currency = ''UZS''\<rparr>,
       pd_purpose = [], pd_reference = [], pd_provider = ''payme'', pd_paid_at = None, pd_pending_at = None, pd_closed_at = None,
       pd_failure = None\<rparr> None = Inr c
     \<and> c_url c = ''https://checkout.paycom.uz/'' @ enc \<and> b64_decode enc = Some (utf8_encode q)
     \<and> split_on (CHR '';'') q = [''m=m1'', ''ac.payment_id='' @ uuid_str 1001, ''a='' @ show_int 500]"
proof -
  let ?d = "\<lparr>pd_id = 1001, pd_status = Created, pd_amount = \<lparr>m_amount = 5, m_currency = ''UZS''\<rparr>,
       pd_purpose = [], pd_reference = [], pd_provider = ''payme'', pd_paid_at = None, pd_pending_at = None, pd_closed_at = None,
       pd_failure = None\<rparr>"
  obtain c where c: "payme_create_checkout ex_payme ?d None = Inr c"
    by (simp add: payme_create_checkout_def to_tiyin_def PAYME_CURRENCY_def Let_def)
  show ?thesis
    using payme_link_faithful [OF c, of "\<lambda>_. True"] c by (auto simp: validate_return_url_def ex_payme_def)
qed

subsection \<open>Periods\<close>

text \<open>C25. The catch-up of a free subscription always ends, and with the period that contains the
  present: from a valid start the loop over missed periods returns a period that is one the calendar
  arithmetic produces, starts no later than now and ends after it.\<close>

theorem catch_up_covers_now:
  assumes "valid_datetime start" and "valid_datetime fin" and "start < fin" and "fin \<le> t" and "dt_year t < 9999"
  shows "\<exists>a b. roll_forward start fin period t = Inr (a, b) \<and> valid_datetime a \<and> valid_datetime b
    \<and> period_end a period = Inr b \<and> fin \<le> a \<and> a \<le> t \<and> t < b"
proof -
  obtain a b where r: "roll_forward start fin period t = Inr (a, b)"
    using roll_forward_total [OF assms(2,5), of start period] by auto
  have "t < b \<and> a < b \<and> (a = start \<and> b = fin \<or> fin \<le> a \<and> a \<le> t \<and> period_end a period = Inr b)"
    by (rule roll_forward_covers [OF r assms(3)])
  then have "fin \<le> a \<and> a \<le> t \<and> t < b \<and> period_end a period = Inr b" using assms(4) by auto
  then show ?thesis using r roll_forward_valid [OF r assms(1,2)] by blast
qed

theorem catch_up_covers_now_witness:
  "\<exists>a b. roll_forward (Datetime 2026 1 31 0) (Datetime 2026 2 28 0) ''month'' (Datetime 2026 5 3 7) = Inr (a, b)
     \<and> a \<le> Datetime 2026 5 3 7 \<and> Datetime 2026 5 3 7 < b"
  using catch_up_covers_now [of "Datetime 2026 1 31 0" "Datetime 2026 2 28 0" "Datetime 2026 5 3 7" "''month''"]
  by (auto simp: valid_datetime_def month_len_def is_leap_def datetime_less_iff datetime_le_iff)


subsection \<open>Outbound calls\<close>



text \<open>C33. The circuit breaker opens exactly when the configured number of consecutive failures is
  reached, then refuses calls until the recovery time has passed since the last failure and admits one
  again after that.\<close>

theorem breaker_opens_at_threshold:
  assumes "0 < threshold"
  shows "br_state (failures_at t n (mk_breaker name threshold recovery)) = (if int n < threshold then Closed else Open)
    \<and> (threshold \<le> int n \<longrightarrow>
        fst (breaker_allow x (failures_at t n (mk_breaker name threshold recovery))) = (recovery \<le> x - t n))"
proof -
  let ?b = "mk_breaker name threshold recovery"
  have b: "br_state ?b = Closed" "br_failures ?b = 0" "br_threshold ?b = threshold" "br_recovery ?b = recovery"
    by (simp_all add: mk_breaker_def)
  note f = failures_at_state [OF b(1,2), unfolded b(3), OF assms, of t n]
  have "fst (breaker_allow x (failures_at t n ?b)) = (recovery \<le> x - t n)" if "threshold \<le> int n"
    using f that b(4) failures_at_sel(2) [of t n ?b] by (simp add: breaker_allow_def Let_def)
  then show ?thesis using f by simp
qed

theorem breaker_opens_at_threshold_witness:
  "br_state (failures_at (\<lambda>_. 0) 5 (mk_breaker ''stripe'' 5 30)) = Open
     \<and> \<not> fst (breaker_allow 29 (failures_at (\<lambda>_. 0) 5 (mk_breaker ''stripe'' 5 30)))
     \<and> fst (breaker_allow 30 (failures_at (\<lambda>_. 0) 5 (mk_breaker ''stripe'' 5 30)))"
  using breaker_opens_at_threshold [of 5 "\<lambda>_. 0" 5 "''stripe''" 30 29] breaker_opens_at_threshold [of 5 "\<lambda>_. 0" 5 "''stripe''" 30 30]
  by simp

subsection \<open>Units of work and events\<close>







definition ex_envelope :: envelope where
  "ex_envelope = \<lparr>event_id = 5, ev_name = ''billing.payment.succeeded'', ev_version = 1, occurred_at = ex_now, ev_tenant = Some 1,
     ev_actor = \<lparr>act_kind = System, actor_id = None\<rparr>, ev_payload = []\<rparr>"






text \<open>C40. An event arrives at a handler as it was emitted: decoding the wire form of an envelope with
  a 128-bit identifier and a valid timestamp gives back every field, the tenant and the actor
  included.\<close>

theorem envelope_roundtrip:
  assumes "event_id e < 2 ^ 128" and "valid_datetime (occurred_at e)" and "\<forall>t. ev_tenant e = Some t \<longrightarrow> t < 2 ^ 128"
  shows "from_wire (to_wire e) = Some e"
  by (rule from_wire_to_wire) (use assms in \<open>auto simp: valid_envelope_def split: option.splits\<close>)

theorem envelope_roundtrip_witness: "from_wire (to_wire ex_envelope) = Some ex_envelope"
  by (rule envelope_roundtrip) (simp_all add: ex_envelope_def ex_now_def valid_datetime_def month_len_def)

subsection \<open>Isolation and permissions\<close>

text \<open>C15. A repository of one tenant never sees or touches rows of another: reads return rows of its
  tenant only, a row of another tenant is not found by its identifier, a new row carries its tenant,
  and adding or deleting leaves the rows of all other tenants as they were.\<close>

theorem repository_isolation:
  assumes stamp: "\<And>u r. tid (stamp u r) = u" "\<And>u r. rid (stamp u r) = rid r"
    and d: "distinct (map rid rows)" and r: "r \<in> set rows"
  shows "set (repo_find tid t P rows) \<subseteq> {x \<in> set rows. tid x = t}
    \<and> (tid r \<noteq> t \<longrightarrow> repo_get tid rid t (rid r) rows = None
         \<and> repo_delete tid rid t r rows = Inl (Domain PermissionDeniedError ''entity belongs to another tenant''))
    \<and> (\<forall>rows'. repo_add stamp conflict t preset x rows = Inr rows' \<longrightarrow>
         rows' = rows @ [stamp t x] \<and> filter (\<lambda>y. tid y \<noteq> t) rows' = filter (\<lambda>y. tid y \<noteq> t) rows)
    \<and> (\<forall>rows'. repo_delete tid rid t r rows = Inr rows' \<longrightarrow> filter (\<lambda>y. tid y \<noteq> t) rows' = filter (\<lambda>y. tid y \<noteq> t) rows)"
proof -
  have l: "tenant_table tid rid stamp" by unfold_locales (simp_all add: stamp)
  show ?thesis
    using repo_find_iff [of _ tid t P rows] tenant_table.get_foreign [OF l r d, of t] tenant_table.add_own [OF l, of conflict t preset x rows]
      tenant_table.delete_isolated [OF l d r, of t] stamp(1)
    by (auto simp: repo_delete_def)
qed

theorem repository_isolation_witness:
  "repo_get p_tenant p_id 2 1001 (payments ex_open) = None \<and> ex_pay \<in> set (payments ex_open)"
proof -
  have m: "ex_pay \<in> set (payments ex_open)" by (simp add: ex_open_def)
  have "distinct (map p_id (payments ex_open))" by (simp add: ex_open_def)
  from repository_isolation [where tid = p_tenant and rid = p_id and stamp = stamp_payment and t = 2, OF _ _ this m]
  show ?thesis using m by (auto simp: stamp_payment_def ex_pay_def)
qed

text \<open>Permissions fail closed: a user passes a service's guard only if the service has an access
  service, the user's identifier is well formed, and the permission is granted to that user; every
  other user gets a denial, or an error for a malformed identifier, never a pass.\<close>

lemma guard_fails_closed:
  assumes "act_kind (ctx_actor ctx) = User"
  shows "(guard_require acc ctx perm = Inr () \<longleftrightarrow>
      (\<exists>a i u. acc = Some a \<and> actor_id (ctx_actor ctx) = Some i \<and> uuid_parse i = Some u \<and> has_permission a u perm))
    \<and> guard_require acc ctx perm \<in> {Inr (), Inl (Domain PermissionDeniedError (''missing permission: '' @ perm)),
        Inl (ValueError ''badly formed hexadecimal UUID string'')}"
  using assms by (auto simp: guard_require_def access_require_def has_permission_def split: option.splits if_splits)

lemma guard_fails_closed_witness:
  "guard_require None ex_ctx PLAN_READ \<noteq> Inr () \<and> guard_require (Some ex_acc) ex_ctx PLAN_READ = Inr ()"
proof -
  have u: "act_kind (ctx_actor ex_ctx) = User" by (simp add: ex_ctx_def mk_ctx_def)
  have "guard_require (Some ex_acc) ex_ctx PLAN_READ = Inr ()"
    by (simp add: guard_require_def access_require_def has_permission_def ex_ctx_def mk_ctx_def uuid_parse_str ex_acc_def)
  then show ?thesis using guard_fails_closed [OF u, of None PLAN_READ] by auto
qed

end
