(* ===== verification/Notifications.thy ===== *)
theory Notifications
  imports Billing_Store Python_Text "HOL-Library.List_Lexorder"
begin

section \<open>Notifications: locales, templates, the outbox\<close>

text \<open>
  \<^verbatim>\<open>shared/i18n.py\<close>, \<^verbatim>\<open>core/notifications/registry.py\<close>,
  \<^verbatim>\<open>core/notifications/channel_config.py\<close> and \<^verbatim>\<open>core/notifications/service.py\<close>.
  Template files are a parameter (the text under a locale and a name, if the file exists), and so are
  the user directory, the cipher and the JSON encoder.
\<close>

subsection \<open>Locales\<close>

definition SUPPORTED_LOCALES :: "string list" where
  "SUPPORTED_LOCALES = [''ru'', ''uz'']"

definition DEFAULT_LOCALE :: string where
  "DEFAULT_LOCALE = ''ru''"

fun negotiate_locale :: "string option list \<Rightarrow> string" where
  "negotiate_locale [] = DEFAULT_LOCALE"
| "negotiate_locale (None # cs) = negotiate_locale cs"
| "negotiate_locale (Some c # cs) =
     (if c = [] then negotiate_locale cs
      else (let primary = py_lower (strip ch_space (hd (split_on (CHR ''-'') c)))
            in if primary \<in> set SUPPORTED_LOCALES then primary else negotiate_locale cs))"

text \<open>\<^verbatim>\<open>Catalog\<close>: texts by key and locale.\<close>

type_synonym catalog = "string \<rightharpoonup> (string \<rightharpoonup> string)"

definition text_or :: "string option \<Rightarrow> string \<Rightarrow> string" where
  \<comment> \<open>\<^verbatim>\<open>x or y\<close> on an optional string\<close>
  "text_or x y = (case x of Some v \<Rightarrow> if v = [] then y else v | None \<Rightarrow> y)"

definition catalog_get :: "catalog \<Rightarrow> string \<Rightarrow> string \<Rightarrow> string" where
  "catalog_get cat key loc =
     (case cat key of
        None \<Rightarrow> key
      | Some entry \<Rightarrow> text_or (entry loc) (text_or (entry DEFAULT_LOCALE) key))"

subsection \<open>Templates\<close>

text \<open>\<^verbatim>\<open>string.Template.safe_substitute\<close>: a placeholder without a value stays as it is, a
  doubled dollar sign stands for one.\<close>

definition id_start :: "char \<Rightarrow> bool" where
  "id_start c = (c = CHR ''_'' \<or> (65 \<le> py_ord c \<and> py_ord c \<le> 90) \<or> (97 \<le> py_ord c \<and> py_ord c \<le> 122))"

definition id_char :: "char \<Rightarrow> bool" where
  "id_char c = (id_start c \<or> ch_dec c)"

function safe_substitute :: "(string \<rightharpoonup> string) \<Rightarrow> string \<Rightarrow> string" where
  "safe_substitute m [] = []"
| "safe_substitute m (c # s) =
     (if c \<noteq> CHR ''$'' then c # safe_substitute m s
      else if s = [] then ''$''
      else if hd s = CHR ''$'' then CHR ''$'' # safe_substitute m (tl s)
      else if id_start (hd s)
      then (let n = takeWhile id_char s
            in (case m n of Some v \<Rightarrow> v | None \<Rightarrow> CHR ''$'' # n) @ safe_substitute m (dropWhile id_char s))
      else (let n = takeWhile id_char (tl s); r = dropWhile id_char (tl s)
            in if hd s = CHR ''{'' \<and> n \<noteq> [] \<and> id_start (hd n) \<and> r \<noteq> [] \<and> hd r = CHR ''}''
               then (case m n of Some v \<Rightarrow> v | None \<Rightarrow> ''${'' @ n @ ''}'') @ safe_substitute m (tl r)
               else CHR ''$'' # safe_substitute m s))"
  by pat_completeness auto
termination
proof (relation "measure (\<lambda>(m, s). length s)")
  have dw: "length (dropWhile P s) \<le> length s" for P :: "char \<Rightarrow> bool" and s
    by (rule length_dropWhile_le)
  show "((m, dropWhile id_char s), m, c # s) \<in> measure (\<lambda>(m, s). length s)" for m :: "string \<rightharpoonup> string" and c s
    using dw [of id_char s] by simp
  show "((m, tl x), m, c # s) \<in> measure (\<lambda>(m, s). length s)" if "x = dropWhile id_char (tl s)" for m :: "string \<rightharpoonup> string" and c s x
    using dw [of id_char "tl s"] that by (cases s) auto
qed (auto simp: neq_Nil_conv)

record template_def =
  td_key :: string
  td_channels :: "string list"
  td_required :: "string list"

type_synonym template_registry = "(string \<times> template_def) list"

definition registry_get :: "template_registry \<Rightarrow> string \<Rightarrow> exn + template_def" where
  "registry_get reg key =
     (case map_of reg key of
        None \<Rightarrow> Inl (Domain NotFoundError (''unknown notification template: '' @ key))
      | Some d \<Rightarrow> Inr d)"

text \<open>\<open>body_exists path\<close>: the file is there; \<open>dir\<close> is the directory of the module's
  templates.\<close>

definition body_file :: "string \<Rightarrow> string \<Rightarrow> string \<Rightarrow> string" where
  "body_file dir loc key = dir @ ''/'' @ loc @ ''/'' @ key @ ''.txt''"

fun registry_register :: "(string \<Rightarrow> bool) \<Rightarrow> string \<Rightarrow> string \<Rightarrow> template_def list \<Rightarrow> template_registry \<Rightarrow> (unit, template_registry) op_res" where
  "registry_register body_exists dir modname [] reg = ret () reg"
| "registry_register body_exists dir modname (d # ds) reg =
     (if \<not> startswith (td_key d) (modname @ ''.'')
      then raise (ValueError (''template '' @ repr_str (td_key d) @ '' must start with module prefix '' @ repr_str modname)) reg
      else (case map_of reg (td_key d) of
              Some e \<Rightarrow>
                if e \<noteq> d then raise (RuntimeError (''duplicate template key registered: '' @ td_key d)) reg
                else registry_register body_exists dir modname ds reg
            | None \<Rightarrow>
                (case find (\<lambda>loc. \<not> body_exists (body_file dir loc (td_key d))) SUPPORTED_LOCALES of
                   Some loc \<Rightarrow> raise (RuntimeError (''template '' @ repr_str (td_key d) @ '' is missing its '' @ loc @ '' body file: '' @ body_file dir loc (td_key d))) reg
                 | None \<Rightarrow> registry_register body_exists dir modname ds (reg @ [(td_key d, d)]))))"

record rendered_template =
  rt_subject :: "string option"
  rt_body :: string

text \<open>\<open>files loc name\<close>: the text of a template file.\<close>

definition registry_render :: "(string \<Rightarrow> string \<Rightarrow> string option) \<Rightarrow> template_registry \<Rightarrow> string \<Rightarrow> string \<Rightarrow> payload \<Rightarrow> exn + rendered_template" where
  "registry_render files reg key loc params =
     and_then (registry_get reg key) (\<lambda>d.
       (let subst = (\<lambda>k. map_option py_str (map_of params k))
        in case files loc (key @ ''.txt'') of
             None \<Rightarrow> Inl (LookupError ''FileNotFoundError'')
           | Some body \<Rightarrow>
               Inr \<lparr>rt_subject = map_option (\<lambda>t. strip ch_space (safe_substitute subst t)) (files loc (key @ ''.subject.txt'')),
                    rt_body = safe_substitute subst body\<rparr>))"

subsection \<open>Channels and their configuration\<close>

definition CHANNEL_CONFIG_FIELDS :: "(string \<times> string list) list" where
  "CHANNEL_CONFIG_FIELDS =
     [(''telegram'', [''bot_token'']), (''sms_eskiz'', [''email'', ''password'']),
      (''email'', [''host'', ''port'', ''username'', ''password'', ''from_address''])]"

definition KNOWN_CHANNELS :: "string list" where
  "KNOWN_CHANNELS = map fst CHANNEL_CONFIG_FIELDS"

definition str_list_repr :: "string list \<Rightarrow> string" where
  "str_list_repr xs = ''['' @ join_with '', '' (map repr_str xs) @ '']''"

definition require_known_channel :: "string \<Rightarrow> exn + unit" where
  "require_known_channel ch =
     (if ch \<notin> set KNOWN_CHANNELS then Inl (Domain NotFoundError (''unknown notification channel: '' @ ch)) else Inr ())"

definition validate_channel_config :: "string \<Rightarrow> payload \<Rightarrow> exn + unit" where
  "validate_channel_config ch config =
     and_then (require_known_channel ch) (\<lambda>_.
       (let required = (case map_of CHANNEL_CONFIG_FIELDS ch of Some fs \<Rightarrow> fs | None \<Rightarrow> []);
            missing = filter (\<lambda>f. \<not> jtruthy (jget config f)) required
        in if missing \<noteq> []
           then Inl (Domain InvariantViolationError
                  (''channel '' @ repr_str ch @ '' config is missing required field(s): '' @ str_list_repr (sort missing)))
           else Inr ()))"

definition mask_address :: "string \<Rightarrow> string" where
  "mask_address address =
     (if CHR ''@'' \<in> set address
      then (let (local, domain) = partition_on (CHR ''@'') address
            in (if length local > 2 then take 2 local else take 1 local) @ ''***@'' @ domain)
      else if length address \<le> 4 then ''***''
      else take 4 address @ ''***'' @ drop (length address - 2) address)"

subsection \<open>Tables\<close>

datatype outbox_status = OPending | Sending | Sent | OFailed | Dead

record outbox_row =
  ob_id :: uuid
  ob_notification :: uuid
  ob_dedup :: "string option"
  ob_tenant :: "uuid option"
  ob_channel :: string
  ob_recipient :: string
  ob_template :: string
  ob_locale :: string
  ob_params :: payload
  ob_status :: outbox_status
  ob_attempts :: int
  ob_next_retry :: int  \<comment> \<open>the instant, in microseconds\<close>
  ob_error :: "string option"
  ob_message_id :: "string option"
  ob_sent_at :: "datetime option"
  ob_created :: datetime

record notification_setting =
  ns_id :: uuid
  ns_tenant :: uuid
  ns_channel :: string
  ns_config :: string  \<comment> \<open>encrypted\<close>
  ns_enabled :: bool

record notif_db = billing_db +
  outbox :: "outbox_row list"
  notification_settings :: "notification_setting list"
  sms_counters :: "(string \<times> int) list"  \<comment> \<open>the Redis counters of the SMS cap\<close>

subsection \<open>Sending\<close>

record contact =
  ct_email :: "string option"
  ct_phone :: "string option"
  ct_locale :: string

datatype recipient = UserRecipient uuid | AddressRecipient string string

record 's notif_env =
  nv_registry :: template_registry
  nv_directory :: "(uuid \<Rightarrow> contact option) option"
  nv_race :: "'s \<Rightarrow> 's"  \<comment> \<open>what other transactions commit before the insertion\<close>

definition USER_PROFILE_CHANNELS :: "string list" where
  "USER_PROFILE_CHANNELS = [''email'', ''sms_eskiz'']"

fun jsonable_value :: "json \<Rightarrow> json" where
  "jsonable_value (JArr xs) = JStr (py_str (JArr xs))"
| "jsonable_value (JObj ms) = JStr (py_str (JObj ms))"
| "jsonable_value v = v"

definition jsonable :: "payload \<Rightarrow> payload" where
  "jsonable params = map (\<lambda>(k, v). (k, jsonable_value v)) params"

definition user_addresses :: "contact \<Rightarrow> string list \<Rightarrow> (string \<times> string) list" where
  "user_addresses c channels =
     foldl (\<lambda>resolved ch.
       if ch \<notin> set USER_PROFILE_CHANNELS then resolved
       else (case (if ch = ''email'' then ct_email c else ct_phone c) of
               None \<Rightarrow> resolved
             | Some a \<Rightarrow> if a = [] \<or> ch \<in> fst ` set resolved then resolved else resolved @ [(ch, a)])) [] channels"

definition resolve_addresses :: "(uuid \<Rightarrow> contact option) option \<Rightarrow> recipient \<Rightarrow> string list \<Rightarrow>
    exn + (string \<times> string) list \<times> string option" where
  "resolve_addresses dir rcp channels =
     (case rcp of
        AddressRecipient ch a \<Rightarrow> Inr (if ch \<in> set channels then [(ch, a)] else [], None)
      | UserRecipient u \<Rightarrow>
          (case dir of
             None \<Rightarrow> Inl (Domain InvariantViolationError ''user recipient requires a user directory'')
           | Some d \<Rightarrow>
               (case d u of
                  None \<Rightarrow> Inl (Domain NotFoundError (''recipient user not found: '' @ uuid_str u))
                | Some c \<Rightarrow> Inr (user_addresses c channels, Some (ct_locale c)))))"

definition notification_id_for_dedup :: "uuid option \<Rightarrow> string \<Rightarrow> outbox_row list \<Rightarrow> uuid option" where
  "notification_id_for_dedup t key rows =
     map_option ob_notification (find (\<lambda>r. ob_dedup r = Some key \<and> ob_tenant r = t) rows)"

fun outbox_rows :: "uuid \<Rightarrow> string option \<Rightarrow> tenant_context \<Rightarrow> string \<Rightarrow> string \<Rightarrow> payload \<Rightarrow> (string \<times> string) list \<Rightarrow>
    'z notif_db_scheme \<Rightarrow> outbox_row list \<times> 'z notif_db_scheme" where
  "outbox_rows nid dedup ctx template loc params [] s = ([], s)"
| "outbox_rows nid dedup ctx template loc params ((ch, a) # as) s =
     (let (i, s1) = new_uuid7 s;
          (rows, s2) = outbox_rows nid dedup ctx template loc params as s1
      in (\<lparr>ob_id = i, ob_notification = nid, ob_dedup = dedup, ob_tenant = tenant_id ctx, ob_channel = ch, ob_recipient = a,
           ob_template = template, ob_locale = loc, ob_params = params, ob_status = OPending, ob_attempts = 0,
           ob_next_retry = instant (now s), ob_error = None, ob_message_id = None, ob_sent_at = None, ob_created = now s\<rparr> # rows, s2))"

text \<open>The partial unique index \<^verbatim>\<open>uq_notification_outbox_tenant_id_dedup_key_channel\<close>.\<close>

definition outbox_conflict :: "outbox_row list \<Rightarrow> outbox_row list \<Rightarrow> bool" where
  "outbox_conflict new rows =
     list_ex (\<lambda>r. ob_dedup r \<noteq> None \<and>
       list_ex (\<lambda>x. ob_tenant x = ob_tenant r \<and> ob_dedup x = ob_dedup r \<and> ob_channel x = ob_channel r) rows) new"

text \<open>The insertion runs in the transaction itself, without a savepoint.  When it violates the
  index the transaction is over: the query that follows in the handler raises
  \<^verbatim>\<open>PendingRollbackError\<close>.\<close>

definition send :: "'z notif_db_scheme notif_env \<Rightarrow> tenant_context \<Rightarrow> recipient \<Rightarrow> string \<Rightarrow> payload \<Rightarrow> string list option \<Rightarrow>
    string option \<Rightarrow> string option \<Rightarrow> 'z notif_db_scheme \<Rightarrow> (uuid, 'z notif_db_scheme) op_res" where
  "send env ctx rcp template context channels loc dedup s =
     on_ok (pure_op (registry_get (nv_registry env) template) s) (\<lambda>tdef s.
       (let selected = (case channels of Some cs \<Rightarrow> cs | None \<Rightarrow> td_channels tdef);
            unknown = filter (\<lambda>c. c \<notin> set KNOWN_CHANNELS) (remdups selected);
            missing = filter (\<lambda>k. \<not> jhas context k) (remdups (td_required tdef))
        in if unknown \<noteq> [] then raise (Domain NotFoundError (''unknown channel(s): '' @ str_list_repr (sort unknown))) s
           else if missing \<noteq> []
           then raise (Domain InvariantViolationError (''missing required context: '' @ str_list_repr (sort missing))) s
           else on_ok (pure_op (resolve_addresses (nv_directory env) rcp selected) s) (\<lambda>(addresses, user_locale) s.
             if addresses = []
             then raise (Domain InvariantViolationError ''recipient has no address for any requested channel'') s
             else
               (let resolved = negotiate_locale [loc, user_locale, Some (ctx_locale ctx)] in
                case (case dedup of None \<Rightarrow> None | Some key \<Rightarrow> notification_id_for_dedup (tenant_id ctx) key (outbox s)) of
                  Some existing \<Rightarrow> ret existing s
                | None \<Rightarrow>
                    (let (nid, s1) = new_uuid7 s;
                         (rows, s2) = outbox_rows nid dedup ctx template resolved (jsonable context) addresses s1;
                         s3 = nv_race env s2
                     in if outbox_conflict rows (outbox s3) then raise (RuntimeError ''PendingRollbackError'') s3
                        else ret nid (s3\<lparr>outbox := outbox s3 @ rows\<rparr>))))))"

subsection \<open>Status and channel settings\<close>

datatype notification_status = NQueued | NSent | NPartiallyFailed | NFailed

definition aggregate_status :: "outbox_row list \<Rightarrow> notification_status" where
  "aggregate_status rows =
     (let sts = map ob_status rows
      in if list_ex (\<lambda>st. st \<in> {OPending, Sending, OFailed}) sts then NQueued
         else if list_all (\<lambda>st. st = Sent) sts then NSent
         else if list_all (\<lambda>st. st = Dead) sts then NFailed
         else NPartiallyFailed)"

definition get_status :: "uuid \<Rightarrow> 'z notif_db_scheme \<Rightarrow> exn + notification_status" where
  "get_status nid s =
     (let rows = filter (\<lambda>r. ob_notification r = nid) (outbox s)
      in if rows = [] then Inl (Domain NotFoundError (''notification not found: '' @ uuid_str nid))
         else Inr (aggregate_status rows))"

record cipher =
  encrypt :: "string \<Rightarrow> string"
  decrypt :: "string \<Rightarrow> string"
  json_dumps :: "payload \<Rightarrow> string"  \<comment> \<open>with sorted keys\<close>

definition get_by_channel :: "uuid \<Rightarrow> string \<Rightarrow> notification_setting list \<Rightarrow> notification_setting option" where
  "get_by_channel t ch rows =
     (case repo_find ns_tenant t (\<lambda>r. ns_channel r = ch) rows of [] \<Rightarrow> None | r # _ \<Rightarrow> Some r)"

definition stamp_setting :: "uuid \<Rightarrow> notification_setting \<Rightarrow> notification_setting" where
  "stamp_setting t r = r\<lparr>ns_tenant := t\<rparr>"

definition setting_conflict :: "notification_setting \<Rightarrow> notification_setting list \<Rightarrow> bool" where
  "setting_conflict r rows = list_ex (\<lambda>x. ns_tenant x = ns_tenant r \<and> ns_channel x = ns_channel r) rows"

interpretation setting_tab: tenant_table ns_tenant ns_id stamp_setting
  by unfold_locales (simp_all add: stamp_setting_def)

definition set_channel_config :: "cipher \<Rightarrow> tenant_context \<Rightarrow> string \<Rightarrow> payload \<Rightarrow> 'z notif_db_scheme \<Rightarrow> (unit, 'z notif_db_scheme) op_res" where
  "set_channel_config cx ctx ch config s =
     on_ok (pure_op (validate_channel_config ch config) s) (\<lambda>_ s.
     on_ok (pure_op (repo_init ctx) s) (\<lambda>t s.
       (let encrypted = encrypt cx (json_dumps cx config)
        in case get_by_channel t ch (notification_settings s) of
             Some r \<Rightarrow>
               ret () (s\<lparr>notification_settings :=
                 upd_where (\<lambda>x. ns_id x = ns_id r) (\<lambda>x. x\<lparr>ns_config := encrypted\<rparr>) (notification_settings s)\<rparr>)
           | None \<Rightarrow>
               (let (i, s1) = new_uuid7 s
                in on_ok (pure_op (repo_add stamp_setting setting_conflict t None
                     \<lparr>ns_id = i, ns_tenant = t, ns_channel = ch, ns_config = encrypted, ns_enabled = True\<rparr>
                     (notification_settings s1)) s1) (\<lambda>rows s. ret () (s\<lparr>notification_settings := rows\<rparr>))))))"

definition get_channel_status :: "tenant_context \<Rightarrow> string \<Rightarrow> 'z notif_db_scheme \<Rightarrow> exn + string \<times> bool \<times> bool" where
  "get_channel_status ctx ch s =
     and_then (require_known_channel ch) (\<lambda>_.
     and_then (repo_init ctx) (\<lambda>t.
       (let r = get_by_channel t ch (notification_settings s)
        in Inr (ch, r \<noteq> None, (case r of Some x \<Rightarrow> ns_enabled x | None \<Rightarrow> False)))))"

end
