(* ===== verification/Notification_Dispatch.thy ===== *)
theory Notification_Dispatch
  imports Notifications Resilience
begin

section \<open>Delivering notifications: channels, the SMS cap, the dispatcher, retention\<close>

text \<open>
  \<^verbatim>\<open>core/notifications/channels/\<close>, \<^verbatim>\<open>core/notifications/sms_cap.py\<close>,
  \<^verbatim>\<open>core/notifications/dispatcher.py\<close> and \<^verbatim>\<open>core/notifications/retention.py\<close>.
  The HTTP client is a parameter: what each request of a call comes back with.  Redis keeps the
  daily counters; a counter lives longer than the day its key names, so its expiry never shows.
\<close>

subsection \<open>The channel port\<close>

record rendered_message =
  rm_notification :: uuid
  rm_address :: string
  rm_subject :: "string option"
  rm_body :: string
  rm_locale :: string

record channel =
  ch_configured :: bool
  ch_send :: "rendered_message \<Rightarrow> exn + string option"  \<comment> \<open>the provider's message id\<close>

datatype http_outcome =
    TransportError string            \<comment> \<open>\<^verbatim>\<open>httpx.HTTPError\<close>\<close>
  | CallTimeout                      \<comment> \<open>the deadline of \<^verbatim>\<open>call_resilient\<close> passes\<close>
  | Response int "json option"       \<comment> \<open>status and body; \<open>None\<close> is not JSON\<close>

definition json_decode_error :: exn where
  "json_decode_error = ValueError ''JSONDecodeError''"

definition json_shape_error :: exn where
  \<comment> \<open>\<^verbatim>\<open>.get\<close> or a subscript on a value of another type, or a missing key\<close>
  "json_shape_error = LookupError ''unexpected JSON shape''"

subsection \<open>Telegram\<close>

definition telegram_op :: "http_outcome \<Rightarrow> string attempt" where
  "telegram_op o1 =
     (case o1 of
        TransportError m \<Rightarrow> Transient (Some ChannelTemporaryError) (''telegram transport error: '' @ m)
      | CallTimeout \<Rightarrow> Transient None []
      | Response st body \<Rightarrow>
          if st \<ge> 500 \<or> st = 429 then Transient (Some ChannelTemporaryError) (''telegram http '' @ show_int st)
          else (case body of
                  None \<Rightarrow> Fatal json_decode_error
                | Some j \<Rightarrow>
                    (case jobj j of
                       None \<Rightarrow> Fatal json_shape_error
                     | Some d \<Rightarrow>
                         if \<not> jtruthy (jget d ''ok'')
                         then Fatal (Domain ChannelPermanentError (''telegram rejected: '' @ py_str (jget d ''description'')))
                         else (case jobj (jget d ''result'') of
                                 None \<Rightarrow> Fatal json_shape_error
                               | Some r \<Rightarrow> if jhas r ''message_id'' then Returns (py_str (jget r ''message_id''))
                                          else Fatal json_shape_error))))"

text \<open>\<open>http k\<close> is the outcome of the request of attempt \<open>k\<close>.\<close>

definition channel_policy :: retry_policy where
  \<comment> \<open>\<^verbatim>\<open>RetryPolicy(attempts=2)\<close>\<close>
  "channel_policy = \<lparr>rp_attempts = 2, rp_base_delay = 1/2, rp_max_delay = 30, rp_multiplier = 2, rp_jitter = 1/5\<rparr>"

definition telegram_send :: "string option \<Rightarrow> (nat \<Rightarrow> http_outcome) \<Rightarrow> (nat \<Rightarrow> rat) \<Rightarrow> (nat \<Rightarrow> rat) \<Rightarrow> breaker \<Rightarrow>
    (exn + string option) \<times> breaker option" where
  "telegram_send token http t_allow t_fail br =
     (if token = None \<or> token = Some [] then (Inr None, Some br)
      else (let (r, br', n) = call_resilient channel_policy (\<lambda>k. telegram_op (http k)) t_allow t_fail ChannelTemporaryError (Some br)
            in (case r of Inl e \<Rightarrow> Inl e | Inr i \<Rightarrow> Inr (Some i), br')))"

subsection \<open>Eskiz SMS\<close>

definition MAX_SMS_LEN :: nat where
  "MAX_SMS_LEN = 280"

definition normalize_uz_phone :: "string \<Rightarrow> exn + string" where
  "normalize_uz_phone raw =
     (let digits0 = filter ch_dec raw;
          digits = (if length digits0 = 9 then ''998'' @ digits0 else digits0)
      in if length digits = 12 \<and> startswith digits ''998'' then Inr digits
         else Inl (Domain ChannelPermanentError (''not a valid UZ phone number: '' @ mask_address raw)))"

text \<open>The adapter keeps its bearer token; \<open>ek_calls\<close> counts the requests made so far and
  \<open>http n\<close> is the outcome of request \<open>n\<close>.\<close>

record eskiz_state =
  ek_token :: "string option"
  ek_calls :: nat

definition eskiz_post :: "(nat \<Rightarrow> http_outcome) \<Rightarrow> eskiz_state \<Rightarrow> (string attempt, int \<times> json option, eskiz_state) res" where
  "eskiz_post http k =
     (let k' = k\<lparr>ek_calls := Suc (ek_calls k)\<rparr>
      in case http (ek_calls k) of
           TransportError m \<Rightarrow> (Inl (Transient (Some ChannelTemporaryError) (''eskiz transport error: '' @ m)), k')
         | CallTimeout \<Rightarrow> (Inl (Transient None []), k')
         | Response st body \<Rightarrow> (Inr (st, body), k'))"

definition ensure_token :: "(nat \<Rightarrow> http_outcome) \<Rightarrow> eskiz_state \<Rightarrow> (string attempt, string, eskiz_state) res" where
  "ensure_token http k =
     (case ek_token k of
        Some t \<Rightarrow> ret t k
      | None \<Rightarrow>
          on_ok (eskiz_post http k) (\<lambda>(st, body) k.
            if st \<ge> 500 \<or> st = 429
            then raise (Transient (Some ChannelTemporaryError) (''eskiz auth http '' @ show_int st)) k
            else if st \<ge> 400
            then raise (Fatal (Domain ChannelPermanentError (''eskiz auth rejected: http '' @ show_int st))) k
            else (case body of
                    None \<Rightarrow> raise (Fatal json_decode_error) k
                  | Some j \<Rightarrow>
                      (case jobj j of
                         None \<Rightarrow> raise (Fatal json_shape_error) k
                       | Some d \<Rightarrow>
                           (case jobj (jget_or d ''data'' (JObj [])) of
                              None \<Rightarrow> raise (Fatal json_shape_error) k
                            | Some dd \<Rightarrow>
                                if \<not> jtruthy (jget dd ''token'')
                                then raise (Transient (Some ChannelTemporaryError) ''eskiz auth returned no token'') k
                                else (let t = py_str (jget dd ''token'') in ret t (k\<lparr>ek_token := Some t\<rparr>)))))))"

definition post_sms :: "(nat \<Rightarrow> http_outcome) \<Rightarrow> eskiz_state \<Rightarrow> (string attempt, int \<times> json option, eskiz_state) res" where
  "post_sms http k = on_ok (ensure_token http k) (\<lambda>token k. eskiz_post http k)"

definition parse_send :: "int \<Rightarrow> json option \<Rightarrow> string attempt" where
  "parse_send st body =
     (if st \<ge> 500 \<or> st = 429 then Transient (Some ChannelTemporaryError) (''eskiz http '' @ show_int st)
      else if st \<ge> 400 then Fatal (Domain ChannelPermanentError (''eskiz rejected: http '' @ show_int st))
      else (case body of
              None \<Rightarrow> Fatal json_decode_error
            | Some j \<Rightarrow>
                (case jobj j of
                   None \<Rightarrow> Fatal json_shape_error
                 | Some d \<Rightarrow>
                     if py_str (jget d ''status'') = ''error''
                     then Fatal (Domain ChannelPermanentError (''eskiz error: '' @ py_str (jget d ''message'')))
                     else Returns (if jtruthy (jget d ''id'') then py_str (jget d ''id'') else []))))"

definition eskiz_op :: "(nat \<Rightarrow> http_outcome) \<Rightarrow> eskiz_state \<Rightarrow> string attempt \<times> eskiz_state" where
  "eskiz_op http k =
     (case on_ok (post_sms http k) (\<lambda>(st, body) k.
             if st = 401 then post_sms http (k\<lparr>ek_token := None\<rparr>) else ret (st, body) k) of
        (Inl a, k) \<Rightarrow> (a, k)
      | (Inr (st, body), k) \<Rightarrow> (parse_send st body, k))"

text \<open>The adapter's state before attempt \<open>k\<close> of one call.\<close>

fun eskiz_before :: "(nat \<Rightarrow> http_outcome) \<Rightarrow> eskiz_state \<Rightarrow> nat \<Rightarrow> eskiz_state" where
  "eskiz_before http k0 0 = k0"
| "eskiz_before http k0 (Suc 0) = k0"
| "eskiz_before http k0 (Suc (Suc n)) = snd (eskiz_op http (eskiz_before http k0 (Suc n)))"

definition eskiz_send :: "string option \<Rightarrow> string option \<Rightarrow> (nat \<Rightarrow> http_outcome) \<Rightarrow> (nat \<Rightarrow> rat) \<Rightarrow> (nat \<Rightarrow> rat) \<Rightarrow>
    breaker \<Rightarrow> eskiz_state \<Rightarrow> rendered_message \<Rightarrow> (exn + string option) \<times> breaker option \<times> eskiz_state" where
  "eskiz_send email password http t_allow t_fail br k0 m =
     (if text_or email [] = [] \<or> text_or password [] = [] then (Inr None, Some br, k0)
      else (case normalize_uz_phone (rm_address m) of
              Inl e \<Rightarrow> (Inl e, Some br, k0)
            | Inr phone \<Rightarrow>
                (let (r, br', n) = call_resilient channel_policy (\<lambda>k. fst (eskiz_op http (eskiz_before http k0 k)))
                       t_allow t_fail ChannelTemporaryError (Some br)
                 in (case r of Inl e \<Rightarrow> Inl e | Inr i \<Rightarrow> Inr (Some i), br', eskiz_before http k0 (Suc n)))))"

subsection \<open>Email\<close>

text \<open>The SMTP session is a parameter: its outcome in each attempt.  Setting a header refuses a
  value of more than one line (\<^verbatim>\<open>str.splitlines\<close>).\<close>

datatype smtp_outcome = Delivered | Refused string | SmtpError string | SmtpTimeout

definition ch_linebreak :: "char \<Rightarrow> bool" where
  "ch_linebreak c = ((10 \<le> py_ord c \<and> py_ord c \<le> 13) \<or> (28 \<le> py_ord c \<and> py_ord c \<le> 30) \<or> py_ord c = 133)"

definition multi_line :: "string \<Rightarrow> bool" where
  "multi_line v =
     (let r = rev v;
          r' = (if startswith r [CHR 0x0A, CHR 0x0D] then drop 2 r else if r \<noteq> [] \<and> ch_linebreak (hd r) then tl r else r)
      in list_ex ch_linebreak r')"

definition email_op :: "smtp_outcome \<Rightarrow> unit attempt" where
  "email_op o1 =
     (case o1 of
        Delivered \<Rightarrow> Returns ()
      | Refused m \<Rightarrow> Fatal (Domain ChannelPermanentError (''smtp refused address: '' @ m))
      | SmtpError m \<Rightarrow> Transient (Some ChannelTemporaryError) (''smtp error: '' @ m)
      | SmtpTimeout \<Rightarrow> Transient None [])"

definition email_send :: "string option \<Rightarrow> string \<Rightarrow> (nat \<Rightarrow> smtp_outcome) \<Rightarrow> (nat \<Rightarrow> rat) \<Rightarrow> (nat \<Rightarrow> rat) \<Rightarrow> breaker \<Rightarrow>
    rendered_message \<Rightarrow> (exn + string option) \<times> breaker option" where
  "email_send host from_address smtp t_allow t_fail br m =
     (if text_or host [] = [] then (Inr None, Some br)
      else if multi_line from_address \<or> multi_line (rm_address m) \<or> multi_line (text_or (rm_subject m) [])
      then (Inl (ValueError ''Header values may not contain linefeed or carriage return characters''), Some br)
      else (let (r, br', n) = call_resilient channel_policy (\<lambda>k. email_op (smtp k)) t_allow t_fail ChannelTemporaryError (Some br)
            in (case r of Inl e \<Rightarrow> Inl e | Inr _ \<Rightarrow> Inr None, br')))"

subsection \<open>Per-tenant channels\<close>

text \<open>What \<^verbatim>\<open>build_channel_from_config\<close> passes to the adapter's constructor.\<close>

datatype channel_config =
    TelegramConfig string
  | EskizConfig string string
  | EmailConfig string int string string string

definition config_str :: "payload \<Rightarrow> string \<Rightarrow> exn + string" where
  \<comment> \<open>\<^verbatim>\<open>str(config[name])\<close>\<close>
  "config_str config name = (if jhas config name then Inr (py_str (jget config name)) else Inl (LookupError name))"

definition build_channel_from_config :: "string \<Rightarrow> payload \<Rightarrow> exn + channel_config" where
  "build_channel_from_config ch config =
     (if ch = ''telegram'' then and_then (config_str config ''bot_token'') (\<lambda>t. Inr (TelegramConfig t))
      else if ch = ''sms_eskiz''
      then and_then (config_str config ''email'') (\<lambda>e.
           and_then (config_str config ''password'') (\<lambda>p. Inr (EskizConfig e p)))
      else if ch = ''email''
      then and_then (config_str config ''host'') (\<lambda>h.
           and_then (config_str config ''port'') (\<lambda>p.
             (case py_int 10 p of
                None \<Rightarrow> Inl (ValueError ''invalid literal for int()'')
              | Some port \<Rightarrow>
                  and_then (config_str config ''username'') (\<lambda>u.
                  and_then (config_str config ''password'') (\<lambda>pw.
                  and_then (config_str config ''from_address'') (\<lambda>f. Inr (EmailConfig h port u pw f)))))))
      else Inl (ValueError (''unknown notification channel: '' @ ch)))"

subsection \<open>The SMS cap\<close>

definition sms_cap_key :: "uuid option \<Rightarrow> datetime \<Rightarrow> string" where
  "sms_cap_key t d =
     ''sms:cap:'' @ (case t of Some u \<Rightarrow> uuid_str u | None \<Rightarrow> ''platform'') @ '':'' @
     fixed_digits 10 4 (nat (dt_year d)) @ fixed_digits 10 2 (nat (dt_month d)) @ fixed_digits 10 2 (nat (dt_day d))"

definition counter :: "(string \<times> int) list \<Rightarrow> string \<Rightarrow> int" where
  "counter cs key = (case map_of cs key of Some n \<Rightarrow> n | None \<Rightarrow> 0)"

definition try_consume :: "int \<Rightarrow> uuid option \<Rightarrow> 'z notif_db_scheme \<Rightarrow> bool \<times> 'z notif_db_scheme" where
  "try_consume cap t s =
     (if cap \<le> 0 then (True, s)
      else (let key = sms_cap_key t (now s);
                count = counter (sms_counters s) key + 1
            in (count \<le> cap, s\<lparr>sms_counters := (key, count) # filter (\<lambda>p. fst p \<noteq> key) (sms_counters s)\<rparr>)))"

subsection \<open>The dispatcher\<close>

record notif_settings =
  notification_lease_seconds :: int
  notification_max_attempts :: int
  sms_daily_cap_per_tenant :: int
  notification_retention_days :: int

record dispatch_env =
  de_settings :: notif_settings
  de_registry :: template_registry
  de_files :: "string \<Rightarrow> string \<Rightarrow> string option"
  de_decrypt :: "string \<Rightarrow> exn + payload"           \<comment> \<open>\<^verbatim>\<open>json.loads(cipher.decrypt(...))\<close>\<close>
  de_build :: "channel_config \<Rightarrow> channel"              \<comment> \<open>the adapter with its HTTP client\<close>
  de_channels :: "(string \<times> channel) list"          \<comment> \<open>the platform channels\<close>
  de_locked :: "uuid \<Rightarrow> bool"                         \<comment> \<open>rows another dispatcher holds\<close>

definition usec :: "int \<Rightarrow> int" where
  "usec seconds = seconds * 1000000"

definition due :: "int \<Rightarrow> outbox_row \<Rightarrow> bool" where
  "due t r = (ob_status r \<in> {OPending, OFailed, Sending} \<and> ob_next_retry r \<le> t)"

definition claim_row :: "int \<Rightarrow> outbox_row \<Rightarrow> outbox_row" where
  "claim_row deadline r = r\<lparr>ob_status := Sending, ob_attempts := ob_attempts r + 1, ob_next_retry := deadline\<rparr>"

text \<open>\<open>FOR UPDATE SKIP LOCKED\<close>: the rows are taken in order, those held by another transaction
  are passed over.\<close>

definition claim_batch :: "(uuid \<Rightarrow> bool) \<Rightarrow> nat \<Rightarrow> int \<Rightarrow> 'z notif_db_scheme \<Rightarrow> outbox_row list \<times> 'z notif_db_scheme" where
  "claim_batch locked batch lease s =
     (let t = instant (now s);
          rows = take batch (sort_key ob_next_retry (filter (\<lambda>r. due t r \<and> \<not> locked (ob_id r)) (outbox s)));
          deadline = t + usec lease;
          ids = map ob_id rows
      in (map (claim_row deadline) rows,
          s\<lparr>outbox := upd_where (\<lambda>r. ob_id r \<in> set ids) (claim_row deadline) (outbox s)\<rparr>))"

definition update_row :: "uuid \<Rightarrow> (outbox_row \<Rightarrow> outbox_row) \<Rightarrow> 'z notif_db_scheme \<Rightarrow> 'z notif_db_scheme" where
  "update_row i f s = s\<lparr>outbox := upd_where (\<lambda>r. ob_id r = i) f (outbox s)\<rparr>"

definition mark_sent :: "outbox_row \<Rightarrow> string option \<Rightarrow> 'z notif_db_scheme \<Rightarrow> 'z notif_db_scheme" where
  "mark_sent row mid s =
     update_row (ob_id row) (\<lambda>r. r\<lparr>ob_status := Sent, ob_sent_at := Some (now s), ob_message_id := mid, ob_error := None\<rparr>) s"

definition backoff_seconds :: "int \<Rightarrow> int" where
  "backoff_seconds attempts = min (60 * 2 ^ nat (attempts - 1)) (16 * 60)"

definition reschedule :: "outbox_row \<Rightarrow> string \<Rightarrow> 'z notif_db_scheme \<Rightarrow> 'z notif_db_scheme" where
  "reschedule row err s =
     (let next = instant (now s) + usec (backoff_seconds (ob_attempts row))
      in update_row (ob_id row) (\<lambda>r. r\<lparr>ob_status := OFailed, ob_next_retry := next, ob_error := Some (take 500 err)\<rparr>) s)"

definition dispatcher_actor :: actor where
  "dispatcher_actor = \<lparr>act_kind = System, actor_id = Some ''notifications.dispatcher''\<rparr>"

definition dead :: "outbox_row \<Rightarrow> string \<Rightarrow> 'z notif_db_scheme \<Rightarrow> 'z notif_db_scheme" where
  "dead row err s =
     (let s1 = update_row (ob_id row) (\<lambda>r. r\<lparr>ob_status := Dead, ob_error := Some (take 500 err)\<rparr>) s;
          (eid, s2) = new_uuid7 s1
      in s2\<lparr>published := published s2 @
           [\<lparr>event_id = eid, ev_name = ''notifications.message.failed'', ev_version = 1, occurred_at = now s2,
             ev_tenant = ob_tenant row, ev_actor = dispatcher_actor,
             ev_payload = [(''notification_id'', JStr (uuid_str (ob_notification row))), (''channel'', JStr (ob_channel row)),
               (''recipient'', JStr (mask_address (ob_recipient row))), (''template_key'', JStr (ob_template row)),
               (''error'', JStr (take 200 err))]\<rparr>]\<rparr>)"

definition resolve_channel :: "dispatch_env \<Rightarrow> outbox_row \<Rightarrow> 'z notif_db_scheme \<Rightarrow> exn + channel" where
  "resolve_channel env row s =
     and_then
       (case ob_tenant row of
          None \<Rightarrow> Inr None
        | Some t \<Rightarrow>
            (case filter (\<lambda>x. ns_tenant x = t \<and> ns_channel x = ob_channel row \<and> ns_enabled x) (notification_settings s) of
               [] \<Rightarrow> Inr None
             | [x] \<Rightarrow> Inr (Some (ns_config x))
             | _ \<Rightarrow> Inl (ValueError ''MultipleResultsFound'')))
       (\<lambda>blob.
         case blob of
           Some b \<Rightarrow> and_then (de_decrypt env b) (\<lambda>config.
                     and_then (build_channel_from_config (ob_channel row) config) (\<lambda>c. Inr (de_build env c)))
         | None \<Rightarrow> (case map_of (de_channels env) (ob_channel row) of
                     None \<Rightarrow> Inl (LookupError (ob_channel row))
                   | Some c \<Rightarrow> Inr c))"

definition render_message :: "outbox_row \<Rightarrow> rendered_template \<Rightarrow> rendered_message" where
  "render_message row rt =
     \<lparr>rm_notification = ob_notification row, rm_address = ob_recipient row, rm_subject = rt_subject rt,
      rm_body = rt_body rt, rm_locale = ob_locale row\<rparr>"

definition deliver :: "dispatch_env \<Rightarrow> channel \<Rightarrow> outbox_row \<Rightarrow> rendered_template \<Rightarrow> 'z notif_db_scheme \<Rightarrow> 'z notif_db_scheme" where
  "deliver env ch row rt s =
     (case ch_send ch (render_message row rt) of
        Inl e \<Rightarrow>
          if exn_is ChannelPermanentError e then dead row (''permanent: '' @ exn_str e) s
          else if ob_attempts row \<ge> notification_max_attempts (de_settings env) then dead row (''exhausted: '' @ exn_str e) s
          else reschedule row (exn_str e) s
      | Inr mid \<Rightarrow> mark_sent row mid s)"

definition process_row :: "dispatch_env \<Rightarrow> outbox_row \<Rightarrow> 'z notif_db_scheme \<Rightarrow> (unit, 'z notif_db_scheme) op_res" where
  "process_row env row s =
     (case registry_render (de_files env) (de_registry env) (ob_template row) (ob_locale row) (ob_params row) of
        Inl e \<Rightarrow>
          if exn_is NotFoundError e then ret () (dead row (''unknown template: '' @ exn_str e) s) else raise e s
      | Inr rt \<Rightarrow>
          on_ok (pure_op (resolve_channel env row s) s) (\<lambda>ch s.
            (let (ok, s1) = (if ob_channel row = ''sms_eskiz'' \<and> ch_configured ch
                             then try_consume (sms_daily_cap_per_tenant (de_settings env)) (ob_tenant row) s else (True, s))
             in if \<not> ok then ret () (dead row ''sms_daily_cap_exceeded'' s1)
                else ret () (deliver env ch row rt s1))))"

text \<open>A row whose processing raises is left to its lease.\<close>

fun process_rows :: "dispatch_env \<Rightarrow> outbox_row list \<Rightarrow> 'z notif_db_scheme \<Rightarrow> 'z notif_db_scheme" where
  "process_rows env [] s = s"
| "process_rows env (row # rows) s = process_rows env rows (snd (process_row env row s))"

definition dispatch_due_notifications :: "dispatch_env \<Rightarrow> nat \<Rightarrow> 'z notif_db_scheme \<Rightarrow> nat \<times> 'z notif_db_scheme" where
  "dispatch_due_notifications env batch s =
     (let (claimed, s1) = claim_batch (de_locked env) batch (notification_lease_seconds (de_settings env)) s
      in if claimed = [] then (0, s1) else (length claimed, process_rows env claimed s1))"

subsection \<open>Retention\<close>

definition SWEEP_BATCH :: nat where
  "SWEEP_BATCH = 1000"

definition expired_notification :: "int \<Rightarrow> outbox_row \<Rightarrow> bool" where
  "expired_notification cutoff r = (ob_status r \<in> {Sent, Dead} \<and> instant (ob_created r) < cutoff)"

definition purge_expired_notifications :: "notif_settings \<Rightarrow> 'z notif_db_scheme \<Rightarrow> nat \<times> 'z notif_db_scheme" where
  "purge_expired_notifications cfg s =
     (let cutoff = instant (now s) - notification_retention_days cfg * usec_per_day;
          oldest = map ob_id (take SWEEP_BATCH (sort_key (\<lambda>r. instant (ob_created r)) (filter (expired_notification cutoff) (outbox s))));
          gone = (\<lambda>r. ob_id r \<in> set oldest)
      in (length (filter gone (outbox s)), s\<lparr>outbox := del_where gone (outbox s)\<rparr>))"

end
