(* ===== verification/Notification_Laws.thy ===== *)
theory Notification_Laws
  imports Notification_Dispatch
begin

section \<open>Laws of the notification outbox\<close>

text \<open>
  The well-formedness of the outbox and what one pass of the dispatcher does to each of its rows.
\<close>

subsection \<open>Well-formed rows\<close>

definition outbox_row_ok :: "outbox_row \<Rightarrow> bool" where
  "outbox_row_ok r \<longleftrightarrow>
     ob_channel r \<in> set KNOWN_CHANNELS \<and> ob_locale r \<in> set SUPPORTED_LOCALES
     \<and> (if ob_status r = OPending then ob_attempts r = 0 else 1 \<le> ob_attempts r)
     \<and> (ob_status r = Sent \<longleftrightarrow> ob_sent_at r \<noteq> None)
     \<and> (ob_status r \<in> {OFailed, Dead} \<longrightarrow> ob_error r \<noteq> None)"

definition outbox_key :: "outbox_row \<Rightarrow> uuid option \<times> string option \<times> string" where
  "outbox_key r = (ob_tenant r, ob_dedup r, ob_channel r)"

definition outbox_ok :: "'z notif_db_scheme \<Rightarrow> bool" where
  \<comment> \<open>well-formed rows, and the unique index holds\<close>
  "outbox_ok s \<longleftrightarrow> (\<forall>r \<in> set (outbox s). outbox_row_ok r)
     \<and> distinct (map outbox_key (filter (\<lambda>r. ob_dedup r \<noteq> None) (outbox s)))"

lemma negotiate_locale_supported: "negotiate_locale cs \<in> set SUPPORTED_LOCALES"
  by (induction cs rule: negotiate_locale.induct) (auto simp: SUPPORTED_LOCALES_def DEFAULT_LOCALE_def Let_def)

subsection \<open>Sending\<close>

lemma user_addresses_step:
  assumes "distinct (map fst acc)" and "fst ` set acc \<subseteq> set USER_PROFILE_CHANNELS"
  shows "distinct (map fst (foldl (\<lambda>resolved ch.
       if ch \<notin> set USER_PROFILE_CHANNELS then resolved
       else (case (if ch = ''email'' then ct_email c else ct_phone c) of
               None \<Rightarrow> resolved
             | Some a \<Rightarrow> if a = [] \<or> ch \<in> fst ` set resolved then resolved else resolved @ [(ch, a)])) acc channels))
    \<and> fst ` set (foldl (\<lambda>resolved ch.
       if ch \<notin> set USER_PROFILE_CHANNELS then resolved
       else (case (if ch = ''email'' then ct_email c else ct_phone c) of
               None \<Rightarrow> resolved
             | Some a \<Rightarrow> if a = [] \<or> ch \<in> fst ` set resolved then resolved else resolved @ [(ch, a)])) acc channels) \<subseteq> set USER_PROFILE_CHANNELS"
  using assms
proof (induction channels arbitrary: acc)
  case Nil
  then show ?case by simp
next
  case (Cons ch channels)
  show ?case unfolding foldl_Cons by (rule Cons.IH) (use Cons.prems in \<open>auto split: option.splits\<close>)
qed

lemma user_addresses_ok: "distinct (map fst (user_addresses c channels)) \<and> fst ` set (user_addresses c channels) \<subseteq> set USER_PROFILE_CHANNELS"
  unfolding user_addresses_def by (rule user_addresses_step) simp_all

lemma profile_channels_known: "set USER_PROFILE_CHANNELS \<subseteq> set KNOWN_CHANNELS"
  by (simp add: USER_PROFILE_CHANNELS_def KNOWN_CHANNELS_def CHANNEL_CONFIG_FIELDS_def)

lemma resolve_addresses_ok:
  assumes "resolve_addresses dir rcp channels = Inr (addresses, l)" and "set channels \<subseteq> set KNOWN_CHANNELS"
  shows "distinct (map fst addresses) \<and> fst ` set addresses \<subseteq> set KNOWN_CHANNELS"
proof (cases rcp)
  case (UserRecipient u)
  then obtain c where "addresses = user_addresses c channels"
    using assms(1) by (auto simp: resolve_addresses_def split: option.splits)
  then show ?thesis using user_addresses_ok [of c channels] profile_channels_known by (auto dest: subsetD)
next
  case (AddressRecipient ch a)
  then have "addresses = (if ch \<in> set channels then [(ch, a)] else [])" using assms(1) by (simp add: resolve_addresses_def)
  then show ?thesis using assms(2) by (auto split: if_splits)
qed

lemma outbox_rows_state: "snd (outbox_rows nid dedup ctx template loc params as s) = s\<lparr>uuid_next := uuid_next s + length as\<rparr>"
  by (induction nid dedup ctx template loc params as s rule: outbox_rows.induct) (auto simp: new_uuid7_def case_prod_unfold Let_def)

lemma outbox_rows_fields:
  "map (\<lambda>r. (ob_channel r, ob_recipient r)) (fst (outbox_rows nid dedup ctx template loc params as s)) = as"
  "r \<in> set (fst (outbox_rows nid dedup ctx template loc params as s)) \<Longrightarrow>
     ob_notification r = nid \<and> ob_dedup r = dedup \<and> ob_tenant r = tenant_id ctx \<and> ob_template r = template \<and> ob_locale r = loc
     \<and> ob_params r = params \<and> ob_status r = OPending \<and> ob_attempts r = 0 \<and> ob_sent_at r = None"
  by (induction nid dedup ctx template loc params as s rule: outbox_rows.induct) (auto simp: new_uuid7_def case_prod_unfold Let_def)

lemma outbox_rows_channels: "map ob_channel (fst (outbox_rows nid dedup ctx template loc params as s)) = map fst as"
proof -
  have "map ob_channel (fst (outbox_rows nid dedup ctx template loc params as s))
    = map fst (map (\<lambda>r. (ob_channel r, ob_recipient r)) (fst (outbox_rows nid dedup ctx template loc params as s)))" by simp
  then show ?thesis unfolding outbox_rows_fields(1) .
qed

lemma outbox_rows_ok:
  assumes "fst ` set as \<subseteq> set KNOWN_CHANNELS" and "loc \<in> set SUPPORTED_LOCALES"
    and "r \<in> set (fst (outbox_rows nid dedup ctx template loc params as s))"
  shows "outbox_row_ok r"
proof -
  have "ob_channel r \<in> set (map fst as)" using assms(3) unfolding outbox_rows_channels [symmetric, of as nid dedup ctx template loc params s] by simp
  then show ?thesis using outbox_rows_fields(2) [OF assms(3)] assms(1,2) by (auto simp: outbox_row_ok_def)
qed

text \<open>The shape of every outcome of \<^const>\<open>send\<close>: it raises without a trace, finds the notification of
  the key, loses a race, or appends its rows.\<close>

lemma send_cases:
  assumes "send env ctx rcp template context channels loc dedup s = (r, s')"
  obtains (rejected) e where "r = Inl e" "s' = s"
    | (known) key n where "dedup = Some key" "notification_id_for_dedup (tenant_id ctx) key (outbox s) = Some n" "r = Inr n" "s' = s"
    | (raced) s2 where "r = Inl (RuntimeError ''PendingRollbackError'')" "s' = nv_race env s2" "s2 = s\<lparr>uuid_next := uuid_next s2\<rparr>"
    | (queued) nid l addresses rows s2 resolved where "r = Inr nid" "s2 = s\<lparr>uuid_next := uuid_next s2\<rparr>"
        "rows = fst (outbox_rows nid dedup ctx template resolved (jsonable context) addresses (s\<lparr>uuid_next := Suc (uuid_next s)\<rparr>))"
        "distinct (map fst addresses)" "fst ` set addresses \<subseteq> set KNOWN_CHANNELS" "addresses \<noteq> []"
        "resolved \<in> set SUPPORTED_LOCALES" "\<not> outbox_conflict rows (outbox (nv_race env s2))"
        "s' = (nv_race env s2)\<lparr>outbox := outbox (nv_race env s2) @ rows\<rparr>"
        "\<And>key. dedup = Some key \<Longrightarrow> notification_id_for_dedup (tenant_id ctx) key (outbox s) = None"
proof (cases "registry_get (nv_registry env) template")
  case (Inl e)
  then show ?thesis using assms by (intro that(1) [of e]) (simp_all add: send_def)
next
  case (Inr tdef)
  define selected where "selected = (case channels of Some cs \<Rightarrow> cs | None \<Rightarrow> td_channels tdef)"
  show ?thesis
  proof (cases "filter (\<lambda>c. c \<notin> set KNOWN_CHANNELS) (remdups selected) \<noteq> [] \<or> filter (\<lambda>k. \<not> jhas context k) (remdups (td_required tdef)) \<noteq> []")
    case True
    then have "\<exists>e. send env ctx rcp template context channels loc dedup s = (Inl e, s)"
      using Inr by (auto simp: send_def Let_def selected_def)
    then show ?thesis using assms that(1) by auto
  next
    case False
    then have kn: "set selected \<subseteq> set KNOWN_CHANNELS" by (auto simp: filter_empty_conv)
    show ?thesis
    proof (cases "resolve_addresses (nv_directory env) rcp selected")
      case (Inl e)
      then have "send env ctx rcp template context channels loc dedup s = (Inl e, s)"
        using \<open>registry_get (nv_registry env) template = Inr tdef\<close> False by (simp add: send_def Let_def selected_def)
      then show ?thesis using assms that(1) by simp
    next
      case (Inr al)
      obtain addresses l where al: "al = (addresses, l)" by force
      note ok = resolve_addresses_ok [OF Inr [unfolded al] kn]
      define resolved where "resolved = negotiate_locale [loc, l, Some (ctx_locale ctx)]"
      define found where "found = (case dedup of None \<Rightarrow> None | Some key \<Rightarrow> notification_id_for_dedup (tenant_id ctx) key (outbox s))"
      define nid where "nid = uuid_gen s (uuid_next s)"
      define rows where "rows = fst (outbox_rows nid dedup ctx template resolved (jsonable context) addresses (s\<lparr>uuid_next := Suc (uuid_next s)\<rparr>))"
      define s2 where "s2 = snd (outbox_rows nid dedup ctx template resolved (jsonable context) addresses (s\<lparr>uuid_next := Suc (uuid_next s)\<rparr>))"
      have s2: "s2 = s\<lparr>uuid_next := uuid_next s2\<rparr>" unfolding s2_def outbox_rows_state by simp
      have run: "send env ctx rcp template context channels loc dedup s =
          (if addresses = [] then raise (Domain InvariantViolationError ''recipient has no address for any requested channel'') s
           else (case found of Some existing \<Rightarrow> ret existing s
                 | None \<Rightarrow> if outbox_conflict rows (outbox (nv_race env s2)) then raise (RuntimeError ''PendingRollbackError'') (nv_race env s2)
                           else ret nid ((nv_race env s2)\<lparr>outbox := outbox (nv_race env s2) @ rows\<rparr>)))"
        using \<open>registry_get (nv_registry env) template = Inr tdef\<close> False Inr al
        by (cases found) (simp_all add: send_def Let_def selected_def [symmetric] resolved_def [symmetric] found_def [symmetric] new_uuid7_def
            nid_def [symmetric] case_prod_unfold rows_def [symmetric] s2_def [symmetric])
      consider "addresses = []" | n where "addresses \<noteq> []" "found = Some n"
        | "addresses \<noteq> []" "found = None" "outbox_conflict rows (outbox (nv_race env s2))"
        | "addresses \<noteq> []" "found = None" "\<not> outbox_conflict rows (outbox (nv_race env s2))" by (cases found) auto
      then show ?thesis
      proof cases
        case 1
        then have "r = Inl (Domain InvariantViolationError ''recipient has no address for any requested channel'')" "s' = s"
          using assms run by simp_all
        then show ?thesis by (rule that(1))
      next
        case 2
        then have "r = Inr n" "s' = s" using assms run by simp_all
        moreover from 2 obtain key where "dedup = Some key" "notification_id_for_dedup (tenant_id ctx) key (outbox s) = Some n"
          unfolding found_def by (cases dedup) simp_all
        ultimately show ?thesis using that(2) by blast
      next
        case 3
        then have "r = Inl (RuntimeError ''PendingRollbackError'')" "s' = nv_race env s2" using assms run by simp_all
        then show ?thesis using s2 by (rule that(3))
      next
        case 4
        then have r: "r = Inr nid" "s' = (nv_race env s2)\<lparr>outbox := outbox (nv_race env s2) @ rows\<rparr>" using assms run by simp_all
        have l: "resolved \<in> set SUPPORTED_LOCALES" unfolding resolved_def by (rule negotiate_locale_supported)
        have n: "notification_id_for_dedup (tenant_id ctx) key (outbox s) = None" if "dedup = Some key" for key
          using 4(2) that by (simp add: found_def)
        show ?thesis by (rule that(4) [OF r(1) s2 rows_def conjunct1 [OF ok] conjunct2 [OF ok] 4(1) l 4(3) r(2) n])
      qed
    qed
  qed
qed

lemma outbox_ok_uuid [simp]: "outbox_ok (s\<lparr>uuid_next := n\<rparr>) = outbox_ok s"
  by (simp add: outbox_ok_def)

lemma outbox_rows_keys:
  assumes "distinct (map fst as)"
  shows "distinct (map outbox_key (fst (outbox_rows nid dedup ctx template loc params as s)))"
proof -
  have "distinct (map ob_channel (fst (outbox_rows nid dedup ctx template loc params as s)))"
    unfolding outbox_rows_channels by (rule assms)
  then show ?thesis by (auto simp: distinct_map outbox_key_def inj_on_def)
qed

lemma outbox_ok_append:
  assumes "outbox_ok s" and "\<And>r. r \<in> set rows \<Longrightarrow> outbox_row_ok r" and "distinct (map outbox_key rows)"
    and "\<not> outbox_conflict rows (outbox s)"
  shows "outbox_ok (s\<lparr>outbox := outbox s @ rows\<rparr>)"
proof -
  let ?k = "\<lambda>rows. map outbox_key (filter (\<lambda>r. ob_dedup r \<noteq> None) rows)"
  have "distinct (?k rows)" using assms(3) by (rule distinct_map_filter)
  moreover have "set (?k (outbox s)) \<inter> set (?k rows) = {}"
    using assms(4) by (force simp: outbox_conflict_def list_ex_iff outbox_key_def)
  ultimately show ?thesis using assms(1,2) by (auto simp: outbox_ok_def)
qed

lemma send_outbox_ok:
  assumes "outbox_ok s" and race: "\<And>s. outbox_ok s \<Longrightarrow> outbox_ok (nv_race env s)"
  shows "outbox_ok (snd (send env ctx rcp template context channels loc dedup s))"
proof -
  obtain r s' where run: "send env ctx rcp template context channels loc dedup s = (r, s')" by force
  have "outbox_ok s'"
  proof (rule send_cases [OF run])
    fix s2 assume "s' = nv_race env s2" and "s2 = s\<lparr>uuid_next := uuid_next s2\<rparr>"
    then show "outbox_ok s'" using race assms(1) outbox_ok_uuid [of "uuid_next s2" s] by simp
  next
    fix nid l addresses rows s2 resolved
    assume s2: "s2 = s\<lparr>uuid_next := uuid_next s2\<rparr>"
      and rows: "rows = fst (outbox_rows nid dedup ctx template resolved (jsonable context) addresses (s\<lparr>uuid_next := Suc (uuid_next s)\<rparr>))"
      and a: "distinct (map fst addresses)" "fst ` set addresses \<subseteq> set KNOWN_CHANNELS" "resolved \<in> set SUPPORTED_LOCALES"
      and c: "\<not> outbox_conflict rows (outbox (nv_race env s2))"
      and s': "s' = (nv_race env s2)\<lparr>outbox := outbox (nv_race env s2) @ rows\<rparr>"
    have "outbox_ok (nv_race env s2)" using race assms(1) outbox_ok_uuid [of "uuid_next s2" s] s2 by simp
    then show "outbox_ok s'" unfolding s'
      by (rule outbox_ok_append) (use c rows outbox_rows_ok [OF a(2,3)] outbox_rows_keys [OF a(1)] in auto)
  qed (use assms(1) in auto)
  then show ?thesis using run by simp
qed

subsection \<open>A pass of the dispatcher\<close>

definition processed :: "dispatch_env \<Rightarrow> int \<Rightarrow> outbox_row \<Rightarrow> outbox_row \<Rightarrow> bool" where
  "processed env t r r' \<longleftrightarrow>
     r' = r
     \<or> (\<exists>mid d. r' = r\<lparr>ob_status := Sent, ob_sent_at := Some d, ob_message_id := mid, ob_error := None\<rparr>)
     \<or> (\<exists>e. r' = r\<lparr>ob_status := Dead, ob_error := Some e\<rparr>)
     \<or> (\<exists>e. r' = r\<lparr>ob_status := OFailed, ob_next_retry := t + usec (backoff_seconds (ob_attempts r)), ob_error := Some e\<rparr>
          \<and> ob_attempts r < notification_max_attempts (de_settings env))"

lemma dead_outbox:
  "outbox (dead row err s) = upd_where (\<lambda>r. ob_id r = ob_id row) (\<lambda>r. r\<lparr>ob_status := Dead, ob_error := Some (take 500 err)\<rparr>) (outbox s)"
  "now (dead row err s) = now s"
  by (simp_all add: dead_def Let_def new_uuid7_def update_row_def)

lemma try_consume_outbox:
  "outbox (snd (try_consume cap t s)) = outbox s" "now (snd (try_consume cap t s)) = now s"
  by (simp_all add: try_consume_def Let_def)

definition row_update :: "dispatch_env \<Rightarrow> outbox_row \<Rightarrow> 'z notif_db_scheme \<Rightarrow> 'z notif_db_scheme \<Rightarrow> bool" where
  "row_update env row s s' \<longleftrightarrow> now s' = now s \<and>
     (\<exists>f. outbox s' = upd_where (\<lambda>r. ob_id r = ob_id row) f (outbox s) \<and> processed env (instant (now s)) row (f row))"

lemma row_update_same: "outbox s' = outbox s \<Longrightarrow> now s' = now s \<Longrightarrow> row_update env row s s'"
  unfolding row_update_def by (intro conjI exI [of _ "\<lambda>r. r"]) (auto simp: upd_where_def processed_def)

lemma row_update_dead: "outbox s1 = outbox s \<Longrightarrow> now s1 = now s \<Longrightarrow> row_update env row s (dead row err s1)"
  unfolding row_update_def processed_def by (auto simp: dead_outbox)

lemma row_update_deliver: "outbox s1 = outbox s \<Longrightarrow> now s1 = now s \<Longrightarrow> row_update env row s (deliver env ch row rt s1)"
proof -
  assume o: "outbox s1 = outbox s" and n: "now s1 = now s"
  have sent: "row_update env row s (mark_sent row mid s1)" for mid
    unfolding row_update_def processed_def mark_sent_def update_row_def using o n by (intro conjI exI) auto
  have later: "row_update env row s (reschedule row err s1)" if "ob_attempts row < notification_max_attempts (de_settings env)" for err
    unfolding row_update_def processed_def reschedule_def update_row_def Let_def using o n that by (intro conjI exI) auto
  show ?thesis
    using sent later row_update_dead [OF o n, of env row] by (auto simp: deliver_def not_le split: sum.splits)
qed

lemma process_row_update: "row_update env row s (snd (process_row env row s))"
proof (cases "registry_render (de_files env) (de_registry env) (ob_template row) (ob_locale row) (ob_params row)")
  case (Inl e)
  then show ?thesis by (simp add: process_row_def row_update_same row_update_dead)
next
  case (Inr rt)
  show ?thesis
  proof (cases "resolve_channel env row s")
    case (Inl e)
    then show ?thesis using Inr by (simp add: process_row_def row_update_same)
  next
    case (Inr ch)
    let ?c = "if ob_channel row = ''sms_eskiz'' \<and> ch_configured ch
              then try_consume (sms_daily_cap_per_tenant (de_settings env)) (ob_tenant row) s else (True, s)"
    obtain ok s1 where c: "?c = (ok, s1)" by force
    have "outbox (snd ?c) = outbox s" "now (snd ?c) = now s" by (simp_all add: try_consume_outbox)
    then have s1: "outbox s1 = outbox s" "now s1 = now s" unfolding c by simp_all
    have "snd (process_row env row s) = (if ok then deliver env ch row rt s1 else dead row ''sms_daily_cap_exceeded'' s1)"
      unfolding process_row_def \<open>registry_render _ _ _ _ _ = Inr rt\<close> Inr by (simp add: c)
    then show ?thesis using row_update_dead [OF s1] row_update_deliver [OF s1] by simp
  qed
qed

lemma processed_id: "processed env t r r' \<Longrightarrow> ob_id r' = ob_id r"
  by (auto simp: processed_def)

lemma process_rows_map:
  assumes "distinct (map ob_id rows)" and "set rows \<subseteq> set (outbox s)" and "distinct (map ob_id (outbox s))"
  shows "now (process_rows env rows s) = now s \<and>
    (\<exists>h. outbox (process_rows env rows s) = map h (outbox s) \<and>
       (\<forall>x \<in> set (outbox s). if x \<in> set rows then processed env (instant (now s)) x (h x) else h x = x))"
  using assms
proof (induction rows arbitrary: s)
  case Nil
  then show ?case by (auto intro: exI [of _ "\<lambda>x. x"])
next
  case (Cons r rows)
  let ?s = "snd (process_row env r s)"
  from process_row_update [of env r s] obtain f where n: "now ?s = now s"
    and o: "outbox ?s = upd_where (\<lambda>x. ob_id x = ob_id r) f (outbox s)" and p: "processed env (instant (now s)) r (f r)"
    unfolding row_update_def by blast
  have uniq: "x = r" if "x \<in> set (outbox s)" "ob_id x = ob_id r" for x
    using key_unique [OF Cons.prems(3) that(1)] Cons.prems(2) that(2) by simp
  define g where "g = (\<lambda>x. if ob_id x = ob_id r then f r else x)"
  have o': "outbox ?s = map g (outbox s)"
    unfolding o upd_where_def g_def using uniq by (intro map_cong) auto
  have id: "ob_id (g x) = ob_id x" if "x \<in> set (outbox s)" for x
    using processed_id [OF p] by (simp add: g_def)
  have "map ob_id (outbox ?s) = map ob_id (outbox s)" unfolding o' map_map by (rule map_cong) (use id in auto)
  then have d: "distinct (map ob_id (outbox ?s))" using Cons.prems(3) by simp
  have other: "ob_id x \<noteq> ob_id r" if "x \<in> set rows" for x using Cons.prems(1) that by (metis distinct.simps(2) imageI list.simps(9) list.set_map)
  have sub: "set rows \<subseteq> set (outbox ?s)"
  proof
    fix x assume x: "x \<in> set rows"
    then have "g x = x" using other by (simp add: g_def)
    moreover have "x \<in> set (outbox s)" using Cons.prems(2) x by auto
    ultimately show "x \<in> set (outbox ?s)" unfolding o' by (metis image_eqI list.set_map)
  qed
  have dr: "distinct (map ob_id rows)" using Cons.prems(1) by simp
  from Cons.IH [OF dr sub d] obtain h where h: "outbox (process_rows env rows ?s) = map h (outbox ?s)"
    and hx: "\<And>x. x \<in> set (outbox ?s) \<Longrightarrow> if x \<in> set rows then processed env (instant (now s)) x (h x) else h x = x"
    and nn: "now (process_rows env rows ?s) = now s" unfolding n by blast
  have "if x \<in> set (r # rows) then processed env (instant (now s)) x ((h \<circ> g) x) else (h \<circ> g) x = x" if x: "x \<in> set (outbox s)" for x
  proof (cases "x = r")
    case True
    have "g r = f r" by (simp add: g_def)
    moreover have "ob_id (g r) = ob_id r" using id x True by blast
    ultimately have "g r = f r" "ob_id (g r) = ob_id r" by simp_all
    then have "g r \<notin> set rows" using other by metis
    moreover have "g r \<in> set (outbox ?s)" unfolding o' using x True by auto
    ultimately have "h (g r) = g r" using hx by metis
    then show ?thesis using True p \<open>g r = f r\<close> by simp
  next
    case False
    then have "g x = x" using uniq [OF x] by (auto simp: g_def)
    moreover have "x \<in> set (outbox ?s)" unfolding o' using x \<open>g x = x\<close> by (metis image_eqI list.set_map)
    ultimately show ?thesis using hx False by simp
  qed
  then have "\<forall>x \<in> set (outbox s). if x \<in> set (r # rows) then processed env (instant (now s)) x ((h \<circ> g) x) else (h \<circ> g) x = x" by blast
  moreover have "outbox (process_rows env (r # rows) s) = map (h \<circ> g) (outbox s)" using h unfolding process_rows.simps o' map_map .
  ultimately show ?case using nn unfolding process_rows.simps by blast
qed

definition dispatched :: "dispatch_env \<Rightarrow> int \<Rightarrow> outbox_row \<Rightarrow> outbox_row \<Rightarrow> bool" where
  "dispatched env t r r' \<longleftrightarrow>
     r' = r \<or> due t r \<and> \<not> de_locked env (ob_id r)
       \<and> processed env t (claim_row (t + usec (notification_lease_seconds (de_settings env))) r) r'"

lemma dispatch_pass:
  assumes "distinct (map ob_id (outbox s))"
  shows "fst (dispatch_due_notifications env batch s) \<le> batch
    \<and> list_all2 (dispatched env (instant (now s))) (outbox s) (outbox (snd (dispatch_due_notifications env batch s)))"
proof -
  let ?t = "instant (now s)"
  let ?dl = "?t + usec (notification_lease_seconds (de_settings env))"
  define picked where "picked = take batch (sort_key ob_next_retry (filter (\<lambda>r. due ?t r \<and> \<not> de_locked env (ob_id r)) (outbox s)))"
  define g where "g = (\<lambda>r. if ob_id r \<in> set (map ob_id picked) then claim_row ?dl r else r)"
  define s1 where "s1 = s\<lparr>outbox := map g (outbox s)\<rparr>"
  have cb: "claim_batch (de_locked env) batch (notification_lease_seconds (de_settings env)) s = (map (claim_row ?dl) picked, s1)"
    unfolding claim_batch_def Let_def picked_def [symmetric] s1_def upd_where_def g_def by simp
  have pick: "r \<in> set (outbox s) \<and> due ?t r \<and> \<not> de_locked env (ob_id r)" if "r \<in> set picked" for r
    using in_set_takeD [OF that [unfolded picked_def]] by simp
  have len: "length picked \<le> batch" unfolding picked_def by simp
  have dp: "distinct (map ob_id picked)"
  proof -
    have "distinct (map ob_id (filter (\<lambda>r. due ?t r \<and> \<not> de_locked env (ob_id r)) (outbox s)))" by (rule distinct_map_filter [OF assms])
    then have "distinct (map ob_id (sort_key ob_next_retry (filter (\<lambda>r. due ?t r \<and> \<not> de_locked env (ob_id r)) (outbox s))))"
      by (simp add: distinct_map)
    then show ?thesis unfolding picked_def take_map [symmetric] by (rule distinct_take)
  qed
  have gid: "ob_id (g r) = ob_id r" for r by (simp add: g_def claim_row_def)
  have gp: "g r = claim_row ?dl r" if "r \<in> set picked" for r using that by (auto simp: g_def)
  have mem: "r \<in> set picked" if "r \<in> set (outbox s)" "ob_id r \<in> set (map ob_id picked)" for r
  proof -
    from that(2) obtain q where "q \<in> set picked" "ob_id q = ob_id r" by auto
    then show ?thesis using key_unique [OF assms that(1), of q] pick by auto
  qed
  let ?rows = "map (claim_row ?dl) picked"
  have o1: "outbox s1 = map g (outbox s)" by (simp add: s1_def)
  have d1: "distinct (map ob_id (outbox s1))" unfolding o1 map_map comp_def gid by (rule assms)
  have dr: "distinct (map ob_id ?rows)" using dp by (simp add: claim_row_def comp_def)
  have sub: "set ?rows \<subseteq> set (outbox s1)" unfolding o1 using gp pick by (auto simp: image_iff) metis
  have n1: "now s1 = now s" by (simp add: s1_def)
  from process_rows_map [OF dr sub d1, of env] obtain h where h1: "outbox (process_rows env ?rows s1) = map h (outbox s1)"
    and hx: "\<And>x. x \<in> set (outbox s1) \<Longrightarrow> if x \<in> set ?rows then processed env ?t x (h x) else h x = x"
    unfolding n1 by blast
  have h: "outbox (process_rows env ?rows s1) = map (h \<circ> g) (outbox s)" using h1 unfolding o1 by simp
  have "dispatched env ?t r ((h \<circ> g) r)" if r: "r \<in> set (outbox s)" for r
  proof (cases "r \<in> set picked")
    case True
    have "g r \<in> set (outbox s1)" unfolding o1 using r by simp
    moreover have "g r \<in> set ?rows" using True gp [OF True] by simp
    ultimately have "processed env ?t (g r) (h (g r))" using hx [of "g r"] by simp
    then show ?thesis using pick [OF True] gp [OF True] by (simp add: dispatched_def)
  next
    case False
    then have "g r = r" using mem [OF r] by (auto simp: g_def)
    moreover have "r \<notin> set ?rows"
    proof
      assume "r \<in> set ?rows"
      then have "ob_id r \<in> set (map ob_id picked)" by (auto simp: claim_row_def)
      with mem [OF r] False show False by blast
    qed
    moreover have "r \<in> set (outbox s1)" unfolding o1 using r \<open>g r = r\<close> by (metis image_eqI list.set_map)
    ultimately show ?thesis using hx by (simp add: dispatched_def)
  qed
  then have "list_all2 (dispatched env ?t) (outbox s) (map (h \<circ> g) (outbox s))"
    by (simp add: list_all2_conv_all_nth)
  moreover have "picked = [] \<Longrightarrow> map (h \<circ> g) (outbox s) = outbox s1" using h by simp
  ultimately show ?thesis using len h unfolding dispatch_due_notifications_def cb by auto
qed

end
