(* ===== verification/Redis_Store.thy ===== *)
theory Redis_Store
  imports Backend_Prelude
begin

section \<open>Ephemeral state: counters, locks and one-time values\<close>

text \<open>
  \<^verbatim>\<open>core/auth/rate_limit.py\<close> over the Redis commands it uses.  A key holds an integer or a
  string and, if it has a time to live, the instant (in microseconds) at which it disappears; \<open>t\<close>
  is the instant of the command.
\<close>

subsection \<open>Commands\<close>

datatype redis_value = RInt int | RStr string

type_synonym redis = "(string \<times> redis_value \<times> int option) list"

definition redis_seconds :: "int \<Rightarrow> int" where
  "redis_seconds n = n * 1000000"

definition redis_find :: "int \<Rightarrow> redis \<Rightarrow> string \<Rightarrow> (redis_value \<times> int option) option" where
  "redis_find t db key =
     (case map_of db key of
        None \<Rightarrow> None
      | Some (v, e) \<Rightarrow> (case e of None \<Rightarrow> Some (v, e) | Some d \<Rightarrow> if t < d then Some (v, e) else None))"

definition redis_put :: "string \<Rightarrow> redis_value \<Rightarrow> int option \<Rightarrow> redis \<Rightarrow> redis" where
  "redis_put key v e db = (key, v, e) # filter (\<lambda>x. fst x \<noteq> key) db"

definition redis_del :: "string \<Rightarrow> redis \<Rightarrow> redis" where
  "redis_del key db = filter (\<lambda>x. fst x \<noteq> key) db"

definition redis_exists :: "int \<Rightarrow> redis \<Rightarrow> string \<Rightarrow> bool" where
  "redis_exists t db key = (redis_find t db key \<noteq> None)"

definition redis_int :: "redis_value \<Rightarrow> int option" where
  "redis_int v = (case v of RInt n \<Rightarrow> Some n | RStr s \<Rightarrow> py_int 10 s)"

definition redis_text :: "redis_value \<Rightarrow> string" where
  "redis_text v = (case v of RInt n \<Rightarrow> show_int n | RStr s \<Rightarrow> s)"

text \<open>\<^verbatim>\<open>INCR\<close> and \<^verbatim>\<open>EXPIRE NX\<close> in one transaction; a value that is no integer
  makes the command fail (no result).\<close>

definition incr_with_ttl :: "int \<Rightarrow> string \<Rightarrow> int \<Rightarrow> redis \<Rightarrow> (int \<times> redis) option" where
  "incr_with_ttl t key ttl db =
     (let found = redis_find t db key;
          n = (case found of None \<Rightarrow> Some 0 | Some (v, e) \<Rightarrow> redis_int v);
          expires = (case found of Some (v, Some d) \<Rightarrow> d | _ \<Rightarrow> t + redis_seconds ttl)
      in map_option (\<lambda>n. (n + 1, redis_put key (RInt (n + 1)) (Some expires) db)) n)"

subsection \<open>Rate limiter\<close>

definition RATE_PREFIX :: string where "RATE_PREFIX = ''rl''"
definition FAIL_PREFIX :: string where "FAIL_PREFIX = ''auth:fail''"
definition LOCK_PREFIX :: string where "LOCK_PREFIX = ''auth:lock''"
definition TOTP_USED_PREFIX :: string where "TOTP_USED_PREFIX = ''auth:totp_used''"

definition rate_key :: "string \<Rightarrow> string \<Rightarrow> string" where
  "rate_key scope key = RATE_PREFIX @ '':'' @ scope @ '':'' @ key"

definition rate_hit :: "int \<Rightarrow> string \<Rightarrow> string \<Rightarrow> int \<Rightarrow> int \<Rightarrow> redis \<Rightarrow> (bool \<times> redis) option" where
  "rate_hit t scope key limit window db =
     map_option (\<lambda>(count, db). (count \<le> limit, db)) (incr_with_ttl t (rate_key scope key) window db)"

subsection \<open>Login throttle\<close>

record throttle =
  th_max_failures :: int
  th_lockout_seconds :: int

definition fail_key :: "string \<Rightarrow> string" where
  "fail_key account = FAIL_PREFIX @ '':'' @ account"

definition lock_key :: "string \<Rightarrow> string" where
  "lock_key account = LOCK_PREFIX @ '':'' @ account"

definition is_locked :: "int \<Rightarrow> string \<Rightarrow> redis \<Rightarrow> bool" where
  "is_locked t account db = redis_exists t db (lock_key account)"

definition lock_duration :: "throttle \<Rightarrow> int \<Rightarrow> int" where
  "lock_duration th failures = min (th_lockout_seconds th) (60 * 2 ^ nat (failures - th_max_failures th))"

definition record_login_failure :: "throttle \<Rightarrow> int \<Rightarrow> string \<Rightarrow> redis \<Rightarrow> redis option" where
  "record_login_failure th t account db =
     map_option (\<lambda>(failures, db).
       if failures \<ge> th_max_failures th
       then redis_put (lock_key account) (RStr ''1'') (Some (t + redis_seconds (lock_duration th failures))) db
       else db) (incr_with_ttl t (fail_key account) (th_lockout_seconds th) db)"

definition throttle_clear :: "string \<Rightarrow> redis \<Rightarrow> redis" where
  "throttle_clear account db = redis_del (lock_key account) (redis_del (fail_key account) db)"

subsection \<open>Replay guard\<close>

definition TOTP_WINDOW_SECONDS :: int where
  "TOTP_WINDOW_SECONDS = 90"

definition totp_used_key :: "string \<Rightarrow> string \<Rightarrow> string" where
  "totp_used_key user code = TOTP_USED_PREFIX @ '':'' @ user @ '':'' @ code"

definition check_and_mark :: "int \<Rightarrow> string \<Rightarrow> string \<Rightarrow> redis \<Rightarrow> bool \<times> redis" where
  "check_and_mark t user code db =
     (let key = totp_used_key user code
      in if redis_exists t db key then (False, db)
         else (True, redis_put key (RStr ''1'') (Some (t + redis_seconds TOTP_WINDOW_SECONDS)) db))"

subsection \<open>One-time values\<close>

definition token_key :: "string \<Rightarrow> string \<Rightarrow> string" where
  "token_key ns h = ns @ '':'' @ h"

definition token_put :: "int \<Rightarrow> string \<Rightarrow> string \<Rightarrow> string \<Rightarrow> int \<Rightarrow> redis \<Rightarrow> redis" where
  "token_put t ns h v ttl db = redis_put (token_key ns h) (RStr v) (Some (t + redis_seconds ttl)) db"

definition token_consume :: "int \<Rightarrow> string \<Rightarrow> string \<Rightarrow> redis \<Rightarrow> string option \<times> redis" where
  "token_consume t ns h db =
     (map_option (\<lambda>(v, e). redis_text v) (redis_find t db (token_key ns h)), redis_del (token_key ns h) db)"

definition token_peek :: "int \<Rightarrow> string \<Rightarrow> string \<Rightarrow> redis \<Rightarrow> string option" where
  "token_peek t ns h db = map_option (\<lambda>(v, e). redis_text v) (redis_find t db (token_key ns h))"

end
