(* ===== verification/Auth_Service.thy ===== *)
theory Auth_Service
  imports Redis_Store Notifications
begin

section \<open>Authentication\<close>

text \<open>
  \<^verbatim>\<open>core/auth/service.py\<close> with its token, password and second-factor helpers, the request
  context of \<^verbatim>\<open>core/auth/deps.py\<close> and the user directory.  Password hashing, SHA-256, JWT,
  TOTP, the cipher and the sources of randomness are the environment \<open>auth_env\<close>; the random
  strings are drawn in order, \<open>token_next\<close> counts them.

  Redis is not part of the database transaction: a rollback keeps it.  The two explicit
  \<^verbatim>\<open>session.commit()\<close> calls of \<^verbatim>\<open>refresh\<close> are the flag \<open>early_commit\<close>: the
  code raises right after them, without another write, so the unit of work has nothing to undo.
\<close>

subsection \<open>Tables\<close>

datatype user_status = UserActive | Blocked

record user =
  u_id :: uuid
  u_email :: string
  u_password :: string
  u_full_name :: "string option"
  u_phone :: "string option"
  u_locale :: string
  u_superuser :: bool
  u_status :: user_status
  u_last_login :: "datetime option"

record user_totp =
  ut_user :: uuid
  ut_secret :: string
  ut_confirmed :: "datetime option"

record recovery_code =
  rv_id :: uuid
  rv_user :: uuid
  rv_hash :: string
  rv_used :: "datetime option"

record refresh_token =
  tk_id :: uuid
  tk_user :: uuid
  tk_family :: uuid
  tk_hash :: string
  tk_expires :: int  \<comment> \<open>the instant\<close>
  tk_rotated :: "datetime option"
  tk_revoked :: "datetime option"
  tk_reason :: "string option"
  tk_ip :: "string option"
  tk_agent :: "string option"

record auth_db = notif_db +
  users :: "user list"
  totps :: "user_totp list"
  recovery_codes :: "recovery_code list"
  refresh_tokens :: "refresh_token list"
  redis_db :: redis
  token_next :: nat
  early_commit :: bool

record auth_settings =
  register_ip_limit_per_hour :: int
  login_throttle :: throttle
  two_factor_challenge_ttl_seconds :: int
  refresh_token_ttl_seconds :: int
  access_token_ttl_seconds :: int
  password_reset_ttl_seconds :: int
  password_reset_url :: string

record 's auth_env =
  av_settings :: auth_settings
  av_sha256 :: "string \<Rightarrow> string"
  av_hash_password :: "string \<Rightarrow> string"
  av_verify :: "string \<Rightarrow> string \<Rightarrow> bool"
  av_dummy_hash :: string
  av_tokens :: "nat \<Rightarrow> string"
  av_choice :: "nat \<Rightarrow> nat"
  av_jwt_encode :: "payload \<Rightarrow> string"
  av_jwt_decode :: "string \<Rightarrow> payload option"
  av_encrypt :: "string \<Rightarrow> string"
  av_decrypt :: "string \<Rightarrow> exn + string"
  av_totp_ok :: "string \<Rightarrow> string \<Rightarrow> int \<Rightarrow> bool"
  av_totp_uri :: "string \<Rightarrow> string \<Rightarrow> string"
  av_notif :: "'s notif_env"
  av_race :: "'s \<Rightarrow> 's"

subsection \<open>Helpers\<close>

definition hash_token :: "'s auth_env \<Rightarrow> string \<Rightarrow> string" where
  "hash_token env raw = av_sha256 env raw"

definition new_opaque_token :: "'s auth_env \<Rightarrow> 'z auth_db_scheme \<Rightarrow> string \<times> 'z auth_db_scheme" where
  "new_opaque_token env s = (av_tokens env (token_next s), s\<lparr>token_next := Suc (token_next s)\<rparr>)"

definition verify_password :: "'s auth_env \<Rightarrow> string option \<Rightarrow> string \<Rightarrow> bool" where
  "verify_password env h pw = (av_verify env (text_or h (av_dummy_hash env)) pw \<and> h \<noteq> None)"

definition RECOVERY_ALPHABET :: string where
  "RECOVERY_ALPHABET = ''ABCDEFGHJKLMNPQRSTUVWXYZ23456789''"

definition RECOVERY_LENGTH :: nat where "RECOVERY_LENGTH = 12"
definition RECOVERY_CODE_COUNT :: nat where "RECOVERY_CODE_COUNT = 10"

text \<open>\<open>av_choice n\<close> is what the \<open>n\<close>-th call of \<^verbatim>\<open>secrets.choice\<close> picks.\<close>

definition generate_recovery_codes :: "'s auth_env \<Rightarrow> nat \<Rightarrow> string list" where
  "generate_recovery_codes env n =
     map (\<lambda>i. map (\<lambda>j. RECOVERY_ALPHABET ! (av_choice env (n + RECOVERY_LENGTH * i + j) mod length RECOVERY_ALPHABET))
                [0..<RECOVERY_LENGTH]) [0..<RECOVERY_CODE_COUNT]"

definition hash_recovery_code :: "'s auth_env \<Rightarrow> string \<Rightarrow> string" where
  "hash_recovery_code env code = av_sha256 env (py_upper (strip ch_space code))"

fun replace_from :: "string \<Rightarrow> string \<Rightarrow> nat \<Rightarrow> string \<Rightarrow> string" where
  "replace_from pat rep k [] = []"
| "replace_from pat rep (Suc k) (c # s) = replace_from pat rep k s"
| "replace_from pat rep 0 (c # s) =
     (if startswith (c # s) pat then rep @ replace_from pat rep (length pat - 1) s else c # replace_from pat rep 0 s)"

definition py_replace :: "string \<Rightarrow> string \<Rightarrow> string \<Rightarrow> string" where
  \<comment> \<open>\<^verbatim>\<open>s.replace(pat, rep)\<close> for a pattern that is not empty\<close>
  "py_replace pat rep s = replace_from pat rep 0 s"

definition unix_seconds :: "int \<Rightarrow> int" where
  \<comment> \<open>\<^verbatim>\<open>int(d.timestamp())\<close> of an instant\<close>
  "unix_seconds t = (t - 719163 * usec_per_day) div 1000000"

definition ACCESS_TOKEN_TYPE :: string where "ACCESS_TOKEN_TYPE = ''access''"

definition encode_access_token :: "'s auth_env \<Rightarrow> uuid \<Rightarrow> uuid option \<Rightarrow> 'z auth_db_scheme \<Rightarrow> string \<times> 'z auth_db_scheme" where
  "encode_access_token env u t s =
     (let (jti, s1) = new_uuid7 s; issued = instant (now s)
      in (av_jwt_encode env
            [(''sub'', JStr (uuid_str u)), (''tenant'', case t of Some x \<Rightarrow> JStr (uuid_str x) | None \<Rightarrow> JNull),
             (''type'', JStr ACCESS_TOKEN_TYPE), (''iat'', JInt (unix_seconds issued)),
             (''exp'', JInt (unix_seconds (issued + redis_seconds (access_token_ttl_seconds (av_settings env))))),
             (''jti'', JStr (uuid_str jti))], s1))"

definition decode_access_token :: "'s auth_env \<Rightarrow> string \<Rightarrow> exn + payload" where
  "decode_access_token env token =
     (case av_jwt_decode env token of
        None \<Rightarrow> Inl (Domain AuthenticationError ''invalid access token'')
      | Some claims \<Rightarrow>
          if jget claims ''type'' \<noteq> JStr ACCESS_TOKEN_TYPE then Inl (Domain AuthenticationError ''wrong token type'')
          else Inr claims)"

definition actor_user :: "tenant_context \<Rightarrow> exn + uuid" where
  "actor_user ctx =
     (case (act_kind (ctx_actor ctx), actor_id (ctx_actor ctx)) of
        (User, Some i) \<Rightarrow>
          if i = [] then Inl (Domain InvariantViolationError ''operation requires a user actor'')
          else (case uuid_parse i of None \<Rightarrow> Inl (ValueError ''badly formed hexadecimal UUID string'') | Some u \<Rightarrow> Inr u)
      | _ \<Rightarrow> Inl (Domain InvariantViolationError ''operation requires a user actor''))"

text \<open>\<^verbatim>\<open>GlobalRepository\<close>: no tenant, the primary key.\<close>

definition global_get :: "('r \<Rightarrow> uuid) \<Rightarrow> uuid \<Rightarrow> 'r list \<Rightarrow> 'r option" where
  "global_get rid i rows = find (\<lambda>r. rid r = i) rows"

definition global_get_or_raise :: "string \<Rightarrow> ('r \<Rightarrow> uuid) \<Rightarrow> uuid \<Rightarrow> 'r list \<Rightarrow> exn + 'r" where
  "global_get_or_raise model rid i rows =
     (case global_get rid i rows of
        None \<Rightarrow> Inl (Domain NotFoundError (model @ '' '' @ uuid_str i @ '' not found''))
      | Some r \<Rightarrow> Inr r)"

definition global_add :: "('r \<Rightarrow> 'r list \<Rightarrow> bool) \<Rightarrow> 'r \<Rightarrow> 'r list \<Rightarrow> exn + 'r list" where
  "global_add conflict r rows = (if conflict r rows then Inl IntegrityError else Inr (rows @ [r]))"

definition user_conflict :: "user \<Rightarrow> user list \<Rightarrow> bool" where
  \<comment> \<open>\<^verbatim>\<open>uq_users_email_lower\<close>\<close>
  "user_conflict r rows = list_ex (\<lambda>x. py_lower (u_email x) = py_lower (u_email r)) rows"

definition normal_email :: "string \<Rightarrow> string" where
  "normal_email e = py_lower (strip ch_space e)"

definition get_by_email :: "string \<Rightarrow> user list \<Rightarrow> user option" where
  "get_by_email e rows = find (\<lambda>u. py_lower (u_email u) = normal_email e) rows"

definition set_user :: "user \<Rightarrow> 'z auth_db_scheme \<Rightarrow> 'z auth_db_scheme" where
  "set_user u s = s\<lparr>users := upd_where (\<lambda>x. u_id x = u_id u) (\<lambda>_. u) (users s)\<rparr>"

definition redis_error :: exn where
  "redis_error = RuntimeError ''ResponseError: value is not an integer''"

definition limiter_hit :: "string \<Rightarrow> string \<Rightarrow> int \<Rightarrow> int \<Rightarrow> 'z auth_db_scheme \<Rightarrow> (bool, 'z auth_db_scheme) op_res" where
  "limiter_hit scope key limit window s =
     (case rate_hit (instant (now s)) scope key limit window (redis_db s) of
        None \<Rightarrow> raise redis_error s
      | Some (ok, db) \<Rightarrow> ret ok (s\<lparr>redis_db := db\<rparr>))"

subsection \<open>Registration\<close>

definition register :: "'z auth_db_scheme auth_env \<Rightarrow> tenant_context \<Rightarrow> string \<Rightarrow> string \<Rightarrow> string \<Rightarrow> string option \<Rightarrow>
    'z auth_db_scheme \<Rightarrow> (user, 'z auth_db_scheme) op_res" where
  "register env ctx email password loc ip s =
     on_ok (limiter_hit ''register_ip'' (text_or ip ''unknown'') (register_ip_limit_per_hour (av_settings env)) 3600 s) (\<lambda>ok s.
       if \<not> ok then raise (Domain RateLimitedError ''too many registrations'') s
       else if get_by_email (normal_email email) (users s) \<noteq> None then raise (Domain ConflictError ''email already registered'') s
       else
         (let (i, s1) = new_uuid7 s; s2 = av_race env s1;
              u = \<lparr>u_id = i, u_email = normal_email email, u_password = av_hash_password env password, u_full_name = None,
                   u_phone = None, u_locale = loc, u_superuser = False, u_status = UserActive, u_last_login = None\<rparr>
          in on_ok (pure_op (global_add user_conflict u (users s2)) s2) (\<lambda>rows s.
             on_ok (emit ''auth'' ctx ''auth.user.registered'' [(''user_id'', JStr (uuid_str i)), (''locale'', JStr loc)] (s\<lparr>users := rows\<rparr>))
               (\<lambda>_ s. ret u s))))"

subsection \<open>Login\<close>

record token_pair =
  tp_access :: string
  tp_refresh :: string
  tp_expires :: int

datatype login_result = LoggedIn token_pair | Challenge string

definition CHALLENGE_NS :: string where "CHALLENGE_NS = ''auth:2fa''"
definition RESET_NS :: string where "RESET_NS = ''auth:pwreset''"

definition issue_tokens :: "'z auth_db_scheme auth_env \<Rightarrow> tenant_context \<Rightarrow> user \<Rightarrow> string option \<Rightarrow> string option \<Rightarrow>
    'z auth_db_scheme \<Rightarrow> (token_pair, 'z auth_db_scheme) op_res" where
  "issue_tokens env ctx u ip agent s0 =
     (let (access, s1) = encode_access_token env (u_id u) None s0;
          (raw, s2) = new_opaque_token env s1;
          (i, s3) = new_uuid7 s2;
          (fam, s4) = new_uuid7 s3;
          row = \<lparr>tk_id = i, tk_user = u_id u, tk_family = fam, tk_hash = hash_token env raw,
                 tk_expires = instant (now s4) + redis_seconds (refresh_token_ttl_seconds (av_settings env)),
                 tk_rotated = None, tk_revoked = None, tk_reason = None, tk_ip = ip, tk_agent = agent\<rparr>;
          s5 = set_user (u\<lparr>u_last_login := Some (now s4)\<rparr>) (s4\<lparr>refresh_tokens := refresh_tokens s4 @ [row]\<rparr>)
      in on_ok (emit ''auth'' ctx ''auth.user.login_succeeded''
                  [(''user_id'', JStr (uuid_str (u_id u))), (''ip'', JStr (text_or ip [])), (''user_agent'', JStr (text_or agent []))] s5)
           (\<lambda>_ s. ret \<lparr>tp_access = access, tp_refresh = raw, tp_expires = access_token_ttl_seconds (av_settings env)\<rparr> s))"

definition issue_two_factor_challenge :: "'z auth_db_scheme auth_env \<Rightarrow> uuid \<Rightarrow> 'z auth_db_scheme \<Rightarrow> (string, 'z auth_db_scheme) op_res" where
  "issue_two_factor_challenge env u s =
     (let (raw, s1) = new_opaque_token env s
      in ret raw (s1\<lparr>redis_db := token_put (instant (now s1)) CHALLENGE_NS (hash_token env raw) (uuid_str u)
                        (two_factor_challenge_ttl_seconds (av_settings env)) (redis_db s1)\<rparr>))"

definition get_totp :: "uuid \<Rightarrow> 'z auth_db_scheme \<Rightarrow> user_totp option" where
  "get_totp u s = find (\<lambda>r. ut_user r = u) (totps s)"

definition totp_enabled :: "uuid \<Rightarrow> 'z auth_db_scheme \<Rightarrow> bool" where
  "totp_enabled u s = (case get_totp u s of None \<Rightarrow> False | Some r \<Rightarrow> ut_confirmed r \<noteq> None)"

definition account_key :: "string \<Rightarrow> user option \<Rightarrow> string" where
  "account_key email u = (case u of Some x \<Rightarrow> uuid_str (u_id x) | None \<Rightarrow> ''email:'' @ email)"

definition login_failed :: "'z auth_db_scheme auth_env \<Rightarrow> tenant_context \<Rightarrow> string \<Rightarrow> uuid option \<Rightarrow> string option \<Rightarrow>
    'z auth_db_scheme \<Rightarrow> (login_result, 'z auth_db_scheme) op_res" where
  "login_failed env ctx key u ip s =
     (case record_login_failure (login_throttle (av_settings env)) (instant (now s)) key (redis_db s) of
        None \<Rightarrow> raise redis_error s
      | Some db \<Rightarrow>
          on_ok (emit_now ctx ''auth.user.login_failed''
                   [(''user_id'', case u of Some i \<Rightarrow> JStr (uuid_str i) | None \<Rightarrow> JNull), (''ip'', jopt_str ip),
                    (''reason'', JStr ''invalid_credentials'')] (s\<lparr>redis_db := db\<rparr>)) (\<lambda>_ s.
            raise (Domain AuthenticationError ''invalid credentials'') s))"

definition authenticate :: "'z auth_db_scheme auth_env \<Rightarrow> tenant_context \<Rightarrow> string \<Rightarrow> string \<Rightarrow> string option \<Rightarrow> string option \<Rightarrow>
    'z auth_db_scheme \<Rightarrow> (login_result, 'z auth_db_scheme) op_res" where
  "authenticate env ctx email password ip agent s =
     on_ok (limiter_hit ''login_ip'' (text_or ip ''unknown'') 30 60 s) (\<lambda>ok s.
       if \<not> ok then raise (Domain RateLimitedError ''too many attempts'') s
       else
         (let found = get_by_email (normal_email email) (users s);
              key = account_key (normal_email email) found
          in if is_locked (instant (now s)) key (redis_db s) then raise (Domain RateLimitedError ''account temporarily locked'') s
             else (case found of
                     Some u \<Rightarrow>
                       if verify_password env (Some (u_password u)) password \<and> u_status u = UserActive
                       then (let s1 = s\<lparr>redis_db := throttle_clear key (redis_db s)\<rparr>
                             in if totp_enabled (u_id u) s1
                                then on_ok (issue_two_factor_challenge env (u_id u) s1) (\<lambda>raw s. ret (Challenge raw) s)
                                else on_ok (issue_tokens env ctx u ip agent s1) (\<lambda>tp s. ret (LoggedIn tp) s))
                       else login_failed env ctx key (Some (u_id u)) ip s
                   | None \<Rightarrow> login_failed env ctx key None ip s)))"

subsection \<open>The second factor\<close>

text \<open>A TOTP code counts once; otherwise the code may be a recovery code, spent by one conditional
  update (\<open>av_race\<close> commits before it).\<close>

definition spend_recovery_code :: "'z auth_db_scheme auth_env \<Rightarrow> uuid \<Rightarrow> string \<Rightarrow> 'z auth_db_scheme \<Rightarrow> bool \<times> 'z auth_db_scheme" where
  "spend_recovery_code env u code s0 =
     (let s = av_race env s0;
          hit = (\<lambda>r. rv_user r = u \<and> rv_hash r = hash_recovery_code env code \<and> rv_used r = None)
      in (length (filter hit (recovery_codes s)) = 1,
          s\<lparr>recovery_codes := upd_where hit (\<lambda>r. r\<lparr>rv_used := Some (now s)\<rparr>) (recovery_codes s)\<rparr>))"

definition verify_totp_or_recovery :: "'z auth_db_scheme auth_env \<Rightarrow> uuid \<Rightarrow> string \<Rightarrow> 'z auth_db_scheme \<Rightarrow> (bool, 'z auth_db_scheme) op_res" where
  "verify_totp_or_recovery env u code s =
     (case get_totp u s of
        None \<Rightarrow> ret False s
      | Some r \<Rightarrow>
          on_ok (pure_op (av_decrypt env (ut_secret r)) s) (\<lambda>secret s.
            if av_totp_ok env secret code (instant (now s))
            then (let (fresh, db) = check_and_mark (instant (now s)) (uuid_str u) code (redis_db s) in ret fresh (s\<lparr>redis_db := db\<rparr>))
            else (let (ok, s1) = spend_recovery_code env u code s in ret ok s1)))"

definition complete_two_factor :: "'z auth_db_scheme auth_env \<Rightarrow> tenant_context \<Rightarrow> string \<Rightarrow> string \<Rightarrow>
    'z auth_db_scheme \<Rightarrow> (token_pair, 'z auth_db_scheme) op_res" where
  "complete_two_factor env ctx challenge code s0 =
     (let (raw, db) = token_consume (instant (now s0)) CHALLENGE_NS (hash_token env challenge) (redis_db s0);
          s = s0\<lparr>redis_db := db\<rparr>
      in case raw of
           None \<Rightarrow> raise (Domain AuthenticationError ''invalid or expired challenge'') s
         | Some uid \<Rightarrow>
             (case uuid_parse uid of
                None \<Rightarrow> raise (ValueError ''badly formed hexadecimal UUID string'') s
              | Some u \<Rightarrow>
                  on_ok (limiter_hit ''2fa'' (uuid_str u) 5 300 s) (\<lambda>ok s.
                    if \<not> ok then raise (Domain RateLimitedError ''too many 2FA attempts'') s
                    else (case global_get u_id u (users s) of
                            None \<Rightarrow> raise (Domain AuthenticationError ''invalid or expired challenge'') s
                          | Some x \<Rightarrow>
                              if u_status x \<noteq> UserActive
                              then raise (Domain AuthenticationError ''invalid or expired challenge'') s
                              else on_ok (verify_totp_or_recovery env u code s) (\<lambda>ok s.
                                if \<not> ok then raise (Domain AuthenticationError ''invalid 2FA code'') s
                                else issue_tokens env ctx x None None s)))))"

definition enable_totp :: "'z auth_db_scheme auth_env \<Rightarrow> tenant_context \<Rightarrow> 'z auth_db_scheme \<Rightarrow> (string \<times> string, 'z auth_db_scheme) op_res" where
  "enable_totp env ctx s =
     on_ok (pure_op (and_then (actor_user ctx) (\<lambda>i. global_get_or_raise ''User'' u_id i (users s))) s) (\<lambda>u s.
       (let (secret, s1) = new_opaque_token env s
        in case get_totp (u_id u) s1 of
             Some r \<Rightarrow>
               if ut_confirmed r \<noteq> None then raise (Domain ConflictError ''2FA already enabled'') s1
               else ret (secret, av_totp_uri env secret (u_email u))
                 (s1\<lparr>totps := upd_where (\<lambda>x. ut_user x = u_id u) (\<lambda>x. x\<lparr>ut_secret := av_encrypt env secret\<rparr>) (totps s1)\<rparr>)
           | None \<Rightarrow>
               ret (secret, av_totp_uri env secret (u_email u))
                 (s1\<lparr>totps := totps s1 @ [\<lparr>ut_user = u_id u, ut_secret = av_encrypt env secret, ut_confirmed = None\<rparr>]\<rparr>)))"

fun add_recovery_codes :: "'z auth_db_scheme auth_env \<Rightarrow> uuid \<Rightarrow> string list \<Rightarrow> 'z auth_db_scheme \<Rightarrow> 'z auth_db_scheme" where
  "add_recovery_codes env u [] s = s"
| "add_recovery_codes env u (c # cs) s =
     (let (i, s1) = new_uuid7 s
      in add_recovery_codes env u cs (s1\<lparr>recovery_codes := recovery_codes s1 @
           [\<lparr>rv_id = i, rv_user = u, rv_hash = hash_recovery_code env c, rv_used = None\<rparr>]\<rparr>))"

definition confirm_totp :: "'z auth_db_scheme auth_env \<Rightarrow> tenant_context \<Rightarrow> string \<Rightarrow> 'z auth_db_scheme \<Rightarrow> (string list, 'z auth_db_scheme) op_res" where
  "confirm_totp env ctx code s =
     on_ok (pure_op (actor_user ctx) s) (\<lambda>u s.
       (case get_totp u s of
          None \<Rightarrow> raise (Domain InvariantViolationError ''start 2FA enrollment first'') s
        | Some r \<Rightarrow>
            on_ok (pure_op (av_decrypt env (ut_secret r)) s) (\<lambda>secret s.
              if \<not> av_totp_ok env secret code (instant (now s)) then raise (Domain AuthenticationError ''invalid 2FA code'') s
              else
                (let codes = generate_recovery_codes env (token_next s);
                     s1 = s\<lparr>token_next := token_next s + RECOVERY_LENGTH * RECOVERY_CODE_COUNT,
                            totps := upd_where (\<lambda>x. ut_user x = u) (\<lambda>x. x\<lparr>ut_confirmed := Some (now s)\<rparr>) (totps s)\<rparr>
                 in on_ok (emit ''auth'' ctx ''auth.user.two_factor_enabled'' [(''user_id'', JStr (uuid_str u))] (add_recovery_codes env u codes s1))
                      (\<lambda>_ s. ret codes s)))))"

definition disable_totp :: "'z auth_db_scheme auth_env \<Rightarrow> tenant_context \<Rightarrow> string \<Rightarrow> 'z auth_db_scheme \<Rightarrow> (unit, 'z auth_db_scheme) op_res" where
  "disable_totp env ctx code s =
     on_ok (pure_op (actor_user ctx) s) (\<lambda>u s.
     on_ok (verify_totp_or_recovery env u code s) (\<lambda>ok s.
       if \<not> ok then raise (Domain AuthenticationError ''invalid 2FA code'') s
       else on_ok (emit ''auth'' ctx ''auth.user.two_factor_disabled'' [(''user_id'', JStr (uuid_str u))]
                (s\<lparr>totps := del_where (\<lambda>x. ut_user x = u) (totps s),
                   recovery_codes := del_where (\<lambda>x. rv_user x = u) (recovery_codes s)\<rparr>)) (\<lambda>_ s. ret () s)))"

subsection \<open>Sessions\<close>

definition revoke_where :: "(refresh_token \<Rightarrow> bool) \<Rightarrow> string \<Rightarrow> 'z auth_db_scheme \<Rightarrow> 'z auth_db_scheme" where
  "revoke_where P reason s =
     s\<lparr>refresh_tokens := upd_where (\<lambda>r. P r \<and> tk_revoked r = None)
        (\<lambda>r. r\<lparr>tk_revoked := Some (now s), tk_reason := Some reason\<rparr>) (refresh_tokens s)\<rparr>"

definition revoke_family :: "uuid \<Rightarrow> string \<Rightarrow> 'z auth_db_scheme \<Rightarrow> 'z auth_db_scheme" where
  "revoke_family fam reason s = revoke_where (\<lambda>r. tk_family r = fam) reason s"

definition revoke_all_user_tokens :: "uuid \<Rightarrow> string \<Rightarrow> 'z auth_db_scheme \<Rightarrow> 'z auth_db_scheme" where
  "revoke_all_user_tokens u reason s = revoke_where (\<lambda>r. tk_user r = u) reason s"

definition session_commit :: "'z auth_db_scheme \<Rightarrow> 'z auth_db_scheme" where
  "session_commit s = s\<lparr>early_commit := True\<rparr>"

definition refresh :: "'z auth_db_scheme auth_env \<Rightarrow> string \<Rightarrow> 'z auth_db_scheme \<Rightarrow> (token_pair, 'z auth_db_scheme) op_res" where
  "refresh env token s =
     (case find (\<lambda>r. tk_hash r = hash_token env token) (refresh_tokens s) of
        None \<Rightarrow> raise (Domain AuthenticationError ''invalid refresh token'') s
      | Some row \<Rightarrow>
          if tk_rotated row \<noteq> None \<or> tk_revoked row \<noteq> None
          then raise (Domain AuthenticationError ''refresh token reuse detected'')
                 (session_commit (revoke_family (tk_family row) ''reuse_detected'' s))
          else if tk_expires row \<le> instant (now s) then raise (Domain AuthenticationError ''refresh token expired'') s
          else
            (let active = (case global_get u_id (tk_user row) (users s) of None \<Rightarrow> False | Some u \<Rightarrow> u_status u = UserActive)
             in if \<not> active
                then raise (Domain AuthenticationError ''invalid refresh token'')
                       (session_commit (revoke_family (tk_family row) ''user_blocked'' s))
                else
                  (let s1 = av_race env s;
                       hit = (\<lambda>r. tk_id r = tk_id row \<and> tk_rotated r = None \<and> tk_revoked r = None)
                   in if \<not> list_ex hit (refresh_tokens s1)
                      then raise (Domain AuthenticationError ''refresh token already rotated'') s1
                      else
                        (let s2 = s1\<lparr>refresh_tokens := upd_where hit (\<lambda>r. r\<lparr>tk_rotated := Some (now s1)\<rparr>) (refresh_tokens s1)\<rparr>;
                             (access, s3) = encode_access_token env (tk_user row) None s2;
                             (raw, s4) = new_opaque_token env s3;
                             (i, s5) = new_uuid7 s4;
                             new = \<lparr>tk_id = i, tk_user = tk_user row, tk_family = tk_family row, tk_hash = hash_token env raw,
                                    tk_expires = instant (now s5) + redis_seconds (refresh_token_ttl_seconds (av_settings env)),
                                    tk_rotated = None, tk_revoked = None, tk_reason = None, tk_ip = None, tk_agent = None\<rparr>
                         in ret \<lparr>tp_access = access, tp_refresh = raw, tp_expires = access_token_ttl_seconds (av_settings env)\<rparr>
                              (s5\<lparr>refresh_tokens := refresh_tokens s5 @ [new]\<rparr>)))))"

definition issue_tenant_token :: "'z auth_db_scheme auth_env \<Rightarrow> tenant_context \<Rightarrow> uuid \<Rightarrow> 'z auth_db_scheme \<Rightarrow> (string, 'z auth_db_scheme) op_res" where
  "issue_tenant_token env ctx t s =
     on_ok (pure_op (and_then (actor_user ctx) (\<lambda>i. global_get_or_raise ''User'' u_id i (users s))) s) (\<lambda>u s.
       if u_status u \<noteq> UserActive then raise (Domain AuthenticationError ''account is not active'') s
       else (let (access, s1) = encode_access_token env (u_id u) (Some t) s in ret access s1))"

definition logout :: "'z auth_db_scheme auth_env \<Rightarrow> string \<Rightarrow> 'z auth_db_scheme \<Rightarrow> (unit, 'z auth_db_scheme) op_res" where
  "logout env token s = ret () (revoke_where (\<lambda>r. tk_hash r = hash_token env token) ''logout'' s)"

subsection \<open>Passwords\<close>

definition change_password :: "'z auth_db_scheme auth_env \<Rightarrow> tenant_context \<Rightarrow> string \<Rightarrow> string \<Rightarrow> 'z auth_db_scheme \<Rightarrow> (unit, 'z auth_db_scheme) op_res" where
  "change_password env ctx current new s =
     on_ok (pure_op (and_then (actor_user ctx) (\<lambda>i. global_get_or_raise ''User'' u_id i (users s))) s) (\<lambda>u s.
       if \<not> verify_password env (Some (u_password u)) current
       then raise (Domain AuthenticationError ''current password is incorrect'') s
       else on_ok (emit ''auth'' ctx ''auth.user.password_changed'' [(''user_id'', JStr (uuid_str (u_id u)))]
              (revoke_all_user_tokens (u_id u) ''password_change'' (set_user (u\<lparr>u_password := av_hash_password env new\<rparr>) s)))
              (\<lambda>_ s. ret () s))"

definition PASSWORD_RESET_TEMPLATE :: string where "PASSWORD_RESET_TEMPLATE = ''auth.password_reset''"

definition AUTH_TEMPLATES :: "template_def list" where
  "AUTH_TEMPLATES = [\<lparr>td_key = PASSWORD_RESET_TEMPLATE, td_channels = [''email''], td_required = [''reset_url'', ''ttl_minutes'']\<rparr>]"

definition reset_mail :: "'z auth_db_scheme auth_env \<Rightarrow> string \<Rightarrow> string \<Rightarrow> string \<Rightarrow> int \<Rightarrow> 'z auth_db_scheme \<Rightarrow> (unit, 'z auth_db_scheme) op_res" where
  "reset_mail env email loc url minutes s =
     on_ok (send (av_notif env) (mk_ctx None \<lparr>act_kind = System, actor_id = Some ''auth.password_reset''\<rparr>)
              (AddressRecipient ''email'' email) PASSWORD_RESET_TEMPLATE
              [(''reset_url'', JStr url), (''ttl_minutes'', JInt minutes)] None (Some loc) None s) (\<lambda>_ s. ret () s)"

definition request_password_reset :: "'z auth_db_scheme auth_env \<Rightarrow> tenant_context \<Rightarrow> string \<Rightarrow> 'z auth_db_scheme \<Rightarrow> (unit, 'z auth_db_scheme) op_res" where
  "request_password_reset env ctx email s =
     (case get_by_email (normal_email email) (users s) of
        None \<Rightarrow> ret () s
      | Some u \<Rightarrow>
          on_ok (limiter_hit ''pwreset'' (uuid_str (u_id u)) 3 900 s) (\<lambda>ok s.
            if \<not> ok then ret () s
            else
              (let (raw, s1) = new_opaque_token env s;
                   ttl = password_reset_ttl_seconds (av_settings env);
                   s2 = s1\<lparr>redis_db := token_put (instant (now s1)) RESET_NS (hash_token env raw) (uuid_str (u_id u)) ttl (redis_db s1)\<rparr>
               in on_ok (reset_mail env (u_email u) (u_locale u) (py_replace ''{token}'' raw (password_reset_url (av_settings env))) (ttl div 60) s2) (\<lambda>_ s.
                  on_ok (emit ''auth'' ctx ''auth.user.password_reset_requested'' [(''user_id'', JStr (uuid_str (u_id u)))] s) (\<lambda>_ s. ret () s)))))"

definition reset_password :: "'z auth_db_scheme auth_env \<Rightarrow> string \<Rightarrow> string \<Rightarrow> 'z auth_db_scheme \<Rightarrow> (unit, 'z auth_db_scheme) op_res" where
  "reset_password env token new s0 =
     (let (raw, db) = token_consume (instant (now s0)) RESET_NS (hash_token env token) (redis_db s0);
          s = s0\<lparr>redis_db := db\<rparr>
      in case raw of
           None \<Rightarrow> raise (Domain AuthenticationError ''invalid or expired reset token'') s
         | Some uid \<Rightarrow>
             (case uuid_parse uid of
                None \<Rightarrow> raise (ValueError ''badly formed hexadecimal UUID string'') s
              | Some i \<Rightarrow>
                  on_ok (pure_op (global_get_or_raise ''User'' u_id i (users s)) s) (\<lambda>u s.
                    ret () (revoke_all_user_tokens (u_id u) ''password_change'' (set_user (u\<lparr>u_password := av_hash_password env new\<rparr>) s)))))"

subsection \<open>Reads\<close>

definition get_user :: "uuid \<Rightarrow> 'z auth_db_scheme \<Rightarrow> exn + user \<times> bool" where
  "get_user i s =
     (case global_get u_id i (users s) of
        None \<Rightarrow> Inl (Domain NotFoundError ''user not found'')
      | Some u \<Rightarrow> Inr (u, totp_enabled i s))"

definition get_contact :: "uuid \<Rightarrow> 'z auth_db_scheme \<Rightarrow> contact option" where
  "get_contact i s =
     map_option (\<lambda>u. \<lparr>ct_email = Some (u_email u), ct_phone = u_phone u, ct_locale = u_locale u\<rparr>) (global_get u_id i (users s))"

subsection \<open>The unit of work of a request\<close>

definition auth_unit_of_work :: "('z auth_db_scheme \<Rightarrow> ('a, 'z auth_db_scheme) op_res) \<Rightarrow> 'z auth_db_scheme \<Rightarrow>
    ('a, 'z auth_db_scheme) op_res" where
  "auth_unit_of_work body s =
     (case body (s\<lparr>pending_events := [], early_commit := False\<rparr>) of
        (Inr x, t) \<Rightarrow> (Inr x, commit t)
      | (Inl e, t) \<Rightarrow>
          (Inl e, if early_commit t then t\<lparr>pending_events := []\<rparr>
                  else (rollback s t)\<lparr>redis_db := redis_db t, token_next := token_next t\<rparr>))"

end
