(* ===== verification/Tenants.thy ===== *)
theory Tenants
  imports Auth_Service
begin

section \<open>Tenants, memberships, roles and invitations\<close>

text \<open>
  \<^verbatim>\<open>core/tenants\<close> and the permission catalogue of \<^verbatim>\<open>core/auth/permissions.py\<close>.
  The service resolves permissions from its own tables, and guards its operations with them.
  \<open>tv_race\<close> is what other transactions commit between a check and the write it allows.
  Foreign keys to users and roles are not modelled as failures.
\<close>

subsection \<open>The permission catalogue\<close>

record permission_def =
  pm_code :: string
  pm_title :: string

definition CODE_RE :: "string \<Rightarrow> bool" where
  "CODE_RE code =
     (let (m, rest) = partition_on (CHR ''.'') (chomp code); (r, a) = partition_on (CHR '':'') rest
      in CHR ''.'' \<in> set code \<and> CHR '':'' \<in> set rest \<and> is_segment m \<and> is_segment r \<and> is_segment a)"

type_synonym permission_registry = "(string \<times> permission_def) list"

fun register_permissions :: "string \<Rightarrow> permission_def list \<Rightarrow> permission_registry \<Rightarrow> (unit, permission_registry) op_res" where
  "register_permissions modname [] reg = ret () reg"
| "register_permissions modname (p # ps) reg =
     (if \<not> CODE_RE (pm_code p)
      then raise (ValueError (''invalid permission code '' @ repr_str (pm_code p) @ '': expected '' @ repr_str ''<module>.<resource>:<action>'')) reg
      else if \<not> startswith (pm_code p) (modname @ ''.'')
      then raise (ValueError (''permission '' @ repr_str (pm_code p) @ '' must start with its module prefix '' @ repr_str modname)) reg
      else (case map_of reg (pm_code p) of
              Some q \<Rightarrow> if q \<noteq> p then raise (RuntimeError (''duplicate permission code registered: '' @ pm_code p)) reg
                         else register_permissions modname ps reg
            | None \<Rightarrow> register_permissions modname ps (reg @ [(pm_code p, p)])))"

definition require_registered :: "permission_registry \<Rightarrow> string \<Rightarrow> exn + unit" where
  "require_registered reg code =
     (if map_of reg code = None
      then Inl (RuntimeError (''permission '' @ repr_str code @ '' is used by a route but was never registered via AccessService.register_permissions''))
      else Inr ())"

definition TENANT_READ :: string where "TENANT_READ = ''tenants.tenant:read''"
definition TENANT_UPDATE :: string where "TENANT_UPDATE = ''tenants.tenant:update''"
definition MEMBER_READ :: string where "MEMBER_READ = ''tenants.member:read''"
definition MEMBER_INVITE :: string where "MEMBER_INVITE = ''tenants.member:invite''"
definition MEMBER_REMOVE :: string where "MEMBER_REMOVE = ''tenants.member:remove''"
definition MEMBER_UPDATE_ROLE :: string where "MEMBER_UPDATE_ROLE = ''tenants.member:update_role''"
definition ROLE_READ :: string where "ROLE_READ = ''tenants.role:read''"
definition ROLE_MANAGE :: string where "ROLE_MANAGE = ''tenants.role:manage''"

definition TENANTS_PERMISSIONS :: "permission_def list" where
  "TENANTS_PERMISSIONS =
     [\<lparr>pm_code = TENANT_READ, pm_title = ''perm.tenants.tenant.read''\<rparr>,
      \<lparr>pm_code = TENANT_UPDATE, pm_title = ''perm.tenants.tenant.update''\<rparr>,
      \<lparr>pm_code = MEMBER_READ, pm_title = ''perm.tenants.member.read''\<rparr>,
      \<lparr>pm_code = MEMBER_INVITE, pm_title = ''perm.tenants.member.invite''\<rparr>,
      \<lparr>pm_code = MEMBER_REMOVE, pm_title = ''perm.tenants.member.remove''\<rparr>,
      \<lparr>pm_code = MEMBER_UPDATE_ROLE, pm_title = ''perm.tenants.member.update_role''\<rparr>,
      \<lparr>pm_code = ROLE_READ, pm_title = ''perm.tenants.role.read''\<rparr>,
      \<lparr>pm_code = ROLE_MANAGE, pm_title = ''perm.tenants.role.manage''\<rparr>]"

definition ROLE_OWNER :: string where "ROLE_OWNER = ''owner''"
definition ROLE_ADMIN :: string where "ROLE_ADMIN = ''admin''"
definition ROLE_MEMBER :: string where "ROLE_MEMBER = ''member''"

definition SYSTEM_ROLE_TITLES :: "(string \<times> string) list" where
  "SYSTEM_ROLE_TITLES = [(ROLE_OWNER, ''role.owner''), (ROLE_ADMIN, ''role.admin''), (ROLE_MEMBER, ''role.member'')]"

text \<open>\<^verbatim>\<open>SystemRoleGrants\<close>: the permission codes of each system role, in the order of the
  roles.\<close>

type_synonym role_grants = "(string \<times> string list) list"

definition grants_init :: "string list \<Rightarrow> role_grants" where
  "grants_init roles = map (\<lambda>r. (r, [])) roles"

fun grants_extend :: "(string \<times> string list) list \<Rightarrow> role_grants \<Rightarrow> (unit, role_grants) op_res" where
  "grants_extend [] g = ret () g"
| "grants_extend ((role, codes) # rest) g =
     (if role \<notin> fst ` set g then raise (LookupError (''unknown system role: '' @ repr_str role)) g
      else grants_extend rest (map (\<lambda>(r, cs). if r = role then (r, cs @ filter (\<lambda>c. c \<notin> set cs) (remdups codes)) else (r, cs)) g))"

definition system_role_grants :: role_grants where
  "system_role_grants =
     snd (grants_extend
       [(ROLE_OWNER, map pm_code TENANTS_PERMISSIONS),
        (ROLE_ADMIN, [TENANT_READ, TENANT_UPDATE, MEMBER_READ, MEMBER_INVITE, MEMBER_REMOVE, MEMBER_UPDATE_ROLE, ROLE_READ, ROLE_MANAGE]),
        (ROLE_MEMBER, [TENANT_READ, MEMBER_READ, ROLE_READ])]
       (grants_init [ROLE_OWNER, ROLE_ADMIN, ROLE_MEMBER]))"

subsection \<open>Tables\<close>

datatype tenant_status = TenantActive | Suspended | Deleted

record tenant =
  tn_id :: uuid
  tn_name :: string
  tn_slug :: string
  tn_owner :: uuid
  tn_status :: tenant_status
  tn_locale :: string
  tn_created :: datetime

datatype member_status = MemberActive | MemberSuspended

record membership =
  mb_id :: uuid
  mb_tenant :: uuid
  mb_user :: uuid
  mb_role :: uuid
  mb_status :: member_status
  mb_created :: datetime

record role =
  rl_id :: uuid
  rl_tenant :: "uuid option"  \<comment> \<open>\<open>None\<close> is a system role\<close>
  rl_code :: string
  rl_name :: string
  rl_system :: bool

datatype invitation_status = InvPending | InvAccepted | InvRevoked | InvExpired

record invitation =
  iv_id :: uuid
  iv_tenant :: uuid
  iv_email :: string
  iv_role :: uuid
  iv_hash :: string
  iv_status :: invitation_status
  iv_invited_by :: "uuid option"
  iv_accepted_by :: "uuid option"
  iv_expires :: int  \<comment> \<open>the instant\<close>
  iv_accepted_at :: "datetime option"

record tenants_db = auth_db +
  tenants :: "tenant list"
  memberships :: "membership list"
  roles :: "role list"
  role_permissions :: "(uuid \<times> string) list"
  invitations :: "invitation list"

definition tenant_conflict :: "tenant \<Rightarrow> tenant list \<Rightarrow> bool" where
  "tenant_conflict r rows = list_ex (\<lambda>x. tn_slug x = tn_slug r) rows"

definition membership_conflict :: "membership \<Rightarrow> membership list \<Rightarrow> bool" where
  "membership_conflict r rows = list_ex (\<lambda>x. mb_tenant x = mb_tenant r \<and> mb_user x = mb_user r) rows"

definition invitation_conflict :: "invitation \<Rightarrow> invitation list \<Rightarrow> bool" where
  "invitation_conflict r rows =
     list_ex (\<lambda>x. iv_hash x = iv_hash r \<or>
       (iv_status r = InvPending \<and> iv_status x = InvPending \<and> iv_tenant x = iv_tenant r \<and> py_lower (iv_email x) = py_lower (iv_email r))) rows"

definition stamp_invitation :: "uuid \<Rightarrow> invitation \<Rightarrow> invitation" where
  "stamp_invitation t r = r\<lparr>iv_tenant := t\<rparr>"

interpretation invitation_tab: tenant_table iv_tenant iv_id stamp_invitation
  by unfold_locales (simp_all add: stamp_invitation_def)

record 's tenants_env =
  tv_notif :: "'s notif_env"
  tv_mailer :: bool                   \<comment> \<open>an invitation mailer is wired\<close>
  tv_accept_url :: string
  tv_auth :: "'s auth_env"
  tv_race :: "'s \<Rightarrow> 's"

subsection \<open>Reads\<close>

definition tenant_active :: "uuid option \<Rightarrow> 'z tenants_db_scheme \<Rightarrow> bool" where
  "tenant_active t s = list_ex (\<lambda>x. Some (tn_id x) = t \<and> tn_status x = TenantActive) (tenants s)"

definition get_permission_codes :: "tenant_context \<Rightarrow> 'z tenants_db_scheme \<Rightarrow> uuid \<Rightarrow> string list" where
  "get_permission_codes ctx s u =
     concat (map (\<lambda>m. if Some (mb_tenant m) = tenant_id ctx \<and> mb_user m = u \<and> mb_status m = MemberActive
                         \<and> tenant_active (Some (mb_tenant m)) s
                      then map snd (filter (\<lambda>rp. fst rp = mb_role m) (role_permissions s)) else []) (memberships s))"

definition tenant_access :: "tenant_context \<Rightarrow> 'z tenants_db_scheme \<Rightarrow> access" where
  \<comment> \<open>\<^verbatim>\<open>AccessService(self)\<close>\<close>
  "tenant_access ctx s = get_permission_codes ctx s"

definition tenant_guard :: "tenant_context \<Rightarrow> string \<Rightarrow> 'z tenants_db_scheme \<Rightarrow> (unit, 'z tenants_db_scheme) op_res" where
  "tenant_guard ctx perm s = pure_op (guard_require (Some (tenant_access ctx s)) ctx perm) s"

definition has_active_membership :: "uuid \<Rightarrow> uuid \<Rightarrow> 'z tenants_db_scheme \<Rightarrow> bool" where
  "has_active_membership t u s =
     (tenant_active (Some t) s \<and> list_ex (\<lambda>m. mb_tenant m = t \<and> mb_user m = u \<and> mb_status m = MemberActive) (memberships s))"

definition find_tenant :: "uuid option \<Rightarrow> 'z tenants_db_scheme \<Rightarrow> tenant option" where
  "find_tenant t s = find (\<lambda>x. Some (tn_id x) = t) (tenants s)"

definition current_tenant_is_active :: "tenant_context \<Rightarrow> 'z tenants_db_scheme \<Rightarrow> bool" where
  "current_tenant_is_active ctx s = (case find_tenant (tenant_id ctx) s of None \<Rightarrow> False | Some x \<Rightarrow> tn_status x = TenantActive)"

definition find_role :: "uuid \<Rightarrow> 'z tenants_db_scheme \<Rightarrow> role option" where
  "find_role i s = find (\<lambda>r. rl_id r = i) (roles s)"

text \<open>A membership with the code of its role.\<close>

definition with_role :: "'z tenants_db_scheme \<Rightarrow> membership \<Rightarrow> (membership \<times> string) option" where
  "with_role s m = map_option (\<lambda>r. (m, rl_code r)) (find_role (mb_role m) s)"

definition get_membership :: "tenant_context \<Rightarrow> uuid \<Rightarrow> 'z tenants_db_scheme \<Rightarrow> (membership \<times> string) option" where
  "get_membership ctx u s =
     (case List.map_filter (with_role s) (filter (\<lambda>m. Some (mb_tenant m) = tenant_id ctx \<and> mb_user m = u) (memberships s)) of
        [] \<Rightarrow> None
      | x # _ \<Rightarrow> Some x)"

definition get_tenant :: "tenant_context \<Rightarrow> 'z tenants_db_scheme \<Rightarrow> (tenant, 'z tenants_db_scheme) op_res" where
  "get_tenant ctx s =
     on_ok (tenant_guard ctx TENANT_READ s) (\<lambda>_ s.
       (case find_tenant (tenant_id ctx) s of None \<Rightarrow> raise (Domain NotFoundError ''tenant not found'') s | Some x \<Rightarrow> ret x s))"

definition list_user_tenants :: "tenant_context \<Rightarrow> 'z tenants_db_scheme \<Rightarrow> exn + tenant list" where
  "list_user_tenants ctx s =
     and_then (actor_user ctx) (\<lambda>u.
       Inr (sort_key tn_created (concat (map (\<lambda>x. map (\<lambda>_. x)
         (filter (\<lambda>m. mb_tenant m = tn_id x \<and> mb_user m = u \<and> tn_status x = TenantActive) (memberships s))) (tenants s)))))"

definition list_members :: "tenant_context \<Rightarrow> page \<Rightarrow> 'z tenants_db_scheme \<Rightarrow> ((membership \<times> string) page_result, 'z tenants_db_scheme) op_res" where
  "list_members ctx pg s =
     on_ok (tenant_guard ctx MEMBER_READ s) (\<lambda>_ s.
     on_ok (pure_op (repo_init ctx) s) (\<lambda>t s.
       ret \<lparr>pr_items = page_of (nat (pg_limit pg)) (nat (pg_offset pg))
              (List.map_filter (with_role s) (sort_key mb_created (filter (\<lambda>m. mb_tenant m = t) (memberships s)))),
            pr_total = repo_count mb_tenant t (\<lambda>_. True) (memberships s), pr_limit = pg_limit pg, pr_offset = pg_offset pg\<rparr> s))"

subsection \<open>Roles\<close>

definition system_role :: "string \<Rightarrow> 'z tenants_db_scheme \<Rightarrow> exn + role" where
  "system_role code s =
     (case find (\<lambda>r. rl_tenant r = None \<and> rl_code r = code) (roles s) of
        None \<Rightarrow> Inl (Domain NotFoundError (''system role '' @ repr_str code @ '' is not provisioned''))
      | Some r \<Rightarrow> Inr r)"

definition tenant_or_system_role :: "tenant_context \<Rightarrow> string \<Rightarrow> 'z tenants_db_scheme \<Rightarrow> exn + role" where
  "tenant_or_system_role ctx code s =
     (case find (\<lambda>r. rl_code r = code \<and> (rl_tenant r = tenant_id ctx \<or> rl_tenant r = None)) (roles s) of
        None \<Rightarrow> Inl (Domain NotFoundError (''role '' @ repr_str code @ '' not found''))
      | Some r \<Rightarrow> Inr r)"

definition member_or_raise :: "tenant_context \<Rightarrow> uuid \<Rightarrow> 'z tenants_db_scheme \<Rightarrow> exn + membership" where
  "member_or_raise ctx u s =
     (case find (\<lambda>m. Some (mb_tenant m) = tenant_id ctx \<and> mb_user m = u) (memberships s) of
        None \<Rightarrow> Inl (Domain NotFoundError ''membership not found'')
      | Some m \<Rightarrow> Inr m)"

definition guard_last_owner :: "tenant_context \<Rightarrow> uuid \<Rightarrow> 'z tenants_db_scheme \<Rightarrow> exn + unit" where
  "guard_last_owner ctx u s =
     and_then (system_role ROLE_OWNER s) (\<lambda>owner.
     and_then (member_or_raise ctx u s) (\<lambda>target.
       if mb_role target \<noteq> rl_id owner then Inr ()
       else if length (filter (\<lambda>m. Some (mb_tenant m) = tenant_id ctx \<and> mb_role m = rl_id owner) (memberships s)) \<le> 1
       then Inl (Domain InvariantViolationError ''cannot remove or demote the last owner'')
       else Inr ()))"

subsection \<open>Operations\<close>

definition create_tenant :: "'z tenants_db_scheme tenants_env \<Rightarrow> tenant_context \<Rightarrow> string \<Rightarrow> string \<Rightarrow> 'z tenants_db_scheme \<Rightarrow>
    (tenant, 'z tenants_db_scheme) op_res" where
  "create_tenant env ctx name slug0 s0 =
     on_ok (pure_op (actor_user ctx) s0) (\<lambda>u s.
       (let slug = py_lower (strip ch_space slug0)
        in if list_ex (\<lambda>x. tn_slug x = slug) (tenants s) then raise (Domain ConflictError ''tenant slug already taken'') s
           else
             (let (i, s1) = new_uuid7 s; s2 = tv_race env s1;
                  x = \<lparr>tn_id = i, tn_name = name, tn_slug = slug, tn_owner = u, tn_status = TenantActive, tn_locale = ''ru'', tn_created = now s2\<rparr>
              in on_ok (pure_op (global_add tenant_conflict x (tenants s2)) s2) (\<lambda>rows s.
                 on_ok (pure_op (system_role ROLE_OWNER s) (s\<lparr>tenants := rows\<rparr>)) (\<lambda>owner s.
                   (let (j, s3) = new_uuid7 s;
                        m = \<lparr>mb_id = j, mb_tenant = i, mb_user = u, mb_role = rl_id owner, mb_status = MemberActive, mb_created = now s3\<rparr>
                    in on_ok (pure_op (global_add membership_conflict m (memberships s3)) s3) (\<lambda>ms s.
                       on_ok (emit ''tenants'' ctx ''tenants.tenant.created''
                                [(''tenant_id'', JStr (uuid_str i)), (''name'', JStr name), (''owner_user_id'', JStr (uuid_str u))]
                                (s\<lparr>memberships := ms\<rparr>)) (\<lambda>_ s. ret x s))))))))"

definition set_invitation :: "invitation \<Rightarrow> 'z tenants_db_scheme \<Rightarrow> 'z tenants_db_scheme" where
  "set_invitation r s = s\<lparr>invitations := upd_where (\<lambda>x. iv_id x = iv_id r) (\<lambda>_. r) (invitations s)\<rparr>"

definition accept_invitation :: "'z tenants_db_scheme tenants_env \<Rightarrow> tenant_context \<Rightarrow> string \<Rightarrow> string \<Rightarrow> 'z tenants_db_scheme \<Rightarrow>
    (membership \<times> string, 'z tenants_db_scheme) op_res" where
  "accept_invitation env ctx token email s0 =
     on_ok (pure_op (actor_user ctx) s0) (\<lambda>u s.
       (case find (\<lambda>r. iv_hash r = hash_token (tv_auth env) token) (invitations s) of
          None \<Rightarrow> raise (Domain NotFoundError ''invitation not found or not pending'') s
        | Some ivt \<Rightarrow>
            if iv_status ivt \<noteq> InvPending then raise (Domain NotFoundError ''invitation not found or not pending'') s
            else if iv_expires ivt \<le> instant (now s) then raise (Domain InvariantViolationError ''invitation expired'') s
            else if iv_email ivt \<noteq> normal_email email
            then raise (Domain PermissionDeniedError ''invitation was issued to another email'') s
            else if list_ex (\<lambda>m. mb_tenant m = iv_tenant ivt \<and> mb_user m = u) (memberships s)
            then raise (Domain ConflictError ''already a member of this tenant'') s
            else
              (let (i, s1) = new_uuid7 s; s2 = tv_race env s1;
                   m = \<lparr>mb_id = i, mb_tenant = iv_tenant ivt, mb_user = u, mb_role = iv_role ivt, mb_status = MemberActive, mb_created = now s2\<rparr>;
                   ivt' = ivt\<lparr>iv_status := InvAccepted, iv_accepted_by := Some u, iv_accepted_at := Some (now s2)\<rparr>
               in on_ok (pure_op (global_add membership_conflict m (memberships s2)) (set_invitation ivt' s2)) (\<lambda>ms s.
                    (case find_role (iv_role ivt) s of
                       None \<Rightarrow> raise (TypeError ''NoneType has no attribute code'') (s\<lparr>memberships := ms\<rparr>)
                     | Some r \<Rightarrow>
                         on_ok (emit ''tenants'' ctx ''tenants.member.joined''
                                  [(''tenant_id'', JStr (uuid_str (iv_tenant ivt))), (''user_id'', JStr (uuid_str u)), (''role'', JStr (rl_code r))]
                                  (s\<lparr>memberships := ms\<rparr>)) (\<lambda>_ s. ret (m, rl_code r) s))))))"

definition update_tenant :: "tenant_context \<Rightarrow> string option \<Rightarrow> string option \<Rightarrow> 'z tenants_db_scheme \<Rightarrow> (tenant, 'z tenants_db_scheme) op_res" where
  "update_tenant ctx name loc s0 =
     on_ok (tenant_guard ctx TENANT_UPDATE s0) (\<lambda>_ s.
       (case find_tenant (tenant_id ctx) s of
          None \<Rightarrow> raise (Domain NotFoundError ''tenant not found'') s
        | Some x \<Rightarrow>
            (let x1 = (case name of Some n \<Rightarrow> x\<lparr>tn_name := n\<rparr> | None \<Rightarrow> x);
                 x2 = (case loc of Some l \<Rightarrow> x1\<lparr>tn_locale := l\<rparr> | None \<Rightarrow> x1)
             in ret x2 (s\<lparr>tenants := upd_where (\<lambda>y. tn_id y = tn_id x) (\<lambda>_. x2) (tenants s)\<rparr>))))"

definition INVITATION_TTL_DAYS :: int where "INVITATION_TTL_DAYS = 7"
definition INVITATION_TEMPLATE :: string where "INVITATION_TEMPLATE = ''tenants.invitation''"

definition TENANTS_TEMPLATES :: "template_def list" where
  "TENANTS_TEMPLATES =
     [\<lparr>td_key = INVITATION_TEMPLATE, td_channels = [''email''], td_required = [''accept_url'', ''tenant_name'', ''ttl_days'']\<rparr>]"

definition invitation_mail :: "'z tenants_db_scheme tenants_env \<Rightarrow> tenant_context \<Rightarrow> string \<Rightarrow> string \<Rightarrow> string \<Rightarrow> string \<Rightarrow> int \<Rightarrow>
    'z tenants_db_scheme \<Rightarrow> (unit, 'z tenants_db_scheme) op_res" where
  "invitation_mail env ctx email token name loc days s =
     on_ok (send (tv_notif env) ctx (AddressRecipient ''email'' email) INVITATION_TEMPLATE
              [(''accept_url'', JStr (py_replace ''{token}'' token (tv_accept_url env))), (''tenant_name'', JStr name), (''ttl_days'', JInt days)]
              None (Some loc) None s) (\<lambda>_ s. ret () s)"

definition invite_member :: "'z tenants_db_scheme tenants_env \<Rightarrow> tenant_context \<Rightarrow> string \<Rightarrow> string \<Rightarrow> 'z tenants_db_scheme \<Rightarrow>
    (invitation \<times> string, 'z tenants_db_scheme) op_res" where
  "invite_member env ctx email code s0 =
     on_ok (tenant_guard ctx MEMBER_INVITE s0) (\<lambda>_ s.
       if \<not> tv_mailer env then raise (Domain InvariantViolationError ''invitations require an invitation mailer'') s
       else (case find_tenant (tenant_id ctx) s of
               None \<Rightarrow> raise (Domain NotFoundError ''tenant not found'') s
             | Some x \<Rightarrow>
                 on_ok (pure_op (tenant_or_system_role ctx code s) s) (\<lambda>r s.
                   (let (raw, s1) = new_opaque_token (tv_auth env) s; (i, s2) = new_uuid7 s1
                    in on_ok (pure_op (actor_user ctx) s2) (\<lambda>u s.
                         (let ivt = \<lparr>iv_id = i, iv_tenant = tn_id x, iv_email = normal_email email, iv_role = rl_id r,
                                     iv_hash = hash_token (tv_auth env) raw, iv_status = InvPending, iv_invited_by = Some u,
                                     iv_accepted_by = None, iv_expires = instant (now s) + INVITATION_TTL_DAYS * usec_per_day, iv_accepted_at = None\<rparr>;
                              s3 = tv_race env s
                          in on_ok (pure_op (case repo_add stamp_invitation invitation_conflict (tn_id x) (Some (tn_id x)) ivt (invitations s3) of
                                               Inl e \<Rightarrow> Inl (if e = IntegrityError then Domain ConflictError ''a pending invitation for this email already exists'' else e)
                                             | Inr rows \<Rightarrow> Inr rows) s3) (\<lambda>rows s.
                             on_ok (invitation_mail env ctx (iv_email ivt) raw (tn_name x) (tn_locale x) INVITATION_TTL_DAYS (s\<lparr>invitations := rows\<rparr>)) (\<lambda>_ s.
                             on_ok (emit ''tenants'' ctx ''tenants.member.invited''
                                      [(''tenant_id'', JStr (uuid_str (tn_id x))), (''invitation_id'', JStr (uuid_str i)), (''role'', JStr code)] s)
                               (\<lambda>_ s. ret (ivt, code) s)))))))))"

definition revoke_invitation :: "tenant_context \<Rightarrow> uuid \<Rightarrow> 'z tenants_db_scheme \<Rightarrow> (unit, 'z tenants_db_scheme) op_res" where
  "revoke_invitation ctx i s0 =
     on_ok (tenant_guard ctx MEMBER_INVITE s0) (\<lambda>_ s.
     on_ok (pure_op (repo_init ctx) s) (\<lambda>t s.
     on_ok (pure_op (repo_get_or_raise ''Invitation'' iv_tenant iv_id t i (invitations s)) s) (\<lambda>ivt s.
       if iv_status ivt \<noteq> InvPending then raise (Domain InvariantViolationError ''only pending invitations can be revoked'') s
       else ret () (set_invitation (ivt\<lparr>iv_status := InvRevoked\<rparr>) s))))"

definition change_member_role :: "'z tenants_db_scheme tenants_env \<Rightarrow> tenant_context \<Rightarrow> uuid \<Rightarrow> string \<Rightarrow> 'z tenants_db_scheme \<Rightarrow>
    (membership \<times> string, 'z tenants_db_scheme) op_res" where
  "change_member_role env ctx u code s0 =
     on_ok (tenant_guard ctx MEMBER_UPDATE_ROLE s0) (\<lambda>_ s.
     on_ok (pure_op (member_or_raise ctx u s) s) (\<lambda>m s.
     on_ok (pure_op (tenant_or_system_role ctx code s) s) (\<lambda>r s.
     on_ok (pure_op (if rl_code r \<noteq> ROLE_OWNER then guard_last_owner ctx u s else Inr ()) s) (\<lambda>_ s.
       (let s1 = tv_race env s; m' = m\<lparr>mb_role := rl_id r\<rparr>
        in if \<not> list_ex (\<lambda>x. mb_id x = mb_id m) (memberships s1) then raise (RuntimeError ''StaleDataError'') s1
           else on_ok (emit ''tenants'' ctx ''tenants.member.role_changed''
                         [(''tenant_id'', case tenant_id ctx of Some t \<Rightarrow> JStr (uuid_str t) | None \<Rightarrow> JStr ''None''),
                          (''user_id'', JStr (uuid_str u)), (''role'', JStr code)]
                         (s1\<lparr>memberships := upd_where (\<lambda>x. mb_id x = mb_id m) (\<lambda>_. m') (memberships s1)\<rparr>))
                  (\<lambda>_ s. ret (m', rl_code r) s))))))"

definition remove_member :: "'z tenants_db_scheme tenants_env \<Rightarrow> tenant_context \<Rightarrow> uuid \<Rightarrow> 'z tenants_db_scheme \<Rightarrow> (unit, 'z tenants_db_scheme) op_res" where
  "remove_member env ctx u s0 =
     on_ok (tenant_guard ctx MEMBER_REMOVE s0) (\<lambda>_ s.
     on_ok (pure_op (member_or_raise ctx u s) s) (\<lambda>m s.
     on_ok (pure_op (guard_last_owner ctx u s) s) (\<lambda>_ s.
     on_ok (emit ''tenants'' ctx ''tenants.member.removed''
              [(''tenant_id'', case tenant_id ctx of Some t \<Rightarrow> JStr (uuid_str t) | None \<Rightarrow> JStr ''None''), (''user_id'', JStr (uuid_str u))]
              (tv_race env s)) (\<lambda>eid s.
       audit_record ctx ''tenants.member.removed'' (Some ''member'') (Some (uuid_str u)) [] (Some eid)
         (s\<lparr>memberships := del_where (\<lambda>x. mb_id x = mb_id m) (memberships s)\<rparr>)))))"

definition set_status :: "tenant_context \<Rightarrow> uuid \<Rightarrow> string \<Rightarrow> string option \<Rightarrow> 'z tenants_db_scheme \<Rightarrow> (unit, 'z tenants_db_scheme) op_res" where
  "set_status ctx t status reason s =
     (if status \<noteq> ''active'' \<and> status \<noteq> ''suspended''
      then raise (Domain InvariantViolationError (''status must be '' @ repr_str ''active'' @ '' or '' @ repr_str ''suspended'')) s
      else (case find_tenant (Some t) s of
              None \<Rightarrow> raise (Domain NotFoundError ''tenant not found'') s
            | Some x \<Rightarrow>
                (let x' = x\<lparr>tn_status := (if status = ''active'' then TenantActive else Suspended)\<rparr>
                 in on_ok (emit ''tenants'' ctx ''tenants.tenant.status_changed''
                             [(''tenant_id'', JStr (uuid_str t)), (''status'', JStr status), (''reason'', jopt_str reason)]
                             (s\<lparr>tenants := upd_where (\<lambda>y. tn_id y = t) (\<lambda>_. x') (tenants s)\<rparr>)) (\<lambda>_ s. ret () s))))"

subsection \<open>The directory\<close>

definition get_owner_user_id :: "uuid \<Rightarrow> 'z tenants_db_scheme \<Rightarrow> uuid option" where
  "get_owner_user_id t s = map_option tn_owner (find_tenant (Some t) s)"

definition get_default_locale :: "uuid \<Rightarrow> 'z tenants_db_scheme \<Rightarrow> string option" where
  "get_default_locale t s = map_option tn_locale (find_tenant (Some t) s)"

subsection \<open>Synchronizing the system roles\<close>

text \<open>One role: \<^verbatim>\<open>INSERT ... ON CONFLICT DO NOTHING\<close> on (tenant, code), then the grants are
  reconciled.\<close>

definition insert_role :: "role \<Rightarrow> role list \<Rightarrow> role list" where
  "insert_role r rows = (if list_ex (\<lambda>x. rl_tenant x = rl_tenant r \<and> rl_code x = rl_code r) rows then rows else rows @ [r])"

definition reconcile :: "uuid \<Rightarrow> string list \<Rightarrow> (uuid \<times> string) list \<Rightarrow> (uuid \<times> string) list" where
  "reconcile rid grants rows =
     (let current = map snd (filter (\<lambda>rp. fst rp = rid) rows);
          added = rows @ map (\<lambda>c. (rid, c)) (filter (\<lambda>c. c \<notin> set current) (remdups grants))
      in filter (\<lambda>rp. \<not> (fst rp = rid \<and> snd rp \<in> set current \<and> snd rp \<notin> set grants)) added)"

fun check_grants :: "permission_registry \<Rightarrow> string list \<Rightarrow> exn + unit" where
  "check_grants reg [] = Inr ()"
| "check_grants reg (c # cs) = and_then (require_registered reg c) (\<lambda>_. check_grants reg cs)"

definition sync_role :: "permission_registry \<Rightarrow> string \<Rightarrow> string list \<Rightarrow> 'z tenants_db_scheme \<Rightarrow> (unit, 'z tenants_db_scheme) op_res" where
  "sync_role reg code grants s0 =
     on_ok (pure_op (check_grants reg grants) s0) (\<lambda>_ s.
       (let (i, s1) = new_uuid7 s
        in case map_of SYSTEM_ROLE_TITLES code of
             None \<Rightarrow> raise (LookupError code) s1
           | Some title \<Rightarrow>
               (let s2 = s1\<lparr>roles := insert_role \<lparr>rl_id = i, rl_tenant = None, rl_code = code, rl_name = title, rl_system = True\<rparr> (roles s1)\<rparr>
                in case find (\<lambda>r. rl_tenant r = None \<and> rl_code r = code) (roles s2) of
                     None \<Rightarrow> raise (RuntimeError ''NoResultFound'') s2
                   | Some r \<Rightarrow> ret () (s2\<lparr>role_permissions := reconcile (rl_id r) grants (role_permissions s2)\<rparr>))))"

fun sync_system_roles :: "permission_registry \<Rightarrow> role_grants \<Rightarrow> 'z tenants_db_scheme \<Rightarrow> (unit, 'z tenants_db_scheme) op_res" where
  "sync_system_roles reg [] s = ret () s"
| "sync_system_roles reg ((code, grants) # rest) s =
     on_ok (sync_role reg code grants s) (\<lambda>_ s. sync_system_roles reg rest s)"

end
