(* ===== verification/Files.thy ===== *)
theory Files
  imports Notifications
begin

section \<open>Files: validated uploads over an object store\<close>

text \<open>
  \<^verbatim>\<open>core/files\<close>: the service, the content sniffing and the filesystem adapter.  Bytes are
  strings of 8-bit characters.  The objects are not part of the database: a rollback leaves them as
  they are, which is why this component has its own unit of work.  SHA-256 and the image library are
  parameters, and so are the failures of the operating system.
\<close>

subsection \<open>Content types\<close>

definition sniff_content_type :: "string \<Rightarrow> string option" where
  "sniff_content_type d =
     (if take 3 d = map char_of [0xFF, 0xD8, 0xFF :: nat] then Some ''image/jpeg''
      else if take 8 d = map char_of [0x89, 0x50, 0x4E, 0x47, 0x0D, 0x0A, 0x1A, 0x0A :: nat] then Some ''image/png''
      else if take 6 d = ''GIF87a'' \<or> take 6 d = ''GIF89a'' then Some ''image/gif''
      else if take 4 d = ''RIFF'' \<and> take 4 (drop 8 d) = ''WEBP'' then Some ''image/webp''
      else None)"

definition MAX_FILENAME_LENGTH :: nat where
  "MAX_FILENAME_LENGTH = 255"

definition header_safe :: "char \<Rightarrow> bool" where
  "header_safe c = (ch_printable c \<and> c \<noteq> CHR 0x22 \<and> c \<noteq> CHR 0x0D \<and> c \<noteq> CHR 0x0A)"

definition sanitize_filename :: "string option \<Rightarrow> string option" where
  "sanitize_filename name =
     (case name of
        None \<Rightarrow> None
      | Some n \<Rightarrow>
          if n = [] then None
          else (let basename = last (split_on (CHR ''/'') (map (\<lambda>c. if c = CHR 0x5C then CHR ''/'' else c) n));
                    cleaned = take MAX_FILENAME_LENGTH (strip ch_space (filter header_safe basename))
                in if cleaned = [] then None else Some cleaned))"

subsection \<open>The store\<close>

text \<open>A resolved path is the list of its segments below the file-system root.\<close>

type_synonym path = "string list"

fun norm_path :: "path \<Rightarrow> string list \<Rightarrow> path" where
  "norm_path acc [] = acc"
| "norm_path acc (x # xs) =
     (if x = [] \<or> x = ''.'' then norm_path acc xs
      else if x = ''..'' then norm_path (butlast acc) xs
      else norm_path (acc @ [x]) xs)"

definition fs_resolve :: "path \<Rightarrow> string \<Rightarrow> exn + path" where
  "fs_resolve root key =
     (let target = norm_path (if startswith key ''/'' then [] else root) (split_on (CHR ''/'') key)
      in if target \<noteq> root \<and> take (length root) target \<noteq> root
         then Inl (Domain StorageError (''storage key escapes the root: '' @ repr_str key))
         else Inr target)"

record stored_file =
  f_id :: uuid
  f_tenant :: uuid
  f_key :: string
  f_content_type :: string
  f_size :: int
  f_checksum :: string
  f_filename :: "string option"

record files_db = notif_db +
  files :: "stored_file list"
  objects :: "(path \<times> string) list"  \<comment> \<open>the object store, newest first\<close>

text \<open>\<open>sv_fail op path\<close>: the \<^verbatim>\<open>OSError\<close> the operating system raises, if any.\<close>

record files_env =
  sv_root :: path
  sv_fail :: "string \<Rightarrow> path \<Rightarrow> string option"
  sv_max_bytes :: int
  sv_allowed :: "string list"
  sv_max_edge :: int
  sv_sha256 :: "string \<Rightarrow> string"
  sv_thumbnail :: "string \<Rightarrow> int \<Rightarrow> exn + (string \<times> string)"

definition storage_io :: "string \<Rightarrow> string option \<Rightarrow> exn + unit" where
  "storage_io what e = (case e of None \<Rightarrow> Inr () | Some m \<Rightarrow> Inl (Domain StorageError (''filesystem '' @ what @ '' failed: '' @ m)))"

definition storage_put :: "files_env \<Rightarrow> string \<Rightarrow> string \<Rightarrow> 'z files_db_scheme \<Rightarrow> (unit, 'z files_db_scheme) op_res" where
  "storage_put env key data s =
     on_ok (pure_op (fs_resolve (sv_root env) key) s) (\<lambda>p s.
     on_ok (pure_op (storage_io ''write'' (sv_fail env ''write'' p)) s) (\<lambda>_ s.
       ret () (s\<lparr>objects := (p, data) # filter (\<lambda>x. fst x \<noteq> p) (objects s)\<rparr>)))"

definition storage_get :: "files_env \<Rightarrow> string \<Rightarrow> 'z files_db_scheme \<Rightarrow> exn + string" where
  "storage_get env key s =
     and_then (fs_resolve (sv_root env) key) (\<lambda>p.
     and_then (storage_io ''read'' (sv_fail env ''read'' p)) (\<lambda>_.
       (case map_of (objects s) p of
          None \<Rightarrow> Inl (Domain StorageError ''filesystem read failed: No such file or directory'')
        | Some d \<Rightarrow> Inr d)))"

definition storage_delete :: "files_env \<Rightarrow> string \<Rightarrow> 'z files_db_scheme \<Rightarrow> (unit, 'z files_db_scheme) op_res" where
  "storage_delete env key s =
     on_ok (pure_op (fs_resolve (sv_root env) key) s) (\<lambda>p s.
     on_ok (pure_op (storage_io ''delete'' (sv_fail env ''delete'' p)) s) (\<lambda>_ s.
       ret () (s\<lparr>objects := filter (\<lambda>x. fst x \<noteq> p) (objects s)\<rparr>)))"

subsection \<open>The service\<close>

definition FILE_READ :: string where "FILE_READ = ''files.file:read''"
definition FILE_UPLOAD :: string where "FILE_UPLOAD = ''files.file:upload''"
definition FILE_DELETE :: string where "FILE_DELETE = ''files.file:delete''"

definition stamp_file :: "uuid \<Rightarrow> stored_file \<Rightarrow> stored_file" where
  "stamp_file t r = r\<lparr>f_tenant := t\<rparr>"

definition file_conflict :: "stored_file \<Rightarrow> stored_file list \<Rightarrow> bool" where
  "file_conflict r rows = list_ex (\<lambda>x. f_tenant x = f_tenant r \<and> f_key x = f_key r) rows"

interpretation file_tab: tenant_table f_tenant f_id stamp_file
  by unfold_locales (simp_all add: stamp_file_def)

definition storage_key :: "uuid \<Rightarrow> uuid \<Rightarrow> string" where
  "storage_key t i = uuid_str t @ ''/'' @ uuid_str i"

definition upload :: "files_env \<Rightarrow> access option \<Rightarrow> tenant_context \<Rightarrow> string option \<Rightarrow> string option \<Rightarrow> string \<Rightarrow>
    'z files_db_scheme \<Rightarrow> (stored_file, 'z files_db_scheme) op_res" where
  "upload env acc ctx filename declared data s0 =
     on_ok (pure_op (repo_init ctx) s0) (\<lambda>t s.
     on_ok (pure_op (guard_require acc ctx FILE_UPLOAD) s) (\<lambda>_ s.
       if data = [] then raise (Domain InvariantViolationError ''uploaded file is empty'') s
       else if int (length data) > sv_max_bytes env
       then raise (Domain InvariantViolationError ''uploaded file exceeds the maximum allowed size'') s
       else (case sniff_content_type data of
               None \<Rightarrow> raise (Domain InvariantViolationError ''unsupported file type (allowed: images)'') s
             | Some ct \<Rightarrow>
                 if ct \<notin> set (sv_allowed env)
                 then raise (Domain InvariantViolationError ''unsupported file type (allowed: images)'') s
                 else
                   (let (i, s1) = new_uuid7 s;
                        key = storage_key t i;
                        row = \<lparr>f_id = i, f_tenant = t, f_key = key, f_content_type = ct, f_size = int (length data),
                               f_checksum = sv_sha256 env data, f_filename = sanitize_filename filename\<rparr>
                    in on_ok (pure_op (repo_add stamp_file file_conflict t None row (files s1)) s1) (\<lambda>rows s.
                       on_ok (storage_put env key data (s\<lparr>files := rows\<rparr>)) (\<lambda>_ s.
                       on_ok (emit ''files'' ctx ''files.file.uploaded''
                                [(''file_id'', JStr (uuid_str i)), (''content_type'', JStr ct), (''byte_size'', JInt (int (length data)))] s)
                         (\<lambda>_ s. ret row s)))))))"

definition create_thumbnail :: "files_env \<Rightarrow> access option \<Rightarrow> tenant_context \<Rightarrow> uuid \<Rightarrow> int option \<Rightarrow>
    'z files_db_scheme \<Rightarrow> (stored_file, 'z files_db_scheme) op_res" where
  "create_thumbnail env acc ctx source max_edge s0 =
     on_ok (pure_op (repo_init ctx) s0) (\<lambda>t s.
     on_ok (pure_op (repo_get_or_raise ''StoredFile'' f_tenant f_id t source (files s)) s) (\<lambda>src s.
     on_ok (pure_op (storage_get env (f_key src) s) s) (\<lambda>original s.
     on_ok (pure_op (sv_thumbnail env original (case max_edge of Some e \<Rightarrow> e | None \<Rightarrow> sv_max_edge env)) s) (\<lambda>(bytes, ct) s.
       upload env acc ctx None (Some ct) bytes s))))"

definition get_file :: "access option \<Rightarrow> tenant_context \<Rightarrow> uuid \<Rightarrow> 'z files_db_scheme \<Rightarrow> exn + stored_file" where
  "get_file acc ctx i s =
     and_then (repo_init ctx) (\<lambda>t.
     and_then (guard_require acc ctx FILE_READ) (\<lambda>_. repo_get_or_raise ''StoredFile'' f_tenant f_id t i (files s)))"

definition open_file :: "files_env \<Rightarrow> access option \<Rightarrow> tenant_context \<Rightarrow> uuid \<Rightarrow> 'z files_db_scheme \<Rightarrow> exn + (stored_file \<times> string)" where
  "open_file env acc ctx i s =
     and_then (get_file acc ctx i s) (\<lambda>r. and_then (storage_get env (f_key r) s) (\<lambda>d. Inr (r, d)))"

definition delete_file :: "files_env \<Rightarrow> access option \<Rightarrow> tenant_context \<Rightarrow> uuid \<Rightarrow> 'z files_db_scheme \<Rightarrow> (unit, 'z files_db_scheme) op_res" where
  "delete_file env acc ctx i s0 =
     on_ok (pure_op (repo_init ctx) s0) (\<lambda>t s.
     on_ok (pure_op (guard_require acc ctx FILE_DELETE) s) (\<lambda>_ s.
     on_ok (pure_op (repo_get_or_raise ''StoredFile'' f_tenant f_id t i (files s)) s) (\<lambda>r s.
     on_ok (pure_op (repo_delete f_tenant f_id t r (files s)) s) (\<lambda>rows s.
     on_ok (storage_delete env (f_key r) (s\<lparr>files := rows\<rparr>)) (\<lambda>_ s.
     on_ok (emit ''files'' ctx ''files.file.deleted'' [(''file_id'', JStr (uuid_str i))] s) (\<lambda>_ s. ret () s))))))"

text \<open>A unit of work around operations that touch the store.\<close>

definition files_unit_of_work :: "('z files_db_scheme \<Rightarrow> ('a, 'z files_db_scheme) op_res) \<Rightarrow> 'z files_db_scheme \<Rightarrow>
    ('a, 'z files_db_scheme) op_res" where
  "files_unit_of_work body s =
     (case body (s\<lparr>pending_events := []\<rparr>) of
        (Inr x, t) \<Rightarrow> (Inr x, commit t)
      | (Inl e, t) \<Rightarrow> (Inl e, (rollback s t)\<lparr>objects := objects t\<rparr>))"

end
