(* ===== verification/Products.thy ===== *)
theory Products
  imports Files
begin

section \<open>Commerce: the product catalogue and its images\<close>

text \<open>
  \<^verbatim>\<open>modules/commerce/products/service.py\<close> and
  \<^verbatim>\<open>modules/commerce/product_images/service.py\<close>.  The registry of currencies is the argument
  \<open>reg\<close>.
\<close>

datatype product_status = ProdActive | Archived

record product =
  pd_id :: uuid
  pd_tenant :: uuid
  pd_sku :: string
  pd_name :: string
  pd_description :: "string option"
  pd_price :: int
  pd_currency :: string
  pd_status :: product_status
  pd_created :: datetime

record product_image =
  im_id :: uuid
  im_tenant :: uuid
  im_product :: uuid
  im_file :: uuid
  im_thumbnail :: "uuid option"
  im_position :: int
  im_alt :: "string option"
  im_created :: datetime

record products_db = files_db +
  products :: "product list"
  product_images :: "product_image list"

definition stamp_product :: "uuid \<Rightarrow> product \<Rightarrow> product" where
  "stamp_product t r = r\<lparr>pd_tenant := t\<rparr>"

definition product_conflict :: "product \<Rightarrow> product list \<Rightarrow> bool" where
  "product_conflict r rows = list_ex (\<lambda>x. pd_tenant x = pd_tenant r \<and> pd_sku x = pd_sku r) rows"

interpretation product_tab: tenant_table pd_tenant pd_id stamp_product
  by unfold_locales (simp_all add: stamp_product_def)

definition set_product :: "product \<Rightarrow> 'z products_db_scheme \<Rightarrow> 'z products_db_scheme" where
  "set_product p s = s\<lparr>products := upd_where (\<lambda>x. pd_id x = pd_id p) (\<lambda>_. p) (products s)\<rparr>"

definition PRODUCT_READ :: string where "PRODUCT_READ = ''commerce.product:read''"
definition PRODUCT_CREATE :: string where "PRODUCT_CREATE = ''commerce.product:create''"
definition PRODUCT_UPDATE :: string where "PRODUCT_UPDATE = ''commerce.product:update''"

subsection \<open>The catalogue\<close>

definition create_product :: "(string \<rightharpoonup> int) \<Rightarrow> access option \<Rightarrow> tenant_context \<Rightarrow> string \<Rightarrow> string \<Rightarrow> int \<Rightarrow> string \<Rightarrow>
    string option \<Rightarrow> 'z products_db_scheme \<Rightarrow> (product, 'z products_db_scheme) op_res" where
  "create_product reg acc ctx sku name price currency description s0 =
     on_ok (pure_op (repo_init ctx) s0) (\<lambda>t s.
     on_ok (pure_op (guard_require acc ctx PRODUCT_CREATE) s) (\<lambda>_ s.
     on_ok (pure_op (mk_money price currency) s) (\<lambda>_ s.
     on_ok (pure_op (registry_exponent reg currency) s) (\<lambda>_ s.
       if repo_count pd_tenant t (\<lambda>p. pd_sku p = sku) (products s) \<noteq> 0
       then raise (Domain ConflictError (''product with sku '' @ repr_str sku @ '' already exists'')) s
       else
         (let (i, s1) = new_uuid7 s;
              p = \<lparr>pd_id = i, pd_tenant = t, pd_sku = sku, pd_name = name, pd_description = description,
                   pd_price = price, pd_currency = currency, pd_status = ProdActive, pd_created = now s1\<rparr>
          in on_ok (pure_op (repo_add stamp_product product_conflict t None p (products s1)) s1) (\<lambda>rows s.
             on_ok (emit ''products'' ctx ''commerce.product.created'' [(''product_id'', JStr (uuid_str i))] (s\<lparr>products := rows\<rparr>))
               (\<lambda>_ s. ret p s)))))))"

text \<open>The assignments go to the loaded row, so they stand in the state when a later check raises.\<close>

definition update_product :: "(string \<rightharpoonup> int) \<Rightarrow> access option \<Rightarrow> tenant_context \<Rightarrow> uuid \<Rightarrow> string option \<Rightarrow> string option \<Rightarrow>
    int option \<Rightarrow> string option \<Rightarrow> 'z products_db_scheme \<Rightarrow> (product, 'z products_db_scheme) op_res" where
  "update_product reg acc ctx i name description price currency s0 =
     on_ok (pure_op (repo_init ctx) s0) (\<lambda>t s.
     on_ok (pure_op (guard_require acc ctx PRODUCT_UPDATE) s) (\<lambda>_ s.
     on_ok (pure_op (repo_get_or_raise ''Product'' pd_tenant pd_id t i (products s)) s) (\<lambda>p s.
       if pd_status p = Archived then raise (Domain InvariantViolationError ''cannot update an archived product'') s
       else
         (let p1 = (case name of Some n \<Rightarrow> p\<lparr>pd_name := n\<rparr> | None \<Rightarrow> p);
              p2 = (case description of Some d \<Rightarrow> p1\<lparr>pd_description := Some d\<rparr> | None \<Rightarrow> p1);
              p3 = (case price of Some a \<Rightarrow> p2\<lparr>pd_price := a\<rparr> | None \<Rightarrow> p2)
          in on_ok (case currency of
                      None \<Rightarrow> ret p3 (set_product p3 s)
                    | Some c \<Rightarrow> on_ok (pure_op (registry_exponent reg c) (set_product p3 s)) (\<lambda>_ s. ret (p3\<lparr>pd_currency := c\<rparr>) (set_product (p3\<lparr>pd_currency := c\<rparr>) s)))
             (\<lambda>p4 s.
               on_ok (pure_op (mk_money (pd_price p4) (pd_currency p4)) s) (\<lambda>_ s.
               on_ok (emit ''products'' ctx ''commerce.product.updated'' [(''product_id'', JStr (uuid_str (pd_id p4)))] s)
                 (\<lambda>_ s. ret p4 s)))))))"

definition archive_product :: "access option \<Rightarrow> tenant_context \<Rightarrow> uuid \<Rightarrow> 'z products_db_scheme \<Rightarrow> (product, 'z products_db_scheme) op_res" where
  "archive_product acc ctx i s0 =
     on_ok (pure_op (repo_init ctx) s0) (\<lambda>t s.
     on_ok (pure_op (guard_require acc ctx PRODUCT_UPDATE) s) (\<lambda>_ s.
     on_ok (pure_op (repo_get_or_raise ''Product'' pd_tenant pd_id t i (products s)) s) (\<lambda>p s.
       if pd_status p = Archived then ret p s
       else
         (let p' = p\<lparr>pd_status := Archived\<rparr>
          in on_ok (emit ''products'' ctx ''commerce.product.archived'' [(''product_id'', JStr (uuid_str (pd_id p)))] (set_product p' s))
               (\<lambda>_ s. ret p' s)))))"

definition get_product :: "access option \<Rightarrow> tenant_context \<Rightarrow> uuid \<Rightarrow> 'z products_db_scheme \<Rightarrow> exn + product" where
  "get_product acc ctx i s =
     and_then (repo_init ctx) (\<lambda>t.
     and_then (guard_require acc ctx PRODUCT_READ) (\<lambda>_. repo_get_or_raise ''Product'' pd_tenant pd_id t i (products s)))"

text \<open>Newest first: \<^verbatim>\<open>ORDER BY created_at DESC\<close>.\<close>

definition newest_first :: "('r \<Rightarrow> datetime) \<Rightarrow> 'r list \<Rightarrow> 'r list" where
  "newest_first created rows = sort_key (\<lambda>r. - instant (created r)) rows"

definition list_products :: "access option \<Rightarrow> tenant_context \<Rightarrow> page \<Rightarrow> 'z products_db_scheme \<Rightarrow> exn + product page_result" where
  "list_products acc ctx pg s =
     and_then (repo_init ctx) (\<lambda>t.
     and_then (guard_require acc ctx PRODUCT_READ) (\<lambda>_.
       Inr (repo_find_paged pd_tenant t (\<lambda>_. True) (newest_first pd_created) pg (products s))))"

definition ensure_exists :: "tenant_context \<Rightarrow> uuid \<Rightarrow> 'z products_db_scheme \<Rightarrow> exn + unit" where
  "ensure_exists ctx i s =
     and_then (repo_init ctx) (\<lambda>t.
     and_then (repo_get_or_raise ''Product'' pd_tenant pd_id t i (products s)) (\<lambda>_. Inr ()))"

definition get_sale_info :: "tenant_context \<Rightarrow> uuid \<Rightarrow> 'z products_db_scheme \<Rightarrow> exn + money" where
  "get_sale_info ctx i s =
     and_then (repo_init ctx) (\<lambda>t.
     and_then (repo_get_or_raise ''Product'' pd_tenant pd_id t i (products s)) (\<lambda>p.
       if pd_status p \<noteq> ProdActive then Inl (Domain InvariantViolationError ''product is not available for sale'')
       else mk_money (pd_price p) (pd_currency p)))"

subsection \<open>Product images\<close>

definition PRODUCT_IMAGE_READ :: string where "PRODUCT_IMAGE_READ = ''commerce.product_image:read''"
definition PRODUCT_IMAGE_MANAGE :: string where "PRODUCT_IMAGE_MANAGE = ''commerce.product_image:manage''"

definition stamp_image :: "uuid \<Rightarrow> product_image \<Rightarrow> product_image" where
  "stamp_image t r = r\<lparr>im_tenant := t\<rparr>"

interpretation image_tab: tenant_table im_tenant im_id stamp_image
  by unfold_locales (simp_all add: stamp_image_def)

definition attach_image :: "files_env \<Rightarrow> access option \<Rightarrow> tenant_context \<Rightarrow> uuid \<Rightarrow> string option \<Rightarrow> string option \<Rightarrow> string \<Rightarrow>
    string option \<Rightarrow> int \<Rightarrow> 'z products_db_scheme \<Rightarrow> (product_image, 'z products_db_scheme) op_res" where
  "attach_image env acc ctx pid filename declared data alt position s0 =
     on_ok (pure_op (repo_init ctx) s0) (\<lambda>t s.
     on_ok (pure_op (guard_require acc ctx PRODUCT_IMAGE_MANAGE) s) (\<lambda>_ s.
     on_ok (pure_op (ensure_exists ctx pid s) s) (\<lambda>_ s.
     on_ok (upload env acc ctx filename declared data s) (\<lambda>stored s.
     on_ok (create_thumbnail env acc ctx (f_id stored) None s) (\<lambda>thumb s.
       (let (i, s1) = new_uuid7 s;
            im = \<lparr>im_id = i, im_tenant = t, im_product = pid, im_file = f_id stored, im_thumbnail = Some (f_id thumb),
                  im_position = position, im_alt = alt, im_created = now s1\<rparr>
        in on_ok (pure_op (repo_add stamp_image (\<lambda>_ _. False) t None im (product_images s1)) s1) (\<lambda>rows s.
           on_ok (emit ''product_images'' ctx ''commerce.product_image.added''
                    [(''image_id'', JStr (uuid_str i)), (''product_id'', JStr (uuid_str pid)),
                     (''file_id'', JStr (uuid_str (f_id stored))), (''thumbnail_file_id'', JStr (uuid_str (f_id thumb)))]
                    (s\<lparr>product_images := rows\<rparr>)) (\<lambda>_ s. ret im s))))))))"

definition list_images :: "access option \<Rightarrow> tenant_context \<Rightarrow> uuid \<Rightarrow> 'z products_db_scheme \<Rightarrow> exn + product_image list" where
  "list_images acc ctx pid s =
     and_then (repo_init ctx) (\<lambda>t.
     and_then (guard_require acc ctx PRODUCT_IMAGE_READ) (\<lambda>_.
       Inr (sort_key im_position (sort_key im_created (repo_find im_tenant t (\<lambda>r. im_product r = pid) (product_images s))))))"

text \<open>\<open>thumb\<close> selects the variant.\<close>

definition open_image :: "files_env \<Rightarrow> access option \<Rightarrow> tenant_context \<Rightarrow> uuid \<Rightarrow> bool \<Rightarrow> 'z products_db_scheme \<Rightarrow> exn + (stored_file \<times> string)" where
  "open_image env acc ctx i thumb s =
     and_then (repo_init ctx) (\<lambda>t.
     and_then (guard_require acc ctx PRODUCT_IMAGE_READ) (\<lambda>_.
     and_then (repo_get_or_raise ''ProductImage'' im_tenant im_id t i (product_images s)) (\<lambda>im.
       open_file env acc ctx (case im_thumbnail im of Some f \<Rightarrow> if thumb then f else im_file im | None \<Rightarrow> im_file im) s)))"

definition remove_image :: "files_env \<Rightarrow> access option \<Rightarrow> tenant_context \<Rightarrow> uuid \<Rightarrow> 'z products_db_scheme \<Rightarrow> (unit, 'z products_db_scheme) op_res" where
  "remove_image env acc ctx i s0 =
     on_ok (pure_op (repo_init ctx) s0) (\<lambda>t s.
     on_ok (pure_op (guard_require acc ctx PRODUCT_IMAGE_MANAGE) s) (\<lambda>_ s.
     on_ok (pure_op (repo_get_or_raise ''ProductImage'' im_tenant im_id t i (product_images s)) s) (\<lambda>im s.
     on_ok (pure_op (repo_delete im_tenant im_id t im (product_images s)) s) (\<lambda>rows s.
     on_ok (case im_thumbnail im of
              None \<Rightarrow> ret () (s\<lparr>product_images := rows\<rparr>)
            | Some f \<Rightarrow> delete_file env acc ctx f (s\<lparr>product_images := rows\<rparr>)) (\<lambda>_ s.
     on_ok (delete_file env acc ctx (im_file im) s) (\<lambda>_ s.
     on_ok (emit ''product_images'' ctx ''commerce.product_image.removed''
              [(''image_id'', JStr (uuid_str i)), (''product_id'', JStr (uuid_str (im_product im))), (''file_id'', JStr (uuid_str (im_file im)))] s)
       (\<lambda>_ s. ret () s)))))))"

end
