(* ===== verification/Orders.thy ===== *)
theory Orders
  imports Products Payment_Service
begin

section \<open>Commerce: orders\<close>

text \<open>
  \<^verbatim>\<open>modules/commerce/orders/service.py\<close> and its subscribers.  An order is priced through the
  catalogue and paid through the payment service; the outcome of the payment comes back as an event.
\<close>

datatype order_status = OrderPending | OrderPaid | OrderCanceled

record order =
  o_id :: uuid
  o_tenant :: uuid
  o_customer :: uuid
  o_status :: order_status
  o_total :: int
  o_currency :: string
  o_payment :: "uuid option"
  o_created :: datetime

record order_item =
  oi_id :: uuid
  oi_tenant :: uuid
  oi_order :: uuid
  oi_product :: uuid
  oi_quantity :: int
  oi_price :: int
  oi_currency :: string
  oi_created :: datetime

record orders_db = products_db +
  orders :: "order list"
  order_items :: "order_item list"

record order_line =
  ln_product :: uuid
  ln_quantity :: int

record order_checkout_dto =
  oc_order :: uuid
  oc_payment :: uuid
  oc_provider :: string
  oc_url :: string

definition ORDER_READ :: string where "ORDER_READ = ''commerce.order:read''"

definition stamp_order :: "uuid \<Rightarrow> order \<Rightarrow> order" where
  "stamp_order t r = r\<lparr>o_tenant := t\<rparr>"

definition stamp_order_item :: "uuid \<Rightarrow> order_item \<Rightarrow> order_item" where
  "stamp_order_item t r = r\<lparr>oi_tenant := t\<rparr>"

text \<open>The \<^verbatim>\<open>CHECK\<close> constraints that an insertion can violate.\<close>

definition order_check :: "order \<Rightarrow> order list \<Rightarrow> bool" where
  "order_check r rows = (o_total r < 0)"

definition order_item_check :: "order_item \<Rightarrow> order_item list \<Rightarrow> bool" where
  "order_item_check r rows = (oi_quantity r < 1 \<or> oi_price r < 0)"

interpretation order_tab: tenant_table o_tenant o_id stamp_order
  by unfold_locales (simp_all add: stamp_order_def)

interpretation order_item_tab: tenant_table oi_tenant oi_id stamp_order_item
  by unfold_locales (simp_all add: stamp_order_item_def)

definition set_order :: "order \<Rightarrow> 'z orders_db_scheme \<Rightarrow> 'z orders_db_scheme" where
  "set_order r s = s\<lparr>orders := upd_where (\<lambda>x. o_id x = o_id r) (\<lambda>_. r) (orders s)\<rparr>"

subsection \<open>The buyer\<close>

definition customer_id :: "tenant_context \<Rightarrow> exn + uuid" where
  "customer_id ctx =
     (case (act_kind (ctx_actor ctx), actor_id (ctx_actor ctx)) of
        (User, Some i) \<Rightarrow>
          (case uuid_parse i of None \<Rightarrow> Inl (ValueError ''badly formed hexadecimal UUID string'') | Some u \<Rightarrow> Inr u)
      | _ \<Rightarrow> Inl (Domain AuthenticationError ''storefront requires an authenticated buyer''))"

text \<open>\<open>priced\<close> is the list of product, quantity, unit price and currency.\<close>

fun price_lines :: "tenant_context \<Rightarrow> order_line list \<Rightarrow> (uuid \<times> int \<times> int \<times> string) list \<Rightarrow> int \<Rightarrow> string \<Rightarrow>
    'z products_db_scheme \<Rightarrow> exn + (uuid \<times> int \<times> int \<times> string) list \<times> int \<times> string" where
  "price_lines ctx [] priced tot currency s = Inr (priced, tot, currency)"
| "price_lines ctx (l # ls) priced tot currency s =
     and_then (get_sale_info ctx (ln_product l) s) (\<lambda>price.
       if currency \<noteq> [] \<and> currency \<noteq> m_currency price
       then Inl (Domain InvariantViolationError ''order items must share one currency'')
       else price_lines ctx ls (priced @ [(ln_product l, ln_quantity l, m_amount price, m_currency price)])
              (tot + m_amount price * ln_quantity l) (if currency = [] then m_currency price else currency) s)"

fun add_items :: "uuid \<Rightarrow> uuid \<Rightarrow> (uuid \<times> int \<times> int \<times> string) list \<Rightarrow> 'z orders_db_scheme \<Rightarrow> (unit, 'z orders_db_scheme) op_res" where
  "add_items t oid [] s = ret () s"
| "add_items t oid ((pid, qty, price, cur) # ps) s =
     (let (i, s1) = new_uuid7 s;
          it = \<lparr>oi_id = i, oi_tenant = t, oi_order = oid, oi_product = pid, oi_quantity = qty, oi_price = price,
                oi_currency = cur, oi_created = now s1\<rparr>
      in on_ok (pure_op (repo_add stamp_order_item order_item_check t None it (order_items s1)) s1)
           (\<lambda>rows s. add_items t oid ps (s\<lparr>order_items := rows\<rparr>)))"

definition order_key :: "uuid \<Rightarrow> string" where
  "order_key i = ''order:'' @ uuid_str i"

definition place_order :: "'z orders_db_scheme pay_env \<Rightarrow> tenant_context \<Rightarrow> order_line list \<Rightarrow> string \<Rightarrow> 'z orders_db_scheme \<Rightarrow>
    (order_checkout_dto, 'z orders_db_scheme) op_res" where
  "place_order env ctx lines provider s0 =
     on_ok (pure_op (repo_init ctx) s0) (\<lambda>t s.
     on_ok (pure_op (customer_id ctx) s) (\<lambda>customer s.
     on_ok (pure_op (price_lines ctx lines [] 0 [] s) s) (\<lambda>(priced, total, currency) s.
       if currency = [] then raise (Domain InvariantViolationError ''order must contain at least one item'') s
       else
         (let (i, s1) = new_uuid7 s;
              r = \<lparr>o_id = i, o_tenant = t, o_customer = customer, o_status = OrderPending, o_total = total,
                   o_currency = currency, o_payment = None, o_created = now s1\<rparr>
          in on_ok (pure_op (repo_add stamp_order order_check t None r (orders s1)) s1) (\<lambda>rows s.
             on_ok (add_items t i priced (s\<lparr>orders := rows\<rparr>)) (\<lambda>_ s.
             on_ok (emit ''orders'' ctx ''commerce.order.created''
                      [(''order_id'', JStr (uuid_str i)), (''customer_user_id'', JStr (uuid_str customer)),
                       (''total_amount'', JInt total), (''currency'', JStr currency)] s) (\<lambda>_ s.
             on_ok (pure_op (mk_money total currency) s) (\<lambda>amount s.
             on_ok (create_payment env ctx amount ''commerce.order'' (uuid_str i) provider (order_key i) None None s) (\<lambda>c s.
               ret \<lparr>oc_order = i, oc_payment = c_payment c, oc_provider = c_provider c, oc_url = c_url c\<rparr>
                   (set_order (r\<lparr>o_payment := Some (c_payment c)\<rparr>) s)))))))))) "

text \<open>A DTO is the order with its lines; every line of the page's orders comes from one query.\<close>

definition order_lines :: "uuid \<Rightarrow> order list \<Rightarrow> order_item list \<Rightarrow> (order \<times> order_item list) list" where
  "order_lines t os items =
     (let its = sort_key oi_created (repo_find oi_tenant t (\<lambda>x. oi_order x \<in> set (map o_id os)) items)
      in map (\<lambda>r. (r, filter (\<lambda>x. oi_order x = o_id r) its)) os)"

definition get_own_order :: "tenant_context \<Rightarrow> uuid \<Rightarrow> 'z orders_db_scheme \<Rightarrow> exn + (order \<times> order_item list)" where
  "get_own_order ctx i s =
     and_then (repo_init ctx) (\<lambda>t.
     and_then (repo_get_or_raise ''Order'' o_tenant o_id t i (orders s)) (\<lambda>r.
     and_then (customer_id ctx) (\<lambda>c.
       if o_customer r \<noteq> c then Inl (Domain NotFoundError (''Order '' @ uuid_str i @ '' not found''))
       else Inr (hd (order_lines t [r] (order_items s))))))"

definition orders_page :: "uuid \<Rightarrow> order page_result \<Rightarrow> 'z orders_db_scheme \<Rightarrow> (order \<times> order_item list) page_result" where
  "orders_page t pr s =
     \<lparr>pr_items = order_lines t (pr_items pr) (order_items s), pr_total = pr_total pr, pr_limit = pr_limit pr, pr_offset = pr_offset pr\<rparr>"

definition list_own_orders :: "tenant_context \<Rightarrow> page \<Rightarrow> 'z orders_db_scheme \<Rightarrow> exn + (order \<times> order_item list) page_result" where
  "list_own_orders ctx pg s =
     and_then (repo_init ctx) (\<lambda>t.
     and_then (customer_id ctx) (\<lambda>c.
       Inr (orders_page t (repo_find_paged o_tenant t (\<lambda>r. o_customer r = c) (newest_first o_created) pg (orders s)) s)))"

definition list_all_orders :: "access option \<Rightarrow> tenant_context \<Rightarrow> page \<Rightarrow> 'z orders_db_scheme \<Rightarrow> exn + (order \<times> order_item list) page_result" where
  "list_all_orders acc ctx pg s =
     and_then (repo_init ctx) (\<lambda>t.
     and_then (guard_require acc ctx ORDER_READ) (\<lambda>_.
       Inr (orders_page t (repo_find_paged o_tenant t (\<lambda>_. True) (newest_first o_created) pg (orders s)) s)))"

subsection \<open>The payment's outcome\<close>

definition mark_paid :: "tenant_context \<Rightarrow> uuid \<Rightarrow> uuid option \<Rightarrow> bool \<Rightarrow> 'z orders_db_scheme \<Rightarrow> (order option, 'z orders_db_scheme) op_res" where
  "mark_paid ctx i pay late s0 =
     on_ok (pure_op (repo_init ctx) s0) (\<lambda>t s.
       (case repo_get o_tenant o_id t i (orders s) of
          None \<Rightarrow> ret None s
        | Some r \<Rightarrow>
            if o_status r = OrderPaid then ret (Some r) s
            else if o_status r = OrderCanceled \<and> \<not> (late \<and> pay \<noteq> None \<and> o_payment r = pay) then ret None s
            else
              (let revived = (o_status r = OrderCanceled);
                   r' = r\<lparr>o_status := OrderPaid, o_payment := (case pay of Some p \<Rightarrow> Some p | None \<Rightarrow> o_payment r)\<rparr>
               in on_ok (emit ''orders'' ctx ''commerce.order.paid''
                           [(''order_id'', JStr (uuid_str (o_id r))),
                            (''payment_id'', case pay of Some p \<Rightarrow> JStr (uuid_str p) | None \<Rightarrow> JNull),
                            (''late'', JBool revived)] (set_order r' s)) (\<lambda>_ s. ret (Some r') s))))"

definition cancel_order :: "tenant_context \<Rightarrow> uuid \<Rightarrow> string \<Rightarrow> 'z orders_db_scheme \<Rightarrow> (unit, 'z orders_db_scheme) op_res" where
  "cancel_order ctx i reason s0 =
     on_ok (pure_op (repo_init ctx) s0) (\<lambda>t s.
       (case repo_get o_tenant o_id t i (orders s) of
          None \<Rightarrow> ret () s
        | Some r \<Rightarrow>
            if o_status r = OrderPaid \<or> o_status r = OrderCanceled then ret () s
            else on_ok (emit ''orders'' ctx ''commerce.order.canceled''
                          [(''order_id'', JStr (uuid_str (o_id r))), (''reason'', JStr reason)]
                          (set_order (r\<lparr>o_status := OrderCanceled\<rparr>) s)) (\<lambda>_ s. ret () s)))"

subsection \<open>The subscribers\<close>

definition ORDER_TEMPLATES :: "template_def list" where
  "ORDER_TEMPLATES = [\<lparr>td_key = ''commerce.order_paid'', td_channels = [''email''], td_required = [''order_id'', ''amount'', ''currency'']\<rparr>]"

definition is_order_payment :: "envelope \<Rightarrow> string option" where
  "is_order_payment e =
     (if jget (ev_payload e) ''purpose'' \<noteq> JStr ''commerce.order'' then None
      else (let r = jget (ev_payload e) ''reference'' in if jtruthy r then Some (py_str r) else None))"

definition uuid_of :: "string \<Rightarrow> exn + uuid" where
  "uuid_of x = (case uuid_parse x of None \<Rightarrow> Inl (ValueError ''badly formed hexadecimal UUID string'') | Some u \<Rightarrow> Inr u)"

definition mark_order_paid :: "'z orders_db_scheme notif_env \<Rightarrow> tenant_context \<Rightarrow> envelope \<Rightarrow> 'z orders_db_scheme \<Rightarrow>
    (unit, 'z orders_db_scheme) op_res" where
  "mark_order_paid nv ctx e s0 =
     (case is_order_payment e of
        None \<Rightarrow> ret () s0
      | Some ref \<Rightarrow>
          (let raw = jget (ev_payload e) ''payment_id''
           in on_ok (pure_op (repo_init ctx) s0) (\<lambda>_ s.
              on_ok (pure_op (uuid_of ref) s) (\<lambda>i s.
              on_ok (pure_op (if jtruthy raw then and_then (uuid_of (py_str raw)) (\<lambda>p. Inr (Some p)) else Inr None) s) (\<lambda>pay s.
              on_ok (mark_paid ctx i pay (jtruthy (jget (ev_payload e) ''late'')) s) (\<lambda>r s.
                case r of
                  None \<Rightarrow> ret () s
                | Some r \<Rightarrow>
                    on_ok (send nv ctx (UserRecipient (o_customer r)) ''commerce.order_paid''
                             [(''order_id'', JStr (uuid_str (o_id r))), (''amount'', JInt (o_total r)), (''currency'', JStr (o_currency r))]
                             None None (Some (''order_paid:'' @ uuid_str (o_id r))) s) (\<lambda>_ s. ret () s)))))))"

definition cancel_order_on_event :: "tenant_context \<Rightarrow> envelope \<Rightarrow> 'z orders_db_scheme \<Rightarrow> (unit, 'z orders_db_scheme) op_res" where
  "cancel_order_on_event ctx e s0 =
     (case is_order_payment e of
        None \<Rightarrow> ret () s0
      | Some ref \<Rightarrow>
          on_ok (pure_op (repo_init ctx) s0) (\<lambda>_ s.
          on_ok (pure_op (uuid_of ref) s) (\<lambda>i s. cancel_order ctx i (ev_name e) s)))"

end
