(* ===== verification/Request_Context.thy ===== *)
theory Request_Context
  imports Tenants Orders
begin

section \<open>The context of a request, and receipts\<close>

text \<open>
  \<^verbatim>\<open>core/auth/deps.py\<close>: who a request acts for and in which tenant, and the check every protected
  route makes first; \<^verbatim>\<open>core/billing/receipts.py\<close>: the handlers that mail the owner of a tenant what
  was paid and activated, the place where tenants, users, notifications and billing events meet.
\<close>

subsection \<open>Requests\<close>

record http_request =
  rq_authorization :: "string option"
  rq_shop_tenant :: "string option"
  rq_request_id :: "string option"

definition bearer_token :: "http_request \<Rightarrow> string option" where
  "bearer_token rq =
     (let header = (case rq_authorization rq of None \<Rightarrow> [] | Some h \<Rightarrow> h);
          (scheme, token) = partition_on (CHR '' '') header
      in if py_lower scheme \<noteq> ''bearer'' \<or> token = [] then None else Some token)"

text \<open>\<^verbatim>\<open>claims["sub"]\<close>: the decoder requires the claim and checks that it is a string.\<close>

definition subject :: "payload \<Rightarrow> string option" where
  "subject claims = jstr (jget claims ''sub'')"

definition user_context :: "http_request \<Rightarrow> payload \<Rightarrow> uuid option \<Rightarrow> tenant_context" where
  "user_context rq claims t =
     \<lparr>tenant_id = t, ctx_actor = \<lparr>act_kind = User, actor_id = subject claims\<rparr>, request_id = rq_request_id rq, ctx_locale = ''ru''\<rparr>"

definition claimed_tenant :: "payload \<Rightarrow> exn + uuid option" where
  \<comment> \<open>\<^verbatim>\<open>UUID\<close> of anything but a string fails\<close>
  "claimed_tenant claims =
     (let raw = jget claims ''tenant''
      in if \<not> jtruthy raw then Inr None
         else (case raw of
                 JStr x \<Rightarrow> and_then (uuid_of x) (\<lambda>u. Inr (Some u))
               | _ \<Rightarrow> Inl (TypeError ''tenant claim'')))"

definition context_from_request :: "'s auth_env \<Rightarrow> bool \<Rightarrow> http_request \<Rightarrow> exn + tenant_context" where
  "context_from_request env require_auth rq =
     (case bearer_token rq of
        None \<Rightarrow>
          if require_auth then Inl (Domain AuthenticationError ''missing bearer token'')
          else Inr \<lparr>tenant_id = None, ctx_actor = \<lparr>act_kind = System, actor_id = None\<rparr>, request_id = rq_request_id rq, ctx_locale = ''ru''\<rparr>
      | Some token \<Rightarrow>
          and_then (decode_access_token env token) (\<lambda>claims.
          and_then (claimed_tenant claims) (\<lambda>t. Inr (user_context rq claims t))))"

definition storefront_context :: "'s auth_env \<Rightarrow> http_request \<Rightarrow> exn + tenant_context" where
  "storefront_context env rq =
     (case bearer_token rq of
        None \<Rightarrow> Inl (Domain AuthenticationError ''missing bearer token'')
      | Some token \<Rightarrow>
          and_then (decode_access_token env token) (\<lambda>claims.
            (case rq_shop_tenant rq of
               None \<Rightarrow> Inl (Domain InvariantViolationError ''X-Shop-Tenant header is required for storefront access'')
             | Some raw \<Rightarrow>
                 if raw = [] then Inl (Domain InvariantViolationError ''X-Shop-Tenant header is required for storefront access'')
                 else (case uuid_parse raw of
                         None \<Rightarrow> Inl (Domain InvariantViolationError ''X-Shop-Tenant must be a tenant UUID'')
                       | Some shop \<Rightarrow> Inr (user_context rq claims (Some shop))))))"

text \<open>A bundle runs the endpoint in one unit of work under the context.\<close>

definition authed_bundle :: "'z tenants_db_scheme auth_env \<Rightarrow> http_request \<Rightarrow>
    (tenant_context \<Rightarrow> 'z tenants_db_scheme \<Rightarrow> ('a, 'z tenants_db_scheme) op_res) \<Rightarrow> 'z tenants_db_scheme \<Rightarrow> ('a, 'z tenants_db_scheme) op_res" where
  "authed_bundle env rq endpoint s =
     (case context_from_request env True rq of
        Inl e \<Rightarrow> raise e s
      | Inr ctx \<Rightarrow> auth_unit_of_work (endpoint ctx) s)"

definition storefront_bundle :: "'z tenants_db_scheme auth_env \<Rightarrow> http_request \<Rightarrow>
    (tenant_context \<Rightarrow> 'z tenants_db_scheme \<Rightarrow> ('a, 'z tenants_db_scheme) op_res) \<Rightarrow> 'z tenants_db_scheme \<Rightarrow> ('a, 'z tenants_db_scheme) op_res" where
  "storefront_bundle env rq endpoint s =
     (case storefront_context env rq of
        Inl e \<Rightarrow> raise e s
      | Inr ctx \<Rightarrow>
          auth_unit_of_work (\<lambda>s.
            if \<not> current_tenant_is_active ctx s then raise (Domain NotFoundError ''shop not found'') s else endpoint ctx s) s)"

definition require_permission :: "string \<Rightarrow> tenant_context \<Rightarrow> 'z tenants_db_scheme \<Rightarrow> exn + unit" where
  "require_permission code ctx s =
     (case (tenant_id ctx, actor_id (ctx_actor ctx)) of
        (Some _, Some i) \<Rightarrow> and_then (uuid_of i) (\<lambda>u. access_require (tenant_access ctx s) u code)
      | _ \<Rightarrow> Inl (Domain PermissionDeniedError ''tenant-scoped access token required''))"

definition protected_route :: "'z tenants_db_scheme auth_env \<Rightarrow> string \<Rightarrow> http_request \<Rightarrow>
    (tenant_context \<Rightarrow> 'z tenants_db_scheme \<Rightarrow> ('a, 'z tenants_db_scheme) op_res) \<Rightarrow> 'z tenants_db_scheme \<Rightarrow> ('a, 'z tenants_db_scheme) op_res" where
  \<comment> \<open>the dependency and the endpoint share the bundle of the request\<close>
  "protected_route env code rq endpoint =
     authed_bundle env rq (\<lambda>ctx s. on_ok (pure_op (require_permission code ctx s) s) (\<lambda>_ s. endpoint ctx s))"

definition bundle_user_id :: "tenant_context \<Rightarrow> exn + uuid" where
  "bundle_user_id ctx =
     (case (act_kind (ctx_actor ctx), actor_id (ctx_actor ctx)) of
        (User, Some i) \<Rightarrow> uuid_of i
      | _ \<Rightarrow> Inl (Domain AuthenticationError ''authenticated user required''))"

subsection \<open>Receipts\<close>

definition BILLING_TEMPLATES :: "template_def list" where
  "BILLING_TEMPLATES =
     [\<lparr>td_key = ''billing.payment_succeeded'', td_channels = [''email''], td_required = [''amount'', ''currency'']\<rparr>,
      \<lparr>td_key = ''billing.subscription_activated'', td_channels = [''email''], td_required = [''plan_code'']\<rparr>]"

definition send_receipt :: "'z tenants_db_scheme notif_env \<Rightarrow> tenant_context \<Rightarrow> string \<Rightarrow> payload \<Rightarrow> string \<Rightarrow>
    'z tenants_db_scheme \<Rightarrow> (unit, 'z tenants_db_scheme) op_res" where
  "send_receipt nv ctx template context dedup s =
     (case tenant_id ctx of
        None \<Rightarrow> ret () s
      | Some t \<Rightarrow>
          (case get_owner_user_id t s of
             None \<Rightarrow> ret () s
           | Some owner \<Rightarrow>
               on_ok (send (nv\<lparr>nv_directory := Some (\<lambda>u. get_contact u s)\<rparr>) ctx (UserRecipient owner) template context None None (Some dedup) s)
                 (\<lambda>_ s. ret () s)))"

definition send_payment_receipt :: "'z tenants_db_scheme notif_env \<Rightarrow> tenant_context \<Rightarrow> envelope \<Rightarrow>
    'z tenants_db_scheme \<Rightarrow> (unit, 'z tenants_db_scheme) op_res" where
  "send_payment_receipt nv ctx e s =
     (let p = ev_payload e; i = py_str (jget_or p ''payment_id'' (JStr []))
      in send_receipt nv ctx ''billing.payment_succeeded''
           [(''amount'', jget p ''amount''), (''currency'', jget p ''currency''), (''payment_id'', JStr i)]
           (''receipt:payment:'' @ i) s)"

definition send_subscription_activated :: "'z tenants_db_scheme notif_env \<Rightarrow> tenant_context \<Rightarrow> envelope \<Rightarrow>
    'z tenants_db_scheme \<Rightarrow> (unit, 'z tenants_db_scheme) op_res" where
  "send_subscription_activated nv ctx e s =
     (let p = ev_payload e; i = py_str (jget_or p ''subscription_id'' (JStr []))
      in send_receipt nv ctx ''billing.subscription_activated''
           [(''plan_code'', jget p ''plan_code''), (''subscription_id'', JStr i)]
           (''receipt:subscription_activated:'' @ i) s)"

end
