(* ===== verification/System_Example.thy ===== *)
theory System_Example
  imports Tenants Billing_Example
begin

section \<open>A concrete platform\<close>

text \<open>
  One active tenant with its owner and a second member, the system roles with their grants, and
  one-to-one stand-ins for the libraries: hashing prefixes its input, tokens are numbered.
\<close>

definition ex_user :: "uuid \<Rightarrow> string \<Rightarrow> user" where
  "ex_user i email = \<lparr>u_id = i, u_email = email, u_password = ''h:pw'', u_full_name = None, u_phone = None, u_locale = ''uz'',
     u_superuser = False, u_status = UserActive, u_last_login = None\<rparr>"

definition ex_role :: "uuid \<Rightarrow> string \<Rightarrow> role" where
  "ex_role i code = \<lparr>rl_id = i, rl_tenant = None, rl_code = code, rl_name = code, rl_system = True\<rparr>"

definition ex_member :: "uuid \<Rightarrow> uuid \<Rightarrow> uuid \<Rightarrow> membership" where
  "ex_member i u r = \<lparr>mb_id = i, mb_tenant = 1, mb_user = u, mb_role = r, mb_status = MemberActive, mb_created = ex_now\<rparr>"

definition ex_tenant :: tenant where
  "ex_tenant = \<lparr>tn_id = 1, tn_name = ''Shop'', tn_slug = ''shop'', tn_owner = 2, tn_status = TenantActive, tn_locale = ''ru'', tn_created = ex_now\<rparr>"

definition ex_platform :: tenants_db where
  "ex_platform = \<lparr>now = ex_now, uuid_gen = (\<lambda>k. k + 1000), uuid_next = 0, pending_events = [], published = [], audit_log = [],
     processed_events = [], plans = [], subs = [], payments = [], webhooks = [],
     outbox = [], notification_settings = [], sms_counters = [],
     users = [ex_user 2 ''a@x'', ex_user 3 ''b@x''], totps = [], recovery_codes = [], refresh_tokens = [], redis_db = [], token_next = 0,
     early_commit = False,
     tenants = [ex_tenant], memberships = [ex_member 20 2 10, ex_member 21 3 11], roles = [ex_role 10 ROLE_OWNER, ex_role 11 ROLE_MEMBER],
     role_permissions = [(10, MEMBER_REMOVE), (10, MEMBER_UPDATE_ROLE), (10, MEMBER_INVITE), (11, TENANT_READ)], invitations = []\<rparr>"

definition ex_owner_ctx :: tenant_context where
  "ex_owner_ctx = mk_ctx (Some 1) \<lparr>act_kind = User, actor_id = Some (uuid_str 2)\<rparr>"

definition ex_system_ctx :: tenant_context where
  "ex_system_ctx = mk_ctx (Some 1) \<lparr>act_kind = System, actor_id = None\<rparr>"

end
