(* ===== verification/Notification_Properties.thy ===== *)
theory Notification_Properties
  imports Notification_Laws Request_Context System_Example
begin

section \<open>Properties of the notifications\<close>

text \<open>
  The outbox stays well-formed, a pass of the dispatcher moves each row by at most one attempt, and a
  receipt is queued once however often its event is delivered.
\<close>

subsection \<open>Well-formedness\<close>






subsection \<open>The dispatcher\<close>




definition ex_notif_env :: "tenants_db notif_env" where
  "ex_notif_env = \<lparr>nv_registry = map (\<lambda>d. (td_key d, d)) BILLING_TEMPLATES, nv_directory = None, nv_race = (\<lambda>s. s)\<rparr>"




subsection \<open>Receipts\<close>

definition send_ready :: "'s notif_env \<Rightarrow> recipient \<Rightarrow> string \<Rightarrow> payload \<Rightarrow> string list option \<Rightarrow> bool" where
  \<comment> \<open>the checks of \<^const>\<open>send\<close> that do not read the tables\<close>
  "send_ready env rcp template context channels \<longleftrightarrow>
     (\<exists>tdef addresses l. registry_get (nv_registry env) template = Inr tdef
        \<and> filter (\<lambda>c. c \<notin> set KNOWN_CHANNELS) (remdups (case channels of Some cs \<Rightarrow> cs | None \<Rightarrow> td_channels tdef)) = []
        \<and> filter (\<lambda>k. \<not> jhas context k) (remdups (td_required tdef)) = []
        \<and> resolve_addresses (nv_directory env) rcp (case channels of Some cs \<Rightarrow> cs | None \<Rightarrow> td_channels tdef) = Inr (addresses, l)
        \<and> addresses \<noteq> [])"

lemma send_ok_ready:
  assumes "send env ctx rcp template context channels loc dedup s = (Inr n, s')"
  shows "send_ready env rcp template context channels"
proof -
  from assms obtain tdef where t: "registry_get (nv_registry env) template = Inr tdef"
    by (cases "registry_get (nv_registry env) template") (simp_all add: send_def)
  let ?sel = "case channels of Some cs \<Rightarrow> cs | None \<Rightarrow> td_channels tdef"
  have u: "filter (\<lambda>c. c \<notin> set KNOWN_CHANNELS) (remdups ?sel) = []"
    by (rule ccontr) (use assms t in \<open>simp add: send_def Let_def\<close>)
  have m: "filter (\<lambda>k. \<not> jhas context k) (remdups (td_required tdef)) = []"
    by (rule ccontr) (use assms t u in \<open>simp add: send_def Let_def\<close>)
  from assms t u m obtain addresses l where a: "resolve_addresses (nv_directory env) rcp ?sel = Inr (addresses, l)"
    by (cases "resolve_addresses (nv_directory env) rcp ?sel") (auto simp: send_def Let_def)
  have "addresses \<noteq> []" by (rule ccontr) (use assms t u m a in \<open>simp add: send_def Let_def\<close>)
  with t u m a show ?thesis unfolding send_ready_def by blast
qed

lemma send_known:
  assumes "send_ready env rcp template context channels" and "notification_id_for_dedup (tenant_id ctx) key (outbox s) = Some n"
  shows "send env ctx rcp template context channels loc (Some key) s = (Inr n, s)"
  using assms unfolding send_ready_def by (auto simp: send_def Let_def)

lemma send_leaves_key:
  assumes "send env ctx rcp template context channels loc (Some key) s = (Inr n, s')"
  shows "\<exists>m. notification_id_for_dedup (tenant_id ctx) key (outbox s') = Some m"
  using assms
proof (rule send_cases)
  fix nid addresses rows s2 resolved
  assume rows: "rows = fst (outbox_rows nid (Some key) ctx template resolved (jsonable context) addresses (s\<lparr>uuid_next := Suc (uuid_next s)\<rparr>))"
    and a: "addresses \<noteq> []" and s': "s' = (nv_race env s2)\<lparr>outbox := outbox (nv_race env s2) @ rows\<rparr>"
  have "map ob_channel rows = map fst addresses" unfolding rows by (rule outbox_rows_channels)
  then obtain r where "r \<in> set rows" using a by (cases rows) auto
  then have r: "r \<in> set (fst (outbox_rows nid (Some key) ctx template resolved (jsonable context) addresses (s\<lparr>uuid_next := Suc (uuid_next s)\<rparr>)))"
    unfolding rows .
  have "r \<in> set (outbox s')" using r unfolding rows s' by simp
  moreover have "ob_dedup r = Some key \<and> ob_tenant r = tenant_id ctx" using outbox_rows_fields(2) [OF r] by blast
  ultimately have "find (\<lambda>r. ob_dedup r = Some key \<and> ob_tenant r = tenant_id ctx) (outbox s') \<noteq> None" unfolding find_None_set by blast
  then show ?thesis by (auto simp: notification_id_for_dedup_def)
qed auto

lemma send_other_tables:
  assumes "send env ctx rcp template context channels loc dedup s = (Inr n, s')"
    and "\<And>s. get_owner_user_id t (nv_race env s) = get_owner_user_id t s \<and> get_contact u (nv_race env s) = get_contact u s"
  shows "get_owner_user_id t s' = get_owner_user_id t s \<and> get_contact u s' = get_contact u s"
proof -
  have keep: "get_owner_user_id t (s\<lparr>uuid_next := k\<rparr>) = get_owner_user_id t s" "get_contact u (s\<lparr>uuid_next := k\<rparr>) = get_contact u s"
    "get_owner_user_id t (s\<lparr>outbox := rows\<rparr>) = get_owner_user_id t s" "get_contact u (s\<lparr>outbox := rows\<rparr>) = get_contact u s" for s k rows
    by (simp_all add: get_owner_user_id_def find_tenant_def get_contact_def global_get_def)
  from assms(1) show ?thesis
  proof (rule send_cases)
    fix nid addresses rows s2 resolved
    assume s2: "s2 = s\<lparr>uuid_next := uuid_next s2\<rparr>" and s': "s' = (nv_race env s2)\<lparr>outbox := outbox (nv_race env s2) @ rows\<rparr>"
    show ?thesis unfolding s' keep using assms(2) [of s2] keep(1,2) [of "uuid_next s2" s] s2 by simp
  qed auto
qed

text \<open>C28. Receipts: once the receipt of a payment is queued, delivering the event again queues nothing, so that a
  reliable bus that delivers at least once mails the owner once.  Other transactions may add notifications
  meanwhile; they leave the tenant and its owner alone.\<close>

theorem receipt_once:
  assumes "send_payment_receipt nv ctx e s = (Inr (), s1)"
    and "\<And>s t u. get_owner_user_id t (nv_race nv s) = get_owner_user_id t s \<and> get_contact u (nv_race nv s) = get_contact u s"
  shows "send_payment_receipt nv ctx e s1 = (Inr (), s1)"
proof (cases "tenant_id ctx")
  case None
  then show ?thesis by (simp add: send_payment_receipt_def send_receipt_def Let_def)
next
  case (Some t)
  let ?i = "py_str (jget_or (ev_payload e) ''payment_id'' (JStr []))"
  let ?c = "[(''amount'', jget (ev_payload e) ''amount''), (''currency'', jget (ev_payload e) ''currency''), (''payment_id'', JStr ?i)]"
  let ?run = "\<lambda>w s. send (nv\<lparr>nv_directory := Some (\<lambda>u. get_contact u s)\<rparr>) ctx (UserRecipient w) ''billing.payment_succeeded'' ?c None None
      (Some (''receipt:payment:'' @ ?i)) s"
  have rcpt: "send_payment_receipt nv ctx e s =
      (case get_owner_user_id t s of None \<Rightarrow> ret () s | Some owner \<Rightarrow> on_ok (?run owner s) (\<lambda>_ s. ret () s))" for s
    by (simp add: send_payment_receipt_def send_receipt_def Let_def Some split: option.splits)
  show ?thesis
  proof (cases "get_owner_user_id t s")
    case None
    then show ?thesis using assms(1) rcpt [of s] rcpt [of s1] by simp
  next
    case (Some w')
    from assms(1) [unfolded rcpt Some] obtain n where run: "?run w' s = (Inr n, s1)"
      by (auto simp: on_ok_Inr_iff)
    have same: "get_owner_user_id t s1 = Some w'" "get_contact w' s1 = get_contact w' s"
      using send_other_tables [OF run] assms(2) Some by simp_all
    from send_ok_ready [OF run] have "send_ready (nv\<lparr>nv_directory := Some (\<lambda>u. get_contact u s1)\<rparr>) (UserRecipient w') ''billing.payment_succeeded'' ?c None"
      unfolding send_ready_def using same(2) by (simp add: resolve_addresses_def)
    then obtain m where "?run w' s1 = (Inr m, s1)" using send_leaves_key [OF run] send_known by blast
    then show ?thesis using same(1) rcpt [of s1] by simp
  qed
qed

definition ex_paid :: envelope where
  "ex_paid = \<lparr>event_id = 70, ev_name = ''billing.payment.succeeded'', ev_version = 1, occurred_at = ex_now, ev_tenant = Some 1,
     ev_actor = \<lparr>act_kind = System, actor_id = None\<rparr>,
     ev_payload = [(''payment_id'', JStr ''p1''), (''amount'', JInt 5), (''currency'', JStr ''UZS'')]\<rparr>"

lemma ex_receipt:
  "fst (send_payment_receipt ex_notif_env ex_system_ctx ex_paid ex_platform) = Inr ()
   \<and> length (outbox (snd (send_payment_receipt ex_notif_env ex_system_ctx ex_paid ex_platform))) = 1"
  by (simp add: send_payment_receipt_def send_receipt_def send_def ex_notif_env_def ex_system_ctx_def mk_ctx_def ex_paid_def ex_platform_def
      get_owner_user_id_def find_tenant_def ex_tenant_def get_contact_def global_get_def ex_user_def BILLING_TEMPLATES_def registry_get_def
      KNOWN_CHANNELS_def CHANNEL_CONFIG_FIELDS_def jhas_def jget_def jget_or_def resolve_addresses_def user_addresses_def USER_PROFILE_CHANNELS_def
      notification_id_for_dedup_def new_uuid7_def outbox_conflict_def Let_def cong: run_cong)

theorem receipt_once_witness:
  "send_payment_receipt ex_notif_env ex_system_ctx ex_paid (snd (send_payment_receipt ex_notif_env ex_system_ctx ex_paid ex_platform))
     = (Inr (), snd (send_payment_receipt ex_notif_env ex_system_ctx ex_paid ex_platform))
   \<and> length (outbox (snd (send_payment_receipt ex_notif_env ex_system_ctx ex_paid ex_platform))) = 1"
proof -
  have "send_payment_receipt ex_notif_env ex_system_ctx ex_paid ex_platform
      = (Inr (), snd (send_payment_receipt ex_notif_env ex_system_ctx ex_paid ex_platform))"
    using ex_receipt by (metis prod.collapse)
  from receipt_once [OF this] show ?thesis using ex_receipt by (simp add: ex_notif_env_def)
qed

end
