(* ===== verification/Feature_Loader.thy ===== *)
theory Feature_Loader
  imports Shared_Kernel Python_Text "HOL-Library.List_Lexorder" "HOL-Library.Char_ord"
begin

section \<open>Feature manifests, their order and their transfer\<close>

text \<open>
  \<^verbatim>\<open>modules/loader.py\<close>: reading the manifests of the enabled modules, checking what they require and
  the order in which they are installed; \<^verbatim>\<open>tools/add_feature.py\<close>: copying a feature with what it
  requires into another project.  The parsed content of a manifest file is the input; a project tree is
  its directories, and messages name a folder by its feature.
\<close>

subsection \<open>Manifests\<close>

record feature_manifest =
  fm_name :: string
  fm_module :: string
  fm_feature :: string
  fm_description :: string
  fm_requires_features :: "string list"
  fm_requires_core :: "string list"
  fm_owns_tables :: "string list"
  fm_publishes_events :: "string list"
  fm_listens_events :: "string list"

type_synonym manifests = "(string \<times> feature_manifest) list"

definition CORE_MODULES :: "string list" where
  "CORE_MODULES = [''auth'', ''tenants'', ''billing'', ''notifications'', ''audit'', ''admin'', ''files'']"

definition feature_error :: "string \<Rightarrow> exn" where
  \<comment> \<open>\<^verbatim>\<open>FeatureError\<close> is a \<^verbatim>\<open>RuntimeError\<close>\<close>
  "feature_error m = RuntimeError m"

definition feature_package :: "feature_manifest \<Rightarrow> string" where
  "feature_package m = ''modules.'' @ fm_module m @ ''.'' @ fm_feature m"

fun all_strings :: "json list \<Rightarrow> string list option" where
  "all_strings [] = Some []"
| "all_strings (j # js) = (case (jstr j, all_strings js) of (Some x, Some xs) \<Rightarrow> Some (x # xs) | _ \<Rightarrow> None)"

definition as_str_tuple :: "json \<Rightarrow> string \<Rightarrow> string \<Rightarrow> exn + string list" where
  "as_str_tuple v key name =
     (case v of
        JNull \<Rightarrow> Inr []
      | JArr xs \<Rightarrow> (case all_strings xs of
                      Some ys \<Rightarrow> Inr ys
                    | None \<Rightarrow> Inl (feature_error (''feature '' @ repr_str name @ '': '' @ key @ '' must be a list of strings'')))
      | _ \<Rightarrow> Inl (feature_error (''feature '' @ repr_str name @ '': '' @ key @ '' must be a list of strings'')))"

datatype toml_file = NoToml | Malformed string | Toml payload

definition read_manifest :: "string \<Rightarrow> string \<Rightarrow> toml_file \<Rightarrow> exn + feature_manifest" where
  "read_manifest module feature toml =
     (let expected = module @ ''.'' @ feature
      in case toml of
           NoToml \<Rightarrow> Inl (feature_error (''no feature.toml in '' @ feature))
         | Malformed msg \<Rightarrow> Inl (feature_error (''malformed feature.toml: '' @ msg))
         | Toml data \<Rightarrow>
             if jget data ''name'' \<noteq> JStr expected
             then Inl (feature_error (''feature.toml name '' @ py_repr (jget data ''name'') @ '' must equal '' @ repr_str expected
                         @ '' (derived from the folder path)''))
             else
               and_then (as_str_tuple (jget data ''requires_features'') ''requires_features'' expected) (\<lambda>rf.
               and_then (as_str_tuple (jget data ''requires_core'') ''requires_core'' expected) (\<lambda>rcore.
               and_then (as_str_tuple (jget data ''owns_tables'') ''owns_tables'' expected) (\<lambda>tables.
               and_then (as_str_tuple (jget data ''publishes_events'') ''publishes_events'' expected) (\<lambda>pub.
               and_then (as_str_tuple (jget data ''listens_events'') ''listens_events'' expected) (\<lambda>lis.
                 Inr \<lparr>fm_name = expected, fm_module = module, fm_feature = feature,
                      fm_description = py_str (jget_or data ''description'' (JStr [])),
                      fm_requires_features = rf, fm_requires_core = rcore, fm_owns_tables = tables,
                      fm_publishes_events = pub, fm_listens_events = lis\<rparr>))))))"

text \<open>The folders of a project: per module its feature folders with their manifest file.\<close>

type_synonym modules_tree = "(string \<times> (string \<times> toml_file) list) list"

fun put_manifest :: "string \<Rightarrow> feature_manifest \<Rightarrow> manifests \<Rightarrow> manifests" where
  \<comment> \<open>\<^verbatim>\<open>manifests[name] = manifest\<close>\<close>
  "put_manifest k m [] = [(k, m)]"
| "put_manifest k m ((k', m') # rest) = (if k = k' then (k, m) # rest else (k', m') # put_manifest k m rest)"

fun discover_features :: "string \<Rightarrow> (string \<times> toml_file) list \<Rightarrow> manifests \<Rightarrow> exn + manifests" where
  "discover_features module [] ms = Inr ms"
| "discover_features module ((f, toml) # fs) ms =
     and_then (read_manifest module f toml) (\<lambda>m. discover_features module fs (put_manifest (fm_name m) m ms))"

fun discover_from :: "modules_tree \<Rightarrow> string list \<Rightarrow> manifests \<Rightarrow> exn + manifests" where
  "discover_from tree [] ms = Inr ms"
| "discover_from tree (module # rest) ms =
     (case map_of tree module of
        None \<Rightarrow> Inl (feature_error (''ENABLED_MODULES lists '' @ repr_str module @ '', but modules/'' @ module @ '' does not exist''))
      | Some fs \<Rightarrow>
          and_then (discover_features module (sort_key fst (filter (\<lambda>(_, toml). toml \<noteq> NoToml) fs)) ms) (\<lambda>ms'. discover_from tree rest ms'))"

definition discover_manifests :: "modules_tree \<Rightarrow> string list \<Rightarrow> exn + manifests" where
  "discover_manifests tree enabled = discover_from tree enabled []"

subsection \<open>Dependencies\<close>

definition dependency_problems :: "manifests \<Rightarrow> string list" where
  "dependency_problems ms =
     concat (map (\<lambda>(_, m).
       map (\<lambda>r. fm_name m @ '' requires feature '' @ repr_str r @ '', which is not installed'')
         (filter (\<lambda>r. r \<notin> fst ` set ms) (fm_requires_features m))
       @ map (\<lambda>r. fm_name m @ '' requires core '' @ repr_str r @ '', which is not a core module'')
           (filter (\<lambda>r. r \<notin> set CORE_MODULES) (fm_requires_core m))) ms)"

definition validate_dependencies :: "manifests \<Rightarrow> exn + unit" where
  "validate_dependencies ms =
     (if dependency_problems ms \<noteq> []
      then Inl (feature_error (''Unsatisfied feature dependencies:'' @ [CHR 10] @ ''- '' @ join_with ([CHR 10] @ ''- '') (dependency_problems ms)))
      else Inr ())"

definition ready :: "manifests \<Rightarrow> string list" where
  "ready remaining =
     sort (map fst (filter (\<lambda>(_, m). list_all (\<lambda>d. d \<notin> fst ` set remaining) (fm_requires_features m)) remaining))"

function install_loop :: "manifests \<Rightarrow> string list \<Rightarrow> exn + string list" where
  "install_loop remaining ordered =
     (if remaining = [] then Inr ordered
      else if ready remaining = []
      then Inl (feature_error (''cyclic feature dependencies among: '' @ join_with '', '' (sort (map fst remaining))))
      else install_loop (filter (\<lambda>(n, _). n \<notin> set (ready remaining)) remaining) (ordered @ ready remaining))"
  by pat_completeness auto
termination
proof (relation "measure (\<lambda>(remaining, _). length remaining)")
  fix remaining :: manifests and ordered :: "string list"
  assume "ready remaining \<noteq> []"
  then obtain n where "n \<in> set (ready remaining)" by (cases "ready remaining") auto
  then obtain m where "(n, m) \<in> set remaining" and n: "n \<in> set (ready remaining)" by (auto simp: ready_def)
  then have "length (filter (\<lambda>(n, _). n \<notin> set (ready remaining)) remaining) < length remaining"
    by (intro length_filter_less [where x = "(n, m)"]) auto
  then show "((filter (\<lambda>(n, _). n \<notin> set (ready remaining)) remaining, ordered @ ready remaining), remaining, ordered)
      \<in> measure (\<lambda>(remaining, _). length remaining)" by simp
qed simp

declare install_loop.simps [simp del]

definition installation_order :: "manifests \<Rightarrow> exn + string list" where
  "installation_order ms = install_loop ms []"

definition ordered_manifests :: "modules_tree \<Rightarrow> string list \<Rightarrow> exn + string list" where
  "ordered_manifests tree enabled =
     and_then (discover_manifests tree enabled) (\<lambda>ms.
     and_then (validate_dependencies ms) (\<lambda>_. installation_order ms))"

subsection \<open>Copying a feature\<close>

text \<open>The depth-first search of \<^verbatim>\<open>_resolve_chain\<close>; the state is what was seen and the order so far.
  The fuel bounds the depth of the recursion: one more than the number of features is enough.\<close>

fun visit :: "nat \<Rightarrow> manifests \<Rightarrow> string \<Rightarrow> string list \<times> string list \<Rightarrow> (exn + (string list \<times> string list)) option"
  and visit_deps :: "nat \<Rightarrow> manifests \<Rightarrow> string \<Rightarrow> string list \<Rightarrow> string list \<times> string list \<Rightarrow> (exn + (string list \<times> string list)) option" where
  "visit 0 ms name st = None"
| "visit (Suc n) ms name (seen, order) =
     (if name \<in> set seen then Some (Inr (seen, order))
      else (case map_of ms name of
              None \<Rightarrow> Some (Inl (LookupError name))
            | Some m \<Rightarrow>
                (case visit_deps n ms name (fm_requires_features m) (name # seen, order) of
                   Some (Inr (seen', order')) \<Rightarrow> Some (Inr (seen', order' @ [name]))
                 | r \<Rightarrow> r)))"
| "visit_deps n ms name [] st = Some (Inr st)"
| "visit_deps n ms name (d # ds) st =
     (if d \<notin> fst ` set ms then Some (Inl (feature_error (name @ '' requires '' @ repr_str d @ '', which is missing from the source'')))
      else (case visit n ms d st of
              Some (Inr st') \<Rightarrow> visit_deps n ms name ds st'
            | r \<Rightarrow> r))"

definition resolve_chain :: "string \<Rightarrow> manifests \<Rightarrow> (exn + string list) option" where
  "resolve_chain feature ms =
     (if feature \<notin> fst ` set ms then Some (Inl (feature_error (''unknown feature '' @ repr_str feature @ '' in the source project'')))
      else (case visit (Suc (length ms)) ms feature ([], []) of
              Some (Inr (_, order)) \<Rightarrow> Some (Inr order)
            | Some (Inl e) \<Rightarrow> Some (Inl e)
            | None \<Rightarrow> None))"

text \<open>A target project: the core modules it has and its feature folders with their content.\<close>

record 'c project =
  pj_core :: "string list"
  pj_features :: "(string \<times> 'c) list"

definition require_core :: "'c project \<Rightarrow> feature_manifest list \<Rightarrow> exn + unit" where
  "require_core target chain =
     (let missing = sort (remdups (filter (\<lambda>c. c \<notin> set (pj_core target)) (concat (map fm_requires_core chain))))
      in if missing \<noteq> [] then Inl (feature_error (''target project lacks required core module(s): '' @ join_with '', '' missing)) else Inr ())"

fun copy_chain :: "bool \<Rightarrow> string \<Rightarrow> (string \<Rightarrow> 'c) \<Rightarrow> string list \<Rightarrow> string list \<Rightarrow> 'c project \<Rightarrow> (exn, string list, 'c project) res" where
  "copy_chain force feature content [] copied target = (Inr copied, target)"
| "copy_chain force feature content (name # rest) copied target =
     (if name \<in> fst ` set (pj_features target)
      then if name \<noteq> feature then copy_chain force feature content rest copied target
           else if \<not> force then (Inl (feature_error (name @ '' already exists (use --force to overwrite)'')), target)
           else copy_chain force feature content rest (copied @ [name])
                  (target\<lparr>pj_features := (name, content name) # filter (\<lambda>(n, _). n \<noteq> name) (pj_features target)\<rparr>)
      else copy_chain force feature content rest (copied @ [name]) (target\<lparr>pj_features := (name, content name) # pj_features target\<rparr>))"

definition add_feature :: "bool \<Rightarrow> bool \<Rightarrow> string \<Rightarrow> (string \<Rightarrow> 'c) \<Rightarrow> exn + manifests \<Rightarrow> 'c project \<Rightarrow> (exn, string list, 'c project) res option" where
  \<comment> \<open>\<open>same\<close>: the target is the source project; \<open>found\<close>: what discovery finds in the source\<close>
  "add_feature same force feature content found target =
     (if same then Some (Inl (feature_error ''target is the source project itself; nothing to copy''), target)
      else (case found of
              Inl e \<Rightarrow> Some (Inl e, target)
            | Inr ms \<Rightarrow>
                (case resolve_chain feature ms of
                   None \<Rightarrow> None
                 | Some (Inl e) \<Rightarrow> Some (Inl e, target)
                 | Some (Inr chain) \<Rightarrow>
                     (case require_core target (List.map_filter (map_of ms) chain) of
                        Inl e \<Rightarrow> Some (Inl e, target)
                      | Inr _ \<Rightarrow> Some (copy_chain force feature content chain [] target)))))"

end
