(* ===== verification/Loader_Properties.thy ===== *)
theory Loader_Properties
  imports Feature_Loader
begin

section \<open>Properties of the feature loader\<close>

text \<open>
  The installation order is a topological order whenever there is one, and the transfer tool copies
  exactly what a feature needs.
\<close>

definition requires :: "manifests \<Rightarrow> (string \<times> string) set" where
  \<comment> \<open>\<open>(d, n)\<close>: feature \<open>n\<close> requires the feature \<open>d\<close>, and both are present\<close>
  "requires ms = {(d, n). \<exists>m. (n, m) \<in> set ms \<and> d \<in> set (fm_requires_features m) \<and> d \<in> fst ` set ms}"

lemma requires_keys: "(d, n) \<in> requires ms \<Longrightarrow> d \<in> fst ` set ms \<and> n \<in> fst ` set ms"
  unfolding requires_def by (auto intro: rev_image_eqI)

lemma finite_requires: "finite (requires ms)"
  by (rule finite_subset [of _ "fst ` set ms \<times> fst ` set ms"]) (auto dest: requires_keys)

subsection \<open>The installation order\<close>

definition topological :: "manifests \<Rightarrow> string list \<Rightarrow> bool" where
  "topological ms xs \<longleftrightarrow> (\<forall>us n vs d. xs = us @ n # vs \<longrightarrow> (d, n) \<in> requires ms \<longrightarrow> d \<in> set us)"

lemma topological_append:
  assumes "topological ms xs" and "\<And>n d. n \<in> set ys \<Longrightarrow> (d, n) \<in> requires ms \<Longrightarrow> d \<in> set xs"
  shows "topological ms (xs @ ys)"
  unfolding topological_def
proof (intro allI impI)
  fix us n vs d
  assume e: "xs @ ys = us @ n # vs" and d: "(d, n) \<in> requires ms"
  from e consider ws where "xs = us @ n # ws" | ws where "us = xs @ ws" "ys = ws @ n # vs"
    by (auto simp: append_eq_append_conv2 append_eq_Cons_conv Cons_eq_append_conv)
  then show "d \<in> set us"
  proof cases
    case 1
    then show ?thesis using assms(1) d unfolding topological_def by blast
  next
    case 2
    then show ?thesis using assms(2) [OF _ d] by simp
  qed
qed

lemma topological_acyclic:
  assumes "topological ms xs" and "distinct xs" and "fst ` set ms \<subseteq> set xs"
  shows "acyclic (requires ms)"
proof (rule acyclic_subset)
  let ?f = "\<lambda>n. length (takeWhile (\<lambda>x. x \<noteq> n) xs)"
  show "acyclic (measure ?f)" by (intro wf_acyclic wf_measure)
  show "requires ms \<subseteq> measure ?f"
  proof
    fix p assume p: "p \<in> requires ms"
    obtain d n where pd: "p = (d, n)" by force
    with p assms(3) have "n \<in> set xs" using requires_keys by blast
    then obtain us vs where x: "xs = us @ n # vs" by (auto simp: in_set_conv_decomp)
    with assms(1) p pd have d: "d \<in> set us" unfolding topological_def by blast
    then obtain as bs where u: "us = as @ d # bs" "d \<notin> set as" by (auto dest: split_list_first)
    have "n \<notin> set us" using assms(2) x by auto
    then have "takeWhile (\<lambda>y. y \<noteq> n) xs = us" unfolding x by (subst takeWhile_append2) auto
    moreover have "takeWhile (\<lambda>y. y \<noteq> d) xs = as" unfolding x u append_assoc using u(2) by (subst takeWhile_append2) auto
    ultimately show "p \<in> measure ?f" using u pd by simp
  qed
qed

text \<open>The state of the loop: what is ordered is closed under requirements, the rest is what remains.\<close>

definition install_inv :: "manifests \<Rightarrow> manifests \<Rightarrow> string list \<Rightarrow> bool" where
  "install_inv ms remaining ordered \<longleftrightarrow>
     remaining = filter (\<lambda>(n, _). n \<notin> set ordered) ms \<and> set ordered \<subseteq> fst ` set ms \<and> distinct ordered \<and> topological ms ordered"

lemma remaining_keys: "install_inv ms rem ord \<Longrightarrow> fst ` set rem = fst ` set ms - set ord"
  unfolding install_inv_def by force

lemma ready_remaining: "set (ready rem) \<subseteq> fst ` set rem"
  unfolding ready_def by auto

lemma ready_requires:
  assumes "n \<in> set (ready rem)" and "(d, n) \<in> requires ms" and "set rem \<subseteq> set ms" and "distinct (map fst ms)"
  shows "d \<in> fst ` set ms - fst ` set rem"
proof -
  from assms(1) obtain m where m: "(n, m) \<in> set rem" "list_all (\<lambda>d. d \<notin> fst ` set rem) (fm_requires_features m)"
    unfolding ready_def by auto
  from assms(2) obtain m' where m': "(n, m') \<in> set ms" "d \<in> set (fm_requires_features m')" "d \<in> fst ` set ms"
    unfolding requires_def by auto
  have "m' = m" by (rule eq_key_imp_eq_value [OF assms(4) m'(1)]) (use m(1) assms(3) in blast)
  with m m' show ?thesis by (auto simp: list_all_iff)
qed

lemma install_inv_step:
  assumes inv: "install_inv ms rem ord" and keys: "distinct (map fst ms)"
  shows "install_inv ms (filter (\<lambda>(n, _). n \<notin> set (ready rem)) rem) (ord @ ready rem)"
proof -
  from inv have rem: "rem = filter (\<lambda>(n, _). n \<notin> set ord) ms" and ord: "set ord \<subseteq> fst ` set ms" "distinct ord" "topological ms ord"
    unfolding install_inv_def by simp_all
  have sub: "set rem \<subseteq> set ms" unfolding rem by (rule filter_is_subset)
  have rk: "fst ` set rem = fst ` set ms - set ord" by (rule remaining_keys [OF inv])
  have "distinct (map fst rem)" unfolding rem by (rule distinct_map_filter [OF keys])
  then have dist: "distinct (ready rem)" unfolding ready_def distinct_sort by (rule distinct_map_filter)
  have "topological ms (ord @ ready rem)"
    by (rule topological_append [OF ord(3)]) (use ready_requires [OF _ _ sub keys] rk in blast)
  moreover have "set (ord @ ready rem) \<subseteq> fst ` set ms" using ord(1) ready_remaining [of rem] rk by auto
  moreover have "distinct (ord @ ready rem)" using ord(2) dist ready_remaining [of rem] rk by auto
  moreover have "filter (\<lambda>(n, _). n \<notin> set (ready rem)) rem = filter (\<lambda>(n, _). n \<notin> set (ord @ ready rem)) ms"
    by (subst (2) rem) (auto simp: case_prod_unfold intro: filter_cong)
  ultimately show ?thesis unfolding install_inv_def by blast
qed

lemma stuck_cyclic:
  assumes inv: "install_inv ms rem ord" and "rem \<noteq> []" and "ready rem = []"
  shows "\<not> acyclic (requires ms)"
proof
  assume "acyclic (requires ms)"
  then have wf: "wf (requires ms)" by (rule finite_acyclic_wf [OF finite_requires])
  from assms(2) obtain x where x: "x \<in> fst ` set rem" by (cases rem) auto
  obtain n where n: "n \<in> fst ` set rem" and least: "\<And>d. (d, n) \<in> requires ms \<Longrightarrow> d \<notin> fst ` set rem"
    by (rule wfE_min [OF wf x]) blast
  from n obtain m where m: "(n, m) \<in> set rem" by auto
  have "rem = filter (\<lambda>(n, _). n \<notin> set ord) ms" using inv unfolding install_inv_def by simp
  then have rm: "set rem \<subseteq> set ms" by (metis filter_is_subset)
  have "d \<notin> fst ` set rem" if "d \<in> set (fm_requires_features m)" for d
  proof
    assume d: "d \<in> fst ` set rem"
    then have "d \<in> fst ` set ms" using rm by blast
    then have "(d, n) \<in> requires ms" using m rm that unfolding requires_def by blast
    with least d show False by blast
  qed
  then have "(n, m) \<in> set (filter (\<lambda>(_, m). list_all (\<lambda>d. d \<notin> fst ` set rem) (fm_requires_features m)) rem)"
    using m by (simp add: list_all_iff)
  then have "n \<in> set (ready rem)" unfolding ready_def set_sort set_map by (rule rev_image_eqI) simp
  with assms(3) show False by simp
qed

lemma install_loop_correct:
  assumes "install_inv ms rem ord" and "distinct (map fst ms)"
  shows "case install_loop rem ord of
           Inr xs \<Rightarrow> set xs = fst ` set ms \<and> distinct xs \<and> topological ms xs
         | Inl _ \<Rightarrow> \<not> acyclic (requires ms)"
  using assms(1)
proof (induction rem ord rule: install_loop.induct)
  case (1 rem ord)
  consider "rem = []" | "rem \<noteq> []" "ready rem = []" | "rem \<noteq> []" "ready rem \<noteq> []" by blast
  then show ?case
  proof cases
    case 1
    then show ?thesis using "1.prems" remaining_keys [OF "1.prems"] by (auto simp: install_loop.simps [of "[]" ord] install_inv_def)
  next
    case 2
    then show ?thesis using stuck_cyclic [OF "1.prems"] by (simp add: install_loop.simps [of rem ord])
  next
    case 3
    then show ?thesis using "1.IH" [OF 3 install_inv_step [OF "1.prems" assms(2)]] by (simp add: install_loop.simps [of rem ord])
  qed
qed

text \<open>C34. The installation order exists exactly when the requirements have no cycle; then it names every
  feature once, after everything it requires.\<close>

theorem installation_order_correct:
  assumes "distinct (map fst ms)"
  shows "case installation_order ms of
           Inr xs \<Rightarrow> acyclic (requires ms) \<and> set xs = fst ` set ms \<and> distinct xs
                      \<and> (\<forall>us n vs d. xs = us @ n # vs \<longrightarrow> (d, n) \<in> requires ms \<longrightarrow> d \<in> set us)
         | Inl _ \<Rightarrow> \<not> acyclic (requires ms)"
proof -
  have "install_inv ms ms []" by (simp add: install_inv_def topological_def)
  from install_loop_correct [OF this assms] show ?thesis
    using topological_acyclic [of ms] by (auto simp: installation_order_def topological_def split: sum.splits)
qed

definition ex_feature :: "string \<Rightarrow> string list \<Rightarrow> string \<times> feature_manifest" where
  "ex_feature f rs = (f, \<lparr>fm_name = f, fm_module = ''m'', fm_feature = f, fm_description = [], fm_requires_features = rs,
     fm_requires_core = [], fm_owns_tables = [], fm_publishes_events = [], fm_listens_events = []\<rparr>)"

definition ex_features :: manifests where
  "ex_features = [ex_feature ''cart'' [''orders'', ''products''], ex_feature ''orders'' [''products''], ex_feature ''products'' []]"

theorem installation_order_correct_witness:
  "distinct (map fst ex_features) \<and> installation_order ex_features = Inr [''products'', ''orders'', ''cart''] \<and> acyclic (requires ex_features)"
proof -
  have d: "distinct (map fst ex_features)" by (simp add: ex_features_def ex_feature_def)
  have o: "installation_order ex_features = Inr [''products'', ''orders'', ''cart'']"
    by (simp add: installation_order_def ex_features_def ex_feature_def install_loop.simps ready_def)
  from installation_order_correct [OF d] o have "acyclic (requires ex_features)" by simp
  with d o show ?thesis by simp
qed

subsection \<open>The chain of a feature\<close>

text \<open>A depth-first visit adds a list of new features: all reachable, closed under what they require,
  and, when nothing is cyclic, in order.\<close>

definition needs :: "manifests \<Rightarrow> string \<Rightarrow> string list" where
  "needs ms n = (case map_of ms n of None \<Rightarrow> [] | Some m \<Rightarrow> fm_requires_features m)"

abbreviation needs_rel :: "manifests \<Rightarrow> (string \<times> string) set" where
  "needs_rel ms \<equiv> {(n, d). d \<in> set (needs ms n)}"

definition in_order :: "manifests \<Rightarrow> string set \<Rightarrow> string list \<Rightarrow> bool" where
  "in_order ms S new \<longleftrightarrow> (\<forall>us x vs. new = us @ x # vs \<longrightarrow> set (needs ms x) \<subseteq> S \<union> set us)"

lemma in_order_append:
  assumes "in_order ms S xs" and "in_order ms (S \<union> set xs) ys"
  shows "in_order ms S (xs @ ys)"
  unfolding in_order_def
proof (intro allI impI)
  fix us x vs
  assume "xs @ ys = us @ x # vs"
  then consider ws where "xs = us @ x # ws" | ws where "us = xs @ ws" "ys = ws @ x # vs"
    by (auto simp: append_eq_append_conv2 append_eq_Cons_conv Cons_eq_append_conv)
  then show "set (needs ms x) \<subseteq> S \<union> set us"
  proof cases
    case 1
    then show ?thesis using assms(1) unfolding in_order_def by blast
  next
    case 2
    then show ?thesis using assms(2) unfolding in_order_def by fastforce
  qed
qed

lemma in_order_less:
  assumes "in_order ms (insert n S) xs" and "\<And>x. x \<in> set xs \<Longrightarrow> n \<notin> set (needs ms x)"
  shows "in_order ms S xs"
  using assms unfolding in_order_def by fastforce

definition visited :: "manifests \<Rightarrow> string set \<Rightarrow> string list \<times> string list \<Rightarrow> string list \<times> string list \<Rightarrow> string list \<Rightarrow> bool" where
  "visited ms from st st' new \<longleftrightarrow>
     snd st' = snd st @ new \<and> distinct new \<and> set (fst st') = set (fst st) \<union> set new \<and> set new \<inter> set (fst st) = {}
     \<and> from \<subseteq> set (fst st') \<and> set new \<subseteq> (needs_rel ms)\<^sup>* `` from
     \<and> (\<forall>x \<in> set new. set (needs ms x) \<subseteq> set (fst st') \<inter> fst ` set ms)
     \<and> (acyclic (needs_rel ms) \<longrightarrow> in_order ms (set (fst st)) new)"

lemma visited_refl: "from \<subseteq> set (fst st) \<Longrightarrow> visited ms from st st []"
  by (simp add: visited_def in_order_def)

lemma visited_trans:
  assumes "visited ms A st st1 new1" and "visited ms B st1 st2 new2"
  shows "visited ms (A \<union> B) st st2 (new1 @ new2)"
proof -
  note u = assms [unfolded visited_def]
  have "(needs_rel ms)\<^sup>* `` (A \<union> B) = (needs_rel ms)\<^sup>* `` A \<union> (needs_rel ms)\<^sup>* `` B" by (rule Image_Un)
  moreover have "in_order ms (set (fst st)) (new1 @ new2)" if "acyclic (needs_rel ms)"
    using u that by (intro in_order_append) simp_all
  ultimately show ?thesis using u unfolding visited_def by (intro conjI ballI) (simp_all, blast+)
qed

lemma visited_enter:
  assumes "visited ms (set (needs ms n)) (n # seen, order) (seen', order') new" and "n \<notin> set seen" and "set (needs ms n) \<subseteq> fst ` set ms"
  shows "visited ms {n} (seen, order) (seen', order' @ [n]) (new @ [n])"
proof -
  note v = assms(1) [unfolded visited_def fst_conv snd_conv list.simps]
  have "(needs_rel ms)\<^sup>* `` set (needs ms n) \<subseteq> (needs_rel ms)\<^sup>* `` {n}"
    by (auto intro: converse_rtrancl_into_rtrancl)
  then have new: "set new \<subseteq> (needs_rel ms)\<^sup>* `` {n}" using v by blast
  have cl: "\<forall>x \<in> set (new @ [n]). set (needs ms x) \<subseteq> set seen' \<inter> fst ` set ms"
    unfolding set_append list.simps ball_Un using v assms(3) by blast
  have ord: "in_order ms (set seen) (new @ [n])" if ac: "acyclic (needs_rel ms)"
  proof -
    have no: "n \<notin> set (needs ms x)" if "x \<in> set (new @ [n])" for x
    proof
      assume "n \<in> set (needs ms x)"
      moreover have "(n, x) \<in> (needs_rel ms)\<^sup>*" using that new by auto
      ultimately have "(n, n) \<in> (needs_rel ms)\<^sup>+" by (simp add: rtrancl_into_trancl1)
      with ac show False by (auto simp: acyclic_def)
    qed
    have "in_order ms (insert n (set seen)) (new @ [n])"
    proof (rule in_order_append)
      show "in_order ms (insert n (set seen)) new" using v ac by simp
      show "in_order ms (insert n (set seen) \<union> set new) [n]"
        using v by (auto simp: in_order_def Cons_eq_append_conv)
    qed
    then show ?thesis by (rule in_order_less) (rule no)
  qed
  have "set seen' = set seen \<union> set (new @ [n])" "set (new @ [n]) \<inter> set seen = {}" "distinct (new @ [n])" "order' = order @ new"
    using v assms(2) by auto
  then show ?thesis using new cl ord unfolding visited_def by simp
qed

lemma map_of_key: "n \<in> fst ` set ms \<Longrightarrow> \<exists>m. map_of ms n = Some m"
  by (metis domIff dom_map_of_conv_image_fst option.exhaust)

definition missing_need :: "manifests \<Rightarrow> string set \<Rightarrow> bool" where
  "missing_need ms from \<longleftrightarrow> (\<exists>x \<in> (needs_rel ms)\<^sup>* `` from. \<exists>d \<in> set (needs ms x). d \<notin> fst ` set ms)"

lemma missing_need_mono:
  assumes "missing_need ms A" and "A \<subseteq> (needs_rel ms)\<^sup>* `` B"
  shows "missing_need ms B"
proof -
  from assms(1) obtain x d where x: "x \<in> (needs_rel ms)\<^sup>* `` A" and d: "d \<in> set (needs ms x)" "d \<notin> fst ` set ms"
    unfolding missing_need_def by blast
  from x obtain a where a: "a \<in> A" "(a, x) \<in> (needs_rel ms)\<^sup>*" by blast
  from a(1) assms(2) obtain b where b: "b \<in> B" "(b, a) \<in> (needs_rel ms)\<^sup>*" by blast
  have "x \<in> (needs_rel ms)\<^sup>* `` B" by (rule ImageI [OF rtrancl_trans [OF b(2) a(2)] b(1)])
  with d show ?thesis unfolding missing_need_def by blast
qed

lemma visit_correct:
  "name \<in> fst ` set ms \<Longrightarrow>
     (case visit fuel ms name st of
        None \<Rightarrow> fuel \<le> card (fst ` set ms - set (fst st))
      | Some (Inl e) \<Rightarrow> missing_need ms {name}
      | Some (Inr st') \<Rightarrow> \<exists>new. visited ms {name} st st' new)"
  "name \<in> fst ` set ms \<Longrightarrow>
     (case visit_deps fuel ms name ds st of
        None \<Rightarrow> fuel \<le> card (fst ` set ms - set (fst st))
      | Some (Inl e) \<Rightarrow> (\<exists>d \<in> set ds. d \<notin> fst ` set ms) \<or> missing_need ms (set ds)
      | Some (Inr st') \<Rightarrow> set ds \<subseteq> fst ` set ms \<and> (\<exists>new. visited ms (set ds) st st' new))"
proof (induction fuel ms name st and fuel ms name ds st rule: visit_visit_deps.induct)
  case (1 ms name st)
  then show ?case by simp
next
  case (2 n ms name seen order)
  show ?case
  proof (cases "name \<in> set seen")
    case True
    then show ?thesis using visited_refl [of "{name}" "(seen, order)" ms] by auto
  next
    case False
    from map_of_key [OF "2.prems"] obtain m where m: "map_of ms name = Some m" by blast
    then have needs: "needs ms name = fm_requires_features m" by (simp add: needs_def)
    have step: "set (needs ms name) \<subseteq> (needs_rel ms)\<^sup>* `` {name}" by auto
    note ih = "2.IH" [OF False m "2.prems", folded needs]
    show ?thesis
    proof (cases "visit_deps n ms name (needs ms name) (name # seen, order)")
      case None
      have "fst ` set ms - insert name (set seen) \<subset> fst ` set ms - set seen" using "2.prems" False by blast
      then have "card (fst ` set ms - insert name (set seen)) < card (fst ` set ms - set seen)"
        by (intro psubset_card_mono) auto
      then show ?thesis using None ih False m needs by simp
    next
      case (Some r)
      show ?thesis
      proof (cases r)
        case (Inl e)
        then have "missing_need ms {name}"
          using Some ih step missing_need_mono [OF _ step] unfolding missing_need_def [of ms "{name}"] by auto
        then show ?thesis using Some Inl False m needs by simp
      next
        case (Inr st')
        obtain seen' order' where st': "st' = (seen', order')" by force
        from ih Some Inr st' obtain new where v: "visited ms (set (needs ms name)) (name # seen, order) (seen', order') new"
          and k: "set (needs ms name) \<subseteq> fst ` set ms" by auto
        have "visited ms {name} (seen, order) (seen', order' @ [name]) (new @ [name])"
          by (rule visited_enter [OF v False k])
        then show ?thesis using Some Inr st' False m needs by auto
      qed
    qed
  qed
next
  case (3 n ms name st)
  then show ?case using visited_refl [of "{}" st ms] by auto
next
  case (4 n ms name d ds st)
  show ?case
  proof (cases "d \<in> fst ` set ms")
    case False
    then show ?thesis by auto
  next
    case True
    note ih1 = "4.IH"(1) [OF _ True]
    show ?thesis
    proof (cases "visit n ms d st")
      case None
      then show ?thesis using ih1 True by simp
    next
      case (Some r)
      show ?thesis
      proof (cases r)
        case (Inl e)
        then show ?thesis using Some ih1 True missing_need_mono [of ms "{d}" "set (d # ds)"] by auto
      next
        case (Inr st1)
        from ih1 Some Inr True obtain new1 where n1: "visited ms {d} st st1 new1" by auto
        note ih2 = "4.IH"(2) [OF _ Some Inr "4.prems"]
        have "card (fst ` set ms - set (fst st1)) \<le> card (fst ` set ms - set (fst st))"
          using n1 by (intro card_mono) (auto simp: visited_def)
        moreover have "\<exists>new. visited ms (set (d # ds)) st st2 new" if "visited ms (set ds) st1 st2 new2" for st2 new2
          using visited_trans [OF n1 that] by auto
        ultimately show ?thesis
          using ih2 True Some Inr n1 missing_need_mono [of ms "set ds" "set (d # ds)"]
          by (auto split: option.splits sum.splits)
      qed
    qed
  qed
qed

text \<open>C35. The chain of the transfer tool: with the fuel of the model the search always ends; it fails only
  on an unknown feature or where something required is missing; otherwise it lists exactly the feature and
  what it needs, each once, and, when the requirements have no cycle, each after what it requires.\<close>

theorem resolve_chain_correct:
  "case resolve_chain feature ms of
     None \<Rightarrow> False
   | Some (Inl e) \<Rightarrow> feature \<notin> fst ` set ms \<or> (\<exists>x d. (feature, x) \<in> (needs_rel ms)\<^sup>* \<and> d \<in> set (needs ms x) \<and> d \<notin> fst ` set ms)
   | Some (Inr chain) \<Rightarrow>
       set chain = {x. (feature, x) \<in> (needs_rel ms)\<^sup>*} \<and> distinct chain \<and> set chain \<subseteq> fst ` set ms
       \<and> (acyclic (needs_rel ms) \<longrightarrow> (\<forall>us x vs. chain = us @ x # vs \<longrightarrow> set (needs ms x) \<subseteq> set us))"
proof (cases "feature \<in> fst ` set ms")
  case False
  then show ?thesis by (simp add: resolve_chain_def)
next
  case True
  note c = visit_correct(1) [OF True, of "Suc (length ms)" "([], [])"]
  have "card (fst ` set ms) \<le> length ms" by (metis card_length length_map list.set_map)
  with c obtain r where r: "visit (Suc (length ms)) ms feature ([], []) = Some r" by (auto split: option.splits)
  show ?thesis
  proof (cases r)
    case (Inl e)
    then show ?thesis using c r True by (auto simp: resolve_chain_def missing_need_def)
  next
    case (Inr st)
    with c r obtain new where v: "visited ms {feature} ([], []) st new" by auto
    then have n: "snd st = new" "set (fst st) = set new" "distinct new" "feature \<in> set new" "set new \<subseteq> {x. (feature, x) \<in> (needs_rel ms)\<^sup>*}"
      "\<And>x. x \<in> set new \<Longrightarrow> set (needs ms x) \<subseteq> set new \<inter> fst ` set ms" "acyclic (needs_rel ms) \<longrightarrow> in_order ms {} new"
      by (auto simp: visited_def)
    have reach: "x \<in> set new \<and> x \<in> fst ` set ms" if "(feature, x) \<in> (needs_rel ms)\<^sup>*" for x
      using that by (induction rule: rtrancl_induct) (use n True in blast)+
    then have "set new = {x. (feature, x) \<in> (needs_rel ms)\<^sup>*}" using n(5) by blast
    moreover have "resolve_chain feature ms = Some (Inr new)"
      using r Inr True n(1) by (cases st) (simp add: resolve_chain_def del: visit.simps)
    moreover have "set new \<subseteq> fst ` set ms" using reach n(5) by blast
    ultimately show ?thesis using n(3,7) unfolding in_order_def Un_empty_left by simp
  qed
qed

theorem resolve_chain_correct_witness:
  "resolve_chain ''cart'' ex_features = Some (Inr [''products'', ''orders'', ''cart''])
   \<and> set [''products'', ''orders'', ''cart''] = {x. (''cart'', x) \<in> (needs_rel ex_features)\<^sup>*}"
proof -
  have c: "resolve_chain ''cart'' ex_features = Some (Inr [''products'', ''orders'', ''cart''])"
    by (simp add: resolve_chain_def ex_features_def ex_feature_def)
  from resolve_chain_correct [of "''cart''" ex_features] show ?thesis unfolding c by simp
qed

end
