(* ===== verification/App_Edge.thy ===== *)
theory App_Edge
  imports Shared_Kernel Python_Text "HOL-Library.List_Lexorder" "HOL-Library.Char_ord"
begin

section \<open>The edge of the application\<close>

text \<open>
  What the composition root puts around the services: the settings it refuses (\<^verbatim>\<open>shared/config.py\<close>),
  the check of every route at startup (\<^verbatim>\<open>app/startup_checks.py\<close>), the admin screens
  (\<^verbatim>\<open>core/admin\<close>), the masking of log records (\<^verbatim>\<open>app/logging_setup.py\<close>) and the middleware
  (\<^verbatim>\<open>app/middleware.py\<close>).
\<close>

subsection \<open>Settings\<close>

definition split_csv :: "string \<Rightarrow> string list" where
  "split_csv raw = filter (\<lambda>x. x \<noteq> []) (map (strip ch_space) (split_on (CHR '','') raw))"

record settings =
  app_env :: string
  jwt_secret :: string
  secret_encryption_keys :: string
  password_reset_link :: string
  invitation_accept_link :: string
  max_request_body_bytes :: int
  files_max_upload_bytes :: int

definition DEV_JWT_SECRET :: string where "DEV_JWT_SECRET = ''dev-insecure-change-me''"
definition DEV_PASSWORD_RESET_URL :: string where "DEV_PASSWORD_RESET_URL = ''http://localhost:3000/reset-password#token={token}''"
definition DEV_INVITATION_ACCEPT_URL :: string where "DEV_INVITATION_ACCEPT_URL = ''http://localhost:3000/accept-invitation#token={token}''"
definition MIN_JWT_SECRET_BYTES :: nat where "MIN_JWT_SECRET_BYTES = 32"

definition has_sub :: "string \<Rightarrow> string \<Rightarrow> bool" where
  \<comment> \<open>\<^verbatim>\<open>pat in s\<close>\<close>
  "has_sub pat s = list_ex (\<lambda>i. startswith (drop i s) pat) [0..<Suc (length s)]"

definition link_carries_token :: "string \<Rightarrow> exn + string" where
  "link_carries_token v =
     (if \<not> has_sub ''{token}'' v then Inl (ValueError ''emailed one-time links must contain the {token} placeholder'') else Inr v)"

definition config_problems :: "settings \<Rightarrow> string list" where
  "config_problems c =
     (let weak_jwt = length (concat (map utf8_bytes (jwt_secret c))) < MIN_JWT_SECRET_BYTES
      in (if jwt_secret c = DEV_JWT_SECRET \<or> weak_jwt then [''JWT_SECRET must be random, >= '' @ show_nat MIN_JWT_SECRET_BYTES @ '' bytes''] else [])
         @ (if split_csv (secret_encryption_keys c) = [] then [''SECRET_ENCRYPTION_KEYS must hold at least one Fernet key''] else [])
         @ (if password_reset_link c = DEV_PASSWORD_RESET_URL then [''PASSWORD_RESET_URL must point at the production frontend''] else [])
         @ (if invitation_accept_link c = DEV_INVITATION_ACCEPT_URL then [''INVITATION_ACCEPT_URL must point at the production frontend''] else []))"

definition prod_refuses_dev_defaults :: "settings \<Rightarrow> exn + settings" where
  "prod_refuses_dev_defaults c =
     (if app_env c \<noteq> ''prod'' then Inr c
      else if config_problems c \<noteq> [] then Inl (ValueError (''insecure production config: '' @ join_with ''; '' (config_problems c)))
      else Inr c)"

definition validate_settings :: "settings \<Rightarrow> exn + settings" where
  \<comment> \<open>the field validators run before the model validator\<close>
  "validate_settings c =
     and_then (link_carries_token (password_reset_link c)) (\<lambda>_.
     and_then (link_carries_token (invitation_accept_link c)) (\<lambda>_. prod_refuses_dev_defaults c))"

subsection \<open>Routes\<close>

datatype marker = PermissionMarker | AuthenticatedMarker | PublicMarker

definition ALL_MARKER_ATTRS :: "marker list" where
  "ALL_MARKER_ATTRS = [PermissionMarker, AuthenticatedMarker, PublicMarker]"

fun marker_name :: "marker \<Rightarrow> string" where
  "marker_name PermissionMarker = ''__permission__''"
| "marker_name AuthenticatedMarker = ''__authenticated__''"
| "marker_name PublicMarker = ''__public__''"

text \<open>A dependency: the marker attributes its callable has, if it has one, and what it depends on.\<close>

datatype dependant = Dependant "marker list option" "dependant list"

fun dependency_calls :: "dependant \<Rightarrow> marker list list" where
  "dependency_calls (Dependant call subs) =
     (case call of None \<Rightarrow> [] | Some attrs \<Rightarrow> [attrs]) @ concat (map dependency_calls subs)"

definition marker_attrs :: "dependant \<Rightarrow> marker list" where
  "marker_attrs d = concat (map (\<lambda>attrs. filter (\<lambda>a. a \<in> set attrs) ALL_MARKER_ATTRS) (dependency_calls d))"

record route =
  rt_path :: string
  rt_methods :: "string list"
  rt_dependant :: dependant

definition INFRA_PATH_WHITELIST :: "string list" where
  "INFRA_PATH_WHITELIST = [''/health'', ''/ready'', ''/metrics'', ''/docs'', ''/redoc'', ''/openapi.json'', ''/docs/oauth2-redirect'']"

definition ADMIN_PREFIX :: string where "ADMIN_PREFIX = ''/api/admin''"

definition route_problem :: "route \<Rightarrow> string" where
  \<comment> \<open>the dash of the message is outside Latin-1\<close>
  "route_problem r =
     join_with '','' (sort (remdups (rt_methods r))) @ '' '' @ rt_path r @ '' - ''
     @ (let attrs = marker_attrs (rt_dependant r) in if attrs = [] then ''no markers'' else join_with '', '' (map marker_name attrs))"

definition validate_route_permissions :: "route list \<Rightarrow> exn + unit" where
  "validate_route_permissions routes =
     (let problems = map route_problem (filter (\<lambda>r. rt_path r \<notin> set INFRA_PATH_WHITELIST \<and> length (marker_attrs (rt_dependant r)) \<noteq> 1) routes)
      in if problems \<noteq> []
         then Inl (RuntimeError (''Routes without a valid permission declaration '' @
           ''(exactly one of require_permission / authenticated_endpoint / public_endpoint is required):'' @ [CHR 10] @ ''- ''
           @ join_with ([CHR 10] @ ''- '') problems))
         else Inr ())"

definition validate_admin_routes :: "route list \<Rightarrow> exn + unit" where
  "validate_admin_routes routes =
     (let problems = map route_problem (filter (\<lambda>r. startswith (rt_path r) ADMIN_PREFIX \<and> marker_attrs (rt_dependant r) \<noteq> [PermissionMarker]) routes)
      in if problems \<noteq> []
         then Inl (RuntimeError (''Admin routes must carry exactly one require_permission marker '' @
           ''(authenticated_endpoint / public_endpoint are forbidden in admin):'' @ [CHR 10] @ ''- '' @ join_with ([CHR 10] @ ''- '') problems))
         else Inr ())"

definition startup_checks :: "route list \<Rightarrow> exn + unit" where
  "startup_checks routes = and_then (validate_route_permissions routes) (\<lambda>_. validate_admin_routes routes)"

subsection \<open>Admin screens\<close>

text \<open>\<open>as_router\<close> identifies the screen object.\<close>

record admin_screen =
  as_slug :: string
  as_title_key :: string
  as_module :: string
  as_router :: nat
  as_permission :: string

definition SLUG_RE :: "string \<Rightarrow> bool" where
  \<comment> \<open>the dollar of the pattern also matches before a final newline\<close>
  "SLUG_RE x =
     (let y = (if endswith x [CHR 10] then butlast x else x)
      in y \<noteq> [] \<and> (97 \<le> py_ord (hd y) \<and> py_ord (hd y) \<le> 122)
         \<and> list_all (\<lambda>c. (97 \<le> py_ord c \<and> py_ord c \<le> 122) \<or> ch_dec c \<or> c = CHR ''_'' \<or> c = CHR ''-'') y)"

definition register_screen :: "admin_screen \<Rightarrow> (string \<times> admin_screen) list \<Rightarrow> (exn, unit, (string \<times> admin_screen) list) res" where
  "register_screen sc reg =
     (if \<not> SLUG_RE (as_slug sc)
      then (Inl (ValueError (''invalid admin screen slug '' @ repr_str (as_slug sc) @ '': expected a lowercase URL segment'')), reg)
      else (case map_of reg (as_slug sc) of
              Some existing \<Rightarrow> if existing = sc then (Inr (), reg)
                               else (Inl (RuntimeError (''duplicate admin screen slug registered: '' @ as_slug sc)), reg)
            | None \<Rightarrow> (Inr (), reg @ [(as_slug sc, sc)])))"

definition screens :: "(string \<times> admin_screen) list \<Rightarrow> admin_screen list" where
  "screens reg = map snd (sort_key fst reg)"

record screen_info =
  si_slug :: string
  si_title_key :: string
  si_permission :: string
  si_path :: string

definition screens_for :: "access \<Rightarrow> (string \<times> admin_screen) list \<Rightarrow> uuid \<Rightarrow> screen_info list" where
  "screens_for acc reg u =
     map (\<lambda>sc. \<lparr>si_slug = as_slug sc, si_title_key = as_title_key sc, si_permission = as_permission sc, si_path = ADMIN_PREFIX @ ''/'' @ as_slug sc\<rparr>)
       (filter (\<lambda>sc. as_permission sc \<in> set (acc u)) (screens reg))"

subsection \<open>Masking of log records\<close>

definition REDACTED :: json where "REDACTED = JStr ''[redacted]''"

definition SENSITIVE_KEY_MARKERS :: "string list" where
  "SENSITIVE_KEY_MARKERS =
     [''password'', ''token'', ''secret'', ''authorization'', ''api_key'', ''apikey'', ''totp'', ''card_number'', ''cookie'', ''credential'']"

definition MAX_MASK_DEPTH :: nat where "MAX_MASK_DEPTH = 8"

definition is_sensitive_key :: "string \<Rightarrow> bool" where
  "is_sensitive_key key = list_ex (\<lambda>m. has_sub m (py_lower key)) SENSITIVE_KEY_MARKERS"

fun mask_recursive :: "nat \<Rightarrow> json \<Rightarrow> json" where
  \<comment> \<open>the number is what is left of the depth\<close>
  "mask_recursive 0 v = v"
| "mask_recursive (Suc n) (JObj ms) = JObj (map (\<lambda>(k, v). (k, if is_sensitive_key k then REDACTED else mask_recursive n v)) ms)"
| "mask_recursive (Suc n) (JArr xs) = JArr (map (mask_recursive n) xs)"
| "mask_recursive (Suc n) v = v"

definition mask_sensitive_data :: "payload \<Rightarrow> payload" where
  "mask_sensitive_data ev = map (\<lambda>(k, v). (k, if is_sensitive_key k then REDACTED else mask_recursive (MAX_MASK_DEPTH - 1) v)) ev"

subsection \<open>Request identifiers and security headers\<close>

definition safe_request_id :: "string \<Rightarrow> bool" where
  "safe_request_id x =
     (1 \<le> length x \<and> length x \<le> 128
      \<and> list_all (\<lambda>c. (65 \<le> py_ord c \<and> py_ord c \<le> 90) \<or> (97 \<le> py_ord c \<and> py_ord c \<le> 122) \<or> ch_dec c \<or> c \<in> set ''._:-'') x)"

definition edge_request_id :: "string option \<Rightarrow> uuid \<Rightarrow> string" where
  \<comment> \<open>\<open>fresh\<close> is the next UUIDv7\<close>
  "edge_request_id inbound fresh =
     (case inbound of
        Some x \<Rightarrow> if x \<noteq> [] \<and> safe_request_id x then x else fixed_digits 16 32 fresh
      | None \<Rightarrow> fixed_digits 16 32 fresh)"

definition SECURITY_HEADERS :: "(string \<times> string) list" where
  "SECURITY_HEADERS =
     [(''strict-transport-security'', ''max-age=31536000; includeSubDomains''), (''x-content-type-options'', ''nosniff''),
      (''x-frame-options'', ''DENY''), (''referrer-policy'', ''no-referrer'')]"

definition set_default_header :: "(string \<times> string) list \<Rightarrow> string \<times> string \<Rightarrow> (string \<times> string) list" where
  \<comment> \<open>\<^verbatim>\<open>MutableHeaders.setdefault\<close>; header names are compared in lower case\<close>
  "set_default_header hs h = (if list_ex (\<lambda>x. py_lower (fst x) = fst h) hs then hs else hs @ [h])"

definition add_security_headers :: "(string \<times> string) list \<Rightarrow> (string \<times> string) list" where
  "add_security_headers hs = foldl set_default_header hs SECURITY_HEADERS"

subsection \<open>The cap on request bodies\<close>

datatype asgi_out = ResponseStart nat | ResponseBody string

text \<open>What the application does with its end of the exchange: it reads a body chunk of some size, reads
  another kind of message, or sends.\<close>

datatype app_action = ReadChunk nat | ReadOther | Sends asgi_out

record exchange =
  ex_received :: nat
  ex_overflow :: bool
  ex_started :: bool
  ex_delivered :: nat           \<comment> \<open>the bytes handed to the application\<close>
  ex_out :: "asgi_out list"     \<comment> \<open>what went to the client\<close>

definition replaceable :: "exchange \<Rightarrow> bool" where
  "replaceable x = (ex_overflow x \<and> \<not> ex_started x)"

definition capped_receive :: "int \<Rightarrow> nat \<Rightarrow> exchange \<Rightarrow> (exn, unit, exchange) res" where
  "capped_receive limit n x =
     (let x1 = x\<lparr>ex_received := ex_received x + n\<rparr>
      in if int (ex_received x1) > limit
         then (Inl (Domain PayloadTooLargeError (''request body over '' @ show_int limit @ '' bytes'')), x1\<lparr>ex_overflow := True\<rparr>)
         else (Inr (), x1\<lparr>ex_delivered := ex_delivered x1 + n\<rparr>))"

definition is_start :: "asgi_out \<Rightarrow> bool" where
  "is_start m = (case m of ResponseStart _ \<Rightarrow> True | ResponseBody _ \<Rightarrow> False)"

definition capped_send :: "asgi_out \<Rightarrow> exchange \<Rightarrow> exchange" where
  "capped_send m x =
     (if replaceable x then x
      else x\<lparr>ex_started := (if is_start m then True else ex_started x), ex_out := ex_out x @ [m]\<rparr>)"

fun exchange_step :: "int \<Rightarrow> app_action \<Rightarrow> exchange \<Rightarrow> exchange" where
  \<comment> \<open>an application that catches the error of a read goes on\<close>
  "exchange_step limit (ReadChunk n) x = snd (capped_receive limit n x)"
| "exchange_step limit ReadOther x = x"
| "exchange_step limit (Sends m) x = capped_send m x"

fun run_app :: "int \<Rightarrow> app_action list \<Rightarrow> exchange \<Rightarrow> exchange" where
  "run_app limit [] x = x"
| "run_app limit (a # as) x = run_app limit as (exchange_step limit a x)"

definition exchange_init :: exchange where
  "exchange_init = \<lparr>ex_received = 0, ex_overflow = False, ex_started = False, ex_delivered = 0, ex_out = []\<rparr>"

definition reject_messages :: "asgi_out list" where
  "reject_messages = [ResponseStart (http_status PayloadTooLargeError), ResponseBody (error_code PayloadTooLargeError)]"

definition MULTIPART_OVERHEAD :: int where "MULTIPART_OVERHEAD = 64 * 1024"

definition body_limit :: "settings \<Rightarrow> string \<Rightarrow> int" where
  \<comment> \<open>the limits the composition root configures\<close>
  "body_limit c path = (if path = ''/api/files'' then files_max_upload_bytes c + MULTIPART_OVERHEAD else max_request_body_bytes c)"

text \<open>The middleware around one request: \<open>acts\<close> is what the application does and \<open>raised\<close> the
  exception it ends with.\<close>

definition body_size_limit :: "int \<Rightarrow> string option \<Rightarrow> app_action list \<Rightarrow> exn option \<Rightarrow> (exn, unit, exchange) res" where
  "body_size_limit limit declared acts raised =
     (case (case declared of Some d \<Rightarrow> if py_isdigit d then Some (py_int 10 d) else None | None \<Rightarrow> None) of
        Some None \<Rightarrow> (Inl (ValueError ''invalid literal for int() with base 10''), exchange_init)
      | other \<Rightarrow>
          if (case other of Some (Some n) \<Rightarrow> n > limit | _ \<Rightarrow> False)
          then (Inr (), exchange_init\<lparr>ex_out := reject_messages\<rparr>)
          else
            (let x = run_app limit acts exchange_init
             in if replaceable x then (Inr (), x\<lparr>ex_out := ex_out x @ reject_messages\<rparr>)
                else (case raised of Some e \<Rightarrow> (Inl e, x) | None \<Rightarrow> (Inr (), x))))"

text \<open>The limit is looked up by the exact path.\<close>

definition body_size_middleware :: "settings \<Rightarrow> string \<Rightarrow> string option \<Rightarrow> app_action list \<Rightarrow> exn option \<Rightarrow> (exn, unit, exchange) res" where
  "body_size_middleware c path declared acts raised = body_size_limit (body_limit c path) declared acts raised"

end
