(* ===== verification/App_Properties.thy ===== *)
theory App_Properties
  imports App_Edge
begin

section \<open>Properties of the edge\<close>

text \<open>
  The cap on request bodies, seen as an exchange between the application and the client, and what the
  masking of log records lets through.
\<close>

subsection \<open>The exchange\<close>

fun chunk :: "app_action \<Rightarrow> nat" where
  "chunk (ReadChunk n) = n"
| "chunk ReadOther = 0"
| "chunk (Sends m) = 0"

fun sent :: "app_action \<Rightarrow> asgi_out list" where
  "sent (Sends m) = [m]"
| "sent (ReadChunk n) = []"
| "sent ReadOther = []"

abbreviation body_bytes :: "app_action list \<Rightarrow> nat" where
  "body_bytes acts \<equiv> sum_list (map chunk acts)"

abbreviation answers :: "app_action list \<Rightarrow> asgi_out list" where
  "answers acts \<equiv> concat (map sent acts)"

lemma run_app_append: "run_app limit (as @ bs) x = run_app limit bs (run_app limit as x)"
  by (induction as arbitrary: x) simp_all

lemma exchange_step_received: "ex_received (exchange_step limit a x) = ex_received x + chunk a"
  by (cases a) (auto simp: capped_receive_def capped_send_def Let_def)

lemma run_app_received: "ex_received (run_app limit as x) = ex_received x + body_bytes as"
  by (induction as arbitrary: x) (simp_all add: exchange_step_received)

lemma run_app_delivered:
  assumes "ex_delivered x \<le> ex_received x" and "int (ex_delivered x) \<le> limit"
  shows "ex_delivered (run_app limit as x) \<le> ex_received (run_app limit as x) \<and> int (ex_delivered (run_app limit as x)) \<le> limit"
  using assms
proof (induction as arbitrary: x)
  case Nil
  then show ?case by simp
next
  case (Cons a as)
  have "ex_delivered (exchange_step limit a x) \<le> ex_received (exchange_step limit a x) \<and> int (ex_delivered (exchange_step limit a x)) \<le> limit"
    using Cons.prems by (cases a) (auto simp: capped_receive_def capped_send_def Let_def)
  then show ?case using Cons.IH by simp
qed

lemma run_app_replaceable:
  "replaceable x \<Longrightarrow> replaceable (run_app limit as x) \<and> ex_out (run_app limit as x) = ex_out x"
proof (induction as arbitrary: x)
  case (Cons a as)
  have "replaceable (exchange_step limit a x) \<and> ex_out (exchange_step limit a x) = ex_out x"
    using Cons.prems by (cases a) (auto simp: capped_receive_def capped_send_def replaceable_def Let_def)
  then show ?case using Cons.IH by simp
qed simp

lemma run_app_transparent:
  "\<not> ex_overflow x \<Longrightarrow> int (ex_received x + body_bytes as) \<le> limit \<Longrightarrow>
     \<not> ex_overflow (run_app limit as x) \<and> ex_out (run_app limit as x) = ex_out x @ answers as"
proof (induction as arbitrary: x)
  case (Cons a as)
  have "\<not> ex_overflow (exchange_step limit a x) \<and> ex_out (exchange_step limit a x) = ex_out x @ sent a"
    using Cons.prems by (cases a) (auto simp: capped_receive_def capped_send_def replaceable_def Let_def)
  then show ?case using Cons.IH [of "exchange_step limit a x"] Cons.prems by (simp add: exchange_step_received)
qed simp

lemma run_app_silent:
  "answers as = [] \<Longrightarrow> ex_out (run_app limit as x) = ex_out x \<and> ex_started (run_app limit as x) = ex_started x"
proof (induction as arbitrary: x)
  case (Cons a as)
  then have "ex_out (exchange_step limit a x) = ex_out x \<and> ex_started (exchange_step limit a x) = ex_started x"
    by (cases a) (auto simp: capped_receive_def Let_def)
  then show ?case using Cons by simp
qed simp

lemma run_app_over:
  assumes "answers us = []" and "limit < int (body_bytes us + n)"
  shows "replaceable (run_app limit (us @ ReadChunk n # vs) exchange_init) \<and> ex_out (run_app limit (us @ ReadChunk n # vs) exchange_init) = []"
proof -
  let ?x = "run_app limit us exchange_init"
  have "ex_out ?x = [] \<and> \<not> ex_started ?x" using run_app_silent [OF assms(1)] by (simp add: exchange_init_def)
  moreover have "ex_received ?x = body_bytes us" by (simp add: run_app_received exchange_init_def)
  ultimately have "replaceable (exchange_step limit (ReadChunk n) ?x) \<and> ex_out (exchange_step limit (ReadChunk n) ?x) = []"
    using assms(2) by (simp add: capped_receive_def replaceable_def Let_def)
  then show ?thesis using run_app_replaceable by (auto simp: run_app_append)
qed

text \<open>C36. The body cap.  The application is never handed more bytes than the limit.  A body within the limit
  passes through untouched: the client sees what the application sent and the application's exception goes on.
  As soon as a read passes the limit before anything was answered, the client gets the 413 and nothing else,
  whatever the application does then; a declared length over the limit is refused before the application runs.\<close>

theorem body_cap:
  assumes "0 \<le> limit" and "\<And>d. declared = Some d \<Longrightarrow> py_isdigit d \<Longrightarrow> \<exists>n. py_int 10 d = Some n"
  shows "int (ex_delivered (snd (body_size_limit limit declared acts raised))) \<le> limit
     \<and> (declared = None \<and> int (body_bytes acts) \<le> limit \<longrightarrow>
          ex_out (snd (body_size_limit limit declared acts raised)) = answers acts
          \<and> fst (body_size_limit limit declared acts raised) = (case raised of None \<Rightarrow> Inr () | Some e \<Rightarrow> Inl e))
     \<and> (\<forall>us n vs. acts = us @ ReadChunk n # vs \<and> answers us = [] \<and> limit < int (body_bytes us + n) \<longrightarrow>
          ex_out (snd (body_size_limit limit declared acts raised)) = reject_messages \<and> fst (body_size_limit limit declared acts raised) = Inr ())
     \<and> (\<forall>d n. declared = Some d \<and> py_isdigit d \<and> py_int 10 d = Some n \<and> limit < n \<longrightarrow>
          body_size_limit limit declared acts raised = (Inr (), exchange_init\<lparr>ex_out := reject_messages\<rparr>))"
proof -
  let ?x = "run_app limit acts exchange_init"
  define early where "early \<longleftrightarrow> (\<exists>d n. declared = Some d \<and> py_isdigit d \<and> py_int 10 d = Some n \<and> limit < n)"
  have e: "body_size_limit limit declared acts raised = (Inr (), exchange_init\<lparr>ex_out := reject_messages\<rparr>)" if early
    using that by (auto simp: early_def body_size_limit_def)
  have l: "body_size_limit limit declared acts raised =
      (if replaceable ?x then (Inr (), ?x\<lparr>ex_out := ex_out ?x @ reject_messages\<rparr>)
       else (case raised of Some e \<Rightarrow> (Inl e, ?x) | None \<Rightarrow> (Inr (), ?x)))" if "\<not> early"
    using that assms(2) by (cases declared) (auto simp: early_def body_size_limit_def Let_def split: option.splits)
  have d: "int (ex_delivered ?x) \<le> limit" using run_app_delivered [of exchange_init limit acts] assms(1) by (simp add: exchange_init_def)
  have t: "\<not> replaceable ?x \<and> ex_out ?x = answers acts" if "int (body_bytes acts) \<le> limit"
    using run_app_transparent [of exchange_init acts limit] that by (simp add: exchange_init_def replaceable_def)
  have ne: "\<not> early" if "declared = None" using that by (simp add: early_def)
  have o: "replaceable ?x \<and> ex_out ?x = []" if "acts = us @ ReadChunk n # vs" "answers us = []" "limit < int (body_bytes us + n)" for us n vs
    using run_app_over [OF that(2,3)] that(1) by simp
  show ?thesis
  proof (cases early)
    case True
    then show ?thesis using e ne assms(1) by (auto simp: exchange_init_def)
  next
    case False
    have "\<not> (\<exists>d n. declared = Some d \<and> py_isdigit d \<and> py_int 10 d = Some n \<and> limit < n)" using False early_def by blast
    then show ?thesis unfolding l [OF False] using d t o by (auto split: option.splits)
  qed
qed

theorem body_cap_witness:
  "ex_out (snd (body_size_limit 10 None [ReadChunk 6, ReadChunk 6, Sends (ResponseStart 400)] (Some (ValueError ''x'')))) = reject_messages"
  by (rule body_cap [of 10 None "[ReadChunk 6, ReadChunk 6, Sends (ResponseStart 400)]" "Some (ValueError ''x'')",
        THEN conjunct2, THEN conjunct2, THEN conjunct1, rule_format, of "[ReadChunk 6]" 6 "[Sends (ResponseStart 400)]", THEN conjunct1])
     simp_all

text \<open>The larger limit is configured for one path only, so that images uploaded through the product
  catalogue stay under the general limit, whatever the limit for files.\<close>

lemma product_images_general_limit:
  "body_limit c ''/api/commerce/product-images'' = max_request_body_bytes c"
  by (simp add: body_limit_def)

subsection \<open>Masking\<close>







text \<open>One level deeper the value is logged.\<close>

fun nest :: "nat \<Rightarrow> json \<Rightarrow> json" where
  "nest 0 v = v"
| "nest (Suc n) v = JObj [(''a'', nest n v)]"

lemma masking_depth_limit:
  "mask_sensitive_data [(''a'', nest 7 (JObj [(''password'', JStr ''b'')]))] = [(''a'', nest 7 (JObj [(''password'', JStr ''b'')]))]"
  by code_simp

end
