(* ===== verification/Cart.thy ===== *)
theory Cart
  imports Orders
begin

section \<open>Commerce: carts\<close>

text \<open>
  \<^verbatim>\<open>modules/commerce/cart/service.py\<close>.  \<open>race\<close> is what other transactions commit between
  the first look for the cart and the insertion of a new one; the insertion runs in a savepoint.
\<close>

datatype cart_status = CartActive | CheckedOut | Abandoned

record cart =
  ca_id :: uuid
  ca_tenant :: uuid
  ca_customer :: uuid
  ca_status :: cart_status

record cart_item =
  ci_id :: uuid
  ci_tenant :: uuid
  ci_cart :: uuid
  ci_product :: uuid
  ci_quantity :: int
  ci_price :: int
  ci_currency :: string
  ci_created :: datetime

record cart_db = orders_db +
  carts :: "cart list"
  cart_items :: "cart_item list"

definition MAX_LINE_QUANTITY :: int where
  "MAX_LINE_QUANTITY = 1000"

definition stamp_cart :: "uuid \<Rightarrow> cart \<Rightarrow> cart" where
  "stamp_cart t r = r\<lparr>ca_tenant := t\<rparr>"

definition stamp_cart_item :: "uuid \<Rightarrow> cart_item \<Rightarrow> cart_item" where
  "stamp_cart_item t r = r\<lparr>ci_tenant := t\<rparr>"

text \<open>The partial unique index of the active carts; the unique index and the
  \<^verbatim>\<open>CHECK\<close> constraints of the lines.\<close>

definition cart_conflict :: "cart \<Rightarrow> cart list \<Rightarrow> bool" where
  "cart_conflict r rows =
     (ca_status r = CartActive \<and> list_ex (\<lambda>x. ca_tenant x = ca_tenant r \<and> ca_customer x = ca_customer r \<and> ca_status x = CartActive) rows)"

definition cart_item_check :: "cart_item \<Rightarrow> bool" where
  "cart_item_check r = (ci_quantity r \<ge> 1 \<and> ci_price r \<ge> 0)"

definition cart_item_conflict :: "cart_item \<Rightarrow> cart_item list \<Rightarrow> bool" where
  "cart_item_conflict r rows =
     (\<not> cart_item_check r \<or> list_ex (\<lambda>x. ci_cart x = ci_cart r \<and> ci_product x = ci_product r) rows)"

interpretation cart_tab: tenant_table ca_tenant ca_id stamp_cart
  by unfold_locales (simp_all add: stamp_cart_def)

interpretation cart_item_tab: tenant_table ci_tenant ci_id stamp_cart_item
  by unfold_locales (simp_all add: stamp_cart_item_def)

definition set_cart :: "cart \<Rightarrow> 'z cart_db_scheme \<Rightarrow> 'z cart_db_scheme" where
  "set_cart r s = s\<lparr>carts := upd_where (\<lambda>x. ca_id x = ca_id r) (\<lambda>_. r) (carts s)\<rparr>"

definition set_cart_item :: "cart_item \<Rightarrow> 'z cart_db_scheme \<Rightarrow> 'z cart_db_scheme" where
  "set_cart_item r s = s\<lparr>cart_items := upd_where (\<lambda>x. ci_id x = ci_id r) (\<lambda>_. r) (cart_items s)\<rparr>"

subsection \<open>Operations\<close>

text \<open>Building the service resolves the tenant and the buyer.\<close>

definition cart_init :: "tenant_context \<Rightarrow> exn + uuid \<times> uuid" where
  "cart_init ctx = and_then (repo_init ctx) (\<lambda>t. and_then (customer_id ctx) (\<lambda>c. Inr (t, c)))"

definition active_cart :: "uuid \<Rightarrow> uuid \<Rightarrow> cart list \<Rightarrow> cart option" where
  "active_cart t c rows =
     (case repo_find ca_tenant t (\<lambda>r. ca_customer r = c \<and> ca_status r = CartActive) rows of [] \<Rightarrow> None | r # _ \<Rightarrow> Some r)"

definition open_cart :: "('z cart_db_scheme \<Rightarrow> 'z cart_db_scheme) \<Rightarrow> uuid \<Rightarrow> uuid \<Rightarrow> 'z cart_db_scheme \<Rightarrow> (cart, 'z cart_db_scheme) op_res" where
  "open_cart rc t c s =
     (case active_cart t c (carts s) of
        Some r \<Rightarrow> ret r s
      | None \<Rightarrow>
          (let (i, s1) = new_uuid7 s; s2 = rc s1;
               r = \<lparr>ca_id = i, ca_tenant = t, ca_customer = c, ca_status = CartActive\<rparr>;
               s3 = (case repo_add stamp_cart cart_conflict t None r (carts s2) of
                       Inl e \<Rightarrow> s2
                     | Inr rows \<Rightarrow> s2\<lparr>carts := rows\<rparr>)
           in case active_cart t c (carts s3) of
                None \<Rightarrow> raise (Domain InvariantViolationError ''could not open a cart'') s3
              | Some r \<Rightarrow> ret r s3))"

definition cart_lines :: "uuid \<Rightarrow> uuid \<Rightarrow> cart_item list \<Rightarrow> cart_item list" where
  "cart_lines t cid items = repo_find ci_tenant t (\<lambda>x. ci_cart x = cid) items"

record cart_dto =
  cd_id :: uuid
  cd_status :: cart_status
  cd_currency :: string
  cd_total :: int
  cd_items :: "cart_item list"

definition cart_to_dto :: "uuid \<Rightarrow> cart \<Rightarrow> 'z cart_db_scheme \<Rightarrow> cart_dto" where
  "cart_to_dto t r s =
     (let items = sort_key ci_created (cart_lines t (ca_id r) (cart_items s))
      in \<lparr>cd_id = ca_id r, cd_status = ca_status r, cd_currency = (case items of [] \<Rightarrow> ''UZS'' | x # _ \<Rightarrow> ci_currency x),
          cd_total = sum_list (map (\<lambda>x. ci_price x * ci_quantity x) items), cd_items = items\<rparr>)"

definition add_item :: "('z cart_db_scheme \<Rightarrow> 'z cart_db_scheme) \<Rightarrow> tenant_context \<Rightarrow> uuid \<Rightarrow> int \<Rightarrow> 'z cart_db_scheme \<Rightarrow>
    (cart_dto, 'z cart_db_scheme) op_res" where
  "add_item rc ctx pid quantity s0 =
     on_ok (pure_op (cart_init ctx) s0) (\<lambda>(t, c) s.
     on_ok (pure_op (get_sale_info ctx pid s) s) (\<lambda>price s.
     on_ok (open_cart rc t c s) (\<lambda>r s.
       (let current = cart_lines t (ca_id r) (cart_items s);
            existing = filter (\<lambda>x. ci_product x = pid) current;
            total = quantity + (case existing of [] \<Rightarrow> 0 | x # _ \<Rightarrow> ci_quantity x)
        in if current \<noteq> [] \<and> ci_currency (hd current) \<noteq> m_currency price
           then raise (Domain InvariantViolationError ''cart items must share one currency'') s
           else if total > MAX_LINE_QUANTITY
           then raise (Domain InvariantViolationError (''at most '' @ show_int MAX_LINE_QUANTITY @ '' of one product per cart'')) s
           else on_ok
             (case existing of
                x # _ \<Rightarrow>
                  (let x' = x\<lparr>ci_quantity := total, ci_price := m_amount price, ci_currency := m_currency price\<rparr>
                   in if \<not> cart_item_check x' then raise IntegrityError s else ret () (set_cart_item x' s))
              | [] \<Rightarrow>
                  (let (i, s1) = new_uuid7 s;
                       x = \<lparr>ci_id = i, ci_tenant = t, ci_cart = ca_id r, ci_product = pid, ci_quantity = quantity,
                            ci_price = m_amount price, ci_currency = m_currency price, ci_created = now s1\<rparr>
                   in on_ok (pure_op (repo_add stamp_cart_item cart_item_conflict t None x (cart_items s1)) s1)
                        (\<lambda>rows s. ret () (s\<lparr>cart_items := rows\<rparr>))))
             (\<lambda>_ s. ret (cart_to_dto t r s) s)))))"

definition require_active_cart :: "uuid \<Rightarrow> uuid \<Rightarrow> 'z cart_db_scheme \<Rightarrow> exn + cart" where
  "require_active_cart t c s =
     (case active_cart t c (carts s) of None \<Rightarrow> Inl (Domain NotFoundError ''no active cart'') | Some r \<Rightarrow> Inr r)"

definition remove_item :: "tenant_context \<Rightarrow> uuid \<Rightarrow> 'z cart_db_scheme \<Rightarrow> (cart_dto, 'z cart_db_scheme) op_res" where
  "remove_item ctx pid s0 =
     on_ok (pure_op (cart_init ctx) s0) (\<lambda>(t, c) s.
     on_ok (pure_op (require_active_cart t c s) s) (\<lambda>r s.
       (case filter (\<lambda>x. ci_product x = pid) (cart_lines t (ca_id r) (cart_items s)) of
          [] \<Rightarrow> raise (Domain NotFoundError ''product is not in the cart'') s
        | x # _ \<Rightarrow>
            on_ok (pure_op (repo_delete ci_tenant ci_id t x (cart_items s)) s) (\<lambda>rows s.
              (let s' = s\<lparr>cart_items := rows\<rparr> in ret (cart_to_dto t r s') s')))))"

definition get_cart :: "tenant_context \<Rightarrow> 'z cart_db_scheme \<Rightarrow> exn + cart_dto" where
  "get_cart ctx s =
     and_then (cart_init ctx) (\<lambda>(t, c). and_then (require_active_cart t c s) (\<lambda>r. Inr (cart_to_dto t r s)))"

text \<open>Building an \<^verbatim>\<open>OrderLineIn\<close> validates the quantity.\<close>

definition order_line_in :: "uuid \<Rightarrow> int \<Rightarrow> exn + order_line" where
  "order_line_in pid q =
     (if 1 \<le> q \<and> q \<le> 1000 then Inr \<lparr>ln_product = pid, ln_quantity = q\<rparr> else Inl (ValueError ''ValidationError''))"

fun lines_of :: "cart_item list \<Rightarrow> exn + order_line list" where
  "lines_of [] = Inr []"
| "lines_of (x # xs) =
     and_then (order_line_in (ci_product x) (ci_quantity x)) (\<lambda>l. and_then (lines_of xs) (\<lambda>ls. Inr (l # ls)))"

definition checkout :: "'z cart_db_scheme pay_env \<Rightarrow> tenant_context \<Rightarrow> string \<Rightarrow> 'z cart_db_scheme \<Rightarrow>
    (order_checkout_dto, 'z cart_db_scheme) op_res" where
  "checkout env ctx provider s0 =
     on_ok (pure_op (cart_init ctx) s0) (\<lambda>(t, c) s.
     on_ok (pure_op (require_active_cart t c s) s) (\<lambda>r s.
       (let items = sort_key ci_created (cart_lines t (ca_id r) (cart_items s))
        in if items = [] then raise (Domain InvariantViolationError ''cannot checkout an empty cart'') s
           else
             on_ok (pure_op (lines_of items) s) (\<lambda>ls s.
             on_ok (place_order env ctx ls provider s) (\<lambda>co s.
             on_ok (emit ''cart'' ctx ''commerce.cart.checked_out''
                      [(''cart_id'', JStr (uuid_str (ca_id r))), (''customer_user_id'', JStr (uuid_str c)),
                       (''order_id'', JStr (uuid_str (oc_order co)))] (set_cart (r\<lparr>ca_status := CheckedOut\<rparr>) s)) (\<lambda>_ s.
               ret co s))))))"

end
