(* ===== verification/Commerce_Laws.thy ===== *)
theory Commerce_Laws
  imports Cart Payment_Laws
begin

section \<open>Laws of orders and carts\<close>

text \<open>
  What placing an order writes, the effect of the payment's outcome, and the invariant of carts.
\<close>

subsection \<open>Frames\<close>

text \<open>A part of the state that the payment service does not write.\<close>

definition outside_payments :: "('z billing_db_scheme \<Rightarrow> 'a) \<Rightarrow> bool" where
  "outside_payments g \<longleftrightarrow> (\<forall>s n ev ps. g (s\<lparr>uuid_next := n\<rparr>) = g s \<and> g (s\<lparr>pending_events := ev\<rparr>) = g s \<and> g (s\<lparr>payments := ps\<rparr>) = g s)"

lemma outside_paymentsD:
  assumes "outside_payments g"
  shows "g (s\<lparr>uuid_next := n\<rparr>) = g s" "g (s\<lparr>pending_events := ev\<rparr>) = g s" "g (s\<lparr>payments := ps\<rparr>) = g s"
  using assms unfolding outside_payments_def by blast+

lemma emit_frame:
  assumes "emit svc ctx name p s = (r, u)" and "\<And>s n. g (s\<lparr>uuid_next := n\<rparr>) = g s" and "\<And>s ev. g (s\<lparr>pending_events := ev\<rparr>) = g s"
  shows "g u = g s"
  using assms by (auto simp: emit_def mk_envelope_def new_uuid7_def result_simps validate_event_name_def split: if_splits)

lemma create_payment_frame:
  assumes "create_payment env ctx amt purpose reference provider idem url sub_id s = (Inr c, u)"
    and g: "outside_payments g" and race: "\<And>s. g (race env s) = g s"
  shows "g u = g s"
proof -
  obtain t where t: "tenant_id ctx = Some t"
    using assms(1) by (cases "tenant_id ctx") (auto simp: create_payment_def repo_init_def)
  from assms(1) t obtain f where f: "providers env provider = Some f" and pos: "0 < m_amount amt"
    and v: "validate_return_url (host_ok env) url = Inr ()"
    by (auto simp: create_payment_def repo_init_def result_simps split: option.splits if_splits)
  show ?thesis
  proof (cases "by_idempotency_key t idem (payments s)")
    case (Some q)
    then show ?thesis using assms(1) t f pos v by (simp add: create_payment_def repo_init_def result_simps)
  next
    case None
    let ?s2 = "race env (s\<lparr>uuid_next := Suc (uuid_next s)\<rparr>)"
    have g2: "g ?s2 = g s" using race outside_paymentsD [OF g] by metis
    note eq = create_payment_new [OF t f pos v None, of purpose reference sub_id, unfolded Let_def]
    let ?p = "new_payment (uuid_gen s (uuid_next s)) t amt purpose reference provider idem sub_id (now s)"
    show ?thesis
    proof (cases "payment_conflict ?p (payments ?s2)")
      case True
      then have "u = ?s2" using assms(1) unfolding eq by (auto simp: result_simps split: option.splits)
      then show ?thesis using g2 by simp
    next
      case False
      then obtain x where "emit ''payments'' ctx ''billing.payment.created'' (payment_event_payload (?p\<lparr>p_meta := checkout_meta [] c\<rparr>))
          (set_payment (?p\<lparr>p_meta := checkout_meta [] c\<rparr>) (?s2\<lparr>payments := payments ?s2 @ [?p]\<rparr>)) = (Inr x, u)"
        using assms(1) unfolding eq by (auto simp: result_simps)
      from emit_frame [where g = g, OF this outside_paymentsD(1,2) [OF g]] show ?thesis
        using g2 outside_paymentsD(3) [OF g] by (simp add: set_payment_def)
    qed
  qed
qed

subsection \<open>Placing an order\<close>

lemma get_sale_info_Inr:
  assumes "get_sale_info ctx i s = Inr m"
  shows "m_currency m \<noteq> [] \<and> 0 \<le> m_amount m"
  using assms by (auto simp: get_sale_info_def result_simps mk_money_Inr valid_money_def split: if_splits)

type_synonym priced = "(uuid \<times> int \<times> int \<times> string) list"

definition priced_ok :: "tenant_context \<Rightarrow> 'z products_db_scheme \<Rightarrow> string \<Rightarrow> priced \<Rightarrow> bool" where
  "priced_ok ctx s cur ps \<longleftrightarrow> (\<forall>(p, q, a, c) \<in> set ps. c = cur \<and> get_sale_info ctx p s = Inr \<lparr>m_amount = a, m_currency = c\<rparr>)"

abbreviation priced_total :: "priced \<Rightarrow> int" where
  "priced_total ps \<equiv> sum_list (map (\<lambda>(p, q, a, c). a * q) ps)"

lemma price_lines_ok:
  assumes "price_lines ctx ls priced tot cur s = Inr (priced', tot', cur')"
  shows "\<exists>new. priced' = priced @ new \<and> tot' = tot + priced_total new \<and> priced_ok ctx s cur' new
    \<and> map (\<lambda>x. (fst x, fst (snd x))) new = map (\<lambda>l. (ln_product l, ln_quantity l)) ls \<and> (cur \<noteq> [] \<longrightarrow> cur' = cur) \<and> (ls = [] \<longrightarrow> cur' = cur)"
  using assms
proof (induction ls arbitrary: priced tot cur)
  case Nil
  then show ?case by (auto simp: priced_ok_def)
next
  case (Cons l ls)
  from Cons.prems obtain m where m: "get_sale_info ctx (ln_product l) s = Inr m"
    by (cases "get_sale_info ctx (ln_product l) s") simp_all
  note ne = get_sale_info_Inr [OF m]
  let ?cur = "if cur = [] then m_currency m else cur"
  from Cons.prems m have c: "cur = [] \<or> cur = m_currency m" by (auto split: if_splits)
  with Cons.prems m have run: "price_lines ctx ls (priced @ [(ln_product l, ln_quantity l, m_amount m, m_currency m)])
      (tot + m_amount m * ln_quantity l) (m_currency m) s = Inr (priced', tot', cur')" by auto
  from Cons.IH [OF run] obtain new where new: "priced' = (priced @ [(ln_product l, ln_quantity l, m_amount m, m_currency m)]) @ new"
    "tot' = tot + m_amount m * ln_quantity l + priced_total new" "priced_ok ctx s cur' new"
    "map (\<lambda>x. (fst x, fst (snd x))) new = map (\<lambda>l. (ln_product l, ln_quantity l)) ls" "cur' = m_currency m" using ne by blast
  show ?case
    by (rule exI [of _ "(ln_product l, ln_quantity l, m_amount m, m_currency m) # new"]) (use new c m in \<open>auto simp: priced_ok_def\<close>)
qed

lemma add_items_ok:
  assumes "add_items t oid ps s = (Inr (), s')"
  shows "\<exists>items. s' = s\<lparr>uuid_next := uuid_next s + length ps, order_items := order_items s @ items\<rparr>
    \<and> map (\<lambda>x. (oi_product x, oi_quantity x, oi_price x, oi_currency x)) items = ps
    \<and> (\<forall>x \<in> set items. oi_order x = oid \<and> oi_tenant x = t \<and> 1 \<le> oi_quantity x \<and> 0 \<le> oi_price x)"
  using assms
proof (induction ps arbitrary: s)
  case Nil
  then show ?case by simp
next
  case (Cons a ps)
  obtain pid qty price cur where a: "a = (pid, qty, price, cur)" by (cases a) auto
  let ?s1 = "s\<lparr>uuid_next := Suc (uuid_next s)\<rparr>"
  let ?it = "\<lparr>oi_id = uuid_gen s (uuid_next s), oi_tenant = t, oi_order = oid, oi_product = pid, oi_quantity = qty, oi_price = price,
      oi_currency = cur, oi_created = now s\<rparr>"
  from Cons.prems have ok: "1 \<le> qty" "0 \<le> price" and run: "add_items t oid ps (?s1\<lparr>order_items := order_items s @ [?it]\<rparr>) = (Inr (), s')"
    unfolding a by (auto simp: new_uuid7_def Let_def repo_add_def order_item_check_def stamp_order_item_def result_simps split: if_splits)
  from Cons.IH [OF run] obtain items where
    "s' = (?s1\<lparr>order_items := order_items s @ [?it]\<rparr>)\<lparr>uuid_next := Suc (uuid_next s) + length ps, order_items := (order_items s @ [?it]) @ items\<rparr>"
    "map (\<lambda>x. (oi_product x, oi_quantity x, oi_price x, oi_currency x)) items = ps"
    "\<forall>x \<in> set items. oi_order x = oid \<and> oi_tenant x = t \<and> 1 \<le> oi_quantity x \<and> 0 \<le> oi_price x" by auto
  then show ?case using ok a by (intro exI [of _ "?it # items"]) simp
qed

text \<open>The steps of a successful \<^const>\<open>place_order\<close>.\<close>

lemma place_order_steps:
  assumes run: "place_order env ctx lines provider s = (Inr co, s')"
  obtains t customer priced tot cur s2 eid s3 amount k s4 r s1 where
    "tenant_id ctx = Some t" "price_lines ctx lines [] 0 [] s = Inr (priced, tot, cur)"
    "r = \<lparr>o_id = uuid_gen s (uuid_next s), o_tenant = t, o_customer = customer, o_status = OrderPending, o_total = tot, o_currency = cur,
          o_payment = None, o_created = now s\<rparr>"
    "s1 = s\<lparr>uuid_next := Suc (uuid_next s), orders := orders s @ [r]\<rparr>"
    "add_items t (o_id r) priced s1 = (Inr (), s2)"
    "emit ''orders'' ctx ''commerce.order.created''
       [(''order_id'', JStr (uuid_str (o_id r))), (''customer_user_id'', JStr (uuid_str customer)), (''total_amount'', JInt tot), (''currency'', JStr cur)] s2
       = (Inr eid, s3)"
    "mk_money tot cur = Inr amount"
    "create_payment env ctx amount ''commerce.order'' (uuid_str (o_id r)) provider (order_key (o_id r)) None None s3 = (Inr k, s4)"
    "co = \<lparr>oc_order = o_id r, oc_payment = c_payment k, oc_provider = c_provider k, oc_url = c_url k\<rparr>"
    "s' = set_order (r\<lparr>o_payment := Some (c_payment k)\<rparr>) s4"
proof -
  obtain t where t: "tenant_id ctx = Some t" using run by (cases "tenant_id ctx") (simp_all add: place_order_def repo_init_def)
  obtain customer where c: "customer_id ctx = Inr customer"
    using run t by (cases "customer_id ctx") (simp_all add: place_order_def repo_init_def)
  obtain pr where "price_lines ctx lines [] 0 [] s = Inr pr"
    using run t c by (cases "price_lines ctx lines [] 0 [] s") (simp_all add: place_order_def repo_init_def)
  then obtain priced tot cur where pl: "price_lines ctx lines [] 0 [] s = Inr (priced, tot, cur)" by (cases pr) auto
  have cur: "cur \<noteq> []" by (rule notI) (use run t c pl in \<open>simp add: place_order_def repo_init_def\<close>)
  let ?i = "uuid_gen s (uuid_next s)"
  define r where "r = \<lparr>o_id = ?i, o_tenant = t, o_customer = customer, o_status = OrderPending, o_total = tot, o_currency = cur, o_payment = None, o_created = now s\<rparr>"
  define s1 where "s1 = s\<lparr>uuid_next := Suc (uuid_next s), orders := orders s @ [r]\<rparr>"
  let ?ev = "[(''order_id'', JStr (uuid_str ?i)), (''customer_user_id'', JStr (uuid_str customer)), (''total_amount'', JInt tot), (''currency'', JStr cur)]"
  let ?pay = "\<lambda>amount s. on_ok (create_payment env ctx amount ''commerce.order'' (uuid_str ?i) provider (order_key ?i) None None s) (\<lambda>c s.
               ret \<lparr>oc_order = ?i, oc_payment = c_payment c, oc_provider = c_provider c, oc_url = c_url c\<rparr> (set_order (r\<lparr>o_payment := Some (c_payment c)\<rparr>) s))"
  have eq: "place_order env ctx lines provider s =
      (if tot < 0 then raise IntegrityError (s\<lparr>uuid_next := Suc (uuid_next s)\<rparr>)
       else on_ok (add_items t ?i priced s1) (\<lambda>_ s. on_ok (emit ''orders'' ctx ''commerce.order.created'' ?ev s) (\<lambda>_ s.
              on_ok (pure_op (mk_money tot cur) s) ?pay)))"
    using cur by (simp add: place_order_def repo_init_def t c pl new_uuid7_def Let_def repo_add_def stamp_order_def order_check_def r_def s1_def)
  have nn: "\<not> tot < 0" by (rule notI) (use run eq in simp)
  obtain x2 s2 where a2: "add_items t ?i priced s1 = (x2, s2)" by force
  have items: "add_items t ?i priced s1 = (Inr (), s2)" using run a2 nn unfolding eq by (cases x2) simp_all
  obtain x3 s3 where a3: "emit ''orders'' ctx ''commerce.order.created'' ?ev s2 = (x3, s3)" by force
  obtain eid where em: "emit ''orders'' ctx ''commerce.order.created'' ?ev s2 = (Inr eid, s3)" using run a3 items nn unfolding eq by (cases x3) simp_all
  obtain amount where money: "mk_money tot cur = Inr amount" using run em items nn unfolding eq by (cases "mk_money tot cur") simp_all
  obtain x4 s4 where a4: "create_payment env ctx amount ''commerce.order'' (uuid_str ?i) provider (order_key ?i) None None s3 = (x4, s4)" by force
  obtain k where cp: "create_payment env ctx amount ''commerce.order'' (uuid_str ?i) provider (order_key ?i) None None s3 = (Inr k, s4)"
    using run a4 money em items nn unfolding eq by (cases x4) simp_all
  have co: "co = \<lparr>oc_order = ?i, oc_payment = c_payment k, oc_provider = c_provider k, oc_url = c_url k\<rparr>"
    and s': "s' = set_order (r\<lparr>o_payment := Some (c_payment k)\<rparr>) s4"
    using run cp money em items nn unfolding eq by simp_all
  have i: "?i = o_id r" by (simp add: r_def)
  show ?thesis by (rule that [OF t pl r_def s1_def items [unfolded i] em [unfolded i] money cp [unfolded i] co [unfolded i] s'])
qed

subsection \<open>Carts\<close>

definition active_key :: "cart list \<Rightarrow> (uuid \<times> uuid) list" where
  "active_key rows = map (\<lambda>c. (ca_tenant c, ca_customer c)) (filter (\<lambda>c. ca_status c = CartActive) rows)"

definition line_key :: "cart_item \<Rightarrow> uuid \<times> uuid" where
  "line_key x = (ci_cart x, ci_product x)"

definition line_ok :: "cart_item \<Rightarrow> bool" where
  "line_ok x \<longleftrightarrow> 1 \<le> ci_quantity x \<and> ci_quantity x \<le> MAX_LINE_QUANTITY \<and> 0 \<le> ci_price x"

definition one_currency :: "cart_item list \<Rightarrow> bool" where
  "one_currency items \<longleftrightarrow>
     (\<forall>x \<in> set items. \<forall>y \<in> set items. ci_tenant x = ci_tenant y \<and> ci_cart x = ci_cart y \<longrightarrow> ci_currency x = ci_currency y)"

definition lines_ok :: "cart_item list \<Rightarrow> bool" where
  "lines_ok items \<longleftrightarrow> list_all line_ok items \<and> distinct (map line_key items) \<and> one_currency items"

definition cart_ok :: "'z cart_db_scheme \<Rightarrow> bool" where
  "cart_ok s \<longleftrightarrow> distinct (active_key (carts s)) \<and> lines_ok (cart_items s)"

text \<open>Primary keys: lines have distinct ids, and the ids still to be drawn are new.\<close>

definition cart_ids :: "'z cart_db_scheme \<Rightarrow> bool" where
  "cart_ids s \<longleftrightarrow> inj (uuid_gen s) \<and> distinct (map ci_id (cart_items s)) \<and> (\<forall>n \<ge> uuid_next s. uuid_gen s n \<notin> set (map ci_id (cart_items s)))"

lemma cart_ids_next: "cart_ids s \<Longrightarrow> cart_ids (s\<lparr>uuid_next := Suc (uuid_next s)\<rparr>)"
  by (simp add: cart_ids_def)

lemma cart_ok_simps [simp]:
  "cart_ok (s\<lparr>uuid_next := n\<rparr>) = cart_ok s" "cart_ok (s\<lparr>pending_events := ev\<rparr>) = cart_ok s"
  by (simp_all add: cart_ok_def)

lemma cart_lines_set: "set (cart_lines t cid items) = {x \<in> set items. ci_tenant x = t \<and> ci_cart x = cid}"
  by (auto simp: cart_lines_def repo_find_filter)

lemma active_key_insert:
  assumes "distinct (active_key rows)" and "\<not> cart_conflict r rows"
  shows "distinct (active_key (rows @ [r]))"
  using assms by (auto simp: active_key_def cart_conflict_def list_ex_iff)

lemma open_cart_ok:
  assumes "open_cart rc t c s = (r, s')" and "cart_ok s" and "cart_ids s"
    and rc: "\<And>s. cart_ok s \<Longrightarrow> cart_ids s \<Longrightarrow> cart_ok (rc s) \<and> cart_ids (rc s)"
  shows "cart_ok s' \<and> cart_ids s'"
proof (cases "active_cart t c (carts s)")
  case (Some x)
  then show ?thesis using assms(1-3) by (simp add: open_cart_def)
next
  case None
  let ?s2 = "rc (s\<lparr>uuid_next := Suc (uuid_next s)\<rparr>)"
  have s2: "cart_ok ?s2" "cart_ids ?s2"
    using rc [of "s\<lparr>uuid_next := Suc (uuid_next s)\<rparr>"] assms(2) cart_ids_next [OF assms(3)] by simp_all
  let ?r = "\<lparr>ca_id = uuid_gen s (uuid_next s), ca_tenant = t, ca_customer = c, ca_status = CartActive\<rparr>"
  let ?s3 = "if cart_conflict ?r (carts ?s2) then ?s2 else ?s2\<lparr>carts := carts ?s2 @ [?r]\<rparr>"
  have "s' = ?s3" using assms(1) None
    by (auto simp: open_cart_def new_uuid7_def Let_def repo_add_def stamp_cart_def split: option.splits if_splits)
  moreover have "cart_ok ?s3" using s2(1) active_key_insert by (auto simp: cart_ok_def)
  moreover have "cart_ids ?s3" using s2(2) by (simp add: cart_ids_def)
  ultimately show ?thesis by simp
qed

text \<open>The two writes of \<^const>\<open>add_item\<close>.\<close>

lemma one_currency_insert:
  assumes "one_currency items"
    and "\<And>y. y \<in> set items \<Longrightarrow> ci_tenant y = ci_tenant x \<Longrightarrow> ci_cart y = ci_cart x \<Longrightarrow> ci_currency y = ci_currency x"
  shows "one_currency (items @ [x])"
  unfolding one_currency_def
proof (intro ballI impI, elim conjE)
  fix a b
  assume m: "a \<in> set (items @ [x])" "b \<in> set (items @ [x])" and k: "ci_tenant a = ci_tenant b" "ci_cart a = ci_cart b"
  consider "a = x" "b = x" | "a = x" "b \<in> set items" | "a \<in> set items" "b = x" | "a \<in> set items" "b \<in> set items" using m by auto
  then show "ci_currency a = ci_currency b"
  proof cases
    case 4
    then show ?thesis using assms(1) k unfolding one_currency_def by blast
  qed (use assms(2) k in simp_all)
qed

lemma lines_ok_insert:
  assumes "lines_ok items" and "\<not> cart_item_conflict x items" and "ci_quantity x \<le> MAX_LINE_QUANTITY"
    and "\<And>y. y \<in> set items \<Longrightarrow> ci_tenant y = ci_tenant x \<Longrightarrow> ci_cart y = ci_cart x \<Longrightarrow> ci_currency y = ci_currency x"
  shows "lines_ok (items @ [x])"
proof -
  have c: "line_ok x" "line_key x \<notin> set (map line_key items)"
    using assms(2,3) by (auto simp: cart_item_conflict_def cart_item_check_def list_ex_iff line_key_def line_ok_def)
  then show ?thesis using assms(1) one_currency_insert [OF _ assms(4)] by (simp add: lines_ok_def)
qed

lemma lines_ok_update:
  assumes "lines_ok items" and "distinct (map ci_id items)" and "x \<in> set items" and "ci_id x' = ci_id x" and "line_key x' = line_key x"
    and "ci_tenant x' = ci_tenant x" and "line_ok x'" and "ci_currency x' = ci_currency x"
  shows "lines_ok (upd_where (\<lambda>y. ci_id y = ci_id x') (\<lambda>_. x') items)"
proof -
  define f where "f = (\<lambda>y. if ci_id y = ci_id x' then x' else y)"
  have u: "upd_where (\<lambda>y. ci_id y = ci_id x') (\<lambda>_. x') items = map f items" by (simp add: upd_where_def f_def)
  have same: "line_key (f y) = line_key y \<and> ci_tenant (f y) = ci_tenant y \<and> ci_currency (f y) = ci_currency y \<and> ci_cart (f y) = ci_cart y"
    if "y \<in> set items" for y
    using key_unique [OF assms(2) that assms(3)] assms(4,5,6,8) by (auto simp: f_def line_key_def)
  have "map line_key (map f items) = map line_key items" using same by simp
  moreover have "list_all line_ok (map f items)" using assms(1,7) by (auto simp: f_def lines_ok_def list_all_iff)
  moreover have "one_currency (map f items)"
    unfolding one_currency_def set_map
  proof (intro ballI impI, elim imageE conjE)
    fix a b u v
    assume ab: "a = f u" "b = f v" "u \<in> set items" "v \<in> set items" and k: "ci_tenant a = ci_tenant b" "ci_cart a = ci_cart b"
    then have "ci_tenant u = ci_tenant v" "ci_cart u = ci_cart v" using same by auto
    then have "ci_currency u = ci_currency v" using assms(1) ab(3,4) unfolding lines_ok_def one_currency_def by blast
    then show "ci_currency a = ci_currency b" using ab same by simp
  qed
  ultimately show ?thesis using assms(1) unfolding u lines_ok_def by (simp del: map_map)
qed

lemma lines_ok_filter: "lines_ok items \<Longrightarrow> lines_ok (filter P items)"
  unfolding lines_ok_def one_currency_def list_all_iff by (auto simp: distinct_map_filter)

lemma cart_ids_insert:
  assumes "cart_ids s" and "s1 = s\<lparr>uuid_next := Suc (uuid_next s)\<rparr>" and "ci_id x = uuid_gen s (uuid_next s)"
  shows "cart_ids (s1\<lparr>cart_items := cart_items s1 @ [x]\<rparr>)"
proof -
  have "uuid_gen s n \<noteq> ci_id x" if "Suc (uuid_next s) \<le> n" for n
    using assms(1,3) that by (auto simp: cart_ids_def dest: injD)
  then show ?thesis using assms by (auto simp: cart_ids_def)
qed

lemma cart_ids_update:
  assumes "cart_ids s"
  shows "cart_ids (set_cart_item x' s)"
proof -
  have "map ci_id (upd_where (\<lambda>y. ci_id y = ci_id x') (\<lambda>_. x') (cart_items s)) = map ci_id (cart_items s)"
    by (auto simp: upd_where_def)
  then have "map ci_id (cart_items (set_cart_item x' s)) = map ci_id (cart_items s)" by (simp add: set_cart_item_def)
  moreover have "uuid_gen (set_cart_item x' s) = uuid_gen s" "uuid_next (set_cart_item x' s) = uuid_next s" by (simp_all add: set_cart_item_def)
  ultimately show ?thesis using assms unfolding cart_ids_def by metis
qed

lemma cart_currency:
  assumes "cart_ok s" and "cart_lines t k (cart_items s) = [] \<or> ci_currency (hd (cart_lines t k (cart_items s))) = cu"
    and "y \<in> set (cart_items s)" and "ci_tenant y = t" and "ci_cart y = k"
  shows "ci_currency y = cu"
proof -
  let ?cur = "cart_lines t k (cart_items s)"
  have "y \<in> set ?cur" using assms(3-5) by (simp add: cart_lines_set)
  then have "?cur \<noteq> []" by auto
  then have "hd ?cur \<in> set ?cur" by simp
  then have h: "hd ?cur \<in> set (cart_items s)" "ci_tenant y = ci_tenant (hd ?cur)" "ci_cart y = ci_cart (hd ?cur)"
    unfolding cart_lines_set using assms(4,5) by simp_all
  have "one_currency (cart_items s)" using assms(1) by (simp add: cart_ok_def lines_ok_def)
  then have "ci_currency y = ci_currency (hd ?cur)" using assms(3) h unfolding one_currency_def by blast
  then show ?thesis using assms(2) \<open>?cur \<noteq> []\<close> by simp
qed

lemma add_line_insert:
  assumes "cart_ok s" and "cart_ids s" and "\<not> cart_item_conflict x (cart_items s)" and "ci_quantity x \<le> MAX_LINE_QUANTITY"
    and "\<And>y. y \<in> set (cart_items s) \<Longrightarrow> ci_tenant y = ci_tenant x \<Longrightarrow> ci_cart y = ci_cart x \<Longrightarrow> ci_currency y = ci_currency x"
    and "ci_id x = uuid_gen s (uuid_next s)"
  shows "cart_ok (s\<lparr>uuid_next := Suc (uuid_next s), cart_items := cart_items s @ [x]\<rparr>)
    \<and> cart_ids (s\<lparr>uuid_next := Suc (uuid_next s), cart_items := cart_items s @ [x]\<rparr>)"
proof -
  have ok: "distinct (active_key (carts s))" "lines_ok (cart_items s)" using assms(1) by (simp_all add: cart_ok_def)
  have "lines_ok (cart_items s @ [x])" by (rule lines_ok_insert [OF ok(2) assms(3,4)]) (rule assms(5))
  then have "cart_ok (s\<lparr>uuid_next := Suc (uuid_next s), cart_items := cart_items s @ [x]\<rparr>)" using ok(1) by (simp add: cart_ok_def)
  then show ?thesis using cart_ids_insert [OF assms(2) refl assms(6)] by simp
qed

lemma add_line_update:
  assumes "cart_ok s" and "cart_ids s" and "y \<in> set (cart_items s)" and "ci_currency y = cu" and "n \<le> MAX_LINE_QUANTITY"
    and "x' = y\<lparr>ci_quantity := n, ci_price := a, ci_currency := cu\<rparr>" and "cart_item_check x'"
  shows "cart_ok (set_cart_item x' s) \<and> cart_ids (set_cart_item x' s)"
proof -
  have "lines_ok (upd_where (\<lambda>y. ci_id y = ci_id x') (\<lambda>_. x') (cart_items s))"
    by (rule lines_ok_update [OF _ _ assms(3)]) (use assms in \<open>auto simp: cart_ok_def cart_ids_def line_key_def line_ok_def cart_item_check_def\<close>)
  then have "cart_ok (set_cart_item x' s)" using assms(1) by (simp add: cart_ok_def set_cart_item_def)
  then show ?thesis using cart_ids_update [OF assms(2)] by simp
qed

lemma add_item_ok:
  assumes "cart_ok s" and "cart_ids s"
    and rc: "\<And>s. cart_ok s \<Longrightarrow> cart_ids s \<Longrightarrow> cart_ok (rc s) \<and> cart_ids (rc s)"
  shows "cart_ok (snd (add_item rc ctx pid q s)) \<and> cart_ids (snd (add_item rc ctx pid q s))"
proof (cases "cart_init ctx")
  case (Inr tc)
  obtain t c where tc: "tc = (t, c)" by force
  show ?thesis
  proof (cases "get_sale_info ctx pid s")
    case price: (Inr price)
    obtain x s1 where op: "open_cart rc t c s = (x, s1)" by force
    have s1: "cart_ok s1" "cart_ids s1" using open_cart_ok [OF op assms(1,2) rc] by simp_all
    show ?thesis
    proof (cases x)
      case r: (Inr r)
      let ?cur = "cart_lines t (ca_id r) (cart_items s1)"
      let ?ex = "filter (\<lambda>x. ci_product x = pid) ?cur"
      let ?tot = "q + (case ?ex of [] \<Rightarrow> 0 | x # _ \<Rightarrow> ci_quantity x)"
      note run = add_item_def Inr tc price op r Let_def
      show ?thesis
      proof (cases "?cur \<noteq> [] \<and> ci_currency (hd ?cur) \<noteq> m_currency price \<or> ?tot > MAX_LINE_QUANTITY")
        case True
        then show ?thesis using s1 by (auto simp: run)
      next
        case False
        then have guard: "?cur = [] \<or> ci_currency (hd ?cur) = m_currency price" "?tot \<le> MAX_LINE_QUANTITY" by auto
        have cur: "ci_currency y = m_currency price" if "y \<in> set (cart_items s1)" "ci_tenant y = t" "ci_cart y = ca_id r" for y
          by (rule cart_currency [OF s1(1) guard(1) that])
        show ?thesis
        proof (cases ?ex)
          case Nil
          let ?x = "\<lparr>ci_id = uuid_gen s1 (uuid_next s1), ci_tenant = t, ci_cart = ca_id r, ci_product = pid, ci_quantity = q,
                 ci_price = m_amount price, ci_currency = m_currency price, ci_created = now s1\<rparr>"
          have "cart_ok (s1\<lparr>uuid_next := Suc (uuid_next s1), cart_items := cart_items s1 @ [?x]\<rparr>)
              \<and> cart_ids (s1\<lparr>uuid_next := Suc (uuid_next s1), cart_items := cart_items s1 @ [?x]\<rparr>)"
            if "\<not> cart_item_conflict ?x (cart_items s1)"
            by (rule add_line_insert [OF s1 that]) (use guard(2) Nil in simp_all, rule cur)
          then show ?thesis using s1 guard Nil cart_ids_next [OF s1(2)] by (auto simp: run new_uuid7_def repo_add_def stamp_cart_item_def)
        next
          case (Cons y ys)
          then have "y \<in> set ?ex" by simp
          then have y: "y \<in> set (cart_items s1)" "ci_tenant y = t" "ci_cart y = ca_id r" unfolding cart_lines_set set_filter by simp_all
          let ?x = "y\<lparr>ci_quantity := ?tot, ci_price := m_amount price, ci_currency := m_currency price\<rparr>"
          show ?thesis
          proof (cases "cart_item_check ?x")
            case True
            show ?thesis using add_line_update [OF s1 y(1) cur [OF y] guard(2) refl True] guard Cons True by (auto simp: run)
          next
            case False
            then show ?thesis using s1 guard Cons by (auto simp: run)
          qed
        qed
      qed
    qed (use s1 Inr tc price op in \<open>simp add: add_item_def\<close>)
  qed (use assms Inr tc in \<open>simp add: add_item_def\<close>)
qed (use assms in \<open>simp add: add_item_def\<close>)

lemma remove_item_ok:
  assumes "cart_ok s" and "cart_ids s"
  shows "cart_ok (snd (remove_item ctx pid s)) \<and> cart_ids (snd (remove_item ctx pid s))"
proof -
  have "cart_ok (s\<lparr>cart_items := filter P (cart_items s)\<rparr>) \<and> cart_ids (s\<lparr>cart_items := filter P (cart_items s)\<rparr>)" for P
    using assms lines_ok_filter by (auto simp: cart_ok_def cart_ids_def distinct_map_filter)
  moreover have "snd (remove_item ctx pid s) = s \<or> (\<exists>P. snd (remove_item ctx pid s) = s\<lparr>cart_items := filter P (cart_items s)\<rparr>)"
  proof (cases "cart_init ctx")
    case (Inr tc)
    obtain t c where tc: "tc = (t, c)" by force
    show ?thesis
    proof (cases "require_active_cart t c s")
      case r: (Inr r)
      then show ?thesis using Inr tc
        by (cases "filter (\<lambda>x. ci_product x = pid) (cart_lines t (ca_id r) (cart_items s))")
          (auto simp: remove_item_def repo_delete_def del_where_def Let_def)
    qed (use Inr tc in \<open>simp add: remove_item_def\<close>)
  qed (simp add: remove_item_def)
  ultimately show ?thesis using assms by metis
qed

text \<open>A line of the cart is a valid line of an order.\<close>

lemma lines_of_ok: "list_all line_ok items \<Longrightarrow> lines_of items = Inr (map (\<lambda>x. \<lparr>ln_product = ci_product x, ln_quantity = ci_quantity x\<rparr>) items)"
  by (induction items) (simp_all add: order_line_in_def line_ok_def MAX_LINE_QUANTITY_def)

text \<open>Only one cart of the buyer was active, so closing it leaves none.\<close>

lemma active_cart_closed:
  assumes "distinct (active_key rows)" and "active_cart t c rows = Some r"
  shows "active_cart t c (upd_where (\<lambda>x. ca_id x = ca_id r) (\<lambda>_. r\<lparr>ca_status := CheckedOut\<rparr>) rows) = None"
proof -
  have r: "r \<in> set rows" "ca_tenant r = t" "ca_customer r = c" "ca_status r = CartActive"
    using assms(2) by (auto simp: active_cart_def repo_find_filter filter_eq_Cons_iff split: list.splits)
  have "x = r" if "x \<in> set rows" "ca_tenant x = t" "ca_customer x = c" "ca_status x = CartActive" for x
    using assms(1) that r unfolding active_key_def by (auto simp: distinct_map dest: inj_onD)
  then have "filter (\<lambda>x. ca_tenant x = t \<and> ca_customer x = c \<and> ca_status x = CartActive)
      (upd_where (\<lambda>x. ca_id x = ca_id r) (\<lambda>_. r\<lparr>ca_status := CheckedOut\<rparr>) rows) = []"
    by (auto simp: upd_where_def filter_empty_conv)
  then show ?thesis by (simp add: active_cart_def repo_find_filter)
qed

lemma active_key_closed:
  assumes "distinct (active_key rows)" and "ca_status r \<noteq> CartActive"
  shows "distinct (active_key (upd_where P (\<lambda>_. r) rows))"
  using assms by (induction rows) (auto simp: active_key_def upd_where_def split: if_splits)

end
