(* ===== verification/Commerce_Properties.thy ===== *)
theory Commerce_Properties
  imports Commerce_Laws Billing_Example
begin

section \<open>Properties of orders and carts\<close>

text \<open>
  The order, its lines and its payment agree; the outcome of the payment does not depend on the order in
  which its events arrive; carts keep their invariant, and checking out places the order of the cart.
  The witnesses run in \<open>ex_shop\<close>: one product, one cart with one line, Payme enabled.
\<close>

subsection \<open>A shop\<close>

definition ex_product :: product where
  "ex_product = \<lparr>pd_id = 20, pd_tenant = 1, pd_sku = ''mug'', pd_name = ''Mug'', pd_description = None, pd_price = 150, pd_currency = ''UZS'',
     pd_status = ProdActive, pd_created = ex_now\<rparr>"

definition ex_cart :: cart where
  "ex_cart = \<lparr>ca_id = 30, ca_tenant = 1, ca_customer = 2, ca_status = CartActive\<rparr>"

definition ex_line :: cart_item where
  "ex_line = \<lparr>ci_id = 31, ci_tenant = 1, ci_cart = 30, ci_product = 20, ci_quantity = 3, ci_price = 150, ci_currency = ''UZS'', ci_created = ex_now\<rparr>"

definition ex_shop :: cart_db where
  "ex_shop = \<lparr>now = ex_now, uuid_gen = (\<lambda>k. k + 1000), uuid_next = 0, pending_events = [], published = [], audit_log = [],
     processed_events = [], plans = [], subs = [], payments = [], webhooks = [], outbox = [], notification_settings = [], sms_counters = [],
     files = [], objects = [], products = [ex_product], product_images = [], orders = [], order_items = [],
     carts = [ex_cart], cart_items = [ex_line]\<rparr>"

definition ex_shop_env :: "cart_db pay_env" where
  "ex_shop_env = \<lparr>providers = (\<lambda>code. if code = ''payme'' then Some (payme_create_checkout ex_payme) else None),
     enabled_providers = [''payme''], host_ok = (\<lambda>_. True), race = (\<lambda>s. s)\<rparr>"

definition ex_lines :: "order_line list" where
  "ex_lines = [\<lparr>ln_product = 20, ln_quantity = 3\<rparr>]"

lemmas shop_defs = ex_product_def ex_cart_def ex_line_def ex_shop_def ex_shop_env_def ex_lines_def ex_ctx_def ex_now_def mk_ctx_def

lemma ex_shop_port: "providers ex_shop_env provider = Some f \<Longrightarrow> checkout_port provider f"
  using payme_co.checkout_port_axioms [of ex_payme] by (auto simp: ex_shop_env_def split: if_splits)

lemma ex_shop_race: "race ex_shop_env s = s"
  by (simp add: ex_shop_env_def)

lemma order_event_names:
  "EVENT_NAME_RE ''commerce.order.created''" "EVENT_NAME_RE ''commerce.order.paid''" "EVENT_NAME_RE ''commerce.order.canceled''"
  "EVENT_NAME_RE ''commerce.cart.checked_out''"
  by code_simp+

lemma ex_order_placed: "\<exists>co t. place_order ex_shop_env ex_ctx ex_lines ''payme'' ex_shop = (Inr co, t)"
  by (simp add: place_order_def shop_defs customer_id_def get_sale_info_def repo_get_or_raise_def repo_get_def repo_select_def
      stamp_order_def order_check_def stamp_order_item_def order_item_check_def order_key_def order_event_names run_defs intake_defs cong: run_cong)

subsection \<open>Placing\<close>

lemma outside_orders: "outside_payments (\<lambda>s :: 'z orders_db_scheme. (orders s, order_items s))"
  by (simp add: outside_payments_def)

lemma emit_order_tables:
  assumes "emit svc ctx name p s = (r, u)"
  shows "orders u = orders s \<and> order_items u = order_items s"
  using emit_frame [where g = "\<lambda>s. (orders s, order_items s)", OF assms] by simp

lemma replay_request: "replay_checkout q req = Inr c \<Longrightarrow> pay_request_of q = req \<and> c_payment c = p_id q"
  by (auto simp: replay_checkout_def pay_request_of_def Let_def split: if_splits option.splits json.splits)

text \<open>C7. A placed order: the lines stored with it are the lines asked for at the prices of the catalogue, all in
  one currency; its total is their sum and positive; and there is a payment of the tenant for exactly this
  amount, in this currency, that refers to the order and that the order names.\<close>

theorem order_placed:
  assumes run: "place_order env ctx lines provider s = (Inr co, s')"
    and port: "\<And>f. providers env provider = Some f \<Longrightarrow> checkout_port provider f"
    and race: "\<And>s. orders (race env s) = orders s \<and> order_items (race env s) = order_items s"
  shows "\<exists>t r items p. tenant_id ctx = Some t \<and> r \<in> set (orders s') \<and> o_id r = oc_order co \<and> o_tenant r = t \<and> o_status r = OrderPending
    \<and> order_items s' = order_items s @ items
    \<and> map (\<lambda>x. (oi_product x, oi_quantity x)) items = map (\<lambda>l. (ln_product l, ln_quantity l)) lines
    \<and> (\<forall>x \<in> set items. oi_order x = o_id r \<and> get_sale_info ctx (oi_product x) s = Inr \<lparr>m_amount = oi_price x, m_currency = o_currency r\<rparr>)
    \<and> o_total r = sum_list (map (\<lambda>x. oi_price x * oi_quantity x) items) \<and> 0 < o_total r
    \<and> p \<in> set (payments s') \<and> p_tenant p = t \<and> p_id p = oc_payment co \<and> o_payment r = Some (p_id p)
    \<and> p_amount p = o_total r \<and> p_currency p = o_currency r \<and> p_purpose p = ''commerce.order'' \<and> p_reference p = uuid_str (o_id r)"
proof -
  obtain t customer priced tot cur s2 eid s3 amount k s4 r s1 where
      t: "tenant_id ctx = Some t" and pl: "price_lines ctx lines [] 0 [] s = Inr (priced, tot, cur)"
    and r: "r = \<lparr>o_id = uuid_gen s (uuid_next s), o_tenant = t, o_customer = customer, o_status = OrderPending, o_total = tot, o_currency = cur,
          o_payment = None, o_created = now s\<rparr>"
    and s1: "s1 = s\<lparr>uuid_next := Suc (uuid_next s), orders := orders s @ [r]\<rparr>"
    and items: "add_items t (o_id r) priced s1 = (Inr (), s2)"
    and em: "emit ''orders'' ctx ''commerce.order.created''
       [(''order_id'', JStr (uuid_str (o_id r))), (''customer_user_id'', JStr (uuid_str customer)), (''total_amount'', JInt tot), (''currency'', JStr cur)] s2
       = (Inr eid, s3)"
    and money: "mk_money tot cur = Inr amount"
    and cp: "create_payment env ctx amount ''commerce.order'' (uuid_str (o_id r)) provider (order_key (o_id r)) None None s3 = (Inr k, s4)"
    and co: "co = \<lparr>oc_order = o_id r, oc_payment = c_payment k, oc_provider = c_provider k, oc_url = c_url k\<rparr>"
    and s': "s' = set_order (r\<lparr>o_payment := Some (c_payment k)\<rparr>) s4"
    by (rule place_order_steps [OF run])
  have rf: "o_tenant r = t" "o_status r = OrderPending" "o_total r = tot" "o_currency r = cur" unfolding r by simp_all
  from price_lines_ok [OF pl] have priced: "tot = priced_total priced" "priced_ok ctx s cur priced"
    "map (\<lambda>x. (fst x, fst (snd x))) priced = map (\<lambda>l. (ln_product l, ln_quantity l)) lines" by auto
  from add_items_ok [OF items] obtain its where raw: "s2 = s1\<lparr>uuid_next := uuid_next s1 + length priced, order_items := order_items s1 @ its\<rparr>"
    "map (\<lambda>x. (oi_product x, oi_quantity x, oi_price x, oi_currency x)) its = priced"
    "\<forall>x \<in> set its. oi_order x = (o_id r) \<and> oi_tenant x = t \<and> 1 \<le> oi_quantity x \<and> 0 \<le> oi_price x" by (elim exE conjE) (rule that)
  have its: "order_items s2 = order_items s @ its" "orders s2 = orders s @ [r]"
    "map (\<lambda>x. (oi_product x, oi_quantity x, oi_price x, oi_currency x)) its = priced" "\<forall>x \<in> set its. oi_order x = o_id r"
    using raw s1 by simp_all
  have tab: "orders s4 = orders s @ [r]" "order_items s4 = order_items s @ its"
    using create_payment_frame [OF cp outside_orders] race emit_order_tables [OF em] its(1,2) by simp_all
  from create_payment_replays [OF cp port] t obtain q where q: "by_idempotency_key t (order_key (o_id r)) (payments s4) = Some q"
    "pay_request_of q = (m_amount amount, m_currency amount, ''commerce.order'', uuid_str (o_id r), provider)" "c_payment k = p_id q"
    using replay_request by fastforce
  have qm: "q \<in> set (payments s4)" "p_tenant q = t" using q(1) unfolding by_key_find by (auto dest: find_Some_set)
  have am: "m_amount amount = tot" "m_currency amount = cur" using money by (auto simp: mk_money_Inr)
  have pos: "0 < tot" using cp t am(1) by (auto simp: create_payment_def repo_init_def split: option.splits if_splits)
  let ?r1 = "r\<lparr>o_payment := Some (c_payment k)\<rparr>"
  have "?r1 \<in> set (orders s')" unfolding s' set_order_def using tab(1) by simp
  moreover have "payments s' = payments s4" "order_items s' = order_items s @ its" unfolding s' set_order_def using tab(2) by simp_all
  moreover have "map (\<lambda>x. (oi_product x, oi_quantity x)) its = map (\<lambda>l. (ln_product l, ln_quantity l)) lines"
    using priced(3) its(3) by (auto simp: comp_def)
  moreover have "tot = sum_list (map (\<lambda>x. oi_price x * oi_quantity x) its)" unfolding priced(1) its(3) [symmetric] by (simp add: comp_def)
  moreover have "\<forall>x \<in> set its. oi_order x = (o_id r) \<and> get_sale_info ctx (oi_product x) s = Inr \<lparr>m_amount = oi_price x, m_currency = cur\<rparr>"
    using its(4) priced(2) unfolding its(3) [symmetric] by (auto simp: priced_ok_def)
  ultimately show ?thesis
    using t q(2,3) qm am pos co rf by (intro exI [of _ t] exI [of _ ?r1] exI [of _ its] exI [of _ q]) (simp add: pay_request_of_def)
qed

theorem order_placed_witness:
  "\<exists>co s' r. place_order ex_shop_env ex_ctx ex_lines ''payme'' ex_shop = (Inr co, s') \<and> r \<in> set (orders s') \<and> 0 < o_total r
    \<and> (\<exists>p \<in> set (payments s'). p_amount p = o_total r \<and> p_reference p = uuid_str (o_id r))"
proof -
  obtain co s' where run: "place_order ex_shop_env ex_ctx ex_lines ''payme'' ex_shop = (Inr co, s')" using ex_order_placed by blast
  have race: "orders (race ex_shop_env s) = orders s \<and> order_items (race ex_shop_env s) = order_items s" for s by (simp add: ex_shop_race)
  from order_placed [OF run ex_shop_port race] show ?thesis using run by blast
qed

subsection \<open>The outcome of the payment\<close>

datatype order_outcome = is_PaymentSucceeded: PaymentSucceeded bool | PaymentEnded string

text \<open>What the handlers do with an event of the payment \<open>p\<close> of the order \<open>i\<close>: a success carries the
  mark of a payment that had ended before it.\<close>

definition settle :: "tenant_context \<Rightarrow> uuid \<Rightarrow> uuid \<Rightarrow> order_outcome \<Rightarrow> 'z orders_db_scheme \<Rightarrow> 'z orders_db_scheme" where
  "settle ctx i p e s =
     (case e of
        PaymentSucceeded late \<Rightarrow> snd (mark_paid ctx i (Some p) late s)
      | PaymentEnded reason \<Rightarrow> snd (cancel_order ctx i reason s))"

definition paid_events :: "'z infra_scheme \<Rightarrow> nat" where
  "paid_events s = length (filter (\<lambda>e. ev_name (snd e) = ''commerce.order.paid'') (pending_events s))"

lemma repo_get_set_order:
  assumes "repo_get o_tenant o_id t i (orders s) = Some r" and "o_id r' = i" and "o_tenant r' = t"
  shows "repo_get o_tenant o_id t i (orders (set_order r' s)) = Some r'"
proof -
  have "find (\<lambda>x. o_id x = i) (filter (\<lambda>x. o_tenant x = t) rows) \<noteq> None \<Longrightarrow>
      find (\<lambda>x. o_id x = i) (filter (\<lambda>x. o_tenant x = t) (upd_where (\<lambda>x. o_id x = i) (\<lambda>_. r') rows)) = Some r'" for rows
    using assms(2,3) by (induction rows) (auto split: if_splits)
  then show ?thesis using assms by (simp add: repo_get_def repo_select_def set_order_def)
qed

text \<open>One event: the order, its payment and the number of announcements.\<close>

lemma settle_step:
  assumes "tenant_id ctx = Some t" and "repo_get o_tenant o_id t i (orders s) = Some r" and "o_payment r = Some p"
    and "o_status r = OrderCanceled \<longrightarrow> e \<noteq> PaymentSucceeded False"
  shows "\<exists>r'. repo_get o_tenant o_id t i (orders (settle ctx i p e s)) = Some r' \<and> o_payment r' = Some p
    \<and> o_status r' = (if o_status r = OrderPaid \<or> is_PaymentSucceeded e then OrderPaid else OrderCanceled)
    \<and> paid_events (settle ctx i p e s) = paid_events s + of_bool (is_PaymentSucceeded e \<and> o_status r \<noteq> OrderPaid)"
proof -
  have id: "o_id r = i" "o_tenant r = t" using repo_get_Some [OF assms(2)] by auto
  show ?thesis
  proof (cases e)
    case (PaymentSucceeded late)
    let ?r = "r\<lparr>o_status := OrderPaid, o_payment := Some p\<rparr>"
    have g: "repo_get o_tenant o_id t i (orders (set_order ?r s)) = Some ?r" by (rule repo_get_set_order [OF assms(2)]) (use id in simp_all)
    show ?thesis
    proof (cases "o_status r = OrderPaid")
      case True
      then show ?thesis using assms PaymentSucceeded by (simp add: settle_def mark_paid_def repo_init_def)
    next
      case False
      then have "\<not> (o_status r = OrderCanceled \<and> \<not> (late \<and> Some p \<noteq> None \<and> o_payment r = Some p))" using assms(3,4) PaymentSucceeded by simp
      then show ?thesis using assms(1,2) PaymentSucceeded g False
        by (simp add: settle_def mark_paid_def repo_init_def Let_def emit_valid order_event_names paid_events_def set_order_def)
    qed
  next
    case (PaymentEnded reason)
    let ?r = "r\<lparr>o_status := OrderCanceled\<rparr>"
    have g: "repo_get o_tenant o_id t i (orders (set_order ?r s)) = Some ?r" by (rule repo_get_set_order [OF assms(2)]) (use id in simp_all)
    show ?thesis
    proof (cases "o_status r = OrderPaid \<or> o_status r = OrderCanceled")
      case True
      then show ?thesis using assms PaymentEnded by (auto simp: settle_def cancel_order_def repo_init_def)
    next
      case False
      then show ?thesis using assms PaymentEnded g
        by (simp add: settle_def cancel_order_def repo_init_def emit_valid order_event_names paid_events_def set_order_def)
    qed
  qed
qed

text \<open>C8. The outcome of an order: whatever events its payment sends, in whatever order they are delivered and however
  often, the order ends paid exactly when one of them was the success, and canceled when there were others only; it
  is announced as paid once at most.  A payment that ended can succeed after all only if it had expired, and then marks
  the success as late (the hypothesis): a checkout paid late leaves a paid order even if the cancellation is
  delivered first.\<close>

theorem order_outcome_confluent:
  assumes "tenant_id ctx = Some t" and "repo_get o_tenant o_id t i (orders s) = Some r" and "o_payment r = Some p" and "o_status r = OrderPending"
    and "list_ex (\<lambda>e. \<not> is_PaymentSucceeded e) evs \<longrightarrow> PaymentSucceeded False \<notin> set evs"
  shows "\<exists>r'. repo_get o_tenant o_id t i (orders (fold (settle ctx i p) evs s)) = Some r' \<and> o_payment r' = Some p
    \<and> o_status r' = (if list_ex is_PaymentSucceeded evs then OrderPaid else if evs = [] then OrderPending else OrderCanceled)
    \<and> paid_events (fold (settle ctx i p) evs s) = paid_events s + of_bool (list_ex is_PaymentSucceeded evs)"
proof -
  have run: "\<exists>r'. repo_get o_tenant o_id t i (orders (fold (settle ctx i p) evs s)) = Some r' \<and> o_payment r' = Some p
      \<and> o_status r' = (if o_status r = OrderPaid \<or> list_ex is_PaymentSucceeded evs then OrderPaid else if evs = [] then o_status r else OrderCanceled)
      \<and> paid_events (fold (settle ctx i p) evs s) = paid_events s + of_bool (list_ex is_PaymentSucceeded evs \<and> o_status r \<noteq> OrderPaid)"
    if "repo_get o_tenant o_id t i (orders s) = Some r" "o_payment r = Some p"
      "o_status r = OrderCanceled \<or> list_ex (\<lambda>e. \<not> is_PaymentSucceeded e) evs \<longrightarrow> PaymentSucceeded False \<notin> set evs" for s :: "'a orders_db_scheme" and r
    using that
  proof (induction evs arbitrary: s r)
    case (Cons e evs)
    have late: "o_status r = OrderCanceled \<longrightarrow> e \<noteq> PaymentSucceeded False" using Cons.prems(3) by auto
    from settle_step [OF assms(1) Cons.prems(1,2) late] obtain r1 where r1:
      "repo_get o_tenant o_id t i (orders (settle ctx i p e s)) = Some r1" "o_payment r1 = Some p"
      "o_status r1 = (if o_status r = OrderPaid \<or> is_PaymentSucceeded e then OrderPaid else OrderCanceled)"
      "paid_events (settle ctx i p e s) = paid_events s + of_bool (is_PaymentSucceeded e \<and> o_status r \<noteq> OrderPaid)" by blast
    have "o_status r1 = OrderCanceled \<or> list_ex (\<lambda>e. \<not> is_PaymentSucceeded e) evs \<longrightarrow> PaymentSucceeded False \<notin> set evs"
      using Cons.prems(3) r1(3) by (auto split: if_splits)
    from Cons.IH [OF r1(1,2) this] show ?case using r1(3,4) by (auto split: if_splits)
  qed simp
  from run [OF assms(2,3)] show ?thesis using assms(5) unfolding assms(4) by (simp only: order_status.simps simp_thms)
qed

definition ex_order :: order where
  "ex_order = \<lparr>o_id = 40, o_tenant = 1, o_customer = 2, o_status = OrderPending, o_total = 450, o_currency = ''UZS'', o_payment = Some 41,
     o_created = ex_now\<rparr>"

theorem order_outcome_confluent_witness:
  "\<exists>r'. repo_get o_tenant o_id 1 40 (orders (fold (settle ex_ctx 40 41)
      [PaymentEnded ''billing.payment.expired'', PaymentSucceeded True, PaymentSucceeded True] (ex_shop\<lparr>orders := [ex_order]\<rparr>))) = Some r'
    \<and> o_status r' = OrderPaid"
  using order_outcome_confluent [of ex_ctx 1 40 "ex_shop\<lparr>orders := [ex_order]\<rparr>" ex_order 41
      "[PaymentEnded ''billing.payment.expired'', PaymentSucceeded True, PaymentSucceeded True]"]
  by (simp add: ex_order_def ex_ctx_def mk_ctx_def repo_get_def repo_select_def) blast

subsection \<open>Carts\<close>

text \<open>C22. The invariant of carts: a buyer has at most one active cart in a tenant; a cart has at most one line per
  product, each of 1 to 1000 pieces at a price that is not negative, and all its lines are in one currency.  Adding
  and removing items keep it, also when they fail half way and when another request opens the cart
  concurrently.\<close>

theorem cart_invariant:
  assumes "cart_ok s" and "cart_ids s" and "\<And>s. cart_ok s \<Longrightarrow> cart_ids s \<Longrightarrow> cart_ok (rc s) \<and> cart_ids (rc s)"
  shows "cart_ok (snd (add_item rc ctx pid q s)) \<and> cart_ids (snd (add_item rc ctx pid q s))
    \<and> cart_ok (snd (remove_item ctx pid s)) \<and> cart_ids (snd (remove_item ctx pid s))"
  using add_item_ok [OF assms] remove_item_ok [OF assms(1,2)] by simp

lemma ex_shop_ok: "cart_ok ex_shop" "cart_ids ex_shop"
  by (simp_all add: cart_ok_def active_key_def lines_ok_def line_ok_def one_currency_def MAX_LINE_QUANTITY_def cart_ids_def shop_defs inj_def)

theorem cart_invariant_witness:
  "cart_ok ex_shop \<and> cart_ok (snd (add_item id ex_ctx 20 5 ex_shop)) \<and> cart_ok (snd (remove_item ex_ctx 20 ex_shop))"
  using cart_invariant [OF ex_shop_ok, of id ex_ctx 20 5] ex_shop_ok(1) by simp

lemma outside_carts: "outside_payments (\<lambda>s :: 'z cart_db_scheme. (carts s, cart_items s))"
  by (simp add: outside_payments_def)

lemma place_order_carts:
  assumes run: "place_order env ctx lines provider s = (Inr co, s')"
    and race: "\<And>s. carts (race env s) = carts s \<and> cart_items (race env s) = cart_items s"
  shows "carts s' = carts s \<and> cart_items s' = cart_items s"
proof (rule place_order_steps [OF run], goal_cases)
  case (1 t customer priced tot cur s2 eid s3 amount k s4 r s1)
  let ?g = "\<lambda>s :: 'a cart_db_scheme. (carts s, cart_items s)"
  from add_items_ok [OF 1(5)] obtain its where "s2 = s1\<lparr>uuid_next := uuid_next s1 + length priced, order_items := order_items s1 @ its\<rparr>"
    by (elim exE conjE) (rule that)
  then have "?g s2 = ?g s" using 1(4) by simp
  moreover have "?g s3 = ?g s2" by (rule emit_frame [OF 1(6)]) simp_all
  moreover have "?g s4 = ?g s3" by (rule create_payment_frame [OF 1(8) outside_carts]) (use race in simp)
  ultimately show ?case unfolding 1(10) set_order_def by simp
qed

text \<open>C21. Checking out: the order is the one \<^const>\<open>place_order\<close> makes of the lines of the buyer's active cart, oldest first,
  each with the quantity in the cart; no line is refused as malformed.  Afterwards the buyer has no active cart, the
  lines of the carts are as they were, and the invariant of carts holds.\<close>

theorem checkout_places_cart:
  assumes run: "checkout env ctx provider s = (Inr co, s')" and ok: "cart_ok s"
    and race: "\<And>s. carts (race env s) = carts s \<and> cart_items (race env s) = cart_items s"
  shows "\<exists>t c r items u. cart_init ctx = Inr (t, c) \<and> active_cart t c (carts s) = Some r
    \<and> items = sort_key ci_created (cart_lines t (ca_id r) (cart_items s)) \<and> items \<noteq> []
    \<and> place_order env ctx (map (\<lambda>x. \<lparr>ln_product = ci_product x, ln_quantity = ci_quantity x\<rparr>) items) provider s = (Inr co, u)
    \<and> orders s' = orders u \<and> order_items s' = order_items u \<and> payments s' = payments u
    \<and> active_cart t c (carts s') = None \<and> cart_items s' = cart_items s \<and> cart_ok s'"
proof -
  obtain t c where tc: "cart_init ctx = Inr (t, c)" using run by (cases "cart_init ctx") (auto simp: checkout_def)
  obtain r where r: "active_cart t c (carts s) = Some r"
    using run tc by (cases "active_cart t c (carts s)") (auto simp: checkout_def require_active_cart_def)
  define items where "items = sort_key ci_created (cart_lines t (ca_id r) (cart_items s))"
  define ls where "ls = map (\<lambda>x. \<lparr>ln_product = ci_product x, ln_quantity = ci_quantity x\<rparr>) items"
  have ne: "items \<noteq> []" using run tc r by (auto simp: checkout_def require_active_cart_def items_def Let_def)
  have "list_all line_ok items" using ok by (auto simp: items_def cart_ok_def lines_ok_def list_all_iff cart_lines_set)
  then have ls: "lines_of items = Inr ls" unfolding ls_def by (rule lines_of_ok)
  obtain x u where po: "place_order env ctx ls provider s = (x, u)" by force
  have step: "checkout env ctx provider s = on_ok (place_order env ctx ls provider s) (\<lambda>co s.
      on_ok (emit ''cart'' ctx ''commerce.cart.checked_out''
        [(''cart_id'', JStr (uuid_str (ca_id r))), (''customer_user_id'', JStr (uuid_str c)), (''order_id'', JStr (uuid_str (oc_order co)))]
        (set_cart (r\<lparr>ca_status := CheckedOut\<rparr>) s)) (\<lambda>_ s. ret co s))"
    using tc r ne ls by (simp add: checkout_def require_active_cart_def Let_def items_def)
  have x: "x = Inr co" using run step po by (cases x) (auto simp: emit_valid order_event_names)
  let ?u = "set_cart (r\<lparr>ca_status := CheckedOut\<rparr>) u"
  have s': "orders s' = orders ?u" "order_items s' = order_items ?u" "payments s' = payments ?u" "carts s' = carts ?u" "cart_items s' = cart_items ?u"
    using run step po x by (auto simp: emit_valid order_event_names)
  have u: "carts u = carts s" "cart_items u = cart_items s" using place_order_carts [OF po [unfolded x] race] by simp_all
  have "active_cart t c (carts s') = None" using s'(4) u(1) active_cart_closed [OF _ r] ok by (simp add: set_cart_def cart_ok_def)
  moreover have "cart_ok s'" using s'(4,5) u ok active_key_closed [of "carts s" "r\<lparr>ca_status := CheckedOut\<rparr>"] by (simp add: set_cart_def cart_ok_def)
  moreover have "cart_items s' = cart_items s" using s'(5) u(2) by (simp add: set_cart_def)
  moreover have "orders s' = orders u" "order_items s' = order_items u" "payments s' = payments u" using s'(1-3) by (simp_all add: set_cart_def)
  ultimately show ?thesis using tc r ne po x items_def ls_def by blast
qed

theorem checkout_places_cart_witness:
  "\<exists>co s'. checkout ex_shop_env ex_ctx ''payme'' ex_shop = (Inr co, s') \<and> active_cart 1 2 (carts s') = None \<and> cart_ok s'"
proof -
  have i: "cart_init ex_ctx = Inr (1, 2)" by (simp add: cart_init_def ex_ctx_def mk_ctx_def repo_init_def customer_id_def uuid_parse_str)
  have l: "cart_lines 1 30 (cart_items ex_shop) = [ex_line]" "active_cart 1 2 (carts ex_shop) = Some ex_cart"
    by (simp_all add: cart_lines_def active_cart_def repo_find_filter shop_defs)
  have "lines_of [ex_line] = Inr ex_lines" by (simp add: order_line_in_def ex_line_def ex_lines_def)
  then have "\<exists>co s'. checkout ex_shop_env ex_ctx ''payme'' ex_shop = (Inr co, s')"
    using ex_order_placed l i
    by (auto simp: checkout_def require_active_cart_def Let_def emit_valid order_event_names ex_cart_def)
  then obtain co s' where run: "checkout ex_shop_env ex_ctx ''payme'' ex_shop = (Inr co, s')" by blast
  have race: "carts (race ex_shop_env s) = carts s \<and> cart_items (race ex_shop_env s) = cart_items s" for s by (simp add: ex_shop_race)
  from checkout_places_cart [OF run ex_shop_ok(1) race] show ?thesis using run i by auto
qed

end
