(* ===== verification/Access_Properties.thy ===== *)
theory Access_Properties
  imports Request_Context System_Example
begin

section \<open>Properties of sessions, members and protected routes\<close>

text \<open>
  Refresh tokens are used once and a second use ends the session; invitations admit once, and whom they
  were sent to; a tenant keeps an owner; a protected route runs its endpoint only for members who hold
  the permission.
\<close>

subsection \<open>Refresh tokens\<close>

lemma find_map: "find P (map f xs) = map_option f (find (\<lambda>x. P (f x)) xs)"
  by (induction xs) auto

lemma find_upd_where:
  assumes "find P rows = Some r" and "\<And>x. P (f x) = P x"
  shows "find P (upd_where Q f rows) = Some (if Q r then f r else r)"
  unfolding upd_where_def find_map using assms by (auto simp: if_distrib [of P] cong: if_cong)

text \<open>What a successful refresh does.\<close>

lemma refresh_rotates:
  assumes run: "refresh env token s = (Inr tp, s1)"
    and race: "refresh_tokens (av_race env s) = refresh_tokens s"
  shows "\<exists>row new. find (\<lambda>r. tk_hash r = hash_token env token) (refresh_tokens s) = Some row
    \<and> tk_rotated row = None \<and> tk_revoked row = None \<and> instant (now s) < tk_expires row
    \<and> (\<exists>u. global_get u_id (tk_user row) (users s) = Some u \<and> u_status u = UserActive)
    \<and> tk_user new = tk_user row \<and> tk_family new = tk_family row \<and> tk_hash new = hash_token env (tp_refresh tp)
    \<and> refresh_tokens s1 =
        upd_where (\<lambda>r. tk_id r = tk_id row \<and> tk_rotated r = None \<and> tk_revoked r = None) (\<lambda>r. r\<lparr>tk_rotated := Some (now (av_race env s))\<rparr>) (refresh_tokens s)
        @ [new]"
proof (cases "find (\<lambda>r. tk_hash r = hash_token env token) (refresh_tokens s)")
  case None
  then show ?thesis using run by (simp add: refresh_def)
next
  case (Some row)
  have c: "tk_rotated row = None" "tk_revoked row = None" "\<not> tk_expires row \<le> instant (now s)"
    using run Some by (auto simp: refresh_def split: if_splits)
  have u: "\<exists>u. global_get u_id (tk_user row) (users s) = Some u \<and> u_status u = UserActive"
    using run Some c by (cases "global_get u_id (tk_user row) (users s)") (auto simp: refresh_def split: if_splits)
  let ?hit = "\<lambda>r. tk_id r = tk_id row \<and> tk_rotated r = None \<and> tk_revoked r = None"
  have "row \<in> set (refresh_tokens s)" using find_Some_set [OF Some] by simp
  then have "list_ex ?hit (refresh_tokens s)" using c by (auto simp: list_ex_iff)
  then show ?thesis using run Some c u race
    by (auto simp: refresh_def Let_def encode_access_token_def new_opaque_token_def new_uuid7_def)
qed

text \<open>What the second use of a token does to the sessions of its family, in its own request.\<close>

lemma refresh_reuse:
  assumes "find (\<lambda>r. tk_hash r = hash_token env token) (refresh_tokens s) = Some row" and "tk_rotated row \<noteq> None \<or> tk_revoked row \<noteq> None"
  shows "auth_unit_of_work (refresh env token) s =
    (Inl (Domain AuthenticationError ''refresh token reuse detected''),
     (revoke_family (tk_family row) ''reuse_detected'' (s\<lparr>pending_events := [], early_commit := True\<rparr>)))"
  using assms by (simp add: auth_unit_of_work_def refresh_def revoke_family_def revoke_where_def session_commit_def)

definition live_family :: "uuid \<Rightarrow> 'z auth_db_scheme \<Rightarrow> refresh_token list" where
  "live_family fam s = filter (\<lambda>r. tk_family r = fam \<and> tk_revoked r = None) (refresh_tokens s)"

lemma revoke_rows: "filter (\<lambda>r. tk_family r = fam \<and> tk_revoked r = None)
    (upd_where (\<lambda>r. tk_family r = fam \<and> tk_revoked r = None) (\<lambda>r. r\<lparr>tk_revoked := Some t, tk_reason := w\<rparr>) rows) = []"
  by (induction rows) (simp_all add: upd_where_def)

lemma revoke_family_live: "live_family fam (revoke_family fam reason s) = []"
  by (simp add: live_family_def revoke_family_def revoke_where_def revoke_rows)

lemma revoke_family_others: "tk_family r \<noteq> fam \<Longrightarrow> r \<in> set (refresh_tokens (revoke_family fam reason s)) \<longleftrightarrow> r \<in> set (refresh_tokens s)"
  by (auto simp: revoke_family_def revoke_where_def upd_where_def image_iff)

lemma rotated_others:
  assumes "distinct (map tk_id rows)" and "row \<in> set rows" and "tk_family x \<noteq> tk_family row"
  shows "x \<in> set (upd_where (\<lambda>r. tk_id r = tk_id row \<and> P r) (\<lambda>r. r\<lparr>tk_rotated := v\<rparr>) rows) \<longleftrightarrow> x \<in> set rows"
proof -
  have "tk_id r \<noteq> tk_id row" if "r \<in> set rows" "tk_family r \<noteq> tk_family row" for r
    using key_unique [OF assms(1) that(1) assms(2)] that(2) by blast
  then show ?thesis using assms(3) by (fastforce simp: upd_where_def image_iff)
qed

lemma revoked_refused:
  assumes "\<And>x. x \<in> set (refresh_tokens s) \<Longrightarrow> tk_hash x = hash_token env token \<Longrightarrow> tk_revoked x \<noteq> None"
  shows "\<exists>e. fst (refresh env token s) = Inl e"
proof (cases "find (\<lambda>r. tk_hash r = hash_token env token) (refresh_tokens s)")
  case (Some x)
  then have "tk_revoked x \<noteq> None" using assms find_Some_set [OF Some] by simp
  then show ?thesis using Some by (simp add: refresh_def)
qed (simp add: refresh_def)

text \<open>C6. Rotation of refresh tokens.  A refresh succeeds only with a token that is stored, neither used nor revoked nor
  expired, of an active user; it stores one new token of the same user and family.  Presenting the old token again is
  refused, and that request, although it fails, leaves every token of the family revoked, the new one included, so that
  neither holder can go on; tokens of other families are untouched.\<close>

theorem refresh_reuse_detected:
  assumes run: "refresh env token s = (Inr tp, s1)"
    and race: "refresh_tokens (av_race env s) = refresh_tokens s"
    and second: "auth_unit_of_work (refresh env token) s1 = (r, s2)"
    and ids: "distinct (map tk_id (refresh_tokens s))"
    and fresh: "hash_token env (tp_refresh tp) \<notin> tk_hash ` set (refresh_tokens s)"
  shows "\<exists>row. row \<in> set (refresh_tokens s) \<and> tk_hash row = hash_token env token \<and> tk_rotated row = None \<and> tk_revoked row = None
      \<and> instant (now s) < tk_expires row \<and> (\<exists>u. global_get u_id (tk_user row) (users s) = Some u \<and> u_status u = UserActive)
      \<and> length (refresh_tokens s1) = length (refresh_tokens s) + 1
      \<and> r = Inl (Domain AuthenticationError ''refresh token reuse detected'')
      \<and> live_family (tk_family row) s2 = []
      \<and> (\<forall>x. tk_family x \<noteq> tk_family row \<longrightarrow> (x \<in> set (refresh_tokens s2) \<longleftrightarrow> x \<in> set (refresh_tokens s)))
      \<and> (\<exists>e. fst (refresh env (tp_refresh tp) s2) = Inl e)"
proof -
  from refresh_rotates [OF run race] obtain row new where row: "find (\<lambda>r. tk_hash r = hash_token env token) (refresh_tokens s) = Some row"
    "tk_rotated row = None" "tk_revoked row = None" "instant (now s) < tk_expires row"
    "\<exists>u. global_get u_id (tk_user row) (users s) = Some u \<and> u_status u = UserActive"
    and new: "tk_family new = tk_family row" "tk_hash new = hash_token env (tp_refresh tp)"
    and s1: "refresh_tokens s1 =
        upd_where (\<lambda>r. tk_id r = tk_id row \<and> tk_rotated r = None \<and> tk_revoked r = None) (\<lambda>r. r\<lparr>tk_rotated := Some (now (av_race env s))\<rparr>) (refresh_tokens s)
        @ [new]" by blast
  let ?old = "row\<lparr>tk_rotated := Some (now (av_race env s))\<rparr>"
  have "find (\<lambda>r. tk_hash r = hash_token env token) (refresh_tokens s1) = Some ?old"
    unfolding s1 find_append using find_upd_where [OF row(1)] row(2,3) by simp
  from refresh_reuse [OF this] have s2: "r = Inl (Domain AuthenticationError ''refresh token reuse detected'')"
    "s2 = revoke_family (tk_family row) ''reuse_detected'' (s1\<lparr>pending_events := [], early_commit := True\<rparr>)" using second by simp_all
  have "x \<in> set (refresh_tokens s1) \<longleftrightarrow> x \<in> set (refresh_tokens s)" if "tk_family x \<noteq> tk_family row" for x
    using that new(1) rotated_others [OF ids _ that] find_Some_set [OF row(1)] unfolding s1 by auto
  then have others: "\<forall>x. tk_family x \<noteq> tk_family row \<longrightarrow> (x \<in> set (refresh_tokens s2) \<longleftrightarrow> x \<in> set (refresh_tokens s))"
    unfolding s2(2) by (simp add: revoke_family_others)
  have dead: "live_family (tk_family row) s2 = []" unfolding s2(2) by (rule revoke_family_live)
  have "\<exists>e. fst (refresh env (tp_refresh tp) s2) = Inl e"
  proof (rule revoked_refused)
    fix x
    assume x: "x \<in> set (refresh_tokens s2)" "tk_hash x = hash_token env (tp_refresh tp)"
    then have "tk_family x = tk_family row" using others fresh by force
    then show "tk_revoked x \<noteq> None" using dead x(1) by (auto simp: live_family_def filter_empty_conv)
  qed
  then show ?thesis using find_Some_set [OF row(1)] row s2(1) others dead s1 by auto
qed

text \<open>The stand-ins for the libraries of the witnesses.\<close>

definition ex_auth_env :: "tenants_db auth_env" where
  "ex_auth_env = \<lparr>av_settings = \<lparr>register_ip_limit_per_hour = 20, login_throttle = \<lparr>th_max_failures = 5, th_lockout_seconds = 900\<rparr>,
       two_factor_challenge_ttl_seconds = 300, refresh_token_ttl_seconds = 2592000, access_token_ttl_seconds = 900,
       password_reset_ttl_seconds = 1800, password_reset_url = ''https://x/#token={token}''\<rparr>,
     av_sha256 = (\<lambda>x. ''sha:'' @ x), av_hash_password = (\<lambda>x. ''h:'' @ x), av_verify = (\<lambda>h x. h = ''h:'' @ x), av_dummy_hash = ''dummy'',
     av_tokens = (\<lambda>n. ''t'' @ replicate n (CHR ''x'')), av_choice = (\<lambda>n. n), av_jwt_encode = (\<lambda>p. ''jwt''),
     av_jwt_decode = (\<lambda>t. if t = ''jwt'' then Some [(''sub'', JStr (uuid_str 2)), (''tenant'', JStr (uuid_str 1)), (''type'', JStr ACCESS_TOKEN_TYPE)] else None),
     av_encrypt = (\<lambda>x. x), av_decrypt = (\<lambda>x. Inr x), av_totp_ok = (\<lambda>secret code t. code = ''123456''), av_totp_uri = (\<lambda>secret e. secret),
     av_notif = \<lparr>nv_registry = [], nv_directory = None, nv_race = (\<lambda>s. s)\<rparr>, av_race = (\<lambda>s. s)\<rparr>"

definition ex_token :: refresh_token where
  "ex_token = \<lparr>tk_id = 50, tk_user = 2, tk_family = 51, tk_hash = ''sha:old'', tk_expires = instant ex_now + 1, tk_rotated = None, tk_revoked = None,
     tk_reason = None, tk_ip = None, tk_agent = None\<rparr>"

definition ex_session :: tenants_db where
  "ex_session = ex_platform\<lparr>refresh_tokens := [ex_token]\<rparr>"

lemmas session_defs = ex_session_def ex_token_def ex_platform_def ex_user_def ex_auth_env_def

lemma ex_refresh: "\<exists>tp s1. refresh ex_auth_env ''old'' ex_session = (Inr tp, s1) \<and> tp_refresh tp = ''t''"
  by (simp add: refresh_def session_defs hash_token_def global_get_def new_opaque_token_def new_uuid7_def Let_def encode_access_token_def)

theorem refresh_reuse_detected_witness:
  "\<exists>tp s1 r s2. refresh ex_auth_env ''old'' ex_session = (Inr tp, s1) \<and> auth_unit_of_work (refresh ex_auth_env ''old'') s1 = (r, s2)
    \<and> r = Inl (Domain AuthenticationError ''refresh token reuse detected'') \<and> live_family 51 s2 = []"
proof -
  from ex_refresh obtain tp s1 where run: "refresh ex_auth_env ''old'' ex_session = (Inr tp, s1)" "tp_refresh tp = ''t''" by blast
  obtain r s2 where second: "auth_unit_of_work (refresh ex_auth_env ''old'') s1 = (r, s2)" by force
  have race: "refresh_tokens (av_race ex_auth_env ex_session) = refresh_tokens ex_session" by (simp add: ex_auth_env_def)
  have rows: "refresh_tokens ex_session = [ex_token]" by (simp add: ex_session_def)
  have "hash_token ex_auth_env (tp_refresh tp) \<notin> tk_hash ` set (refresh_tokens ex_session)"
    unfolding rows run(2) by (simp add: hash_token_def ex_auth_env_def ex_token_def)
  from refresh_reuse_detected [OF run(1) race second _ this] show ?thesis using run second by (auto simp: rows ex_token_def)
qed

subsection \<open>Invitations\<close>

lemma find_upd_const: "find P rows = Some r \<Longrightarrow> P r' \<Longrightarrow> Q r \<Longrightarrow> find P (upd_where Q (\<lambda>_. r') rows) = Some r'"
  by (induction rows) (auto simp: upd_where_def split: if_splits)

lemma tenant_event_names:
  "EVENT_NAME_RE ''tenants.member.joined''" "EVENT_NAME_RE ''tenants.member.removed''" "EVENT_NAME_RE ''tenants.member.role_changed''"
  by code_simp+

text \<open>The steps of a successful acceptance.\<close>

lemma accept_invitation_steps:
  assumes run: "accept_invitation env ctx token email s = (Inr (m, code), s1)"
    and race: "\<And>s. invitations (tv_race env s) = invitations s"
  obtains u ivt where "actor_user ctx = Inr u" and "find (\<lambda>r. iv_hash r = hash_token (tv_auth env) token) (invitations s) = Some ivt"
    and "iv_status ivt = InvPending" and "instant (now s) < iv_expires ivt" and "iv_email ivt = normal_email email"
    and "\<not> list_ex (\<lambda>x. mb_tenant x = iv_tenant ivt \<and> mb_user x = u) (memberships s)"
    and "mb_tenant m = iv_tenant ivt" and "mb_user m = u" and "mb_role m = iv_role ivt" and "mb_status m = MemberActive"
    and "m \<in> set (memberships s1)"
    and "\<exists>when. invitations s1 =
      upd_where (\<lambda>x. iv_id x = iv_id ivt) (\<lambda>_. ivt\<lparr>iv_status := InvAccepted, iv_accepted_by := Some u, iv_accepted_at := when\<rparr>) (invitations s)"
proof -
  obtain u where u: "actor_user ctx = Inr u" using run by (cases "actor_user ctx") (auto simp: accept_invitation_def)
  obtain ivt where ivt: "find (\<lambda>r. iv_hash r = hash_token (tv_auth env) token) (invitations s) = Some ivt"
    using run u by (cases "find (\<lambda>r. iv_hash r = hash_token (tv_auth env) token) (invitations s)") (auto simp: accept_invitation_def)
  have c: "iv_status ivt = InvPending" "instant (now s) < iv_expires ivt" "iv_email ivt = normal_email email"
    "\<not> list_ex (\<lambda>x. mb_tenant x = iv_tenant ivt \<and> mb_user x = u) (memberships s)"
    using run u ivt by (auto simp: accept_invitation_def split: if_splits)
  let ?s2 = "tv_race env (s\<lparr>uuid_next := Suc (uuid_next s)\<rparr>)"
  let ?m = "\<lparr>mb_id = uuid_gen s (uuid_next s), mb_tenant = iv_tenant ivt, mb_user = u, mb_role = iv_role ivt, mb_status = MemberActive, mb_created = now ?s2\<rparr>"
  let ?ivt = "ivt\<lparr>iv_status := InvAccepted, iv_accepted_by := Some u, iv_accepted_at := Some (now ?s2)\<rparr>"
  have nc: "\<not> membership_conflict ?m (memberships ?s2)"
    using run u ivt c by (auto simp: accept_invitation_def new_uuid7_def Let_def global_add_def)
  have step: "accept_invitation env ctx token email s =
      (case find_role (iv_role ivt) (set_invitation ?ivt ?s2) of
         None \<Rightarrow> raise (TypeError ''NoneType has no attribute code'') ((set_invitation ?ivt ?s2)\<lparr>memberships := memberships ?s2 @ [?m]\<rparr>)
       | Some r \<Rightarrow>
           on_ok (emit ''tenants'' ctx ''tenants.member.joined''
                    [(''tenant_id'', JStr (uuid_str (iv_tenant ivt))), (''user_id'', JStr (uuid_str u)), (''role'', JStr (rl_code r))]
                    ((set_invitation ?ivt ?s2)\<lparr>memberships := memberships ?s2 @ [?m]\<rparr>)) (\<lambda>_ s. ret (?m, rl_code r) s))"
    using u ivt c nc by (simp add: accept_invitation_def new_uuid7_def Let_def global_add_def)
  obtain r where r: "find_role (iv_role ivt) (set_invitation ?ivt ?s2) = Some r"
    using run unfolding step by (cases "find_role (iv_role ivt) (set_invitation ?ivt ?s2)") auto
  have m: "m = ?m" and s1: "memberships s1 = memberships ?s2 @ [?m]" "invitations s1 = invitations (set_invitation ?ivt ?s2)"
    using run unfolding step r by (auto simp: emit_valid tenant_event_names)
  show ?thesis
    by (rule that [OF u ivt c]) (use m s1 race in \<open>auto simp: set_invitation_def\<close>)
qed

text \<open>C17. Invitations: accepting succeeds only with the token of a pending, unexpired invitation that was sent to the
  address of the user, who was no member yet; the user becomes an active member of the inviting tenant with the role of
  the invitation.  The token admits once: whoever presents it afterwards, with whatever address, is refused and
  nothing changes.\<close>

theorem invitation_single_use:
  assumes run: "accept_invitation env ctx token email s = (Inr (m, code), s1)"
    and race: "\<And>s. invitations (tv_race env s) = invitations s"
  shows "\<exists>u ivt. actor_user ctx = Inr u \<and> ivt \<in> set (invitations s) \<and> iv_hash ivt = hash_token (tv_auth env) token
      \<and> iv_status ivt = InvPending \<and> instant (now s) < iv_expires ivt \<and> iv_email ivt = normal_email email
      \<and> (\<forall>x \<in> set (memberships s). \<not> (mb_tenant x = iv_tenant ivt \<and> mb_user x = u))
      \<and> m \<in> set (memberships s1) \<and> mb_tenant m = iv_tenant ivt \<and> mb_user m = u \<and> mb_role m = iv_role ivt \<and> mb_status m = MemberActive
      \<and> (\<forall>ctx' email'. \<exists>e. accept_invitation env ctx' token email' s1 = (Inl e, s1))"
proof (rule accept_invitation_steps [OF run race], goal_cases)
  case (1 u ivt)
  let ?h = "\<lambda>r. iv_hash r = hash_token (tv_auth env) token"
  from 1(12) obtain w where s1: "invitations s1 =
      upd_where (\<lambda>x. iv_id x = iv_id ivt) (\<lambda>_. ivt\<lparr>iv_status := InvAccepted, iv_accepted_by := Some u, iv_accepted_at := w\<rparr>) (invitations s)" by blast
  have h: "?h ivt" using find_Some_set [OF 1(2)] by simp
  have x: "find ?h (invitations s1) = Some (ivt\<lparr>iv_status := InvAccepted, iv_accepted_by := Some u, iv_accepted_at := w\<rparr>)"
    unfolding s1 by (rule find_upd_const [OF 1(2)]) (use h in simp_all)
  have "\<exists>e. accept_invitation env ctx' token email' s1 = (Inl e, s1)" for ctx' email'
    using x by (cases "actor_user ctx'") (auto simp: accept_invitation_def)
  then show ?case using 1 find_Some_set [OF 1(2)] by (auto simp: list_ex_iff)
qed

definition ex_tenants_env :: "tenants_db tenants_env" where
  "ex_tenants_env = \<lparr>tv_notif = \<lparr>nv_registry = [], nv_directory = None, nv_race = (\<lambda>s. s)\<rparr>, tv_mailer = True, tv_accept_url = ''https://x/#token={token}'',
     tv_auth = ex_auth_env, tv_race = (\<lambda>s. s)\<rparr>"

definition ex_invitation :: invitation where
  "ex_invitation = \<lparr>iv_id = 60, iv_tenant = 1, iv_email = ''c@x'', iv_role = 11, iv_hash = ''sha:inv'', iv_status = InvPending, iv_invited_by = Some 2,
     iv_accepted_by = None, iv_expires = instant ex_now + 1, iv_accepted_at = None\<rparr>"

definition ex_guest :: tenant_context where
  "ex_guest = mk_ctx None \<lparr>act_kind = User, actor_id = Some (uuid_str 4)\<rparr>"

lemma ex_guest_user: "actor_user ex_guest = Inr 4"
  by (simp add: actor_user_def ex_guest_def mk_ctx_def uuid_parse_str)

lemma ex_email: "normal_email ''c@x'' = ''c@x''"
  by code_simp

lemma ex_accept: "\<exists>m c s1. accept_invitation ex_tenants_env ex_guest ''inv'' ''c@x'' (ex_platform\<lparr>invitations := [ex_invitation]\<rparr>) = (Inr (m, c), s1)"
  by (simp add: accept_invitation_def ex_guest_user ex_email hash_token_def ex_tenants_env_def ex_auth_env_def ex_invitation_def ex_platform_def ex_member_def
      ex_role_def new_uuid7_def Let_def global_add_def membership_conflict_def find_role_def set_invitation_def emit_valid tenant_event_names)

theorem invitation_single_use_witness:
  "\<exists>m c s1. accept_invitation ex_tenants_env ex_guest ''inv'' ''c@x'' (ex_platform\<lparr>invitations := [ex_invitation]\<rparr>) = (Inr (m, c), s1)
    \<and> m \<in> set (memberships s1) \<and> (\<exists>e. accept_invitation ex_tenants_env ex_guest ''inv'' ''c@x'' s1 = (Inl e, s1))"
proof -
  from ex_accept obtain m c s1 where
    run: "accept_invitation ex_tenants_env ex_guest ''inv'' ''c@x'' (ex_platform\<lparr>invitations := [ex_invitation]\<rparr>) = (Inr (m, c), s1)" by blast
  have "invitations (tv_race ex_tenants_env s) = invitations s" for s by (simp add: ex_tenants_env_def)
  from invitation_single_use [OF run this] show ?thesis using run by blast
qed

subsection \<open>Owners\<close>

definition owners :: "uuid \<Rightarrow> role \<Rightarrow> 'z tenants_db_scheme \<Rightarrow> membership list" where
  "owners t owner s = filter (\<lambda>m. mb_tenant m = t \<and> mb_role m = rl_id owner) (memberships s)"

lemma second_row:
  assumes "distinct (map f rows)" and "1 < length (filter P rows)"
  shows "\<exists>x \<in> set rows. P x \<and> f x \<noteq> k"
proof (rule ccontr)
  assume "\<not> (\<exists>x \<in> set rows. P x \<and> f x \<noteq> k)"
  then have "set (map f (filter P rows)) \<subseteq> {k}" by auto
  then have "card (set (map f (filter P rows))) \<le> 1" using card_mono [of "{k}"] by fastforce
  moreover have "distinct (map f (filter P rows))" using assms(1) by (simp add: distinct_map_filter)
  ultimately show False using assms(2) distinct_card [of "map f (filter P rows)"] by simp
qed

text \<open>The guard: another owner stays.\<close>

lemma guard_last_owner_other:
  assumes "guard_last_owner ctx u s = Inr ()" and "tenant_id ctx = Some t" and "system_role ROLE_OWNER s = Inr owner" and "member_or_raise ctx u s = Inr m"
    and "distinct (map mb_id (memberships s))" and "owners t owner s \<noteq> []"
  shows "\<exists>x \<in> set (memberships s). (mb_tenant x = t \<and> mb_role x = rl_id owner) \<and> mb_id x \<noteq> mb_id m"
proof (cases "mb_role m = rl_id owner")
  case True
  then have "1 < length (filter (\<lambda>m. mb_tenant m = t \<and> mb_role m = rl_id owner) (memberships s))"
    using assms(1-4) by (auto simp: guard_last_owner_def split: if_splits)
  from second_row [OF assms(5) this] show ?thesis .
next
  case False
  obtain x where x: "x \<in> set (memberships s)" "mb_tenant x = t" "mb_role x = rl_id owner"
    using assms(6) by (auto simp: owners_def filter_empty_conv)
  have "m \<in> set (memberships s)" using assms(4) by (auto simp: member_or_raise_def dest: find_Some_set split: option.splits)
  then have "mb_id x \<noteq> mb_id m" using key_unique [OF assms(5) x(1)] x(3) False by blast
  then show ?thesis using x by blast
qed

lemma remove_member_rows:
  assumes "remove_member env ctx u s = (Inr y, s')" and "tv_race env s = s"
  shows "\<exists>m. member_or_raise ctx u s = Inr m \<and> guard_last_owner ctx u s = Inr () \<and> memberships s' = del_where (\<lambda>x. mb_id x = mb_id m) (memberships s)"
proof -
  obtain m where m: "tenant_guard ctx MEMBER_REMOVE s = (Inr (), s)" "member_or_raise ctx u s = Inr m" "guard_last_owner ctx u s = Inr ()"
    using assms(1) by (cases "guard_require (Some (tenant_access ctx s)) ctx MEMBER_REMOVE"; cases "member_or_raise ctx u s"; cases "guard_last_owner ctx u s")
      (auto simp: remove_member_def tenant_guard_def)
  have "memberships s' = del_where (\<lambda>x. mb_id x = mb_id m) (memberships s)"
    using assms m by (cases "actor_user_id (ctx_actor ctx)")
      (auto simp: remove_member_def emit_valid tenant_event_names audit_record_def new_uuid7_def Let_def)
  then show ?thesis using m by blast
qed

lemma change_role_rows:
  assumes "change_member_role env ctx u code s = (Inr y, s')" and "tv_race env s = s"
  shows "\<exists>m r. member_or_raise ctx u s = Inr m \<and> tenant_or_system_role ctx code s = Inr r \<and> (rl_code r = ROLE_OWNER \<or> guard_last_owner ctx u s = Inr ())
    \<and> list_ex (\<lambda>x. mb_id x = mb_id m) (memberships s)
    \<and> memberships s' = upd_where (\<lambda>x. mb_id x = mb_id m) (\<lambda>_. m\<lparr>mb_role := rl_id r\<rparr>) (memberships s)"
proof -
  obtain m r where m: "tenant_guard ctx MEMBER_UPDATE_ROLE s = (Inr (), s)" "member_or_raise ctx u s = Inr m" "tenant_or_system_role ctx code s = Inr r"
    using assms(1) by (cases "guard_require (Some (tenant_access ctx s)) ctx MEMBER_UPDATE_ROLE"; cases "member_or_raise ctx u s"; cases "tenant_or_system_role ctx code s")
      (auto simp: change_member_role_def tenant_guard_def)
  have g: "rl_code r = ROLE_OWNER \<or> guard_last_owner ctx u s = Inr ()"
    using assms m by (cases "guard_last_owner ctx u s") (auto simp: change_member_role_def split: if_splits)
  then have "(if rl_code r \<noteq> ROLE_OWNER then guard_last_owner ctx u s else Inr ()) = Inr ()" by auto
  then have "list_ex (\<lambda>x. mb_id x = mb_id m) (memberships s)
      \<and> memberships s' = upd_where (\<lambda>x. mb_id x = mb_id m) (\<lambda>_. m\<lparr>mb_role := rl_id r\<rparr>) (memberships s)"
    using assms m by (auto simp: change_member_role_def Let_def emit_valid tenant_event_names split: if_splits)
  then show ?thesis using m g by blast
qed

text \<open>C18. A tenant that has an owner keeps one, whoever is removed or given another role: run one after the other, the two
  operations refuse to take the last one away.  (The guard reads without a lock: two owners who remove each
  other at the same time both pass it, \<open>last_owner_race\<close>.)  A custom role must not carry the code of the
  owner role.\<close>

theorem last_owner_kept:
  assumes t: "tenant_id ctx = Some t" and owner: "system_role ROLE_OWNER s = Inr owner" and has: "owners t owner s \<noteq> []"
    and ids: "distinct (map mb_id (memberships s))" and code: "\<And>r. r \<in> set (roles s) \<Longrightarrow> rl_code r = ROLE_OWNER \<Longrightarrow> r = owner"
    and alone: "tv_race env s = s"
  shows "(remove_member env ctx u s = (Inr x, s') \<longrightarrow> owners t owner s' \<noteq> [])
    \<and> (change_member_role env ctx u new_role s = (Inr y, s'') \<longrightarrow> owners t owner s'' \<noteq> [])"
proof (intro conjI impI)
  assume "remove_member env ctx u s = (Inr x, s')"
  from remove_member_rows [OF this alone] obtain m where m: "member_or_raise ctx u s = Inr m" "guard_last_owner ctx u s = Inr ()"
    "memberships s' = del_where (\<lambda>x. mb_id x = mb_id m) (memberships s)" by blast
  from guard_last_owner_other [OF m(2) t owner m(1) ids has] show "owners t owner s' \<noteq> []"
    unfolding owners_def m(3) by (auto simp: del_where_def filter_empty_conv)
next
  assume "change_member_role env ctx u new_role s = (Inr y, s'')"
  from change_role_rows [OF this alone] obtain m r where m: "member_or_raise ctx u s = Inr m" "tenant_or_system_role ctx new_role s = Inr r"
    "rl_code r = ROLE_OWNER \<or> guard_last_owner ctx u s = Inr ()" "list_ex (\<lambda>x. mb_id x = mb_id m) (memberships s)"
    "memberships s'' = upd_where (\<lambda>x. mb_id x = mb_id m) (\<lambda>_. m\<lparr>mb_role := rl_id r\<rparr>) (memberships s)" by blast
  have mt: "mb_tenant m = t" using m(1) t by (auto simp: member_or_raise_def dest: find_Some_set split: option.splits)
  show "owners t owner s'' \<noteq> []"
  proof (cases "rl_code r = ROLE_OWNER")
    case True
    have "r \<in> set (roles s)" using m(2) by (auto simp: tenant_or_system_role_def dest: find_Some_set split: option.splits)
    then have "r = owner" using code True by blast
    obtain x where "x \<in> set (memberships s)" "mb_id x = mb_id m" using m(4) by (auto simp: list_ex_iff)
    then have "m\<lparr>mb_role := rl_id r\<rparr> \<in> set (memberships s'')"
      unfolding m(5) upd_where_def set_map by (intro image_eqI [of _ _ x]) simp_all
    then have "m\<lparr>mb_role := rl_id r\<rparr> \<in> set (owners t owner s'')" using \<open>r = owner\<close> mt by (simp add: owners_def)
    then show ?thesis by force
  next
    case False
    with m(3) have "guard_last_owner ctx u s = Inr ()" by simp
    from guard_last_owner_other [OF this t owner m(1) ids has] show ?thesis
      unfolding owners_def m(5) by (force simp: upd_where_def filter_empty_conv)
  qed
qed

lemma ex_members: "memberships ex_platform = [ex_member 20 2 10, ex_member 21 3 11]" "roles ex_platform = [ex_role 10 ROLE_OWNER, ex_role 11 ROLE_MEMBER]"
  by (simp_all add: ex_platform_def)

lemma ex_owner: "system_role ROLE_OWNER ex_platform = Inr (ex_role 10 ROLE_OWNER)" "tenant_id ex_owner_ctx = Some 1"
  by (simp_all add: system_role_def ex_members ex_role_def ex_owner_ctx_def mk_ctx_def)

lemma ex_owner_actor: "actor_user_id (ctx_actor ex_owner_ctx) = Inr (Some 2)"
  by (simp add: actor_user_id_def ex_owner_ctx_def mk_ctx_def uuid_parse_str)

lemma ex_can_remove: "tenant_guard ex_owner_ctx MEMBER_REMOVE ex_platform = (Inr (), ex_platform)"
  by (simp add: tenant_guard_def guard_require_def access_require_def has_permission_def tenant_access_def get_permission_codes_def ex_owner_ctx_def mk_ctx_def
      uuid_parse_str tenant_active_def ex_platform_def ex_member_def ex_tenant_def)

lemma ex_remove: "\<exists>s'. remove_member ex_tenants_env ex_owner_ctx 3 ex_platform = (Inr (), s')"
  by (simp add: remove_member_def ex_can_remove member_or_raise_def ex_members ex_member_def ex_owner guard_last_owner_def ex_role_def
      emit_valid tenant_event_names audit_record_def new_uuid7_def Let_def ex_owner_actor)

theorem last_owner_kept_witness:
  "\<exists>s'. remove_member ex_tenants_env ex_owner_ctx 3 ex_platform = (Inr (), s') \<and> owners 1 (ex_role 10 ROLE_OWNER) s' \<noteq> []"
proof -
  obtain s' where run: "remove_member ex_tenants_env ex_owner_ctx 3 ex_platform = (Inr (), s')" using ex_remove by blast
  have has: "owners 1 (ex_role 10 ROLE_OWNER) ex_platform \<noteq> []" "distinct (map mb_id (memberships ex_platform))"
    by (simp_all add: owners_def ex_members ex_member_def ex_role_def)
  have code: "r = ex_role 10 ROLE_OWNER" if "r \<in> set (roles ex_platform)" "rl_code r = ROLE_OWNER" for r
    using that by (auto simp: ex_members ex_role_def ROLE_OWNER_def ROLE_MEMBER_def)
  have "tv_race ex_tenants_env ex_platform = ex_platform" by (simp add: ex_tenants_env_def)
  from last_owner_kept [OF ex_owner(2,1) has code this, of 3 "()" s'] show ?thesis using run by blast
qed

text \<open>The race: two owners, and the second one's removal of the first commits between the first one's check and
  its write.\<close>

lemma last_owner_race:
  "\<exists>s'. remove_member (ex_tenants_env\<lparr>tv_race := \<lambda>s. s\<lparr>memberships := del_where (\<lambda>x. mb_id x = 20) (memberships s)\<rparr>\<rparr>) ex_owner_ctx 3
      (ex_platform\<lparr>memberships := [ex_member 20 2 10, ex_member 21 3 10]\<rparr>) = (Inr (), s') \<and> owners 1 (ex_role 10 ROLE_OWNER) s' = []"
proof -
  let ?s = "ex_platform\<lparr>memberships := [ex_member 20 2 10, ex_member 21 3 10]\<rparr>"
  have "tenant_guard ex_owner_ctx MEMBER_REMOVE ?s = (Inr (), ?s)"
    by (simp add: tenant_guard_def guard_require_def access_require_def has_permission_def tenant_access_def get_permission_codes_def ex_owner_ctx_def mk_ctx_def
        uuid_parse_str tenant_active_def ex_platform_def ex_member_def ex_tenant_def)
  then show ?thesis
    by (simp add: remove_member_def member_or_raise_def ex_member_def ex_owner guard_last_owner_def system_role_def ex_members ex_role_def owners_def del_where_def
        emit_valid tenant_event_names audit_record_def new_uuid7_def Let_def ex_owner_actor)
qed

subsection \<open>Protected routes\<close>

text \<open>Who holds a permission, read off the tables.\<close>

definition holds_permission :: "uuid \<Rightarrow> uuid \<Rightarrow> string \<Rightarrow> 'z tenants_db_scheme \<Rightarrow> bool" where
  "holds_permission t u code s \<longleftrightarrow>
     (\<exists>x \<in> set (tenants s). tn_id x = t \<and> tn_status x = TenantActive)
     \<and> (\<exists>m \<in> set (memberships s). mb_tenant m = t \<and> mb_user m = u \<and> mb_status m = MemberActive \<and> (mb_role m, code) \<in> set (role_permissions s))"

text \<open>A request is authorized by a valid access token that names a tenant and a user who holds the permission there.\<close>

definition authorized :: "'s auth_env \<Rightarrow> string \<Rightarrow> http_request \<Rightarrow> tenant_context \<Rightarrow> 'z tenants_db_scheme \<Rightarrow> bool" where
  "authorized env code rq ctx s \<longleftrightarrow>
     (\<exists>token claims t i u. bearer_token rq = Some token \<and> decode_access_token env token = Inr claims \<and> claimed_tenant claims = Inr (Some t)
       \<and> subject claims = Some i \<and> uuid_parse i = Some u \<and> ctx = user_context rq claims (Some t) \<and> holds_permission t u code s)"

lemma permission_codes_mem: "code \<in> set (get_permission_codes ctx s u) \<longleftrightarrow> (\<exists>t. tenant_id ctx = Some t \<and> holds_permission t u code s)"
  by (force simp: get_permission_codes_def holds_permission_def tenant_active_def list_ex_iff split: if_splits)

lemma require_permission_ok:
  "require_permission code ctx s = Inr () \<longleftrightarrow>
     (\<exists>t i u. tenant_id ctx = Some t \<and> actor_id (ctx_actor ctx) = Some i \<and> uuid_parse i = Some u \<and> holds_permission t u code s)"
  by (auto simp: require_permission_def access_require_def has_permission_def tenant_access_def permission_codes_mem uuid_of_def split: option.splits)

lemma require_permission_frame: "require_permission code ctx (s\<lparr>pending_events := q, early_commit := b\<rparr>) = require_permission code ctx s"
  by (simp add: require_permission_def tenant_access_def get_permission_codes_def tenant_active_def access_require_def has_permission_def split: option.splits)

lemma authorized_context:
  assumes "context_from_request env True rq = Inr ctx"
  shows "authorized env code rq ctx' s \<longleftrightarrow> ctx' = ctx \<and> require_permission code ctx s = Inr ()"
  using assms unfolding require_permission_ok authorized_def context_from_request_def
  by (auto simp: user_context_def and_then_Inr_iff split: option.splits)

text \<open>C4. Protected routes: for an authorized request the route is its endpoint run in one unit of work, under the context
  of the token.  Any other request, without a valid token or by a user who does not hold the permission in an active tenant
  through an active membership, gets the same error whatever the endpoint is, and nothing changes: the endpoint
  does not run.\<close>

theorem protected_route_guarded:
  assumes "pending_events s = []"
  shows "if \<exists>ctx. authorized env code rq ctx s
     then \<exists>ctx. authorized env code rq ctx s \<and> (\<forall>endpoint. protected_route env code rq endpoint s = auth_unit_of_work (endpoint ctx) s)
     else \<exists>e. \<forall>endpoint. protected_route env code rq endpoint s = (Inl e, s)"
proof (cases "context_from_request env True rq")
  case (Inl e)
  have "\<not> authorized env code rq ctx s" for ctx
    using Inl by (auto simp: authorized_def context_from_request_def)
  then show ?thesis using Inl by (auto simp: protected_route_def authed_bundle_def)
next
  case (Inr ctx)
  note a = authorized_context [OF Inr, of code _ s]
  have run: "protected_route env code rq endpoint s =
      auth_unit_of_work (\<lambda>s. on_ok (pure_op (require_permission code ctx s) s) (\<lambda>_ s. endpoint ctx s)) s" for endpoint
    using Inr by (simp add: protected_route_def authed_bundle_def)
  show ?thesis
  proof (cases "require_permission code ctx s")
    case (Inr x)
    then have "protected_route env code rq endpoint s = auth_unit_of_work (endpoint ctx) s" for endpoint
      unfolding run auth_unit_of_work_def by (simp add: require_permission_frame)
    then show ?thesis using a Inr by auto
  next
    case (Inl e)
    have "protected_route env code rq endpoint s = (Inl e, s)" for endpoint
      unfolding run auth_unit_of_work_def using Inl assms by (simp add: require_permission_frame rollback_def)
    then show ?thesis using a Inl by auto
  qed
qed

definition ex_request :: http_request where
  "ex_request = \<lparr>rq_authorization = Some ''Bearer jwt'', rq_shop_tenant = None, rq_request_id = None\<rparr>"

lemma ex_bearer: "bearer_token ex_request = Some ''jwt''"
  by code_simp

lemma ex_claims: "decode_access_token ex_auth_env ''jwt'' =
    Inr [(''sub'', JStr (uuid_str 2)), (''tenant'', JStr (uuid_str 1)), (''type'', JStr ACCESS_TOKEN_TYPE)]"
  by (simp add: decode_access_token_def ex_auth_env_def jget_def)

lemma ex_context: "context_from_request ex_auth_env True ex_request = Inr ex_owner_ctx"
  by (simp add: context_from_request_def ex_bearer ex_claims jget_def claimed_tenant_def Let_def uuid_of_def uuid_parse_str
      user_context_def subject_def jstr_def ex_owner_ctx_def mk_ctx_def) (simp add: ex_request_def)

lemma ex_holds: "holds_permission 1 2 MEMBER_REMOVE ex_platform"
  by (simp add: holds_permission_def ex_platform_def ex_tenant_def ex_member_def)

theorem protected_route_guarded_witness:
  "(\<exists>ctx. authorized ex_auth_env MEMBER_REMOVE ex_request ctx ex_platform
      \<and> protected_route ex_auth_env MEMBER_REMOVE ex_request (\<lambda>ctx s. remove_member ex_tenants_env ctx 3 s) ex_platform
        = auth_unit_of_work (\<lambda>s. remove_member ex_tenants_env ctx 3 s) ex_platform)
   \<and> (\<exists>e. protected_route ex_auth_env MEMBER_REMOVE ex_request (\<lambda>ctx s. remove_member ex_tenants_env ctx 3 s)
        (ex_platform\<lparr>tenants := [ex_tenant\<lparr>tn_status := Suspended\<rparr>]\<rparr>) = (Inl e, ex_platform\<lparr>tenants := [ex_tenant\<lparr>tn_status := Suspended\<rparr>]\<rparr>))"
proof (intro conjI)
  have "require_permission MEMBER_REMOVE ex_owner_ctx ex_platform = Inr ()"
    unfolding require_permission_ok using ex_holds by (auto simp: ex_owner_ctx_def mk_ctx_def uuid_parse_str)
  then have "authorized ex_auth_env MEMBER_REMOVE ex_request ex_owner_ctx ex_platform" by (simp add: authorized_context [OF ex_context])
  moreover have "pending_events ex_platform = []" by (simp add: ex_platform_def)
  ultimately show "\<exists>ctx. authorized ex_auth_env MEMBER_REMOVE ex_request ctx ex_platform
      \<and> protected_route ex_auth_env MEMBER_REMOVE ex_request (\<lambda>ctx s. remove_member ex_tenants_env ctx 3 s) ex_platform
        = auth_unit_of_work (\<lambda>s. remove_member ex_tenants_env ctx 3 s) ex_platform"
    using protected_route_guarded [of ex_platform ex_auth_env MEMBER_REMOVE ex_request] by (auto split: if_splits)
next
  let ?s = "ex_platform\<lparr>tenants := [ex_tenant\<lparr>tn_status := Suspended\<rparr>]\<rparr>"
  have "\<not> authorized ex_auth_env MEMBER_REMOVE ex_request ctx ?s" for ctx
    by (simp add: authorized_def holds_permission_def)
  moreover have "pending_events ?s = []" by (simp add: ex_platform_def)
  ultimately show "\<exists>e. protected_route ex_auth_env MEMBER_REMOVE ex_request (\<lambda>ctx s. remove_member ex_tenants_env ctx 3 s) ?s = (Inl e, ?s)"
    using protected_route_guarded [of ?s ex_auth_env MEMBER_REMOVE ex_request] by auto
qed

subsection \<open>System roles\<close>

definition perms :: "uuid \<Rightarrow> 'z tenants_db_scheme \<Rightarrow> string set" where
  "perms i s = {c. (i, c) \<in> set (role_permissions s)}"

definition role_ids_ok :: "'z tenants_db_scheme \<Rightarrow> bool" where
  "role_ids_ok s \<longleftrightarrow> inj (uuid_gen s) \<and> distinct (map rl_id (roles s)) \<and> (\<forall>n \<ge> uuid_next s. uuid_gen s n \<notin> rl_id ` set (roles s))"

lemma reconcile_perms: "{c. (i, c) \<in> set (reconcile rid grants rows)} = (if i = rid then set grants else {c. (i, c) \<in> set rows})"
  by (force simp: reconcile_def Let_def)

lemma reconcile_same: "{c. (rid, c) \<in> set rows} = set grants \<Longrightarrow> reconcile rid grants rows = rows"
proof -
  assume a: "{c. (rid, c) \<in> set rows} = set grants"
  have c: "set (map snd (filter (\<lambda>rp. fst rp = rid) rows)) = set grants" using a by force
  have n: "filter (\<lambda>c. c \<notin> set grants) (remdups grants) = []" by (simp add: filter_empty_conv)
  have "filter (\<lambda>rp. \<not> (fst rp = rid \<and> snd rp \<in> set grants \<and> snd rp \<notin> set grants)) rows = rows" by (simp add: filter_id_conv)
  then show ?thesis unfolding reconcile_def Let_def c n by simp
qed

lemma role_ids_insert:
  assumes "role_ids_ok s" and "rl_id r = uuid_gen s (uuid_next s)"
  shows "role_ids_ok (s\<lparr>uuid_next := Suc (uuid_next s), roles := insert_role r (roles s), role_permissions := q\<rparr>)"
proof -
  have "uuid_gen s n \<noteq> rl_id r" if "Suc (uuid_next s) \<le> n" for n
    using assms that by (auto simp: role_ids_ok_def dest: injD)
  then show ?thesis using assms by (auto simp: role_ids_ok_def insert_role_def)
qed

lemma find_insert_role:
  "find (\<lambda>x. rl_tenant x = None \<and> rl_code x = c) (insert_role r rows) =
     (case find (\<lambda>x. rl_tenant x = None \<and> rl_code x = c) rows of
        Some x \<Rightarrow> Some x
      | None \<Rightarrow> if rl_tenant r = None \<and> rl_code r = c then Some r else None)"
proof (cases "find (\<lambda>x. rl_tenant x = None \<and> rl_code x = c) rows")
  case None
  then have "\<not> (rl_tenant x = None \<and> rl_code x = c)" if "x \<in> set rows" for x using that by (auto simp: find_None_iff)
  then show ?thesis using None by (auto simp: insert_role_def find_append list_ex_iff)
qed (simp add: insert_role_def find_append)

text \<open>One role.\<close>

lemma sync_role_step:
  assumes run: "sync_role reg code grants s = (Inr (), s1)" and ids: "role_ids_ok s"
  shows "role_ids_ok s1 \<and> check_grants reg grants = Inr () \<and> map_of SYSTEM_ROLE_TITLES code \<noteq> None
    \<and> (\<exists>r. system_role code s1 = Inr r \<and> (\<forall>i. perms i s1 = (if i = rl_id r then set grants else perms i s)))
    \<and> (\<forall>c. c \<noteq> code \<longrightarrow> system_role c s1 = system_role c s)
    \<and> filter (\<lambda>r. rl_tenant r \<noteq> None) (roles s1) = filter (\<lambda>r. rl_tenant r \<noteq> None) (roles s)"
proof -
  have g: "check_grants reg grants = Inr ()" using run by (cases "check_grants reg grants") (auto simp: sync_role_def)
  obtain title where title: "map_of SYSTEM_ROLE_TITLES code = Some title"
    using run g by (cases "map_of SYSTEM_ROLE_TITLES code") (auto simp: sync_role_def new_uuid7_def)
  let ?r = "\<lparr>rl_id = uuid_gen s (uuid_next s), rl_tenant = None, rl_code = code, rl_name = title, rl_system = True\<rparr>"
  let ?rows = "insert_role ?r (roles s)"
  have "find (\<lambda>x. rl_tenant x = None \<and> rl_code x = code) ?rows \<noteq> None"
    by (cases "find (\<lambda>x. rl_tenant x = None \<and> rl_code x = code) (roles s)") (simp_all add: find_insert_role)
  then obtain r where r: "find (\<lambda>x. rl_tenant x = None \<and> rl_code x = code) ?rows = Some r" by blast
  have s1: "s1 = s\<lparr>uuid_next := Suc (uuid_next s), roles := ?rows, role_permissions := reconcile (rl_id r) grants (role_permissions s)\<rparr>"
    using run g title r by (simp add: sync_role_def new_uuid7_def)
  have "role_ids_ok s1" unfolding s1 by (rule role_ids_insert [OF ids]) simp
  moreover have "system_role code s1 = Inr r" unfolding s1 system_role_def using r by simp
  moreover have "perms i s1 = (if i = rl_id r then set grants else perms i s)" for i unfolding s1 perms_def by (simp add: reconcile_perms)
  moreover have "system_role c s1 = system_role c s" if "c \<noteq> code" for c
    unfolding s1 system_role_def using that by (simp add: find_insert_role split: option.splits)
  moreover have "filter (\<lambda>r. rl_tenant r \<noteq> None) (roles s1) = filter (\<lambda>r. rl_tenant r \<noteq> None) (roles s)" unfolding s1 by (simp add: insert_role_def)
  ultimately show ?thesis using g title by blast
qed

lemma system_role_code: "system_role c s = Inr r \<Longrightarrow> rl_code r = c \<and> r \<in> set (roles s)"
  by (auto simp: system_role_def dest: find_Some_set split: option.splits)

text \<open>All roles: roles of different codes are different rows.\<close>

lemma sync_roles_all:
  assumes "sync_system_roles reg grants s = (Inr (), s1)" and "role_ids_ok s" and "distinct (map fst grants)"
  shows "role_ids_ok s1
    \<and> (\<forall>(code, cs) \<in> set grants. check_grants reg cs = Inr () \<and> map_of SYSTEM_ROLE_TITLES code \<noteq> None
        \<and> (\<exists>r. system_role code s1 = Inr r \<and> perms (rl_id r) s1 = set cs))
    \<and> (\<forall>c. c \<notin> fst ` set grants \<longrightarrow> system_role c s1 = system_role c s)
    \<and> (\<forall>i. (\<forall>c \<in> fst ` set grants. \<forall>r. system_role c s1 = Inr r \<longrightarrow> i \<noteq> rl_id r) \<longrightarrow> perms i s1 = perms i s)
    \<and> filter (\<lambda>r. rl_tenant r \<noteq> None) (roles s1) = filter (\<lambda>r. rl_tenant r \<noteq> None) (roles s)"
  using assms
proof (induction grants arbitrary: s)
  case (Cons g rest)
  obtain code cs where g: "g = (code, cs)" by force
  obtain x s2 where first: "sync_role reg code cs s = (x, s2)" by force
  with Cons.prems(1) g have x: "x = Inr ()" and rest: "sync_system_roles reg rest s2 = (Inr (), s1)" by (cases x; simp)+
  note st = sync_role_step [OF first [unfolded x] Cons.prems(2)]
  from st obtain r where r: "system_role code s2 = Inr r" "\<And>i. perms i s2 = (if i = rl_id r then set cs else perms i s)" by blast
  have d: "code \<notin> fst ` set rest" "distinct (map fst rest)" using Cons.prems(3) g by auto
  note ih = Cons.IH [OF rest _ d(2)]
  have ids1: "role_ids_ok s1" using ih st by blast
  have keep: "system_role code s1 = Inr r" using ih st d(1) r(1) by metis
  have "rl_id r \<noteq> rl_id q" if "c \<in> fst ` set rest" "system_role c s1 = Inr q" for c q
    using key_unique [of rl_id "roles s1" r q] ids1 system_role_code [OF keep] system_role_code [OF that(2)] that(1) d(1)
    unfolding role_ids_ok_def by auto
  then have "perms (rl_id r) s1 = perms (rl_id r) s2" using ih st by blast
  then have "perms (rl_id r) s1 = set cs" using r(2) by simp
  then show ?case using ih st keep r g by auto
qed simp

text \<open>A synchronization that finds everything in place draws identifiers and changes nothing else.\<close>

lemma sync_roles_again:
  assumes "\<forall>(code, cs) \<in> set grants. check_grants reg cs = Inr () \<and> map_of SYSTEM_ROLE_TITLES code \<noteq> None
      \<and> (\<exists>r. system_role code s = Inr r \<and> perms (rl_id r) s = set cs)"
  shows "\<exists>n. sync_system_roles reg grants s = (Inr (), s\<lparr>uuid_next := n\<rparr>)"
  using assms
proof (induction grants arbitrary: s)
  case Nil
  show ?case by (intro exI [of _ "uuid_next s"]) simp
next
  case (Cons g rest)
  obtain code cs where g: "g = (code, cs)" by force
  with Cons.prems obtain r title where r: "check_grants reg cs = Inr ()" "map_of SYSTEM_ROLE_TITLES code = Some title"
    "system_role code s = Inr r" "perms (rl_id r) s = set cs" by auto
  have f: "find (\<lambda>r. rl_tenant r = None \<and> rl_code r = code) (roles s) = Some r" using r(3) by (auto simp: system_role_def split: option.splits)
  have "insert_role \<lparr>rl_id = i, rl_tenant = None, rl_code = code, rl_name = title, rl_system = True\<rparr> (roles s) = roles s" for i
    using find_Some_set [OF f] by (auto simp: insert_role_def list_ex_iff)
  moreover have "reconcile (rl_id r) cs (role_permissions s) = role_permissions s" by (rule reconcile_same) (use r(4) in \<open>simp add: perms_def\<close>)
  ultimately have "sync_role reg code cs s = (Inr (), s\<lparr>uuid_next := Suc (uuid_next s)\<rparr>)"
    using r(1,2) f by (simp add: sync_role_def new_uuid7_def)
  moreover have "\<exists>n. sync_system_roles reg rest (s\<lparr>uuid_next := Suc (uuid_next s)\<rparr>) = (Inr (), s\<lparr>uuid_next := Suc (uuid_next s)\<rparr>\<lparr>uuid_next := n\<rparr>)"
    by (rule Cons.IH) (use Cons.prems in \<open>auto simp: system_role_def perms_def\<close>)
  ultimately show ?case using g by auto
qed

text \<open>C19. Synchronizing the system roles makes every role of the catalogue exist and grants it exactly the permissions of
  the catalogue, added or withdrawn as needed; the roles and grants of tenants are untouched.  Doing it again changes
  nothing but the counter of identifiers.\<close>

theorem roles_synced:
  assumes run: "sync_system_roles reg grants s = (Inr (), s1)" and ids: "role_ids_ok s" and "distinct (map fst grants)"
  shows "(\<forall>(code, cs) \<in> set grants. \<exists>r. system_role code s1 = Inr r \<and> perms (rl_id r) s1 = set cs)
    \<and> (\<forall>i. (\<forall>c \<in> fst ` set grants. \<forall>r. system_role c s1 = Inr r \<longrightarrow> i \<noteq> rl_id r) \<longrightarrow> perms i s1 = perms i s)
    \<and> filter (\<lambda>r. rl_tenant r \<noteq> None) (roles s1) = filter (\<lambda>r. rl_tenant r \<noteq> None) (roles s)
    \<and> (\<exists>n. sync_system_roles reg grants s1 = (Inr (), s1\<lparr>uuid_next := n\<rparr>))"
proof -
  note all = sync_roles_all [OF assms]
  have "\<exists>n. sync_system_roles reg grants s1 = (Inr (), s1\<lparr>uuid_next := n\<rparr>)" by (rule sync_roles_again) (use all in blast)
  then show ?thesis using all by blast
qed

definition ex_registry :: permission_registry where
  "ex_registry = map (\<lambda>p. (pm_code p, p)) TENANTS_PERMISSIONS"

definition ex_grants :: role_grants where
  "ex_grants = [(ROLE_OWNER, [MEMBER_REMOVE, TENANT_READ]), (ROLE_MEMBER, [TENANT_READ])]"

lemma ex_synced: "\<exists>s1. sync_system_roles ex_registry ex_grants ex_platform = (Inr (), s1)"
  by (simp add: ex_grants_def sync_role_def require_registered_def ex_registry_def TENANTS_PERMISSIONS_def MEMBER_REMOVE_def TENANT_READ_def
      TENANT_UPDATE_def MEMBER_READ_def MEMBER_INVITE_def new_uuid7_def ex_platform_def ex_role_def insert_role_def
      SYSTEM_ROLE_TITLES_def ROLE_OWNER_def ROLE_ADMIN_def ROLE_MEMBER_def)

lemma ex_role_ids: "role_ids_ok ex_platform"
  by (auto simp: role_ids_ok_def ex_members ex_role_def ex_platform_def inj_def)

theorem roles_synced_witness:
  "\<exists>s1. sync_system_roles ex_registry ex_grants ex_platform = (Inr (), s1)
    \<and> (\<exists>r. system_role ROLE_OWNER s1 = Inr r \<and> perms (rl_id r) s1 = {MEMBER_REMOVE, TENANT_READ})"
proof -
  obtain s1 where run: "sync_system_roles ex_registry ex_grants ex_platform = (Inr (), s1)" using ex_synced by blast
  have "distinct (map fst ex_grants)" by (simp add: ex_grants_def ROLE_OWNER_def ROLE_MEMBER_def)
  from roles_synced [OF run ex_role_ids this] show ?thesis using run by (auto simp: ex_grants_def)
qed

end
