(* ===== verification/Files_Properties.thy ===== *)
theory Files_Properties
  imports Commerce_Properties Access_Properties
begin

section \<open>Properties of the file store\<close>

text \<open>
  What was uploaded is what is opened, and storing a file touches no other: keys are made of identifiers,
  so they resolve to one place below the root each.
\<close>

lemma uuid_str_length: "length (uuid_str u) = 36"
  by (simp add: uuid_str_def Let_def)

lemma uuid_str_no_slash: "CHR ''/'' \<notin> set (uuid_str u)"
proof
  assume "CHR ''/'' \<in> set (uuid_str u)"
  then have "CHR ''/'' \<in> set (fixed_digits 16 32 u)" using uuid_str_chars [of "CHR ''/''" u] by simp
  then obtain d where "d < 16" "CHR ''/'' = digit_char d" using fixed_digits_chars [of 16 "CHR ''/''" 32 u] by auto
  then have "py_ord (CHR ''/'') = (if d < 10 then 48 + d else 87 + d)" using py_ord_digit_char by simp
  then show False by (simp add: py_ord_def split: if_splits)
qed

lemma split_on_first: "d \<notin> set p \<Longrightarrow> split_on d (p @ d # q) = p # split_on d q"
  by (induction p) auto

lemma norm_uuid: "norm_path acc (uuid_str u # xs) = norm_path (acc @ [uuid_str u]) xs"
proof -
  have "uuid_str u \<noteq> ''.''" "uuid_str u \<noteq> ''..''" using uuid_str_length [of u] by (auto simp del: uuid_str_nonempty)
  then show ?thesis by simp
qed

declare norm_path.simps(2) [simp del]

text \<open>The key of a file resolves to its place below the directory of the tenant.\<close>

lemma fs_resolve_key: "fs_resolve base (storage_key t i) = Inr (base @ [uuid_str t, uuid_str i])"
proof -
  have "split_on (CHR ''/'') (storage_key t i) = [uuid_str t, uuid_str i]"
    unfolding storage_key_def using split_on_first [OF uuid_str_no_slash] split_on_none [OF uuid_str_no_slash] by simp
  moreover have "\<not> startswith (storage_key t i) ''/''"
    using uuid_str_no_slash [of t] unfolding storage_key_def by (cases "uuid_str t") auto
  ultimately show ?thesis by (simp add: fs_resolve_def Let_def norm_uuid)
qed

text \<open>Every row points at the object its identifiers name.\<close>

definition files_ok :: "'z files_db_scheme \<Rightarrow> bool" where
  "files_ok s \<longleftrightarrow> (\<forall>x \<in> set (files s). f_key x = storage_key (f_tenant x) (f_id x) \<and> f_id x < 2 ^ 128)"

lemma file_event_names: "EVENT_NAME_RE ''files.file.uploaded''" "EVENT_NAME_RE ''files.file.deleted''"
  by code_simp+

text \<open>The steps of a successful upload.\<close>

lemma upload_steps:
  assumes run: "upload env acc ctx filename declared data s = (Inr r, s1)"
  obtains t ct where "tenant_id ctx = Some t" and "data \<noteq> []" and "int (length data) \<le> sv_max_bytes env"
    and "sniff_content_type data = Some ct" and "ct \<in> set (sv_allowed env)"
    and "r = \<lparr>f_id = uuid_gen s (uuid_next s), f_tenant = t, f_key = storage_key t (uuid_gen s (uuid_next s)), f_content_type = ct,
               f_size = int (length data), f_checksum = sv_sha256 env data, f_filename = sanitize_filename filename\<rparr>"
    and "files s1 = files s @ [r]"
    and "objects s1 = (sv_root env @ [uuid_str t, uuid_str (f_id r)], data) # filter (\<lambda>x. fst x \<noteq> sv_root env @ [uuid_str t, uuid_str (f_id r)]) (objects s)"
proof -
  obtain t where t: "tenant_id ctx = Some t" using run by (cases "tenant_id ctx") (auto simp: upload_def repo_init_def)
  have g: "guard_require acc ctx FILE_UPLOAD = Inr ()"
    using run t by (cases "guard_require acc ctx FILE_UPLOAD") (auto simp: upload_def repo_init_def)
  have d: "data \<noteq> []" "int (length data) \<le> sv_max_bytes env" using run t g by (auto simp: upload_def repo_init_def split: if_splits)
  obtain ct where ct: "sniff_content_type data = Some ct"
    using run t g d by (cases "sniff_content_type data") (auto simp: upload_def repo_init_def)
  have a: "ct \<in> set (sv_allowed env)" using run t g d ct by (auto simp: upload_def repo_init_def split: if_splits)
  let ?i = "uuid_gen s (uuid_next s)"
  let ?r = "\<lparr>f_id = ?i, f_tenant = t, f_key = storage_key t ?i, f_content_type = ct, f_size = int (length data),
      f_checksum = sv_sha256 env data, f_filename = sanitize_filename filename\<rparr>"
  have c: "\<not> file_conflict ?r (files s)"
    using run t g d ct a by (auto simp: upload_def repo_init_def new_uuid7_def Let_def repo_add_def stamp_file_def)
  let ?p = "sv_root env @ [uuid_str t, uuid_str ?i]"
  have w: "sv_fail env ''write'' ?p = None"
    using run t g d ct a c by (cases "sv_fail env ''write'' ?p")
      (auto simp: upload_def repo_init_def new_uuid7_def Let_def repo_add_def stamp_file_def storage_put_def fs_resolve_key storage_io_def)
  have "r = ?r" "files s1 = files s @ [?r]" "objects s1 = (?p, data) # filter (\<lambda>x. fst x \<noteq> ?p) (objects s)"
    using run t g d ct a c w
    by (auto simp: upload_def repo_init_def new_uuid7_def Let_def repo_add_def stamp_file_def storage_put_def fs_resolve_key storage_io_def
        emit_valid file_event_names)
  then show ?thesis using that [OF t d ct a] by simp
qed

lemma map_of_filter_other: "k \<noteq> p \<Longrightarrow> map_of (filter (\<lambda>x. fst x \<noteq> p) xs) k = map_of xs k"
  by (induction xs) auto

lemma repo_get_append: "rid r \<noteq> i \<Longrightarrow> repo_get tid rid t i (rows @ [r]) = repo_get tid rid t i rows"
  by (induction rows) (auto simp: repo_get_def repo_select_def)

text \<open>C26. Uploads: a stored file has content, at most the allowed size, and one of the allowed types, read off its bytes and not
  off what the client declares.  It goes below the directory of its tenant, and opening it gives back its row and exactly its
  bytes.  Every other file, of whichever tenant, opens as before.\<close>

theorem upload_roundtrip:
  assumes run: "upload env acc ctx filename declared data s = (Inr r, s1)" and read: "guard_require acc ctx FILE_READ = Inr ()"
    and io: "\<And>p. sv_fail env ''read'' p = None" and ok: "files_ok s"
    and fresh: "uuid_gen s (uuid_next s) \<notin> f_id ` set (files s)" "uuid_gen s (uuid_next s) < 2 ^ 128"
  shows "open_file env acc ctx (f_id r) s1 = Inr (r, data) \<and> data \<noteq> [] \<and> f_size r = int (length data) \<and> f_size r \<le> sv_max_bytes env
    \<and> sniff_content_type data = Some (f_content_type r) \<and> f_content_type r \<in> set (sv_allowed env)
    \<and> tenant_id ctx = Some (f_tenant r) \<and> fs_resolve (sv_root env) (f_key r) = Inr (sv_root env @ [uuid_str (f_tenant r), uuid_str (f_id r)])
    \<and> files_ok s1 \<and> (\<forall>acc' ctx' i. i \<noteq> f_id r \<longrightarrow> open_file env acc' ctx' i s1 = open_file env acc' ctx' i s)"
proof (rule upload_steps [OF run], goal_cases)
  case (1 t ct)
  have r: "f_id r = uuid_gen s (uuid_next s)" "f_tenant r = t" "f_key r = storage_key t (f_id r)" "f_content_type r = ct" "f_size r = int (length data)"
    unfolding 1(6) by simp_all
  let ?p = "sv_root env @ [uuid_str t, uuid_str (f_id r)]"
  have "find (\<lambda>x. f_id x = f_id r) (filter (\<lambda>x. f_tenant x = t) (files s)) = None" using fresh(1) r(1) by (force simp: find_None_iff)
  then have "repo_get f_tenant f_id t (f_id r) (files s1) = Some r" unfolding 1(7) using r(2) by (simp add: repo_get_def repo_select_def find_append)
  then have op: "open_file env acc ctx (f_id r) s1 = Inr (r, data)"
    using 1(1,8) read io r(3) by (simp add: open_file_def get_file_def repo_init_def repo_get_or_raise_def storage_get_def fs_resolve_key storage_io_def)
  have other: "open_file env acc' ctx' i s1 = open_file env acc' ctx' i s" if i: "i \<noteq> f_id r" for acc' ctx' i
  proof -
    have get: "repo_get f_tenant f_id u i (files s1) = repo_get f_tenant f_id u i (files s)" for u unfolding 1(7) by (rule repo_get_append) (use i in simp)
    have "storage_get env (f_key x) s1 = storage_get env (f_key x) s" if "x \<in> set (files s)" "f_id x = i" for x
    proof -
      have "uuid_str (f_id x) \<noteq> uuid_str (f_id r)" using that i ok fresh(2) r(1) uuid_str_inject by (auto simp: files_ok_def)
      then have "map_of (objects s1) (sv_root env @ [uuid_str (f_tenant x), uuid_str (f_id x)])
          = map_of (objects s) (sv_root env @ [uuid_str (f_tenant x), uuid_str (f_id x)])" unfolding 1(8) by (simp add: map_of_filter_other)
      then show ?thesis using that ok by (simp add: storage_get_def fs_resolve_key files_ok_def)
    qed
    then have "and_then (repo_get_or_raise m f_tenant f_id u i (files s)) (\<lambda>r. and_then (storage_get env (f_key r) s1) (\<lambda>d. Inr (r, d)))
        = and_then (repo_get_or_raise m f_tenant f_id u i (files s)) (\<lambda>r. and_then (storage_get env (f_key r) s) (\<lambda>d. Inr (r, d)))" for m u
      using repo_get_Some [of f_tenant f_id u i "files s"] by (auto simp: repo_get_or_raise_def split: option.splits)
    then show ?thesis unfolding open_file_def get_file_def
      by (cases "repo_init ctx'"; cases "guard_require acc' ctx' FILE_READ") (simp_all add: repo_get_or_raise_def get)
  qed
  have "files_ok s1" using ok 1(7) r fresh(2) by (simp add: files_ok_def)
  then show ?case using 1(1-5) r op other by (simp add: fs_resolve_key)
qed

definition ex_store :: files_env where
  "ex_store = \<lparr>sv_root = [''data''], sv_fail = (\<lambda>_ _. None), sv_max_bytes = 1000, sv_allowed = [''image/gif''], sv_max_edge = 100, sv_sha256 = id,
     sv_thumbnail = (\<lambda>d e. Inr (d, ''image/gif''))\<rparr>"

definition ex_file_acc :: access where
  "ex_file_acc = (\<lambda>_. [FILE_UPLOAD, FILE_READ])"

lemma ex_file_guard: "guard_require (Some ex_file_acc) ex_ctx FILE_UPLOAD = Inr ()" "guard_require (Some ex_file_acc) ex_ctx FILE_READ = Inr ()"
  by (simp_all add: guard_require_def access_require_def has_permission_def ex_file_acc_def ex_ctx_def mk_ctx_def uuid_parse_str)

lemma ex_uploaded: "\<exists>r s1. upload ex_store (Some ex_file_acc) ex_ctx (Some ''a.gif'') None ''GIF89a..'' ex_shop = (Inr r, s1)"
proof -
  have t: "repo_init ex_ctx = Inr 1" by (simp add: repo_init_def ex_ctx_def mk_ctx_def)
  have ct: "sniff_content_type ''GIF89a..'' = Some ''image/gif''" by code_simp
  have "files ex_shop = []" by (simp add: ex_shop_def)
  then show ?thesis
    by (simp add: upload_def t ct ex_file_guard ex_store_def new_uuid7_def repo_add_def stamp_file_def file_conflict_def storage_put_def fs_resolve_key storage_io_def
        emit_valid file_event_names Let_def)
qed

theorem upload_roundtrip_witness:
  "\<exists>r s1. upload ex_store (Some ex_file_acc) ex_ctx (Some ''a.gif'') None ''GIF89a..'' ex_shop = (Inr r, s1)
    \<and> open_file ex_store (Some ex_file_acc) ex_ctx (f_id r) s1 = Inr (r, ''GIF89a..'')"
proof -
  obtain r s1 where run: "upload ex_store (Some ex_file_acc) ex_ctx (Some ''a.gif'') None ''GIF89a..'' ex_shop = (Inr r, s1)" using ex_uploaded by blast
  have "sv_fail ex_store ''read'' p = None" for p by (simp add: ex_store_def)
  moreover have "files_ok ex_shop" "uuid_gen ex_shop (uuid_next ex_shop) \<notin> f_id ` set (files ex_shop)" "uuid_gen ex_shop (uuid_next ex_shop) < 2 ^ 128"
    by (simp_all add: files_ok_def ex_shop_def)
  ultimately show ?thesis using upload_roundtrip [OF run ex_file_guard(2)] run by blast
qed

end
