(* ===== verification/Login_Properties.thy ===== *)
theory Login_Properties
  imports Access_Properties
begin

section \<open>Properties of the login throttle\<close>

text \<open>
  Failed logins of an account add up within the window that the first one opens; from the configured number on
  each of them locks the account, for a time that doubles up to the length of the window.
\<close>

subsection \<open>The keys of Redis\<close>





subsection \<open>A run of failures\<close>









subsection \<open>Logging in\<close>





end
