(* ===== verification/SaaS.thy ===== *)
theory SaaS
  imports Tenant_Repository Python_Text
begin

section \<open>SaaS: entitlements, metering, onboarding\<close>

text \<open>
  \<^verbatim>\<open>modules/saas\<close>: the plan a tenant is entitled to, kept in step with billing by event
  handlers; usage counters per metric and day; the onboarding checklist.  Advisory locks only delay
  other transactions: an operation here runs alone between its lock and its commit.
\<close>

subsection \<open>Tables\<close>

datatype grant_value = Flag bool | Limit "int option"

record plan_entitlement =
  pe_plan :: string
  pe_key :: string
  pe_value :: grant_value

record tenant_entitlement =
  te_id :: uuid
  te_tenant :: uuid
  te_plan :: string
  te_period_end :: "datetime option"
  te_canceled :: bool

record usage_counter =
  uc_id :: uuid
  uc_tenant :: uuid
  uc_metric :: string
  uc_bucket :: datetime  \<comment> \<open>a day\<close>
  uc_value :: int

record onboarding_progress =
  op_id :: uuid
  op_tenant :: uuid
  op_step :: string
  op_completed_at :: datetime

record saas_db = infra +
  plan_entitlements :: "plan_entitlement list"
  tenant_entitlements :: "tenant_entitlement list"
  usage_counters :: "usage_counter list"
  onboarding_rows :: "onboarding_progress list"

definition stamp_entitlement :: "uuid \<Rightarrow> tenant_entitlement \<Rightarrow> tenant_entitlement" where
  "stamp_entitlement t r = r\<lparr>te_tenant := t\<rparr>"

definition entitlement_conflict :: "tenant_entitlement \<Rightarrow> tenant_entitlement list \<Rightarrow> bool" where
  "entitlement_conflict r rows = list_ex (\<lambda>x. te_tenant x = te_tenant r) rows"

definition stamp_step :: "uuid \<Rightarrow> onboarding_progress \<Rightarrow> onboarding_progress" where
  "stamp_step t r = r\<lparr>op_tenant := t\<rparr>"

definition step_conflict :: "onboarding_progress \<Rightarrow> onboarding_progress list \<Rightarrow> bool" where
  "step_conflict r rows = list_ex (\<lambda>x. op_tenant x = op_tenant r \<and> op_step x = op_step r) rows"

interpretation entitlement_tab: tenant_table te_tenant te_id stamp_entitlement
  by unfold_locales (simp_all add: stamp_entitlement_def)

interpretation step_tab: tenant_table op_tenant op_id stamp_step
  by unfold_locales (simp_all add: stamp_step_def)

subsection \<open>Entitlements\<close>

definition current_row :: "uuid \<Rightarrow> 'z saas_db_scheme \<Rightarrow> tenant_entitlement option" where
  "current_row t s = (case repo_find te_tenant t (\<lambda>_. True) (tenant_entitlements s) of [] \<Rightarrow> None | r # _ \<Rightarrow> Some r)"

definition set_entitlement :: "tenant_entitlement \<Rightarrow> 'z saas_db_scheme \<Rightarrow> 'z saas_db_scheme" where
  "set_entitlement r s = s\<lparr>tenant_entitlements := upd_where (\<lambda>x. te_id x = te_id r) (\<lambda>_. r) (tenant_entitlements s)\<rparr>"

definition covers :: "datetime \<Rightarrow> tenant_entitlement \<Rightarrow> bool" where
  "covers n r = (\<not> (te_canceled r \<and> (case te_period_end r of None \<Rightarrow> True | Some e \<Rightarrow> e \<le> n)))"

definition effective_plan_code :: "tenant_context \<Rightarrow> 'z saas_db_scheme \<Rightarrow> exn + string option" where
  "effective_plan_code ctx s =
     and_then (repo_init ctx) (\<lambda>t.
       (case current_row t s of
          None \<Rightarrow> Inr None
        | Some r \<Rightarrow> Inr (if covers (now s) r then Some (te_plan r) else None)))"

definition is_flag :: "plan_entitlement \<Rightarrow> bool" where
  "is_flag g = (case pe_value g of Flag b \<Rightarrow> True | Limit l \<Rightarrow> False)"

definition grant :: "string \<Rightarrow> string \<Rightarrow> bool \<Rightarrow> 'z saas_db_scheme \<Rightarrow> plan_entitlement option" where
  "grant plan key flag s = find (\<lambda>g. pe_plan g = plan \<and> pe_key g = key \<and> is_flag g = flag) (plan_entitlements s)"

definition is_enabled :: "tenant_context \<Rightarrow> string \<Rightarrow> 'z saas_db_scheme \<Rightarrow> exn + bool" where
  "is_enabled ctx key s =
     and_then (effective_plan_code ctx s) (\<lambda>plan.
       (case plan of
          None \<Rightarrow> Inr False
        | Some p \<Rightarrow> (case grant p key True s of
                       None \<Rightarrow> Inr False
                     | Some g \<Rightarrow> Inr (case pe_value g of Flag b \<Rightarrow> b | Limit l \<Rightarrow> False))))"

definition get_limit :: "tenant_context \<Rightarrow> string \<Rightarrow> 'z saas_db_scheme \<Rightarrow> exn + int option" where
  "get_limit ctx key s =
     and_then (effective_plan_code ctx s) (\<lambda>plan.
       (case plan of
          None \<Rightarrow> Inr None
        | Some p \<Rightarrow> (case grant p key False s of
                       None \<Rightarrow> Inr None
                     | Some g \<Rightarrow> Inr (case pe_value g of Flag b \<Rightarrow> None | Limit l \<Rightarrow> l))))"

definition require_within_limit :: "tenant_context \<Rightarrow> string \<Rightarrow> ('z saas_db_scheme \<Rightarrow> int) \<Rightarrow> 'z saas_db_scheme \<Rightarrow> exn + unit" where
  "require_within_limit ctx key cnt s =
     and_then (get_limit ctx key s) (\<lambda>limit.
       (case limit of
          None \<Rightarrow> Inr ()
        | Some l \<Rightarrow>
            if cnt s \<ge> l
            then Inl (Domain ConflictError (''plan limit '' @ [CHR 0x27] @ key @ [CHR 0x27] @ '' reached ('' @ show_int (cnt s) @ ''/'' @ show_int l @ '')''))
            else Inr ()))"

definition ENTITLEMENT_READ :: string where "ENTITLEMENT_READ = ''saas.entitlement:read''"

definition snapshot :: "access option \<Rightarrow> tenant_context \<Rightarrow> 'z saas_db_scheme \<Rightarrow>
    exn + string option \<times> (string \<times> bool) list \<times> (string \<times> int option) list" where
  "snapshot acc ctx s =
     and_then (repo_init ctx) (\<lambda>_.
     and_then (guard_require acc ctx ENTITLEMENT_READ) (\<lambda>_.
     and_then (effective_plan_code ctx s) (\<lambda>plan.
       (let rows = (case plan of None \<Rightarrow> [] | Some p \<Rightarrow> filter (\<lambda>g. pe_plan g = p) (plan_entitlements s))
        in Inr (plan, concat (map (\<lambda>g. case pe_value g of Flag b \<Rightarrow> [(pe_key g, b)] | Limit l \<Rightarrow> []) rows),
                concat (map (\<lambda>g. case pe_value g of Flag b \<Rightarrow> [] | Limit l \<Rightarrow> [(pe_key g, l)]) rows))))))"

definition changed :: "tenant_context \<Rightarrow> string \<Rightarrow> 'z saas_db_scheme \<Rightarrow> (unit, 'z saas_db_scheme) op_res" where
  "changed ctx plan s = on_ok (emit ''entitlements'' ctx ''saas.entitlement.changed'' [(''plan_code'', JStr plan)] s) (\<lambda>_ s. ret () s)"

definition set_active_plan :: "tenant_context \<Rightarrow> string \<Rightarrow> datetime option \<Rightarrow> 'z saas_db_scheme \<Rightarrow> (unit, 'z saas_db_scheme) op_res" where
  "set_active_plan ctx plan period_end s0 =
     on_ok (pure_op (repo_init ctx) s0) (\<lambda>t s.
       (case current_row t s of
          None \<Rightarrow>
            (let (i, s1) = new_uuid7 s
             in on_ok (pure_op (repo_add stamp_entitlement entitlement_conflict t None
                          \<lparr>te_id = i, te_tenant = t, te_plan = plan, te_period_end = period_end, te_canceled = False\<rparr>
                          (tenant_entitlements s1)) s1) (\<lambda>rows s. changed ctx plan (s\<lparr>tenant_entitlements := rows\<rparr>)))
        | Some r \<Rightarrow> changed ctx plan (set_entitlement (r\<lparr>te_plan := plan, te_period_end := period_end, te_canceled := False\<rparr>) s)))"

definition mark_canceled :: "tenant_context \<Rightarrow> 'z saas_db_scheme \<Rightarrow> (unit, 'z saas_db_scheme) op_res" where
  "mark_canceled ctx s0 =
     on_ok (pure_op (repo_init ctx) s0) (\<lambda>t s.
       (case current_row t s of
          None \<Rightarrow> ret () s
        | Some r \<Rightarrow> changed ctx (te_plan r) (set_entitlement (r\<lparr>te_canceled := True\<rparr>) s)))"

definition end_plan :: "tenant_context \<Rightarrow> string \<Rightarrow> datetime \<Rightarrow> 'z saas_db_scheme \<Rightarrow> (unit, 'z saas_db_scheme) op_res" where
  "end_plan ctx plan ended_at s0 =
     on_ok (pure_op (repo_init ctx) s0) (\<lambda>t s.
       (case current_row t s of
          None \<Rightarrow> ret () s
        | Some r \<Rightarrow>
            if te_plan r \<noteq> plan then ret () s
            else changed ctx plan (set_entitlement (r\<lparr>te_canceled := True,
                   te_period_end := (case te_period_end r of None \<Rightarrow> Some ended_at | Some e \<Rightarrow> if e > ended_at then Some ended_at else Some e)\<rparr>) s)))"

text \<open>The handlers of billing's events.\<close>

definition str_or_empty :: "json \<Rightarrow> string" where
  \<comment> \<open>\<^verbatim>\<open>str(x or "")\<close>\<close>
  "str_or_empty j = (if jtruthy j then py_str j else [])"

definition on_subscription_activated :: "tenant_context \<Rightarrow> envelope \<Rightarrow> 'z saas_db_scheme \<Rightarrow> (unit, 'z saas_db_scheme) op_res" where
  "on_subscription_activated ctx e s =
     (let plan = str_or_empty (jget (ev_payload e) ''plan_code''); raw = jget (ev_payload e) ''current_period_end''
      in if plan = [] \<or> tenant_id ctx = None then ret () s
         else if \<not> jtruthy raw then set_active_plan ctx plan None s
         else (case fromisoformat (py_str raw) of
                 None \<Rightarrow> raise (ValueError ''Invalid isoformat string'') s
               | Some d \<Rightarrow> set_active_plan ctx plan (Some d) s))"

definition on_subscription_canceled :: "tenant_context \<Rightarrow> envelope \<Rightarrow> 'z saas_db_scheme \<Rightarrow> (unit, 'z saas_db_scheme) op_res" where
  "on_subscription_canceled ctx e s = (if tenant_id ctx = None then ret () s else mark_canceled ctx s)"

definition on_subscription_ended :: "tenant_context \<Rightarrow> envelope \<Rightarrow> 'z saas_db_scheme \<Rightarrow> (unit, 'z saas_db_scheme) op_res" where
  "on_subscription_ended ctx e s =
     (let plan = str_or_empty (jget (ev_payload e) ''plan_code'')
      in if plan = [] \<or> tenant_id ctx = None then ret () s else end_plan ctx plan (occurred_at e) s)"

subsection \<open>Metering\<close>

definition MAX_METRIC_KEY_LEN :: nat where "MAX_METRIC_KEY_LEN = 128"
definition USAGE_READ :: string where "USAGE_READ = ''saas.usage:read''"

definition metering_init :: "tenant_context \<Rightarrow> exn + uuid" where
  "metering_init ctx =
     (case tenant_id ctx of None \<Rightarrow> Inl (Domain InvariantViolationError ''metering requires a tenant context'') | Some t \<Rightarrow> Inr t)"

text \<open>\<^verbatim>\<open>INSERT ... ON CONFLICT DO UPDATE\<close> on (tenant, metric, day).\<close>

definition upsert_usage :: "usage_counter \<Rightarrow> usage_counter list \<Rightarrow> usage_counter list" where
  "upsert_usage r rows =
     (let same = (\<lambda>x. uc_tenant x = uc_tenant r \<and> uc_metric x = uc_metric r \<and> uc_bucket x = uc_bucket r)
      in if list_ex same rows then upd_where same (\<lambda>x. x\<lparr>uc_value := uc_value x + uc_value r\<rparr>) rows else rows @ [r])"

definition record_usage :: "tenant_context \<Rightarrow> string \<Rightarrow> int \<Rightarrow> datetime option \<Rightarrow> 'z saas_db_scheme \<Rightarrow> (unit, 'z saas_db_scheme) op_res" where
  "record_usage ctx metric delta at s =
     on_ok (pure_op (metering_init ctx) s) (\<lambda>t s.
       if metric = [] \<or> length metric > MAX_METRIC_KEY_LEN
       then raise (Domain InvariantViolationError ''metric_key must be 1..128 chars'') s
       else if delta < 1 then raise (Domain InvariantViolationError ''delta must be a positive integer'') s
       else
         (let (i, s1) = new_uuid7 s;
              day = date_of (case at of Some d \<Rightarrow> d | None \<Rightarrow> now s1)
          in ret () (s1\<lparr>usage_counters := upsert_usage
               \<lparr>uc_id = i, uc_tenant = t, uc_metric = metric, uc_bucket = day, uc_value = delta\<rparr> (usage_counters s1)\<rparr>)))"

definition in_window :: "datetime option \<Rightarrow> datetime option \<Rightarrow> usage_counter \<Rightarrow> bool" where
  "in_window since until r =
     ((case since of None \<Rightarrow> True | Some d \<Rightarrow> d \<le> uc_bucket r) \<and> (case until of None \<Rightarrow> True | Some d \<Rightarrow> uc_bucket r \<le> d))"

definition usage :: "tenant_context \<Rightarrow> string \<Rightarrow> datetime option \<Rightarrow> datetime option \<Rightarrow> 'z saas_db_scheme \<Rightarrow> exn + int" where
  "usage ctx metric since until s =
     and_then (metering_init ctx) (\<lambda>t.
       Inr (sum_list (map uc_value (filter (\<lambda>r. uc_tenant r = t \<and> uc_metric r = metric \<and> in_window since until r) (usage_counters s)))))"

definition summary :: "access option \<Rightarrow> tenant_context \<Rightarrow> datetime option \<Rightarrow> datetime option \<Rightarrow> 'z saas_db_scheme \<Rightarrow> exn + (string \<times> int) list" where
  "summary acc ctx since until s =
     and_then (metering_init ctx) (\<lambda>t.
     and_then (guard_require acc ctx USAGE_READ) (\<lambda>_.
       (let rows = filter (\<lambda>r. uc_tenant r = t \<and> in_window since until r) (usage_counters s)
        in Inr (map (\<lambda>m. (m, sum_list (map uc_value (filter (\<lambda>r. uc_metric r = m) rows)))) (remdups (map uc_metric rows))))))"

definition USAGE_SWEEP_BATCH :: nat where "USAGE_SWEEP_BATCH = 1000"

text \<open>\<open>days\<close> is \<^verbatim>\<open>saas_usage_retention_days\<close>; days are compared by their ordinals.\<close>

definition purge_expired_usage :: "int \<Rightarrow> 'z saas_db_scheme \<Rightarrow> nat \<times> 'z saas_db_scheme" where
  "purge_expired_usage days s =
     (let cutoff = to_ordinal (now s) - days;
          oldest = map uc_id (take USAGE_SWEEP_BATCH (sort_key uc_bucket (filter (\<lambda>r. to_ordinal (uc_bucket r) < cutoff) (usage_counters s))));
          gone = (\<lambda>r. uc_id r \<in> set oldest)
      in (length (filter gone (usage_counters s)), s\<lparr>usage_counters := del_where gone (usage_counters s)\<rparr>))"

subsection \<open>Onboarding\<close>

definition ONBOARDING_READ :: string where "ONBOARDING_READ = ''saas.onboarding:read''"

definition completed_steps :: "uuid \<Rightarrow> 'z saas_db_scheme \<Rightarrow> (string \<times> datetime) list" where
  "completed_steps t s = map (\<lambda>r. (op_step r, op_completed_at r)) (repo_find op_tenant t (\<lambda>_. True) (onboarding_rows s))"

record onboarding_dto =
  od_steps :: "(string \<times> bool \<times> datetime option) list"
  od_count :: nat
  od_total :: nat
  od_complete :: bool

definition onboarding_to_dto :: "string list \<Rightarrow> (string \<times> datetime) list \<Rightarrow> onboarding_dto" where
  "onboarding_to_dto steps completed =
     (let ss = map (\<lambda>k. (k, k \<in> fst ` set completed, map_of completed k)) steps;
          done = length (filter (\<lambda>x. fst (snd x)) ss)
      in \<lparr>od_steps = ss, od_count = done, od_total = length steps, od_complete = (steps \<noteq> [] \<and> done = length steps)\<rparr>)"

definition complete_step :: "string list \<Rightarrow> tenant_context \<Rightarrow> string \<Rightarrow> 'z saas_db_scheme \<Rightarrow> (onboarding_dto, 'z saas_db_scheme) op_res" where
  "complete_step steps ctx step s0 =
     on_ok (pure_op (repo_init ctx) s0) (\<lambda>t s.
       if step \<notin> set steps then raise (Domain InvariantViolationError (''unknown onboarding step: '' @ repr_str step)) s
       else
         (let completed = completed_steps t s
          in if step \<in> fst ` set completed then ret (onboarding_to_dto steps completed) s
             else
               (let (i, s1) = new_uuid7 s; completed' = completed @ [(step, now s1)]
                in on_ok (pure_op (repo_add stamp_step step_conflict t None
                             \<lparr>op_id = i, op_tenant = t, op_step = step, op_completed_at = now s1\<rparr> (onboarding_rows s1)) s1) (\<lambda>rows s.
                   on_ok (if steps \<noteq> [] \<and> set steps \<subseteq> fst ` set completed'
                          then on_ok (emit ''onboarding'' ctx ''saas.onboarding.completed'' [] (s\<lparr>onboarding_rows := rows\<rparr>)) (\<lambda>_ s. ret () s)
                          else ret () (s\<lparr>onboarding_rows := rows\<rparr>)) (\<lambda>_ s. ret (onboarding_to_dto steps completed') s)))))"

definition progress :: "string list \<Rightarrow> access option \<Rightarrow> tenant_context \<Rightarrow> 'z saas_db_scheme \<Rightarrow> exn + onboarding_dto" where
  "progress steps acc ctx s =
     and_then (repo_init ctx) (\<lambda>t.
     and_then (guard_require acc ctx ONBOARDING_READ) (\<lambda>_. Inr (onboarding_to_dto steps (completed_steps t s))))"

end
