(* ===== verification/Retention.thy ===== *)
theory Retention
  imports Event_Bus Tenant_Repository Notification_Dispatch SaaS
begin

section \<open>Reading and purging the journals\<close>

text \<open>
  The read side of the audit journal (\<^verbatim>\<open>core/audit/service.py\<close>), the sweeps that delete what is past
  its retention (\<^verbatim>\<open>core/audit/retention.py\<close>) and the loop of
  \<^verbatim>\<open>app/worker.py\<close> that repeats a bounded sweep.
\<close>

subsection \<open>The audit search\<close>

definition RECORD_READ :: string where "RECORD_READ = ''audit.record:read''"

record audit_query =
  q_action_prefix :: "string option"
  q_actor :: "uuid option"
  q_object_type :: "string option"
  q_object_id :: "string option"
  q_from :: "datetime option"
  q_to :: "datetime option"

definition audit_matches :: "tenant_context \<Rightarrow> audit_query \<Rightarrow> audit_row \<Rightarrow> bool" where
  \<comment> \<open>\<^verbatim>\<open>= NULL\<close> is never true, so without a tenant nothing matches\<close>
  "audit_matches ctx q r =
     (tenant_id ctx \<noteq> None \<and> au_tenant r = tenant_id ctx
      \<and> (case q_action_prefix q of None \<Rightarrow> True | Some p \<Rightarrow> startswith (au_action r) p)
      \<and> (q_actor q = None \<or> au_user r = q_actor q)
      \<and> (q_object_type q = None \<or> au_object_type r = q_object_type q)
      \<and> (q_object_id q = None \<or> au_object_id r = q_object_id q)
      \<and> (case q_from q of None \<Rightarrow> True | Some d \<Rightarrow> d \<le> au_created r)
      \<and> (case q_to q of None \<Rightarrow> True | Some d \<Rightarrow> au_created r < d))"

definition audit_order :: "audit_row list \<Rightarrow> audit_row list" where
  "audit_order rows = rev (sort_key au_created (sort_key au_id rows))"

definition audit_search :: "access option \<Rightarrow> tenant_context \<Rightarrow> audit_query \<Rightarrow> page \<Rightarrow> 'z infra_scheme \<Rightarrow> exn + audit_row page_result" where
  "audit_search acc ctx q pg s =
     and_then (guard_require acc ctx RECORD_READ) (\<lambda>_.
       (let rows = filter (audit_matches ctx q) (audit_log s)
        in Inr \<lparr>pr_items = page_of (nat (pg_limit pg)) (nat (pg_offset pg)) (audit_order rows), pr_total = length rows,
                pr_limit = pg_limit pg, pr_offset = pg_offset pg\<rparr>))"

subsection \<open>Sweeps\<close>

definition AUDIT_SWEEP_BATCH :: nat where "AUDIT_SWEEP_BATCH = 1000"

text \<open>\<open>days\<close> before now, as an instant.\<close>

definition horizon :: "int \<Rightarrow> 'z infra_scheme \<Rightarrow> int" where
  "horizon days s = instant (now s) - days * usec_per_day"

definition purge_expired_audit :: "int \<Rightarrow> 'z infra_scheme \<Rightarrow> nat \<times> 'z infra_scheme" where
  "purge_expired_audit days s =
     (let oldest = map au_id (take AUDIT_SWEEP_BATCH (sort_key au_created (filter (\<lambda>r. instant (au_created r) < horizon days s) (audit_log s))));
          rest = del_where (\<lambda>r. au_id r \<in> set oldest) (audit_log s)
      in (length (audit_log s) - length rest, s\<lparr>audit_log := rest\<rparr>))"

subsection \<open>Draining\<close>

definition MAX_DRAIN_BATCHES :: nat where "MAX_DRAIN_BATCHES = 100"

fun drain_loop :: "nat \<Rightarrow> ('s \<Rightarrow> nat \<times> 's) \<Rightarrow> 's \<Rightarrow> nat \<times> 's" where
  "drain_loop 0 sweep s = (0, s)"
| "drain_loop (Suc n) sweep s =
     (let (deleted, s1) = sweep s
      in if deleted = 0 then (0, s1) else (let (rest, s2) = drain_loop n sweep s1 in (deleted + rest, s2)))"

definition drain :: "('s \<Rightarrow> nat \<times> 's) \<Rightarrow> 's \<Rightarrow> nat \<times> 's" where
  "drain sweep s = drain_loop MAX_DRAIN_BATCHES sweep s"

subsection \<open>The daily retention job\<close>

text \<open>The counters of the SaaS feature live in tables of their own; \<open>counters\<close> is their sweep, which runs only
  where the feature is enabled.\<close>

definition purge_retention :: "string list \<Rightarrow> int \<Rightarrow> int \<Rightarrow> notif_settings \<Rightarrow> ('z notif_db_scheme \<Rightarrow> nat \<times> 'z notif_db_scheme) \<Rightarrow>
    'z notif_db_scheme \<Rightarrow> (string \<times> nat) list \<times> 'z notif_db_scheme" where
  "purge_retention enabled audit_days processed_days cfg counters s =
     (let (a, s1) = drain (purge_expired_audit audit_days) s;
          (p, s2) = drain (purge_processed_events processed_days) s1;
          (n, s3) = drain (purge_expired_notifications cfg) s2;
          counts = [(''audit_log'', a), (''processed_events'', p), (''notification_outbox'', n)]
      in if ''saas'' \<in> set enabled
         then (let (u, s4) = drain counters s3 in (counts @ [(''saas_usage_counters'', u)], s4))
         else (counts, s3))"

end
