(* ===== verification/CRM.thy ===== *)
theory CRM
  imports Tenants Orders
begin

section \<open>CRM: contacts, deals, activities\<close>

text \<open>
  \<^verbatim>\<open>modules/crm\<close>: the services of the three features and the handlers that clear the links of
  deals and activities to what was deleted.  A link is checked when it is written; \<open>race\<close> is what
  other transactions commit between that check and the write.
\<close>

subsection \<open>Tables\<close>

record company =
  co_id :: uuid
  co_tenant :: uuid
  co_name :: string
  co_website :: "string option"
  co_industry :: "string option"
  co_notes :: "string option"

record person =
  cn_id :: uuid
  cn_tenant :: uuid
  cn_company :: "uuid option"
  cn_first_name :: string
  cn_last_name :: "string option"
  cn_email :: "string option"
  cn_phone :: "string option"
  cn_position :: "string option"
  cn_notes :: "string option"
  cn_created :: datetime

record deal =
  dl_id :: uuid
  dl_tenant :: uuid
  dl_title :: string
  dl_stage :: string
  dl_amount :: int
  dl_currency :: string
  dl_contact :: "uuid option"
  dl_company :: "uuid option"
  dl_notes :: "string option"
  dl_created :: datetime

record activity =
  ac_id :: uuid
  ac_tenant :: uuid
  ac_type :: string
  ac_subject :: string
  ac_notes :: "string option"
  ac_due :: "datetime option"
  ac_done :: "datetime option"
  ac_assignee :: uuid
  ac_contact :: "uuid option"
  ac_company :: "uuid option"
  ac_deal :: "uuid option"
  ac_created :: datetime

record crm_db = tenants_db +
  companies :: "company list"
  contacts :: "person list"
  deals :: "deal list"
  activities :: "activity list"

definition stamp_company :: "uuid \<Rightarrow> company \<Rightarrow> company" where "stamp_company t r = r\<lparr>co_tenant := t\<rparr>"
definition stamp_contact :: "uuid \<Rightarrow> person \<Rightarrow> person" where "stamp_contact t r = r\<lparr>cn_tenant := t\<rparr>"
definition stamp_deal :: "uuid \<Rightarrow> deal \<Rightarrow> deal" where "stamp_deal t r = r\<lparr>dl_tenant := t\<rparr>"
definition stamp_activity :: "uuid \<Rightarrow> activity \<Rightarrow> activity" where "stamp_activity t r = r\<lparr>ac_tenant := t\<rparr>"

interpretation company_tab: tenant_table co_tenant co_id stamp_company
  by unfold_locales (simp_all add: stamp_company_def)

interpretation contact_tab: tenant_table cn_tenant cn_id stamp_contact
  by unfold_locales (simp_all add: stamp_contact_def)

interpretation deal_tab: tenant_table dl_tenant dl_id stamp_deal
  by unfold_locales (simp_all add: stamp_deal_def)

interpretation activity_tab: tenant_table ac_tenant ac_id stamp_activity
  by unfold_locales (simp_all add: stamp_activity_def)

definition no_conflict :: "'r \<Rightarrow> 'r list \<Rightarrow> bool" where
  "no_conflict r rows = False"

definition patch :: "'a option \<Rightarrow> 'a \<Rightarrow> 'a" where
  \<comment> \<open>\<^verbatim>\<open>if value is not None: field = value\<close>\<close>
  "patch v old = (case v of Some x \<Rightarrow> x | None \<Rightarrow> old)"

definition patch_opt :: "'a option \<Rightarrow> 'a option \<Rightarrow> 'a option" where
  "patch_opt v old = (case v of Some x \<Rightarrow> Some x | None \<Rightarrow> old)"

definition COMPANY_READ :: string where "COMPANY_READ = ''crm.company:read''"
definition COMPANY_CREATE :: string where "COMPANY_CREATE = ''crm.company:create''"
definition COMPANY_UPDATE :: string where "COMPANY_UPDATE = ''crm.company:update''"
definition COMPANY_DELETE :: string where "COMPANY_DELETE = ''crm.company:delete''"
definition CONTACT_READ :: string where "CONTACT_READ = ''crm.contact:read''"
definition CONTACT_CREATE :: string where "CONTACT_CREATE = ''crm.contact:create''"
definition CONTACT_UPDATE :: string where "CONTACT_UPDATE = ''crm.contact:update''"
definition CONTACT_DELETE :: string where "CONTACT_DELETE = ''crm.contact:delete''"
definition DEAL_READ :: string where "DEAL_READ = ''crm.deal:read''"
definition DEAL_CREATE :: string where "DEAL_CREATE = ''crm.deal:create''"
definition DEAL_UPDATE :: string where "DEAL_UPDATE = ''crm.deal:update''"
definition DEAL_DELETE :: string where "DEAL_DELETE = ''crm.deal:delete''"
definition ACTIVITY_READ :: string where "ACTIVITY_READ = ''crm.activity:read''"
definition ACTIVITY_CREATE :: string where "ACTIVITY_CREATE = ''crm.activity:create''"
definition ACTIVITY_UPDATE :: string where "ACTIVITY_UPDATE = ''crm.activity:update''"
definition ACTIVITY_DELETE :: string where "ACTIVITY_DELETE = ''crm.activity:delete''"

text \<open>Entering an operation of a service: the repository needs a tenant, the guard the permission.\<close>

definition enter :: "access option \<Rightarrow> tenant_context \<Rightarrow> string \<Rightarrow> exn + uuid" where
  "enter acc ctx perm = and_then (repo_init ctx) (\<lambda>t. and_then (guard_require acc ctx perm) (\<lambda>_. Inr t))"

definition emit_id :: "string \<Rightarrow> tenant_context \<Rightarrow> string \<Rightarrow> string \<Rightarrow> uuid \<Rightarrow> 'a \<Rightarrow> 'z infra_scheme \<Rightarrow> ('a, 'z infra_scheme) op_res" where
  \<comment> \<open>\<^verbatim>\<open>self.emit(name, {key: str(id)}); return result\<close>\<close>
  "emit_id svc ctx name key i result s = on_ok (emit svc ctx name [(key, JStr (uuid_str i))] s) (\<lambda>_ s. ret result s)"

subsection \<open>Contacts and companies\<close>

definition ensure_contact :: "tenant_context \<Rightarrow> uuid \<Rightarrow> 'z crm_db_scheme \<Rightarrow> exn + unit" where
  "ensure_contact ctx i s =
     and_then (repo_init ctx) (\<lambda>t. and_then (repo_get_or_raise ''Contact'' cn_tenant cn_id t i (contacts s)) (\<lambda>_. Inr ()))"

definition ensure_company :: "tenant_context \<Rightarrow> uuid \<Rightarrow> 'z crm_db_scheme \<Rightarrow> exn + unit" where
  "ensure_company ctx i s =
     and_then (repo_init ctx) (\<lambda>t. and_then (repo_get_or_raise ''Company'' co_tenant co_id t i (companies s)) (\<lambda>_. Inr ()))"

definition set_company :: "company \<Rightarrow> 'z crm_db_scheme \<Rightarrow> 'z crm_db_scheme" where
  "set_company r s = s\<lparr>companies := upd_where (\<lambda>x. co_id x = co_id r) (\<lambda>_. r) (companies s)\<rparr>"

definition set_contact :: "person \<Rightarrow> 'z crm_db_scheme \<Rightarrow> 'z crm_db_scheme" where
  "set_contact r s = s\<lparr>contacts := upd_where (\<lambda>x. cn_id x = cn_id r) (\<lambda>_. r) (contacts s)\<rparr>"

definition create_company :: "access option \<Rightarrow> tenant_context \<Rightarrow> string \<Rightarrow> string option \<Rightarrow> string option \<Rightarrow> string option \<Rightarrow>
    'z crm_db_scheme \<Rightarrow> (company, 'z crm_db_scheme) op_res" where
  "create_company acc ctx name website industry notes s0 =
     on_ok (pure_op (enter acc ctx COMPANY_CREATE) s0) (\<lambda>t s.
       (let (i, s1) = new_uuid7 s;
            r = \<lparr>co_id = i, co_tenant = t, co_name = name, co_website = website, co_industry = industry, co_notes = notes\<rparr>
        in on_ok (pure_op (repo_add stamp_company no_conflict t None r (companies s1)) s1) (\<lambda>rows s.
             emit_id ''contacts'' ctx ''crm.company.created'' ''company_id'' i r (s\<lparr>companies := rows\<rparr>))))"

definition update_company :: "access option \<Rightarrow> tenant_context \<Rightarrow> uuid \<Rightarrow> string option \<Rightarrow> string option \<Rightarrow> string option \<Rightarrow> string option \<Rightarrow>
    'z crm_db_scheme \<Rightarrow> (company, 'z crm_db_scheme) op_res" where
  "update_company acc ctx i name website industry notes s0 =
     on_ok (pure_op (enter acc ctx COMPANY_UPDATE) s0) (\<lambda>t s.
     on_ok (pure_op (repo_get_or_raise ''Company'' co_tenant co_id t i (companies s)) s) (\<lambda>r s.
       (let r' = r\<lparr>co_name := patch name (co_name r), co_website := patch_opt website (co_website r),
                   co_industry := patch_opt industry (co_industry r), co_notes := patch_opt notes (co_notes r)\<rparr>
        in emit_id ''contacts'' ctx ''crm.company.updated'' ''company_id'' (co_id r) r' (set_company r' s))))"

definition get_company :: "access option \<Rightarrow> tenant_context \<Rightarrow> uuid \<Rightarrow> 'z crm_db_scheme \<Rightarrow> exn + company" where
  "get_company acc ctx i s =
     and_then (enter acc ctx COMPANY_READ) (\<lambda>t. repo_get_or_raise ''Company'' co_tenant co_id t i (companies s))"

definition list_companies :: "access option \<Rightarrow> tenant_context \<Rightarrow> page \<Rightarrow> 'z crm_db_scheme \<Rightarrow> exn + company page_result" where
  "list_companies acc ctx pg s =
     and_then (enter acc ctx COMPANY_READ) (\<lambda>t. Inr (repo_find_paged co_tenant t (\<lambda>_. True) (sort_key co_name) pg (companies s)))"

text \<open>The foreign key of the contacts is \<^verbatim>\<open>ON DELETE SET NULL\<close>.\<close>

definition delete_company :: "access option \<Rightarrow> tenant_context \<Rightarrow> uuid \<Rightarrow> 'z crm_db_scheme \<Rightarrow> (unit, 'z crm_db_scheme) op_res" where
  "delete_company acc ctx i s0 =
     on_ok (pure_op (enter acc ctx COMPANY_DELETE) s0) (\<lambda>t s.
     on_ok (pure_op (repo_get_or_raise ''Company'' co_tenant co_id t i (companies s)) s) (\<lambda>r s.
     on_ok (pure_op (repo_delete co_tenant co_id t r (companies s)) s) (\<lambda>rows s.
       emit_id ''contacts'' ctx ''crm.company.deleted'' ''company_id'' i ()
         (s\<lparr>companies := rows, contacts := upd_where (\<lambda>x. cn_company x = Some (co_id r)) (\<lambda>x. x\<lparr>cn_company := None\<rparr>) (contacts s)\<rparr>))))"

definition check_company :: "uuid \<Rightarrow> uuid option \<Rightarrow> 'z crm_db_scheme \<Rightarrow> exn + unit" where
  "check_company t c s =
     (case c of
        None \<Rightarrow> Inr ()
      | Some i \<Rightarrow> and_then (repo_get_or_raise ''Company'' co_tenant co_id t i (companies s)) (\<lambda>_. Inr ()))"

definition create_contact :: "access option \<Rightarrow> tenant_context \<Rightarrow> string \<Rightarrow> string option \<Rightarrow> string option \<Rightarrow> string option \<Rightarrow> string option \<Rightarrow>
    uuid option \<Rightarrow> string option \<Rightarrow> 'z crm_db_scheme \<Rightarrow> (person, 'z crm_db_scheme) op_res" where
  "create_contact acc ctx first_name last_name email phone pos company notes s0 =
     on_ok (pure_op (enter acc ctx CONTACT_CREATE) s0) (\<lambda>t s.
     on_ok (pure_op (check_company t company s) s) (\<lambda>_ s.
       (let (i, s1) = new_uuid7 s;
            r = \<lparr>cn_id = i, cn_tenant = t, cn_company = company, cn_first_name = first_name, cn_last_name = last_name,
                 cn_email = email, cn_phone = phone, cn_position = pos, cn_notes = notes, cn_created = now s1\<rparr>
        in on_ok (pure_op (repo_add stamp_contact no_conflict t None r (contacts s1)) s1) (\<lambda>rows s.
             emit_id ''contacts'' ctx ''crm.contact.created'' ''contact_id'' i r (s\<lparr>contacts := rows\<rparr>)))))"

definition update_contact :: "access option \<Rightarrow> tenant_context \<Rightarrow> uuid \<Rightarrow> string option \<Rightarrow> string option \<Rightarrow> string option \<Rightarrow> string option \<Rightarrow>
    string option \<Rightarrow> uuid option \<Rightarrow> string option \<Rightarrow> 'z crm_db_scheme \<Rightarrow> (person, 'z crm_db_scheme) op_res" where
  "update_contact acc ctx i first_name last_name email phone pos company notes s0 =
     on_ok (pure_op (enter acc ctx CONTACT_UPDATE) s0) (\<lambda>t s.
     on_ok (pure_op (repo_get_or_raise ''Contact'' cn_tenant cn_id t i (contacts s)) s) (\<lambda>r s.
     on_ok (pure_op (check_company t company s) s) (\<lambda>_ s.
       (let r' = r\<lparr>cn_company := patch_opt company (cn_company r), cn_first_name := patch first_name (cn_first_name r),
                   cn_last_name := patch_opt last_name (cn_last_name r), cn_email := patch_opt email (cn_email r),
                   cn_phone := patch_opt phone (cn_phone r), cn_position := patch_opt pos (cn_position r),
                   cn_notes := patch_opt notes (cn_notes r)\<rparr>
        in emit_id ''contacts'' ctx ''crm.contact.updated'' ''contact_id'' (cn_id r) r' (set_contact r' s)))))"

definition get_contact_card :: "access option \<Rightarrow> tenant_context \<Rightarrow> uuid \<Rightarrow> 'z crm_db_scheme \<Rightarrow> exn + person" where
  "get_contact_card acc ctx i s =
     and_then (enter acc ctx CONTACT_READ) (\<lambda>t. repo_get_or_raise ''Contact'' cn_tenant cn_id t i (contacts s))"

definition list_contacts :: "access option \<Rightarrow> tenant_context \<Rightarrow> page \<Rightarrow> uuid option \<Rightarrow> 'z crm_db_scheme \<Rightarrow> exn + person page_result" where
  "list_contacts acc ctx pg company s =
     and_then (enter acc ctx CONTACT_READ) (\<lambda>t.
       Inr (repo_find_paged cn_tenant t (\<lambda>r. company = None \<or> cn_company r = company) (newest_first cn_created) pg (contacts s)))"

definition delete_contact :: "access option \<Rightarrow> tenant_context \<Rightarrow> uuid \<Rightarrow> 'z crm_db_scheme \<Rightarrow> (unit, 'z crm_db_scheme) op_res" where
  "delete_contact acc ctx i s0 =
     on_ok (pure_op (enter acc ctx CONTACT_DELETE) s0) (\<lambda>t s.
     on_ok (pure_op (repo_get_or_raise ''Contact'' cn_tenant cn_id t i (contacts s)) s) (\<lambda>r s.
     on_ok (pure_op (repo_delete cn_tenant cn_id t r (contacts s)) s) (\<lambda>rows s.
       emit_id ''contacts'' ctx ''crm.contact.deleted'' ''contact_id'' i () (s\<lparr>contacts := rows\<rparr>))))"

subsection \<open>Deals\<close>

definition set_deal :: "deal \<Rightarrow> 'z crm_db_scheme \<Rightarrow> 'z crm_db_scheme" where
  "set_deal r s = s\<lparr>deals := upd_where (\<lambda>x. dl_id x = dl_id r) (\<lambda>_. r) (deals s)\<rparr>"

definition require_stage :: "string list \<Rightarrow> string \<Rightarrow> exn + unit" where
  "require_stage stages stage =
     (if stage \<notin> set stages then Inl (Domain InvariantViolationError (''unknown deal stage: '' @ repr_str stage)) else Inr ())"

definition resolve_stage :: "string list \<Rightarrow> string option \<Rightarrow> exn + string" where
  "resolve_stage stages stage =
     (case stage of
        None \<Rightarrow> (case stages of
                   [] \<Rightarrow> Inl (Domain InvariantViolationError ''no deal stages configured (set CRM_DEAL_STAGES)'')
                 | x # _ \<Rightarrow> Inr x)
      | Some x \<Rightarrow> and_then (require_stage stages x) (\<lambda>_. Inr x))"

definition validate_deal_links :: "tenant_context \<Rightarrow> uuid option \<Rightarrow> uuid option \<Rightarrow> 'z crm_db_scheme \<Rightarrow> exn + unit" where
  "validate_deal_links ctx contact company s =
     and_then (case contact of None \<Rightarrow> Inr () | Some i \<Rightarrow> ensure_contact ctx i s) (\<lambda>_.
       (case company of None \<Rightarrow> Inr () | Some i \<Rightarrow> ensure_company ctx i s))"

definition create_deal :: "('z crm_db_scheme \<Rightarrow> 'z crm_db_scheme) \<Rightarrow> (string \<rightharpoonup> int) \<Rightarrow> string list \<Rightarrow> access option \<Rightarrow> tenant_context \<Rightarrow>
    string \<Rightarrow> int \<Rightarrow> string \<Rightarrow> string option \<Rightarrow> uuid option \<Rightarrow> uuid option \<Rightarrow> string option \<Rightarrow> 'z crm_db_scheme \<Rightarrow> (deal, 'z crm_db_scheme) op_res" where
  "create_deal rc reg stages acc ctx title amount currency stage contact company notes s0 =
     on_ok (pure_op (enter acc ctx DEAL_CREATE) s0) (\<lambda>t s.
     on_ok (pure_op (mk_money amount currency) s) (\<lambda>_ s.
     on_ok (pure_op (registry_exponent reg currency) s) (\<lambda>_ s.
     on_ok (pure_op (resolve_stage stages stage) s) (\<lambda>st s.
     on_ok (pure_op (validate_deal_links ctx contact company s) s) (\<lambda>_ s.
       (let (i, s1) = new_uuid7 (rc s);
            r = \<lparr>dl_id = i, dl_tenant = t, dl_title = title, dl_stage = st, dl_amount = amount, dl_currency = currency,
                 dl_contact = contact, dl_company = company, dl_notes = notes, dl_created = now s1\<rparr>
        in on_ok (pure_op (repo_add stamp_deal no_conflict t None r (deals s1)) s1) (\<lambda>rows s.
             emit_id ''deals'' ctx ''crm.deal.created'' ''deal_id'' i r (s\<lparr>deals := rows\<rparr>))))))))"

record deal_changes =
  dc_title :: "string option"
  dc_amount :: "int option"
  dc_currency :: "string option"
  dc_stage :: "string option"
  dc_contact :: "uuid option"
  dc_company :: "uuid option"
  dc_notes :: "string option"
  dc_clear_contact :: bool
  dc_clear_company :: bool

definition patch_deal :: "deal_changes \<Rightarrow> deal \<Rightarrow> deal" where
  "patch_deal c r =
     r\<lparr>dl_title := patch (dc_title c) (dl_title r), dl_amount := patch (dc_amount c) (dl_amount r),
       dl_currency := patch (dc_currency c) (dl_currency r), dl_stage := patch (dc_stage c) (dl_stage r),
       dl_contact := (if dc_clear_contact c \<and> dc_contact c = None then None else patch_opt (dc_contact c) (dl_contact r)),
       dl_company := (if dc_clear_company c \<and> dc_company c = None then None else patch_opt (dc_company c) (dl_company r)),
       dl_notes := patch_opt (dc_notes c) (dl_notes r)\<rparr>"

definition update_deal :: "(string \<rightharpoonup> int) \<Rightarrow> string list \<Rightarrow> access option \<Rightarrow> tenant_context \<Rightarrow> uuid \<Rightarrow> deal_changes \<Rightarrow>
    'z crm_db_scheme \<Rightarrow> (deal, 'z crm_db_scheme) op_res" where
  "update_deal reg stages acc ctx i c s0 =
     on_ok (pure_op (enter acc ctx DEAL_UPDATE) s0) (\<lambda>t s.
     on_ok (pure_op (repo_get_or_raise ''Deal'' dl_tenant dl_id t i (deals s)) s) (\<lambda>r s.
     on_ok (pure_op (validate_deal_links ctx (dc_contact c) (dc_company c) s) s) (\<lambda>_ s.
     on_ok (pure_op (case dc_currency c of None \<Rightarrow> Inr () | Some x \<Rightarrow> and_then (registry_exponent reg x) (\<lambda>_. Inr ())) s) (\<lambda>_ s.
     on_ok (pure_op (case dc_stage c of None \<Rightarrow> Inr () | Some x \<Rightarrow> require_stage stages x) s) (\<lambda>_ s.
       (let r' = patch_deal c r
        in on_ok (pure_op (mk_money (dl_amount r') (dl_currency r')) (set_deal r' s)) (\<lambda>_ s.
           on_ok (emit ''deals'' ctx ''crm.deal.updated'' [(''deal_id'', JStr (uuid_str (dl_id r)))] s) (\<lambda>_ s.
             if dl_stage r' \<noteq> dl_stage r
             then on_ok (emit ''deals'' ctx ''crm.deal.stage_changed''
                           [(''deal_id'', JStr (uuid_str (dl_id r))), (''from'', JStr (dl_stage r)), (''to'', JStr (dl_stage r'))] s) (\<lambda>_ s. ret r' s)
             else ret r' s))))))))"

definition ensure_deal :: "tenant_context \<Rightarrow> uuid \<Rightarrow> 'z crm_db_scheme \<Rightarrow> exn + unit" where
  "ensure_deal ctx i s =
     and_then (repo_init ctx) (\<lambda>t. and_then (repo_get_or_raise ''Deal'' dl_tenant dl_id t i (deals s)) (\<lambda>_. Inr ()))"

definition get_deal :: "access option \<Rightarrow> tenant_context \<Rightarrow> uuid \<Rightarrow> 'z crm_db_scheme \<Rightarrow> exn + deal" where
  "get_deal acc ctx i s = and_then (enter acc ctx DEAL_READ) (\<lambda>t. repo_get_or_raise ''Deal'' dl_tenant dl_id t i (deals s))"

definition list_deals :: "access option \<Rightarrow> tenant_context \<Rightarrow> page \<Rightarrow> string option \<Rightarrow> uuid option \<Rightarrow> uuid option \<Rightarrow> 'z crm_db_scheme \<Rightarrow> exn + deal page_result" where
  "list_deals acc ctx pg stage contact company s =
     and_then (enter acc ctx DEAL_READ) (\<lambda>t.
       Inr (repo_find_paged dl_tenant t
         (\<lambda>r. (stage = None \<or> Some (dl_stage r) = stage) \<and> (contact = None \<or> dl_contact r = contact) \<and> (company = None \<or> dl_company r = company))
         (newest_first dl_created) pg (deals s)))"

definition delete_deal :: "access option \<Rightarrow> tenant_context \<Rightarrow> uuid \<Rightarrow> 'z crm_db_scheme \<Rightarrow> (unit, 'z crm_db_scheme) op_res" where
  "delete_deal acc ctx i s0 =
     on_ok (pure_op (enter acc ctx DEAL_DELETE) s0) (\<lambda>t s.
     on_ok (pure_op (repo_get_or_raise ''Deal'' dl_tenant dl_id t i (deals s)) s) (\<lambda>r s.
     on_ok (pure_op (repo_delete dl_tenant dl_id t r (deals s)) s) (\<lambda>rows s.
       emit_id ''deals'' ctx ''crm.deal.deleted'' ''deal_id'' i () (s\<lparr>deals := rows\<rparr>))))"

fun emit_each :: "string \<Rightarrow> tenant_context \<Rightarrow> string \<Rightarrow> string \<Rightarrow> uuid list \<Rightarrow> 'z infra_scheme \<Rightarrow> (unit, 'z infra_scheme) op_res" where
  "emit_each svc ctx name key [] s = ret () s"
| "emit_each svc ctx name key (i # is) s = on_ok (emit svc ctx name [(key, JStr (uuid_str i))] s) (\<lambda>_ s. emit_each svc ctx name key is s)"

definition unlink_deals :: "tenant_context \<Rightarrow> (deal \<Rightarrow> bool) \<Rightarrow> (deal \<Rightarrow> deal) \<Rightarrow> 'z crm_db_scheme \<Rightarrow> (nat, 'z crm_db_scheme) op_res" where
  "unlink_deals ctx P clear s0 =
     on_ok (pure_op (repo_init ctx) s0) (\<lambda>t s.
       (let rows = repo_find dl_tenant t P (deals s)
        in on_ok (emit_each ''deals'' ctx ''crm.deal.updated'' ''deal_id'' (map dl_id rows)
                    (s\<lparr>deals := upd_where (\<lambda>x. dl_tenant x = t \<and> P x) clear (deals s)\<rparr>)) (\<lambda>_ s. ret (length rows) s)))"

definition deals_unlink_contact :: "tenant_context \<Rightarrow> uuid \<Rightarrow> 'z crm_db_scheme \<Rightarrow> (nat, 'z crm_db_scheme) op_res" where
  "deals_unlink_contact ctx i s = unlink_deals ctx (\<lambda>r. dl_contact r = Some i) (\<lambda>r. r\<lparr>dl_contact := None\<rparr>) s"

definition deals_unlink_company :: "tenant_context \<Rightarrow> uuid \<Rightarrow> 'z crm_db_scheme \<Rightarrow> (nat, 'z crm_db_scheme) op_res" where
  "deals_unlink_company ctx i s = unlink_deals ctx (\<lambda>r. dl_company r = Some i) (\<lambda>r. r\<lparr>dl_company := None\<rparr>) s"

text \<open>The id a deletion event carries, for the handlers.\<close>

definition event_uuid :: "tenant_context \<Rightarrow> envelope \<Rightarrow> string \<Rightarrow> exn + uuid option" where
  "event_uuid ctx e key =
     (let raw = jget (ev_payload e) key
      in if \<not> jtruthy raw \<or> tenant_id ctx = None then Inr None else and_then (uuid_of (py_str raw)) (\<lambda>u. Inr (Some u)))"

definition handle_deleted :: "string \<Rightarrow> (tenant_context \<Rightarrow> uuid \<Rightarrow> 'z crm_db_scheme \<Rightarrow> (nat, 'z crm_db_scheme) op_res) \<Rightarrow>
    tenant_context \<Rightarrow> envelope \<Rightarrow> 'z crm_db_scheme \<Rightarrow> (unit, 'z crm_db_scheme) op_res" where
  "handle_deleted key unlink ctx e s =
     on_ok (pure_op (event_uuid ctx e key) s) (\<lambda>i s.
       (case i of None \<Rightarrow> ret () s | Some i \<Rightarrow> on_ok (unlink ctx i s) (\<lambda>_ s. ret () s)))"

definition deals_on_contact_deleted :: "tenant_context \<Rightarrow> envelope \<Rightarrow> 'z crm_db_scheme \<Rightarrow> (unit, 'z crm_db_scheme) op_res" where
  "deals_on_contact_deleted = handle_deleted ''contact_id'' deals_unlink_contact"

definition deals_on_company_deleted :: "tenant_context \<Rightarrow> envelope \<Rightarrow> 'z crm_db_scheme \<Rightarrow> (unit, 'z crm_db_scheme) op_res" where
  "deals_on_company_deleted = handle_deleted ''company_id'' deals_unlink_company"

subsection \<open>Activities\<close>

definition set_activity :: "activity \<Rightarrow> 'z crm_db_scheme \<Rightarrow> 'z crm_db_scheme" where
  "set_activity r s = s\<lparr>activities := upd_where (\<lambda>x. ac_id x = ac_id r) (\<lambda>_. r) (activities s)\<rparr>"

definition resolve_type :: "string list \<Rightarrow> string option \<Rightarrow> exn + string" where
  "resolve_type types ty =
     (case types of
        [] \<Rightarrow> Inl (Domain InvariantViolationError ''no activity types configured (set CRM_ACTIVITY_TYPES)'')
      | d # _ \<Rightarrow>
          (case ty of
             None \<Rightarrow> Inr d
           | Some x \<Rightarrow> if x \<notin> set types then Inl (Domain InvariantViolationError (''unknown activity type: '' @ repr_str x)) else Inr x))"

definition validate_activity_links :: "tenant_context \<Rightarrow> uuid option \<Rightarrow> uuid option \<Rightarrow> uuid option \<Rightarrow> 'z crm_db_scheme \<Rightarrow> exn + unit" where
  "validate_activity_links ctx contact company d s =
     and_then (validate_deal_links ctx contact company s) (\<lambda>_.
       (case d of None \<Rightarrow> Inr () | Some i \<Rightarrow> ensure_deal ctx i s))"

definition require_member :: "tenant_context \<Rightarrow> uuid \<Rightarrow> 'z crm_db_scheme \<Rightarrow> exn + unit" where
  "require_member ctx u s =
     (case tenant_id ctx of
        Some t \<Rightarrow> if has_active_membership t u s then Inr ()
                  else Inl (Domain NotFoundError (''assignee '' @ uuid_str u @ '' is not a member of this tenant''))
      | None \<Rightarrow> Inl (Domain NotFoundError (''assignee '' @ uuid_str u @ '' is not a member of this tenant'')))"

record activity_in =
  ai_subject :: string
  ai_type :: "string option"
  ai_notes :: "string option"
  ai_due :: "datetime option"
  ai_assignee :: "uuid option"
  ai_contact :: "uuid option"
  ai_company :: "uuid option"
  ai_deal :: "uuid option"

definition create_activity :: "('z crm_db_scheme \<Rightarrow> 'z crm_db_scheme) \<Rightarrow> string list \<Rightarrow> access option \<Rightarrow> tenant_context \<Rightarrow> activity_in \<Rightarrow>
    'z crm_db_scheme \<Rightarrow> (activity, 'z crm_db_scheme) op_res" where
  "create_activity rc types acc ctx a s0 =
     on_ok (pure_op (enter acc ctx ACTIVITY_CREATE) s0) (\<lambda>t s.
     on_ok (pure_op (resolve_type types (ai_type a)) s) (\<lambda>ty s.
     on_ok (pure_op (case ai_assignee a of Some u \<Rightarrow> Inr (Some u) | None \<Rightarrow> actor_user_id (ctx_actor ctx)) s) (\<lambda>who s.
       (case who of
          None \<Rightarrow> raise (Domain InvariantViolationError ''an activity needs an assignee'') s
        | Some u \<Rightarrow>
            on_ok (pure_op (require_member ctx u s) s) (\<lambda>_ s.
            on_ok (pure_op (validate_activity_links ctx (ai_contact a) (ai_company a) (ai_deal a) s) s) (\<lambda>_ s.
              (let (i, s1) = new_uuid7 (rc s);
                   r = \<lparr>ac_id = i, ac_tenant = t, ac_type = ty, ac_subject = ai_subject a, ac_notes = ai_notes a, ac_due = ai_due a,
                        ac_done = None, ac_assignee = u, ac_contact = ai_contact a, ac_company = ai_company a, ac_deal = ai_deal a,
                        ac_created = now s1\<rparr>
               in on_ok (pure_op (repo_add stamp_activity no_conflict t None r (activities s1)) s1) (\<lambda>rows s.
                    emit_id ''activities'' ctx ''crm.activity.created'' ''activity_id'' i r (s\<lparr>activities := rows\<rparr>)))))))))"

record activity_changes =
  ah_subject :: "string option"
  ah_type :: "string option"
  ah_notes :: "string option"
  ah_due :: "datetime option"
  ah_assignee :: "uuid option"
  ah_contact :: "uuid option"
  ah_company :: "uuid option"
  ah_deal :: "uuid option"
  ah_cleared :: "string list"

definition patch_clear :: "string list \<Rightarrow> string \<Rightarrow> 'a option \<Rightarrow> 'a option \<Rightarrow> 'a option" where
  "patch_clear cleared name v old = (case v of Some x \<Rightarrow> Some x | None \<Rightarrow> if name \<in> set cleared then None else old)"

definition patch_activity :: "activity_changes \<Rightarrow> activity \<Rightarrow> activity" where
  "patch_activity c r =
     r\<lparr>ac_subject := patch (ah_subject c) (ac_subject r), ac_type := patch (ah_type c) (ac_type r),
       ac_notes := patch_clear (ah_cleared c) ''notes'' (ah_notes c) (ac_notes r),
       ac_due := patch_clear (ah_cleared c) ''due_at'' (ah_due c) (ac_due r),
       ac_assignee := patch (ah_assignee c) (ac_assignee r),
       ac_contact := patch_clear (ah_cleared c) ''contact_id'' (ah_contact c) (ac_contact r),
       ac_company := patch_clear (ah_cleared c) ''company_id'' (ah_company c) (ac_company r),
       ac_deal := patch_clear (ah_cleared c) ''deal_id'' (ah_deal c) (ac_deal r)\<rparr>"

text \<open>Clearing a column that is \<^verbatim>\<open>NOT NULL\<close> fails at the flush.\<close>

definition clears_required :: "activity_changes \<Rightarrow> bool" where
  "clears_required c =
     (ah_subject c = None \<and> ''subject'' \<in> set (ah_cleared c) \<or> ah_type c = None \<and> ''type'' \<in> set (ah_cleared c)
      \<or> ah_assignee c = None \<and> ''assignee_user_id'' \<in> set (ah_cleared c))"

definition update_activity :: "string list \<Rightarrow> access option \<Rightarrow> tenant_context \<Rightarrow> uuid \<Rightarrow> activity_changes \<Rightarrow> 'z crm_db_scheme \<Rightarrow>
    (activity, 'z crm_db_scheme) op_res" where
  "update_activity types acc ctx i c s0 =
     on_ok (pure_op (enter acc ctx ACTIVITY_UPDATE) s0) (\<lambda>t s.
     on_ok (pure_op (repo_get_or_raise ''Activity'' ac_tenant ac_id t i (activities s)) s) (\<lambda>r s.
     on_ok (pure_op (case ah_type c of None \<Rightarrow> Inr () | Some x \<Rightarrow> and_then (resolve_type types (Some x)) (\<lambda>_. Inr ())) s) (\<lambda>_ s.
     on_ok (pure_op (case ah_assignee c of None \<Rightarrow> Inr () | Some u \<Rightarrow> require_member ctx u s) s) (\<lambda>_ s.
     on_ok (pure_op (validate_activity_links ctx (ah_contact c) (ah_company c) (ah_deal c) s) s) (\<lambda>_ s.
       if clears_required c then raise IntegrityError s
       else
         (let r' = patch_activity c r
          in on_ok (emit ''activities'' ctx ''crm.activity.updated'' [(''activity_id'', JStr (uuid_str (ac_id r)))] (set_activity r' s)) (\<lambda>_ s.
             if ac_assignee r' \<noteq> ac_assignee r
             then on_ok (emit ''activities'' ctx ''crm.activity.assigned''
                           [(''activity_id'', JStr (uuid_str (ac_id r))), (''from'', JStr (uuid_str (ac_assignee r))), (''to'', JStr (uuid_str (ac_assignee r')))] s)
                    (\<lambda>_ s. ret r' s)
             else ret r' s)))))))"

definition complete_activity :: "access option \<Rightarrow> tenant_context \<Rightarrow> uuid \<Rightarrow> 'z crm_db_scheme \<Rightarrow> (activity, 'z crm_db_scheme) op_res" where
  "complete_activity acc ctx i s0 =
     on_ok (pure_op (enter acc ctx ACTIVITY_UPDATE) s0) (\<lambda>t s.
     on_ok (pure_op (repo_get_or_raise ''Activity'' ac_tenant ac_id t i (activities s)) s) (\<lambda>r s.
       if ac_done r = None
       then (let r' = r\<lparr>ac_done := Some (now s)\<rparr>
             in emit_id ''activities'' ctx ''crm.activity.completed'' ''activity_id'' (ac_id r) r' (set_activity r' s))
       else ret r s))"

definition reopen_activity :: "access option \<Rightarrow> tenant_context \<Rightarrow> uuid \<Rightarrow> 'z crm_db_scheme \<Rightarrow> (activity, 'z crm_db_scheme) op_res" where
  "reopen_activity acc ctx i s0 =
     on_ok (pure_op (enter acc ctx ACTIVITY_UPDATE) s0) (\<lambda>t s.
     on_ok (pure_op (repo_get_or_raise ''Activity'' ac_tenant ac_id t i (activities s)) s) (\<lambda>r s.
       if ac_done r \<noteq> None
       then (let r' = r\<lparr>ac_done := None\<rparr>
             in emit_id ''activities'' ctx ''crm.activity.reopened'' ''activity_id'' (ac_id r) r' (set_activity r' s))
       else ret r s))"

definition delete_activity :: "access option \<Rightarrow> tenant_context \<Rightarrow> uuid \<Rightarrow> 'z crm_db_scheme \<Rightarrow> (unit, 'z crm_db_scheme) op_res" where
  "delete_activity acc ctx i s0 =
     on_ok (pure_op (enter acc ctx ACTIVITY_DELETE) s0) (\<lambda>t s.
     on_ok (pure_op (repo_get_or_raise ''Activity'' ac_tenant ac_id t i (activities s)) s) (\<lambda>r s.
     on_ok (pure_op (repo_delete ac_tenant ac_id t r (activities s)) s) (\<lambda>rows s.
       emit_id ''activities'' ctx ''crm.activity.deleted'' ''activity_id'' i () (s\<lparr>activities := rows\<rparr>))))"

definition get_activity :: "access option \<Rightarrow> tenant_context \<Rightarrow> uuid \<Rightarrow> 'z crm_db_scheme \<Rightarrow> exn + activity" where
  "get_activity acc ctx i s =
     and_then (enter acc ctx ACTIVITY_READ) (\<lambda>t. repo_get_or_raise ''Activity'' ac_tenant ac_id t i (activities s))"

datatype open_done = QOpen | QDone

record activity_query =
  aq_assignee :: "uuid option"
  aq_mine :: bool
  aq_status :: "open_done option"
  aq_overdue :: bool
  aq_due_today :: bool
  aq_type :: "string option"
  aq_deal :: "uuid option"
  aq_contact :: "uuid option"
  aq_company :: "uuid option"

definition activity_filter :: "tenant_context \<Rightarrow> activity_query \<Rightarrow> datetime \<Rightarrow> exn + (activity \<Rightarrow> bool)" where
  "activity_filter ctx q n =
     and_then (if aq_mine q
               then and_then (actor_user_id (ctx_actor ctx)) (\<lambda>u.
                      (case u of None \<Rightarrow> Inl (Domain InvariantViolationError ([CHR 0x27] @ ''mine'' @ [CHR 0x27] @ '' requires a user actor'')) | Some x \<Rightarrow> Inr (Some x)))
               else Inr (aq_assignee q)) (\<lambda>who.
       Inr (\<lambda>r. (who = None \<or> Some (ac_assignee r) = who)
            \<and> (case aq_status q of None \<Rightarrow> True | Some QDone \<Rightarrow> ac_done r \<noteq> None | Some QOpen \<Rightarrow> ac_done r = None)
            \<and> (aq_overdue q \<longrightarrow> ac_done r = None \<and> (case ac_due r of None \<Rightarrow> False | Some d \<Rightarrow> d < n))
            \<and> (aq_due_today q \<longrightarrow> (case ac_due r of None \<Rightarrow> False | Some d \<Rightarrow> date_of d = date_of n))
            \<and> (aq_type q = None \<or> Some (ac_type r) = aq_type q)
            \<and> (aq_deal q = None \<or> ac_deal r = aq_deal q)
            \<and> (aq_contact q = None \<or> ac_contact r = aq_contact q)
            \<and> (aq_company q = None \<or> ac_company r = aq_company q)))"

text \<open>Open ones first, by due date with the undated last, then the newest.\<close>

definition activity_order :: "activity list \<Rightarrow> activity list" where
  "activity_order rows =
     sort_key (\<lambda>r. of_bool (ac_done r \<noteq> None) :: nat)
       (sort_key (\<lambda>r. of_bool (ac_due r = None) :: nat)
         (sort_key (\<lambda>r. case ac_due r of None \<Rightarrow> 0 | Some d \<Rightarrow> instant d) (newest_first ac_created rows)))"

definition list_activities :: "access option \<Rightarrow> tenant_context \<Rightarrow> page \<Rightarrow> activity_query \<Rightarrow> 'z crm_db_scheme \<Rightarrow> exn + activity page_result" where
  "list_activities acc ctx pg q s =
     and_then (enter acc ctx ACTIVITY_READ) (\<lambda>t.
     and_then (activity_filter ctx q (now s)) (\<lambda>P. Inr (repo_find_paged ac_tenant t P activity_order pg (activities s))))"

definition unlink_activities :: "tenant_context \<Rightarrow> (activity \<Rightarrow> bool) \<Rightarrow> (activity \<Rightarrow> activity) \<Rightarrow> 'z crm_db_scheme \<Rightarrow> (nat, 'z crm_db_scheme) op_res" where
  "unlink_activities ctx P clear s0 =
     on_ok (pure_op (repo_init ctx) s0) (\<lambda>t s.
       (let rows = repo_find ac_tenant t P (activities s)
        in on_ok (emit_each ''activities'' ctx ''crm.activity.updated'' ''activity_id'' (map ac_id rows)
                    (s\<lparr>activities := upd_where (\<lambda>x. ac_tenant x = t \<and> P x) clear (activities s)\<rparr>)) (\<lambda>_ s. ret (length rows) s)))"

definition activities_unlink_contact :: "tenant_context \<Rightarrow> uuid \<Rightarrow> 'z crm_db_scheme \<Rightarrow> (nat, 'z crm_db_scheme) op_res" where
  "activities_unlink_contact ctx i s = unlink_activities ctx (\<lambda>r. ac_contact r = Some i) (\<lambda>r. r\<lparr>ac_contact := None\<rparr>) s"

definition activities_unlink_company :: "tenant_context \<Rightarrow> uuid \<Rightarrow> 'z crm_db_scheme \<Rightarrow> (nat, 'z crm_db_scheme) op_res" where
  "activities_unlink_company ctx i s = unlink_activities ctx (\<lambda>r. ac_company r = Some i) (\<lambda>r. r\<lparr>ac_company := None\<rparr>) s"

definition activities_unlink_deal :: "tenant_context \<Rightarrow> uuid \<Rightarrow> 'z crm_db_scheme \<Rightarrow> (nat, 'z crm_db_scheme) op_res" where
  "activities_unlink_deal ctx i s = unlink_activities ctx (\<lambda>r. ac_deal r = Some i) (\<lambda>r. r\<lparr>ac_deal := None\<rparr>) s"

definition activities_on_contact_deleted :: "tenant_context \<Rightarrow> envelope \<Rightarrow> 'z crm_db_scheme \<Rightarrow> (unit, 'z crm_db_scheme) op_res" where
  "activities_on_contact_deleted = handle_deleted ''contact_id'' activities_unlink_contact"

definition activities_on_company_deleted :: "tenant_context \<Rightarrow> envelope \<Rightarrow> 'z crm_db_scheme \<Rightarrow> (unit, 'z crm_db_scheme) op_res" where
  "activities_on_company_deleted = handle_deleted ''company_id'' activities_unlink_company"

definition activities_on_deal_deleted :: "tenant_context \<Rightarrow> envelope \<Rightarrow> 'z crm_db_scheme \<Rightarrow> (unit, 'z crm_db_scheme) op_res" where
  "activities_on_deal_deleted = handle_deleted ''deal_id'' activities_unlink_deal"

end
