(* ===== verification/Auth_Routes.thy ===== *)
theory Auth_Routes
  imports Request_Context
begin

section \<open>The routes of authentication and tenants\<close>

text \<open>
  \<^verbatim>\<open>core/auth/router.py\<close> and \<^verbatim>\<open>core/tenants/router.py\<close>: which bundle a route opens, what it
  asks of the services and what it answers.  The web framework has parsed the bodies, so a route takes the
  fields of its request model; an answer carries the status the route declares.
\<close>

subsection \<open>Bundles and answers\<close>

record request_info =
  ri_ip :: "string option"
  ri_agent :: "string option"

definition public_bundle :: "'z tenants_db_scheme auth_env \<Rightarrow> http_request \<Rightarrow>
    (tenant_context \<Rightarrow> 'z tenants_db_scheme \<Rightarrow> ('a, 'z tenants_db_scheme) op_res) \<Rightarrow> 'z tenants_db_scheme \<Rightarrow> ('a, 'z tenants_db_scheme) op_res" where
  "public_bundle env rq endpoint s =
     (case context_from_request env False rq of
        Inl e \<Rightarrow> raise e s
      | Inr ctx \<Rightarrow> auth_unit_of_work (endpoint ctx) s)"

definition maintenance_bundle :: "'z tenants_db_scheme auth_env \<Rightarrow> http_request \<Rightarrow>
    (tenant_context \<Rightarrow> 'z tenants_db_scheme \<Rightarrow> ('a, 'z tenants_db_scheme) op_res) \<Rightarrow> 'z tenants_db_scheme \<Rightarrow> ('a, 'z tenants_db_scheme) op_res" where
  "maintenance_bundle env rq endpoint s =
     (case context_from_request env True rq of
        Inl e \<Rightarrow> raise e s
      | Inr ctx \<Rightarrow> auth_unit_of_work (endpoint ctx) s)"

text \<open>The marker validates the token before the endpoint opens its bundle.\<close>

definition authenticated_endpoint :: "'z tenants_db_scheme auth_env \<Rightarrow> http_request \<Rightarrow>
    ('z tenants_db_scheme \<Rightarrow> ('a, 'z tenants_db_scheme) op_res) \<Rightarrow> 'z tenants_db_scheme \<Rightarrow> ('a, 'z tenants_db_scheme) op_res" where
  "authenticated_endpoint env rq route s =
     on_ok (pure_op (context_from_request env True rq) s) (\<lambda>_ s. route s)"

datatype 'a answer = Answer nat 'a

definition answered :: "nat \<Rightarrow> ('a, 's) op_res \<Rightarrow> ('a answer, 's) op_res" where
  "answered status r = on_ok r (\<lambda>x s. ret (Answer status x) s)"

definition ok_body :: payload where
  "ok_body = [(''status'', JStr ''ok'')]"

subsection \<open>Authentication\<close>

record user_dto =
  ud_id :: uuid
  ud_email :: string
  ud_full_name :: "string option"
  ud_phone :: "string option"
  ud_locale :: string
  ud_two_factor :: bool

definition to_user_dto :: "user \<Rightarrow> bool \<Rightarrow> user_dto" where
  "to_user_dto u two_factor =
     \<lparr>ud_id = u_id u, ud_email = u_email u, ud_full_name = u_full_name u, ud_phone = u_phone u, ud_locale = u_locale u, ud_two_factor = two_factor\<rparr>"

text \<open>The full name of \<^verbatim>\<open>RegisterIn\<close> goes nowhere.\<close>

record register_in =
  rg_email :: string
  rg_password :: string
  rg_full_name :: "string option"
  rg_locale :: string

definition register_route :: "'z tenants_db_scheme auth_env \<Rightarrow> http_request \<Rightarrow> request_info \<Rightarrow> register_in \<Rightarrow>
    'z tenants_db_scheme \<Rightarrow> (user_dto answer, 'z tenants_db_scheme) op_res" where
  "register_route env rq info body s =
     answered 201 (public_bundle env rq (\<lambda>ctx s.
       on_ok (register env ctx (rg_email body) (rg_password body) (rg_locale body) (ri_ip info) s) (\<lambda>u s. ret (to_user_dto u False) s)) s)"

definition login_route :: "'z tenants_db_scheme auth_env \<Rightarrow> http_request \<Rightarrow> request_info \<Rightarrow> string \<Rightarrow> string \<Rightarrow>
    'z tenants_db_scheme \<Rightarrow> (login_result answer, 'z tenants_db_scheme) op_res" where
  "login_route env rq info email password s =
     answered 200 (public_bundle env rq (\<lambda>ctx s. authenticate env ctx email password (ri_ip info) (ri_agent info) s) s)"

definition verify_two_factor_route :: "'z tenants_db_scheme auth_env \<Rightarrow> http_request \<Rightarrow> string \<Rightarrow> string \<Rightarrow>
    'z tenants_db_scheme \<Rightarrow> (token_pair answer, 'z tenants_db_scheme) op_res" where
  "verify_two_factor_route env rq challenge code s =
     answered 200 (public_bundle env rq (\<lambda>ctx s. complete_two_factor env ctx challenge code s) s)"

definition refresh_route :: "'z tenants_db_scheme auth_env \<Rightarrow> http_request \<Rightarrow> string \<Rightarrow>
    'z tenants_db_scheme \<Rightarrow> (token_pair answer, 'z tenants_db_scheme) op_res" where
  "refresh_route env rq token s = answered 200 (public_bundle env rq (\<lambda>ctx s. refresh env token s) s)"

definition request_password_reset_route :: "'z tenants_db_scheme auth_env \<Rightarrow> http_request \<Rightarrow> string \<Rightarrow>
    'z tenants_db_scheme \<Rightarrow> (payload answer, 'z tenants_db_scheme) op_res" where
  "request_password_reset_route env rq email s =
     answered 200 (public_bundle env rq (\<lambda>ctx s. on_ok (request_password_reset env ctx email s) (\<lambda>_ s. ret ok_body s)) s)"

definition reset_password_route :: "'z tenants_db_scheme auth_env \<Rightarrow> http_request \<Rightarrow> string \<Rightarrow> string \<Rightarrow>
    'z tenants_db_scheme \<Rightarrow> (payload answer, 'z tenants_db_scheme) op_res" where
  "reset_password_route env rq token password s =
     answered 200 (public_bundle env rq (\<lambda>ctx s. on_ok (reset_password env token password s) (\<lambda>_ s. ret ok_body s)) s)"

definition me_route :: "'z tenants_db_scheme auth_env \<Rightarrow> http_request \<Rightarrow> 'z tenants_db_scheme \<Rightarrow> (user_dto answer, 'z tenants_db_scheme) op_res" where
  "me_route env rq =
     authenticated_endpoint env rq (\<lambda>s. answered 200 (authed_bundle env rq (\<lambda>ctx s.
       pure_op (and_then (bundle_user_id ctx) (\<lambda>i. and_then (get_user i s) (\<lambda>(u, two_factor). Inr (to_user_dto u two_factor)))) s) s))"

definition logout_route :: "'z tenants_db_scheme auth_env \<Rightarrow> http_request \<Rightarrow> string \<Rightarrow>
    'z tenants_db_scheme \<Rightarrow> (payload answer, 'z tenants_db_scheme) op_res" where
  "logout_route env rq token =
     authenticated_endpoint env rq (\<lambda>s. answered 200 (authed_bundle env rq (\<lambda>ctx s. on_ok (logout env token s) (\<lambda>_ s. ret ok_body s)) s))"

definition change_password_route :: "'z tenants_db_scheme auth_env \<Rightarrow> http_request \<Rightarrow> string \<Rightarrow> string \<Rightarrow>
    'z tenants_db_scheme \<Rightarrow> (payload answer, 'z tenants_db_scheme) op_res" where
  "change_password_route env rq current new =
     authenticated_endpoint env rq (\<lambda>s. answered 200 (authed_bundle env rq (\<lambda>ctx s.
       on_ok (change_password env ctx current new s) (\<lambda>_ s. ret ok_body s)) s))"

definition enable_two_factor_route :: "'z tenants_db_scheme auth_env \<Rightarrow> http_request \<Rightarrow>
    'z tenants_db_scheme \<Rightarrow> ((string \<times> string) answer, 'z tenants_db_scheme) op_res" where
  "enable_two_factor_route env rq =
     authenticated_endpoint env rq (\<lambda>s. answered 200 (authed_bundle env rq (\<lambda>ctx s. enable_totp env ctx s) s))"

definition confirm_two_factor_route :: "'z tenants_db_scheme auth_env \<Rightarrow> http_request \<Rightarrow> string \<Rightarrow>
    'z tenants_db_scheme \<Rightarrow> (string list answer, 'z tenants_db_scheme) op_res" where
  "confirm_two_factor_route env rq code =
     authenticated_endpoint env rq (\<lambda>s. answered 200 (authed_bundle env rq (\<lambda>ctx s. confirm_totp env ctx code s) s))"

definition disable_two_factor_route :: "'z tenants_db_scheme auth_env \<Rightarrow> http_request \<Rightarrow> string \<Rightarrow>
    'z tenants_db_scheme \<Rightarrow> (payload answer, 'z tenants_db_scheme) op_res" where
  "disable_two_factor_route env rq code =
     authenticated_endpoint env rq (\<lambda>s. answered 200 (authed_bundle env rq (\<lambda>ctx s. on_ok (disable_totp env ctx code s) (\<lambda>_ s. ret ok_body s)) s))"

definition select_tenant_route :: "'z tenants_db_scheme auth_env \<Rightarrow> http_request \<Rightarrow> uuid \<Rightarrow>
    'z tenants_db_scheme \<Rightarrow> (string answer, 'z tenants_db_scheme) op_res" where
  "select_tenant_route env rq t =
     authenticated_endpoint env rq (\<lambda>s. answered 200 (authed_bundle env rq (\<lambda>ctx s.
       on_ok (pure_op (bundle_user_id ctx) s) (\<lambda>u s.
         if \<not> has_active_membership t u s then raise (Domain PermissionDeniedError ''not an active member of an active tenant'') s
         else issue_tenant_token env ctx t s)) s))"

subsection \<open>Tenants\<close>

definition create_tenant_route :: "'z tenants_db_scheme tenants_env \<Rightarrow> http_request \<Rightarrow> string \<Rightarrow> string \<Rightarrow>
    'z tenants_db_scheme \<Rightarrow> (tenant answer, 'z tenants_db_scheme) op_res" where
  "create_tenant_route env rq name slug =
     authenticated_endpoint (tv_auth env) rq (\<lambda>s. answered 201 (maintenance_bundle (tv_auth env) rq (\<lambda>ctx s. create_tenant env ctx name slug s) s))"

definition list_my_tenants_route :: "'z tenants_db_scheme tenants_env \<Rightarrow> http_request \<Rightarrow>
    'z tenants_db_scheme \<Rightarrow> (tenant list answer, 'z tenants_db_scheme) op_res" where
  "list_my_tenants_route env rq =
     authenticated_endpoint (tv_auth env) rq (\<lambda>s. answered 200 (authed_bundle (tv_auth env) rq (\<lambda>ctx s. pure_op (list_user_tenants ctx s) s) s))"

text \<open>The address comes from the caller's profile, never from the body.\<close>

definition accept_invitation_route :: "'z tenants_db_scheme tenants_env \<Rightarrow> http_request \<Rightarrow> string \<Rightarrow>
    'z tenants_db_scheme \<Rightarrow> ((membership \<times> string) answer, 'z tenants_db_scheme) op_res" where
  \<comment> \<open>the profile is read in a bundle of its own, of the same committed state\<close>
  "accept_invitation_route env rq token =
     authenticated_endpoint (tv_auth env) rq (\<lambda>s. answered 200 (maintenance_bundle (tv_auth env) rq (\<lambda>ctx s.
       on_ok (pure_op (and_then (bundle_user_id ctx) (\<lambda>i. get_user i s)) s) (\<lambda>(me, _) s.
         accept_invitation env ctx token (u_email me) s)) s))"

definition get_current_tenant_route :: "'z tenants_db_scheme tenants_env \<Rightarrow> http_request \<Rightarrow>
    'z tenants_db_scheme \<Rightarrow> (tenant answer, 'z tenants_db_scheme) op_res" where
  "get_current_tenant_route env rq s = answered 200 (protected_route (tv_auth env) TENANT_READ rq (\<lambda>ctx s. get_tenant ctx s) s)"

definition update_current_tenant_route :: "'z tenants_db_scheme tenants_env \<Rightarrow> http_request \<Rightarrow> string option \<Rightarrow> string option \<Rightarrow>
    'z tenants_db_scheme \<Rightarrow> (tenant answer, 'z tenants_db_scheme) op_res" where
  "update_current_tenant_route env rq name loc s =
     answered 200 (protected_route (tv_auth env) TENANT_UPDATE rq (\<lambda>ctx s. update_tenant ctx name loc s) s)"

definition list_members_route :: "'z tenants_db_scheme tenants_env \<Rightarrow> http_request \<Rightarrow> int \<Rightarrow> int \<Rightarrow>
    'z tenants_db_scheme \<Rightarrow> ((membership \<times> string) page_result answer, 'z tenants_db_scheme) op_res" where
  "list_members_route env rq limit offset s =
     answered 200 (protected_route (tv_auth env) MEMBER_READ rq (\<lambda>ctx s.
       on_ok (pure_op (mk_page limit offset) s) (\<lambda>pg s. list_members ctx pg s)) s)"

definition invite_member_route :: "'z tenants_db_scheme tenants_env \<Rightarrow> http_request \<Rightarrow> string \<Rightarrow> string \<Rightarrow>
    'z tenants_db_scheme \<Rightarrow> ((invitation \<times> string) answer, 'z tenants_db_scheme) op_res" where
  "invite_member_route env rq email code s =
     answered 201 (protected_route (tv_auth env) MEMBER_INVITE rq (\<lambda>ctx s. invite_member env ctx email code s) s)"

definition revoke_invitation_route :: "'z tenants_db_scheme tenants_env \<Rightarrow> http_request \<Rightarrow> uuid \<Rightarrow>
    'z tenants_db_scheme \<Rightarrow> (payload answer, 'z tenants_db_scheme) op_res" where
  "revoke_invitation_route env rq i s =
     answered 200 (protected_route (tv_auth env) MEMBER_INVITE rq (\<lambda>ctx s. on_ok (revoke_invitation ctx i s) (\<lambda>_ s. ret ok_body s)) s)"

definition change_member_role_route :: "'z tenants_db_scheme tenants_env \<Rightarrow> http_request \<Rightarrow> uuid \<Rightarrow> string \<Rightarrow>
    'z tenants_db_scheme \<Rightarrow> ((membership \<times> string) answer, 'z tenants_db_scheme) op_res" where
  "change_member_role_route env rq u code s =
     answered 200 (protected_route (tv_auth env) MEMBER_UPDATE_ROLE rq (\<lambda>ctx s. change_member_role env ctx u code s) s)"

definition remove_member_route :: "'z tenants_db_scheme tenants_env \<Rightarrow> http_request \<Rightarrow> uuid \<Rightarrow>
    'z tenants_db_scheme \<Rightarrow> (payload answer, 'z tenants_db_scheme) op_res" where
  "remove_member_route env rq u s =
     answered 200 (protected_route (tv_auth env) MEMBER_REMOVE rq (\<lambda>ctx s. on_ok (remove_member env ctx u s) (\<lambda>_ s. ret ok_body s)) s)"

subsection \<open>What the routes guarantee\<close>

lemma answered_Inr_iff: "answered n r = (Inr a, s') \<longleftrightarrow> (\<exists>x. r = (Inr x, s') \<and> a = Answer n x)"
  by (cases r; cases "fst r") (auto simp: answered_def result_simps)

lemma authed_bundle_Inr:
  assumes "authed_bundle env rq f s = (Inr x, s')"
  shows "\<exists>ctx t. context_from_request env True rq = Inr ctx \<and> f ctx (s\<lparr>pending_events := [], early_commit := False\<rparr>) = (Inr x, t) \<and> s' = commit t"
  using assms by (auto simp: authed_bundle_def auth_unit_of_work_def result_simps split: sum.splits prod.splits)

lemma authenticated_endpoint_Inr:
  "authenticated_endpoint env rq f s = (Inr x, s') \<Longrightarrow> f s = (Inr x, s') \<and> (\<exists>ctx. context_from_request env True rq = Inr ctx)"
  by (cases "context_from_request env True rq") (auto simp: authenticated_endpoint_def result_simps)

lemma has_active_membership_fresh:
  "has_active_membership t u (s\<lparr>pending_events := [], early_commit := False\<rparr>) = has_active_membership t u s"
  by (simp add: has_active_membership_def tenant_active_def)

text \<open>A token for a tenant goes only to a user who is an active member of it while it is active.\<close>

lemma tenant_token_for_members:
  assumes "select_tenant_route env rq t s = (Inr a, s')"
  shows "\<exists>ctx u token. context_from_request env True rq = Inr ctx \<and> bundle_user_id ctx = Inr u \<and> has_active_membership t u s \<and> a = Answer 200 token"
proof -
  from authenticated_endpoint_Inr [OF assms [unfolded select_tenant_route_def]]
  obtain x where "authed_bundle env rq (\<lambda>ctx s. on_ok (pure_op (bundle_user_id ctx) s) (\<lambda>u s.
         if \<not> has_active_membership t u s then raise (Domain PermissionDeniedError ''not an active member of an active tenant'') s
         else issue_tenant_token env ctx t s)) s = (Inr x, s')" and a: "a = Answer 200 x"
    unfolding answered_Inr_iff by blast
  from authed_bundle_Inr [OF this(1)] obtain ctx w where c: "context_from_request env True rq = Inr ctx"
    and r: "on_ok (pure_op (bundle_user_id ctx) (s\<lparr>pending_events := [], early_commit := False\<rparr>)) (\<lambda>u s.
         if \<not> has_active_membership t u s then raise (Domain PermissionDeniedError ''not an active member of an active tenant'') s
         else issue_tenant_token env ctx t s) = (Inr x, w)" by blast
  from r obtain u where "bundle_user_id ctx = Inr u" "has_active_membership t u (s\<lparr>pending_events := [], early_commit := False\<rparr>)"
    by (cases "bundle_user_id ctx") (auto simp: result_simps split: if_splits)
  then show ?thesis using a c unfolding has_active_membership_fresh by blast
qed

end
