(* ===== verification/CRM_Routes.thy ===== *)
theory CRM_Routes
  imports CRM Auth_Routes Retention
begin

section \<open>The routes of the CRM and of the audit log\<close>

text \<open>
  \<^verbatim>\<open>modules/crm/*/router.py\<close> and \<^verbatim>\<open>deps.py\<close>, \<^verbatim>\<open>core/audit/admin.py\<close>: every route names one permission,
  which is checked before the service is asked and once more inside it, with the access service of the
  request.  The patches of deals and activities distinguish a field that was not sent from an explicit null.
\<close>

subsection \<open>Patches\<close>

text \<open>A field of a patch: not in the body, sent as null, or sent with a value.\<close>

datatype 'a field = Absent | Null | Given 'a

fun field_value :: "'a field \<Rightarrow> 'a option" where
  "field_value (Given x) = Some x"
| "field_value _ = None"

fun sent_null :: "'a field \<Rightarrow> bool" where
  "sent_null Null = True"
| "sent_null _ = False"

record update_deal_in =
  di_title :: "string field"
  di_amount :: "int field"
  di_currency :: "string field"
  di_stage :: "string field"
  di_contact :: "uuid field"
  di_company :: "uuid field"
  di_notes :: "string field"

definition deal_from_request :: "update_deal_in \<Rightarrow> deal_changes" where
  "deal_from_request b =
     \<lparr>dc_title = field_value (di_title b), dc_amount = field_value (di_amount b), dc_currency = field_value (di_currency b),
      dc_stage = field_value (di_stage b), dc_contact = field_value (di_contact b), dc_company = field_value (di_company b),
      dc_notes = field_value (di_notes b), dc_clear_contact = sent_null (di_contact b), dc_clear_company = sent_null (di_company b)\<rparr>"

record update_activity_in =
  ui_subject :: "string field"
  ui_type :: "string field"
  ui_notes :: "string field"
  ui_due :: "datetime field"
  ui_assignee :: "uuid field"
  ui_contact :: "uuid field"
  ui_company :: "uuid field"
  ui_deal :: "uuid field"

definition CLEARABLE :: "string list" where
  "CLEARABLE = [''contact_id'', ''company_id'', ''deal_id'', ''due_at'']"

definition sent_nulls :: "update_activity_in \<Rightarrow> string list" where
  "sent_nulls b =
     map fst (filter snd
       [(''subject'', sent_null (ui_subject b)), (''type'', sent_null (ui_type b)), (''notes'', sent_null (ui_notes b)),
        (''due_at'', sent_null (ui_due b)), (''assignee_user_id'', sent_null (ui_assignee b)), (''contact_id'', sent_null (ui_contact b)),
        (''company_id'', sent_null (ui_company b)), (''deal_id'', sent_null (ui_deal b))])"

definition activity_from_request :: "update_activity_in \<Rightarrow> activity_changes" where
  "activity_from_request b =
     \<lparr>ah_subject = field_value (ui_subject b), ah_type = field_value (ui_type b), ah_notes = field_value (ui_notes b),
      ah_due = field_value (ui_due b), ah_assignee = field_value (ui_assignee b), ah_contact = field_value (ui_contact b),
      ah_company = field_value (ui_company b), ah_deal = field_value (ui_deal b),
      ah_cleared = filter (\<lambda>n. n \<in> set CLEARABLE) (sent_nulls b)\<rparr>"

definition apply_field :: "'a field \<Rightarrow> 'a option \<Rightarrow> 'a option" where
  "apply_field f old = (case f of Absent \<Rightarrow> old | Null \<Rightarrow> None | Given x \<Rightarrow> Some x)"

text \<open>What a patch through the route does to a link or a date is what its field says.\<close>

lemma deal_patch_links:
  "dl_contact (patch_deal (deal_from_request b) r) = apply_field (di_contact b) (dl_contact r)"
  "dl_company (patch_deal (deal_from_request b) r) = apply_field (di_company b) (dl_company r)"
  by (cases "di_contact b"; cases "di_company b"; simp add: patch_deal_def deal_from_request_def patch_opt_def apply_field_def)+

lemma patch_clear_field:
  assumes "name \<in> set cleared \<longleftrightarrow> sent_null f"
  shows "patch_clear cleared name (field_value f) old = apply_field f old"
  using assms by (cases f) (auto simp: patch_clear_def apply_field_def)

lemma activity_cleared:
  "''contact_id'' \<in> set (ah_cleared (activity_from_request b)) \<longleftrightarrow> sent_null (ui_contact b)"
  "''company_id'' \<in> set (ah_cleared (activity_from_request b)) \<longleftrightarrow> sent_null (ui_company b)"
  "''deal_id'' \<in> set (ah_cleared (activity_from_request b)) \<longleftrightarrow> sent_null (ui_deal b)"
  "''due_at'' \<in> set (ah_cleared (activity_from_request b)) \<longleftrightarrow> sent_null (ui_due b)"
  by (auto simp: activity_from_request_def sent_nulls_def CLEARABLE_def)

lemma activity_values:
  "ah_contact (activity_from_request b) = field_value (ui_contact b)"
  "ah_company (activity_from_request b) = field_value (ui_company b)"
  "ah_deal (activity_from_request b) = field_value (ui_deal b)"
  "ah_due (activity_from_request b) = field_value (ui_due b)"
  by (simp_all add: activity_from_request_def)

lemma activity_patch_links:
  "ac_contact (patch_activity (activity_from_request b) r) = apply_field (ui_contact b) (ac_contact r)"
  "ac_company (patch_activity (activity_from_request b) r) = apply_field (ui_company b) (ac_company r)"
  "ac_deal (patch_activity (activity_from_request b) r) = apply_field (ui_deal b) (ac_deal r)"
  "ac_due (patch_activity (activity_from_request b) r) = apply_field (ui_due b) (ac_due r)"
  by (simp_all add: patch_activity_def activity_values activity_cleared patch_clear_field)

text \<open>No request clears a column that must not be null, and notes are never cleared.\<close>

lemma activity_request_clears_nothing_required: "\<not> clears_required (activity_from_request b)"
  by (simp add: clears_required_def activity_from_request_def CLEARABLE_def)

lemma activity_request_keeps_notes:
  "ac_notes (patch_activity (activity_from_request b) r) = patch_opt (field_value (ui_notes b)) (ac_notes r)"
  by (cases "ui_notes b"; simp add: patch_activity_def activity_from_request_def patch_clear_def patch_opt_def CLEARABLE_def)

subsection \<open>Contacts and companies\<close>

record 's crm_env =
  cv_auth :: "'s auth_env"
  cv_registry :: "string \<rightharpoonup> int"
  cv_stages :: "string list"
  cv_types :: "string list"
  cv_race :: "'s \<Rightarrow> 's"

text \<open>The service of a request is built on its context and its access service.\<close>

definition contacts_service :: "(access option \<Rightarrow> tenant_context \<Rightarrow> 'z crm_db_scheme \<Rightarrow> ('a, 'z crm_db_scheme) op_res) \<Rightarrow>
    tenant_context \<Rightarrow> 'z crm_db_scheme \<Rightarrow> ('a, 'z crm_db_scheme) op_res" where
  "contacts_service operation ctx s = operation (Some (tenant_access ctx s)) ctx s"

definition list_companies_route :: "'z crm_db_scheme crm_env \<Rightarrow> http_request \<Rightarrow> int \<Rightarrow> int \<Rightarrow>
    'z crm_db_scheme \<Rightarrow> (company page_result answer, 'z crm_db_scheme) op_res" where
  "list_companies_route env rq limit offset s =
     answered 200 (protected_route (cv_auth env) COMPANY_READ rq (contacts_service (\<lambda>acc ctx s.
       pure_op (and_then (mk_page limit offset) (\<lambda>pg. list_companies acc ctx pg s)) s)) s)"

definition create_company_route :: "'z crm_db_scheme crm_env \<Rightarrow> http_request \<Rightarrow> string \<Rightarrow> string option \<Rightarrow> string option \<Rightarrow> string option \<Rightarrow>
    'z crm_db_scheme \<Rightarrow> (company answer, 'z crm_db_scheme) op_res" where
  "create_company_route env rq name website industry notes s =
     answered 201 (protected_route (cv_auth env) COMPANY_CREATE rq (contacts_service (\<lambda>acc ctx s.
       create_company acc ctx name website industry notes s)) s)"

definition get_company_route :: "'z crm_db_scheme crm_env \<Rightarrow> http_request \<Rightarrow> uuid \<Rightarrow>
    'z crm_db_scheme \<Rightarrow> (company answer, 'z crm_db_scheme) op_res" where
  "get_company_route env rq i s =
     answered 200 (protected_route (cv_auth env) COMPANY_READ rq (contacts_service (\<lambda>acc ctx s. pure_op (get_company acc ctx i s) s)) s)"

definition update_company_route :: "'z crm_db_scheme crm_env \<Rightarrow> http_request \<Rightarrow> uuid \<Rightarrow> string option \<Rightarrow> string option \<Rightarrow> string option \<Rightarrow>
    string option \<Rightarrow> 'z crm_db_scheme \<Rightarrow> (company answer, 'z crm_db_scheme) op_res" where
  "update_company_route env rq i name website industry notes s =
     answered 200 (protected_route (cv_auth env) COMPANY_UPDATE rq (contacts_service (\<lambda>acc ctx s.
       update_company acc ctx i name website industry notes s)) s)"

definition delete_company_route :: "'z crm_db_scheme crm_env \<Rightarrow> http_request \<Rightarrow> uuid \<Rightarrow>
    'z crm_db_scheme \<Rightarrow> (unit answer, 'z crm_db_scheme) op_res" where
  "delete_company_route env rq i s =
     answered 204 (protected_route (cv_auth env) COMPANY_DELETE rq (contacts_service (\<lambda>acc ctx s. delete_company acc ctx i s)) s)"

definition list_contacts_route :: "'z crm_db_scheme crm_env \<Rightarrow> http_request \<Rightarrow> uuid option \<Rightarrow> int \<Rightarrow> int \<Rightarrow>
    'z crm_db_scheme \<Rightarrow> (person page_result answer, 'z crm_db_scheme) op_res" where
  "list_contacts_route env rq company limit offset s =
     answered 200 (protected_route (cv_auth env) CONTACT_READ rq (contacts_service (\<lambda>acc ctx s.
       pure_op (and_then (mk_page limit offset) (\<lambda>pg. list_contacts acc ctx pg company s)) s)) s)"

record contact_in =
  ci_first_name :: string
  ci_last_name :: "string option"
  ci_email :: "string option"
  ci_phone :: "string option"
  ci_position :: "string option"
  ci_company :: "uuid option"
  ci_notes :: "string option"

definition create_contact_route :: "'z crm_db_scheme crm_env \<Rightarrow> http_request \<Rightarrow> contact_in \<Rightarrow>
    'z crm_db_scheme \<Rightarrow> (person answer, 'z crm_db_scheme) op_res" where
  "create_contact_route env rq b s =
     answered 201 (protected_route (cv_auth env) CONTACT_CREATE rq (contacts_service (\<lambda>acc ctx s.
       create_contact acc ctx (ci_first_name b) (ci_last_name b) (ci_email b) (ci_phone b) (ci_position b) (ci_company b) (ci_notes b) s)) s)"

definition get_contact_route :: "'z crm_db_scheme crm_env \<Rightarrow> http_request \<Rightarrow> uuid \<Rightarrow>
    'z crm_db_scheme \<Rightarrow> (person answer, 'z crm_db_scheme) op_res" where
  "get_contact_route env rq i s =
     answered 200 (protected_route (cv_auth env) CONTACT_READ rq (contacts_service (\<lambda>acc ctx s. pure_op (get_contact_card acc ctx i s) s)) s)"

record update_contact_in =
  uc_first_name :: "string option"
  uc_last_name :: "string option"
  uc_email :: "string option"
  uc_phone :: "string option"
  uc_position :: "string option"
  uc_company :: "uuid option"
  uc_notes :: "string option"

definition update_contact_route :: "'z crm_db_scheme crm_env \<Rightarrow> http_request \<Rightarrow> uuid \<Rightarrow> update_contact_in \<Rightarrow>
    'z crm_db_scheme \<Rightarrow> (person answer, 'z crm_db_scheme) op_res" where
  "update_contact_route env rq i b s =
     answered 200 (protected_route (cv_auth env) CONTACT_UPDATE rq (contacts_service (\<lambda>acc ctx s.
       update_contact acc ctx i (uc_first_name b) (uc_last_name b) (uc_email b) (uc_phone b) (uc_position b) (uc_company b) (uc_notes b) s)) s)"

definition delete_contact_route :: "'z crm_db_scheme crm_env \<Rightarrow> http_request \<Rightarrow> uuid \<Rightarrow>
    'z crm_db_scheme \<Rightarrow> (unit answer, 'z crm_db_scheme) op_res" where
  "delete_contact_route env rq i s =
     answered 204 (protected_route (cv_auth env) CONTACT_DELETE rq (contacts_service (\<lambda>acc ctx s. delete_contact acc ctx i s)) s)"

subsection \<open>Deals\<close>

definition deal_service :: "'z crm_db_scheme crm_env \<Rightarrow>
    (string list \<Rightarrow> access option \<Rightarrow> tenant_context \<Rightarrow> 'z crm_db_scheme \<Rightarrow> ('a, 'z crm_db_scheme) op_res) \<Rightarrow>
    tenant_context \<Rightarrow> 'z crm_db_scheme \<Rightarrow> ('a, 'z crm_db_scheme) op_res" where
  "deal_service env operation ctx s = operation (cv_stages env) (Some (tenant_access ctx s)) ctx s"

definition list_deals_route :: "'z crm_db_scheme crm_env \<Rightarrow> http_request \<Rightarrow> string option \<Rightarrow> uuid option \<Rightarrow> uuid option \<Rightarrow> int \<Rightarrow> int \<Rightarrow>
    'z crm_db_scheme \<Rightarrow> (deal page_result answer, 'z crm_db_scheme) op_res" where
  "list_deals_route env rq stage contact company limit offset s =
     answered 200 (protected_route (cv_auth env) DEAL_READ rq (deal_service env (\<lambda>stages acc ctx s.
       pure_op (and_then (mk_page limit offset) (\<lambda>pg. list_deals acc ctx pg stage contact company s)) s)) s)"

record create_deal_in =
  ki_title :: string
  ki_amount :: int
  ki_currency :: string
  ki_stage :: "string option"
  ki_contact :: "uuid option"
  ki_company :: "uuid option"
  ki_notes :: "string option"

definition create_deal_route :: "'z crm_db_scheme crm_env \<Rightarrow> http_request \<Rightarrow> create_deal_in \<Rightarrow>
    'z crm_db_scheme \<Rightarrow> (deal answer, 'z crm_db_scheme) op_res" where
  "create_deal_route env rq b s =
     answered 201 (protected_route (cv_auth env) DEAL_CREATE rq (deal_service env (\<lambda>stages acc ctx s.
       create_deal (cv_race env) (cv_registry env) stages acc ctx (ki_title b) (ki_amount b) (ki_currency b) (ki_stage b)
         (ki_contact b) (ki_company b) (ki_notes b) s)) s)"

definition get_deal_route :: "'z crm_db_scheme crm_env \<Rightarrow> http_request \<Rightarrow> uuid \<Rightarrow>
    'z crm_db_scheme \<Rightarrow> (deal answer, 'z crm_db_scheme) op_res" where
  "get_deal_route env rq i s =
     answered 200 (protected_route (cv_auth env) DEAL_READ rq (deal_service env (\<lambda>stages acc ctx s. pure_op (get_deal acc ctx i s) s)) s)"

definition update_deal_route :: "'z crm_db_scheme crm_env \<Rightarrow> http_request \<Rightarrow> uuid \<Rightarrow> update_deal_in \<Rightarrow>
    'z crm_db_scheme \<Rightarrow> (deal answer, 'z crm_db_scheme) op_res" where
  "update_deal_route env rq i b s =
     answered 200 (protected_route (cv_auth env) DEAL_UPDATE rq (deal_service env (\<lambda>stages acc ctx s.
       update_deal (cv_registry env) stages acc ctx i (deal_from_request b) s)) s)"

definition delete_deal_route :: "'z crm_db_scheme crm_env \<Rightarrow> http_request \<Rightarrow> uuid \<Rightarrow>
    'z crm_db_scheme \<Rightarrow> (unit answer, 'z crm_db_scheme) op_res" where
  "delete_deal_route env rq i s =
     answered 204 (protected_route (cv_auth env) DEAL_DELETE rq (deal_service env (\<lambda>stages acc ctx s. delete_deal acc ctx i s)) s)"

subsection \<open>Activities\<close>

definition activity_service :: "'z crm_db_scheme crm_env \<Rightarrow>
    (string list \<Rightarrow> access option \<Rightarrow> tenant_context \<Rightarrow> 'z crm_db_scheme \<Rightarrow> ('a, 'z crm_db_scheme) op_res) \<Rightarrow>
    tenant_context \<Rightarrow> 'z crm_db_scheme \<Rightarrow> ('a, 'z crm_db_scheme) op_res" where
  "activity_service env operation ctx s = operation (cv_types env) (Some (tenant_access ctx s)) ctx s"

definition list_activities_route :: "'z crm_db_scheme crm_env \<Rightarrow> http_request \<Rightarrow> activity_query \<Rightarrow> int \<Rightarrow> int \<Rightarrow>
    'z crm_db_scheme \<Rightarrow> (activity page_result answer, 'z crm_db_scheme) op_res" where
  "list_activities_route env rq q limit offset s =
     answered 200 (protected_route (cv_auth env) ACTIVITY_READ rq (activity_service env (\<lambda>types acc ctx s.
       pure_op (and_then (mk_page limit offset) (\<lambda>pg. list_activities acc ctx pg q s)) s)) s)"

definition create_activity_route :: "'z crm_db_scheme crm_env \<Rightarrow> http_request \<Rightarrow> activity_in \<Rightarrow>
    'z crm_db_scheme \<Rightarrow> (activity answer, 'z crm_db_scheme) op_res" where
  "create_activity_route env rq b s =
     answered 201 (protected_route (cv_auth env) ACTIVITY_CREATE rq (activity_service env (\<lambda>types acc ctx s.
       create_activity (cv_race env) types acc ctx b s)) s)"

definition get_activity_route :: "'z crm_db_scheme crm_env \<Rightarrow> http_request \<Rightarrow> uuid \<Rightarrow>
    'z crm_db_scheme \<Rightarrow> (activity answer, 'z crm_db_scheme) op_res" where
  "get_activity_route env rq i s =
     answered 200 (protected_route (cv_auth env) ACTIVITY_READ rq (activity_service env (\<lambda>types acc ctx s. pure_op (get_activity acc ctx i s) s)) s)"

definition update_activity_route :: "'z crm_db_scheme crm_env \<Rightarrow> http_request \<Rightarrow> uuid \<Rightarrow> update_activity_in \<Rightarrow>
    'z crm_db_scheme \<Rightarrow> (activity answer, 'z crm_db_scheme) op_res" where
  "update_activity_route env rq i b s =
     answered 200 (protected_route (cv_auth env) ACTIVITY_UPDATE rq (activity_service env (\<lambda>types acc ctx s.
       update_activity types acc ctx i (activity_from_request b) s)) s)"

definition complete_activity_route :: "'z crm_db_scheme crm_env \<Rightarrow> http_request \<Rightarrow> uuid \<Rightarrow>
    'z crm_db_scheme \<Rightarrow> (activity answer, 'z crm_db_scheme) op_res" where
  "complete_activity_route env rq i s =
     answered 200 (protected_route (cv_auth env) ACTIVITY_UPDATE rq (activity_service env (\<lambda>types acc ctx s. complete_activity acc ctx i s)) s)"

definition reopen_activity_route :: "'z crm_db_scheme crm_env \<Rightarrow> http_request \<Rightarrow> uuid \<Rightarrow>
    'z crm_db_scheme \<Rightarrow> (activity answer, 'z crm_db_scheme) op_res" where
  "reopen_activity_route env rq i s =
     answered 200 (protected_route (cv_auth env) ACTIVITY_UPDATE rq (activity_service env (\<lambda>types acc ctx s. reopen_activity acc ctx i s)) s)"

definition delete_activity_route :: "'z crm_db_scheme crm_env \<Rightarrow> http_request \<Rightarrow> uuid \<Rightarrow>
    'z crm_db_scheme \<Rightarrow> (unit answer, 'z crm_db_scheme) op_res" where
  "delete_activity_route env rq i s =
     answered 204 (protected_route (cv_auth env) ACTIVITY_DELETE rq (activity_service env (\<lambda>types acc ctx s. delete_activity acc ctx i s)) s)"

subsection \<open>The audit log\<close>

definition search_audit_route :: "'z tenants_db_scheme auth_env \<Rightarrow> http_request \<Rightarrow> audit_query \<Rightarrow> int \<Rightarrow> int \<Rightarrow>
    'z tenants_db_scheme \<Rightarrow> (audit_row page_result answer, 'z tenants_db_scheme) op_res" where
  "search_audit_route env rq q limit offset s =
     answered 200 (protected_route env RECORD_READ rq (\<lambda>ctx s.
       pure_op (and_then (mk_page limit offset) (\<lambda>pg. audit_search (Some (tenant_access ctx s)) ctx q pg s)) s) s)"

end
