(* ===== verification/Billing_Routes.thy ===== *)
theory Billing_Routes
  imports Auth_Routes Webhook_Processor
begin

section \<open>The routes of billing\<close>

text \<open>
  \<^verbatim>\<open>core/billing/api.py\<close>: the routes of tenant members, each under one permission; \<^verbatim>\<open>core/billing/router.py\<close>:
  the public webhook routes, which answer in the provider's dialect and with 403 where no dialect applies.
  The framework has read the headers, the body and the form of a webhook.
\<close>

subsection \<open>Members\<close>

text \<open>The services of a request share its unit of work, its context and its access service.\<close>

definition billing_services :: "(access option \<Rightarrow> tenant_context \<Rightarrow> 'z tenants_db_scheme \<Rightarrow> ('a, 'z tenants_db_scheme) op_res) \<Rightarrow>
    tenant_context \<Rightarrow> 'z tenants_db_scheme \<Rightarrow> ('a, 'z tenants_db_scheme) op_res" where
  "billing_services operation ctx s = operation (Some (tenant_access ctx s)) ctx s"

definition list_plans_route :: "'z tenants_db_scheme auth_env \<Rightarrow> http_request \<Rightarrow>
    'z tenants_db_scheme \<Rightarrow> (plan_dto list answer, 'z tenants_db_scheme) op_res" where
  "list_plans_route env rq s =
     answered 200 (protected_route env PLAN_READ rq (billing_services (\<lambda>acc ctx s. pure_op (list_plans acc ctx s) s)) s)"

definition list_providers_route :: "'z tenants_db_scheme auth_env \<Rightarrow> 'z tenants_db_scheme pay_env \<Rightarrow> http_request \<Rightarrow>
    'z tenants_db_scheme \<Rightarrow> ((string \<times> string \<times> bool) list answer, 'z tenants_db_scheme) op_res" where
  "list_providers_route env pay rq s =
     answered 200 (protected_route env PLAN_READ rq (billing_services (\<lambda>acc ctx s. pure_op (list_providers acc ctx pay) s)) s)"

definition get_subscription_route :: "'z tenants_db_scheme auth_env \<Rightarrow> http_request \<Rightarrow>
    'z tenants_db_scheme \<Rightarrow> (subscription_dto option answer, 'z tenants_db_scheme) op_res" where
  "get_subscription_route env rq s =
     answered 200 (protected_route env SUBSCRIPTION_READ rq (billing_services (\<lambda>acc ctx s. pure_op (get_subscription acc ctx s) s)) s)"

definition start_subscription_route :: "'z tenants_db_scheme auth_env \<Rightarrow> 'z tenants_db_scheme pay_env \<Rightarrow> http_request \<Rightarrow> string \<Rightarrow> string \<Rightarrow>
    'z tenants_db_scheme \<Rightarrow> (checkout_dto answer, 'z tenants_db_scheme) op_res" where
  "start_subscription_route env pay rq plan_code provider s =
     answered 201 (protected_route env SUBSCRIPTION_MANAGE rq (billing_services (\<lambda>acc ctx s.
       start_subscription pay acc ctx plan_code provider s)) s)"

definition cancel_subscription_route :: "'z tenants_db_scheme auth_env \<Rightarrow> http_request \<Rightarrow>
    'z tenants_db_scheme \<Rightarrow> (subscription_dto answer, 'z tenants_db_scheme) op_res" where
  "cancel_subscription_route env rq s =
     answered 200 (protected_route env SUBSCRIPTION_MANAGE rq (billing_services (\<lambda>acc ctx s. cancel_subscription acc ctx s)) s)"

subsection \<open>Webhooks\<close>

definition verification_failed :: webhook_response where
  "verification_failed = \<lparr>wr_status = 403, wr_body = [(''error'', JObj [(''code'', JStr ''webhook_verification_failed'')])]\<rparr>"

definition handle_webhook :: "crypto \<Rightarrow> (string \<Rightarrow> provider_port option) \<Rightarrow> string \<Rightarrow> raw_webhook \<Rightarrow> 'z billing_db_scheme \<Rightarrow>
    (webhook_response, 'z billing_db_scheme) op_res" where
  "handle_webhook cr ports code raw s =
     (case process cr ports code raw s of
        (Inl e, s') \<Rightarrow> if exn_is WebhookVerificationError e then ret verification_failed s' else raise e s'
      | (Inr r, s') \<Rightarrow> ret r s')"

definition payme_webhook :: "crypto \<Rightarrow> (string \<Rightarrow> provider_port option) \<Rightarrow> raw_webhook \<Rightarrow> 'z billing_db_scheme \<Rightarrow>
    (webhook_response, 'z billing_db_scheme) op_res" where
  "payme_webhook cr ports raw s = handle_webhook cr ports ''payme'' raw s"

definition click_webhook :: "crypto \<Rightarrow> (string \<Rightarrow> provider_port option) \<Rightarrow> raw_webhook \<Rightarrow> 'z billing_db_scheme \<Rightarrow>
    (webhook_response, 'z billing_db_scheme) op_res" where
  "click_webhook cr ports raw s = handle_webhook cr ports ''click'' raw s"

definition stripe_webhook :: "crypto \<Rightarrow> (string \<Rightarrow> provider_port option) \<Rightarrow> raw_webhook \<Rightarrow> 'z billing_db_scheme \<Rightarrow>
    (webhook_response, 'z billing_db_scheme) op_res" where
  "stripe_webhook cr ports raw s = handle_webhook cr ports ''stripe'' raw s"

text \<open>A request no provider recognises is answered with 403 and leaves every table as it was; a failed
  verification never reaches the general error handler.\<close>

lemma webhook_of_disabled_provider:
  "ports code = None \<Longrightarrow> handle_webhook cr ports code raw s = (Inr verification_failed, s)"
  by (simp add: handle_webhook_def process_def exn_is_def subclass_of_def)

lemma webhook_unparsed:
  "ports code = Some port \<Longrightarrow> pp_parse port raw = Inl e \<Longrightarrow> exn_is WebhookVerificationError e
     \<Longrightarrow> handle_webhook cr ports code raw s = (Inr verification_failed, s)"
  by (simp add: handle_webhook_def process_def result_simps)

lemma webhook_never_raises_verification:
  "handle_webhook cr ports code raw s = (Inl e, s') \<Longrightarrow> \<not> exn_is WebhookVerificationError e"
  by (auto simp: handle_webhook_def split: prod.splits sum.splits if_splits)

end
