(* ===== verification/Object_Storage.thy ===== *)
theory Object_Storage
  imports Files Resilience_Laws
begin

section \<open>The S3 store and the headers of downloads\<close>

text \<open>
  \<^verbatim>\<open>core/files/adapters/s3.py\<close> and \<^verbatim>\<open>__init__.py\<close>: the adapter wraps every request of the storage
  client into \<^verbatim>\<open>call_resilient\<close>.  The client is a parameter: which attempts fail and how, and whether
  the service had carried out the request of an attempt that failed.  \<^verbatim>\<open>core/files/router.py\<close>: the
  disposition header of a download.
\<close>

subsection \<open>The client\<close>

datatype s3_fault =
    S3Error string  \<comment> \<open>\<^verbatim>\<open>BotoCoreError\<close> or \<^verbatim>\<open>ClientError\<close>\<close>
  | S3Timeout       \<comment> \<open>the deadline of the attempt passes\<close>
  | S3Os string     \<comment> \<open>an \<^verbatim>\<open>OSError\<close> of the connection\<close>
  | S3Other exn     \<comment> \<open>anything outside the transient set\<close>

record s3_client =
  s3_fault_of :: "nat \<Rightarrow> s3_fault option"
  s3_applied :: "nat \<Rightarrow> bool"
  s3_t_allow :: "nat \<Rightarrow> rat"
  s3_t_fail :: "nat \<Rightarrow> rat"

type_synonym bucket = "string \<rightharpoonup> string"

definition s3_fault_attempt :: "string \<Rightarrow> s3_fault \<Rightarrow> 'a attempt" where
  "s3_fault_attempt request f =
     (case f of
        S3Error m \<Rightarrow> Transient (Some StorageError) (''s3 '' @ request @ '' failed: '' @ m)
      | S3Timeout \<Rightarrow> Transient None []
      | S3Os m \<Rightarrow> Transient None m
      | S3Other e \<Rightarrow> Fatal e)"

text \<open>Whether attempt \<open>k\<close> changed the bucket: always when it returned, perhaps when it failed.\<close>

definition s3_took_effect :: "s3_client \<Rightarrow> nat \<Rightarrow> bool" where
  "s3_took_effect c k = (s3_fault_of c k = None \<or> s3_applied c k)"

subsection \<open>The adapter\<close>

definition s3_storage :: "string \<Rightarrow> string \<Rightarrow> string \<Rightarrow> exn + breaker" where
  \<comment> \<open>the client is built from the settings; what the adapter keeps besides is its breaker\<close>
  "s3_storage bucket access_key secret_key =
     (if bucket = [] \<or> access_key = [] \<or> secret_key = []
      then Inl (Domain StorageError ''S3 storage requires a bucket, access key and secret key'')
      else Inr (mk_breaker ''s3'' 5 30))"

definition s3_policy :: retry_policy where
  \<comment> \<open>\<^verbatim>\<open>RetryPolicy(attempts=3)\<close>\<close>
  "s3_policy = \<lparr>rp_attempts = 3, rp_base_delay = 1/2, rp_max_delay = 30, rp_multiplier = 2, rp_jitter = 1/5\<rparr>"

definition s3_call :: "s3_client \<Rightarrow> (nat \<Rightarrow> 'a attempt) \<Rightarrow> breaker \<Rightarrow> (exn + 'a) \<times> breaker option \<times> nat" where
  "s3_call c op br = call_resilient s3_policy op (s3_t_allow c) (s3_t_fail c) StorageError (Some br)"

definition s3_put :: "s3_client \<Rightarrow> string \<Rightarrow> string \<Rightarrow> breaker \<Rightarrow> bucket \<Rightarrow> (exn + unit) \<times> breaker option \<times> bucket" where
  "s3_put c key data br b =
     (let (r, br', n) = s3_call c (\<lambda>k. case s3_fault_of c k of Some f \<Rightarrow> s3_fault_attempt ''put_object'' f | None \<Rightarrow> Returns ()) br
      in (r, br', if list_ex (s3_took_effect c) [1..<Suc n] then b(key \<mapsto> data) else b))"

definition s3_get :: "s3_client \<Rightarrow> string \<Rightarrow> breaker \<Rightarrow> bucket \<Rightarrow> (exn + string) \<times> breaker option" where
  \<comment> \<open>a missing key is a \<^verbatim>\<open>ClientError\<close> of the client\<close>
  "s3_get c key br b =
     (let (r, br', n) = s3_call c (\<lambda>k. case s3_fault_of c k of
                          Some f \<Rightarrow> s3_fault_attempt ''get_object'' f
                        | None \<Rightarrow> (case b key of None \<Rightarrow> s3_fault_attempt ''get_object'' (S3Error ''NoSuchKey'') | Some d \<Rightarrow> Returns d)) br
      in (r, br'))"

definition s3_delete :: "s3_client \<Rightarrow> string \<Rightarrow> breaker \<Rightarrow> bucket \<Rightarrow> (exn + unit) \<times> breaker option \<times> bucket" where
  "s3_delete c key br b =
     (let (r, br', n) = s3_call c (\<lambda>k. case s3_fault_of c k of Some f \<Rightarrow> s3_fault_attempt ''delete_object'' f | None \<Rightarrow> Returns ()) br
      in (r, br', if list_ex (s3_took_effect c) [1..<Suc n] then b(key := None) else b))"

datatype storage_choice = FilesystemBackend string | S3Backend breaker

definition build_storage :: "string \<Rightarrow> string \<Rightarrow> string \<Rightarrow> string \<Rightarrow> string \<Rightarrow> string \<Rightarrow> exn + storage_choice" where
  \<comment> \<open>\<open>tmp\<close> is the default root below the directory of temporary files\<close>
  "build_storage backend fs_root tmp bucket access_key secret_key =
     (if backend = ''filesystem'' then Inr (FilesystemBackend (if fs_root = [] then tmp else fs_root))
      else if backend = ''s3'' then and_then (s3_storage bucket access_key secret_key) (\<lambda>br. Inr (S3Backend br))
      else Inl (Domain InvariantViolationError (''unknown files storage backend: '' @ repr_str backend)))"

subsection \<open>Retrying is safe\<close>

lemma s3_call_Inr:
  assumes "s3_call c op br = (Inr x, br', n)"
  shows "0 < n \<and> n \<le> 3 \<and> op n = Returns x"
  using call_loop_calls [OF assms [unfolded s3_call_def call_resilient_def]] by (simp add: s3_policy_def)

lemma s3_fault_attempt_not_Returns [simp]: "s3_fault_attempt request f \<noteq> Returns x"
  by (cases f) (simp_all add: s3_fault_attempt_def)

lemma s3_write_took_effect:
  assumes "s3_call c (\<lambda>k. case s3_fault_of c k of Some f \<Rightarrow> s3_fault_attempt request f | None \<Rightarrow> Returns ()) br = (Inr (), br', n)"
  shows "list_ex (s3_took_effect c) [1..<Suc n]"
proof -
  have "0 < n" and r: "(case s3_fault_of c n of Some f \<Rightarrow> s3_fault_attempt request f | None \<Rightarrow> Returns ()) = Returns ()"
    using s3_call_Inr [OF assms] by auto
  then have "s3_fault_of c n = None" by (cases "s3_fault_of c n") auto
  then show ?thesis using \<open>0 < n\<close> by (auto simp: list_ex_iff s3_took_effect_def intro!: bexI [of _ n])
qed

text \<open>A put that returns has stored the bytes, whichever of its failed attempts took effect; one that fails
  leaves either the old object or the new one, and no other key changes.\<close>

lemma s3_put_stores:
  assumes "s3_put c key data br b = (r, br', b')"
  shows "(r = Inr () \<longrightarrow> b' = b(key \<mapsto> data)) \<and> b' \<in> {b, b(key \<mapsto> data)}"
  using assms s3_write_took_effect [of c "''put_object''" br br']
  by (auto simp: s3_put_def Let_def split: prod.splits if_splits)

lemma s3_delete_removes:
  assumes "s3_delete c key br b = (r, br', b')"
  shows "(r = Inr () \<longrightarrow> b' = b(key := None)) \<and> b' \<in> {b, b(key := None)}"
  using assms s3_write_took_effect [of c "''delete_object''" br br']
  by (auto simp: s3_delete_def Let_def split: prod.splits if_splits)

lemma s3_get_reads:
  assumes "s3_get c key br b = (Inr d, br')"
  shows "b key = Some d"
proof -
  let ?op = "\<lambda>k. case s3_fault_of c k of Some f \<Rightarrow> s3_fault_attempt ''get_object'' f
     | None \<Rightarrow> (case b key of None \<Rightarrow> s3_fault_attempt ''get_object'' (S3Error ''NoSuchKey'') | Some d \<Rightarrow> Returns d)"
  obtain n where call: "s3_call c ?op br = (Inr d, br', n)" using assms by (auto simp: s3_get_def Let_def split: prod.splits)
  have "?op n = Returns d" using s3_call_Inr [OF call] by (elim conjE)
  then show ?thesis by (cases "s3_fault_of c n"; cases "b key") auto
qed

text \<open>What a later read returns is what the last completed put stored.\<close>

lemma s3_read_after_write:
  "s3_put c key data br b = (Inr (), br1, b') \<Longrightarrow> s3_get c' key br2 b' = (Inr d, br3) \<Longrightarrow> d = data"
  by (drule s3_put_stores, drule s3_get_reads) simp

subsection \<open>The disposition of a download\<close>

definition disposition_char :: "char \<Rightarrow> bool" where
  "disposition_char c = (py_ord c < 128 \<and> (ch_alpha c \<or> ch_isdigit c \<or> c \<in> set ''._- ''))"

definition content_disposition :: "string option \<Rightarrow> string" where
  "content_disposition filename =
     (let safe = filter disposition_char (case filename of None \<Rightarrow> [] | Some f \<Rightarrow> f)
      in if safe \<noteq> [] then ''inline; filename=\"'' @ safe @ ''\"'' else ''inline'')"

text \<open>No header injection: a quote only where the code puts it, and never a line break.\<close>

lemma disposition_char_safe: "disposition_char c \<Longrightarrow> c \<noteq> CHR 0x22 \<and> c \<noteq> CHR 0x0A \<and> c \<noteq> CHR 0x0D"
proof -
  have "\<not> disposition_char (CHR 0x22)" "\<not> disposition_char (CHR 0x0A)" "\<not> disposition_char (CHR 0x0D)" by code_simp+
  then show "disposition_char c \<Longrightarrow> c \<noteq> CHR 0x22 \<and> c \<noteq> CHR 0x0A \<and> c \<noteq> CHR 0x0D" by blast
qed

lemma content_disposition_safe:
  "CHR 0x0A \<notin> set (content_disposition f) \<and> CHR 0x0D \<notin> set (content_disposition f) \<and> length (filter ((=) CHR 0x22) (content_disposition f)) \<le> 2"
proof -
  define safe where "safe = filter disposition_char (case f of None \<Rightarrow> [] | Some f \<Rightarrow> f)"
  have s: "disposition_char c" if "c \<in> set safe" for c using that by (simp add: safe_def)
  have "CHR 0x0A \<notin> set safe" "CHR 0x0D \<notin> set safe" "filter ((=) CHR 0x22) safe = []"
    using s disposition_char_safe unfolding filter_empty_conv by blast+
  then show ?thesis by (simp add: content_disposition_def Let_def safe_def [symmetric])
qed

end
