(* ===== verification/Spec2Isabelle.thy ===== *)
theory Spec2Isabelle
  imports Kernel_Properties Notification_Properties Loader_Properties App_Properties Files_Properties Login_Properties
    Retention_Properties CRM_Routes Billing_Routes Object_Storage
begin

text \<open>
  A verification library for \<^verbatim>\<open>backend-core\<close>, a multi-tenant backend in Python: a shared kernel
  (\<^verbatim>\<open>src/shared\<close>), core services (\<^verbatim>\<open>src/core\<close>: accounts, tenants, billing, notifications, files, audit),
  feature modules (\<^verbatim>\<open>src/modules\<close>: commerce, CRM, SaaS) and the composition root (\<^verbatim>\<open>src/app\<close>).

  \<^bold>\<open>How the program works.\<close>  A request is authenticated and gets a context (tenant, actor, request id).  A route
  checks its permission and opens a unit of work; services read and write tenant-scoped tables through
  repositories and queue events; the commit publishes them.  A worker hands reliable events to their handlers,
  with deduplication keys, retries and dead letters, and runs the sweeps.  Payment providers call back on public
  routes, the callback settles a payment, and the payment's events move subscriptions, orders, entitlements
  and receipts.

  \<^bold>\<open>How it is modelled.\<close>  Every operation is a function from its arguments and the state to a result
  (\<open>Inl\<close> an exception, \<open>Inr\<close> a value) and the new state.  The state is one record that the components extend with
  their tables: \<open>infra\<close> (clock, identifiers, events, audit log, deduplication keys), then billing, then
  notifications, from there on one side files, products, orders and cart, on the other accounts, tenants and
  CRM; the SaaS tables extend \<open>infra\<close> directly.  A table is a list of rows; unique indexes are checked by the insertion, which raises the
  integrity error.  What other transactions commit while an operation waits or between a check and a write is
  an argument (\<open>race\<close>), so that the lost races of the code are branches of the model.  Strings are
  Latin-1; integers are unbounded as in Python; times are calendar dates with microseconds in UTC.
  Libraries that are not part of the source are arguments: JSON parsing, hashes and signatures, the password
  and token libraries, HTTP, SMTP and S3 clients, image processing.

  \<^bold>\<open>The theories.\<close>

  \<^item> \<open>Backend_Prelude\<close>, \<open>Python_Base\<close>, \<open>Python_Text\<close>: results and their rules, tables, the locale of tables that insert
    once per key; what the code uses of Python's strings, JSON values, dates, UUIDs, URLs.
  \<^item> \<open>Shared_Kernel\<close>, \<open>Tenant_Repository\<close>, \<open>Event_Bus\<close>, \<open>Resilience\<close> with \<open>Resilience_Laws\<close>: \<^verbatim>\<open>shared/errors.py\<close>, \<^verbatim>\<open>money.py\<close>,
    \<^verbatim>\<open>pagination.py\<close>, \<^verbatim>\<open>context.py\<close>, \<^verbatim>\<open>repository.py\<close>, \<^verbatim>\<open>service.py\<close>, \<^verbatim>\<open>events.py\<close>, \<^verbatim>\<open>resilience.py\<close>, the guard of
    \<^verbatim>\<open>core/auth/guard.py\<close>, the audit writes of \<^verbatim>\<open>core/audit/service.py\<close> and the dispatch of \<^verbatim>\<open>app/worker.py\<close>.  The locale of
    tenant tables is interpreted on every table with a repository.
  \<^item> \<open>Payment_States\<close>, \<open>Billing_Periods\<close>, \<open>Billing_Store\<close>, \<open>Payment_Service\<close>, \<open>Subscription_Service\<close>, \<open>Billing_Jobs\<close>: \<^verbatim>\<open>core/billing\<close>
    (\<^verbatim>\<open>state_machine.py\<close>, \<^verbatim>\<open>periods.py\<close>, \<^verbatim>\<open>models.py\<close>, \<^verbatim>\<open>service.py\<close>, \<^verbatim>\<open>jobs.py\<close>); their laws are in \<open>Payment_Laws\<close>,
    \<open>Billing_Laws\<close>, \<open>Job_Laws\<close>.
  \<^item> \<open>Payment_Ports\<close>, \<open>Payme_Adapter\<close>, \<open>Click_Adapter\<close>, \<open>Stripe_Adapter\<close>, \<open>Webhook_Processor\<close>: \<^verbatim>\<open>core/billing/ports.py\<close>, \<^verbatim>\<open>adapters\<close>
    and \<^verbatim>\<open>webhooks.py\<close>.  The locales of a checkout port (\<open>Payment_Laws\<close>) and of a provider's dialect (\<open>Webhook_Laws\<close>) are
    interpreted on the three providers.
  \<^item> \<open>Billing_System\<close>: billing as a step relation over all its transactions, in any order, with races; its invariant
    by rule induction.  \<open>Billing_Properties\<close> and \<open>Callback_Properties\<close> state what follows for payments, subscriptions,
    callbacks and sweeps.
  \<^item> \<open>Notifications\<close>, \<open>Notification_Dispatch\<close>, \<open>Notification_Laws\<close>, \<open>Notification_Properties\<close>: \<^verbatim>\<open>core/notifications\<close>, from templates and the
    outbox to the channels and the dispatcher.
  \<^item> \<open>Files\<close>, \<open>Products\<close>, \<open>Orders\<close>, \<open>Cart\<close>, \<open>Commerce_Laws\<close>, \<open>Commerce_Properties\<close>, \<open>Files_Properties\<close>, \<open>Object_Storage\<close>: \<^verbatim>\<open>core/files\<close>, with the
    file system as store and the S3 adapter over an unreliable client, and \<^verbatim>\<open>modules/commerce\<close>.
  \<^item> \<open>Redis_Store\<close>, \<open>Auth_Service\<close>, \<open>Tenants\<close>, \<open>Request_Context\<close>: \<^verbatim>\<open>core/auth\<close> and \<^verbatim>\<open>core/tenants\<close>, the context of a request
    (\<^verbatim>\<open>core/auth/deps.py\<close>) and the receipts of \<^verbatim>\<open>core/billing/receipts.py\<close>; \<open>Access_Properties\<close> and \<open>Login_Properties\<close>.
  \<^item> \<open>CRM\<close>, \<open>SaaS\<close>: \<^verbatim>\<open>modules/crm\<close> and \<^verbatim>\<open>modules/saas\<close>.
  \<^item> \<open>Auth_Routes\<close>, \<open>Billing_Routes\<close>, \<open>CRM_Routes\<close>: the HTTP routes of accounts, tenants, billing, webhooks, CRM and the audit
    screen on top of the services.
  \<^item> \<open>Retention\<close>, \<open>Retention_Properties\<close>: the audit search, the sweeps and the daily job of \<^verbatim>\<open>app/worker.py\<close>; the locale of
    bounded sweeps is interpreted on the audit log, the outbox and the usage counters.
  \<^item> \<open>Feature_Loader\<close>, \<open>Loader_Properties\<close>, \<open>App_Edge\<close>, \<open>App_Properties\<close>: \<^verbatim>\<open>modules/loader.py\<close>, \<^verbatim>\<open>tools/add_feature.py\<close>, and of \<^verbatim>\<open>app\<close> the startup
    checks, the log masking and the edge middleware; the checks of \<^verbatim>\<open>shared/config.py\<close>.
  \<^item> \<open>Kernel_Properties\<close>, \<open>Billing_Example\<close>, \<open>System_Example\<close>: properties of the kernel and the adapters, and the concrete states on
    which properties with hypotheses are evaluated.

  \<^bold>\<open>What is shown.\<close>  Billing: in every run of the system a tenant has at most one live and one pending
  subscription, payments keep their terms and move along the state machine, a success activates what was paid
  for, a callback acts only when it is authentic, first, reconciled and allowed, and repetition of a request
  or a callback changes nothing.  Kernel: units of work are atomic with their events, handlers act effectively
  once, repositories never cross tenants, resilient calls are bounded.  Access: routes without the permission
  change nothing, reuse of a refresh token revokes its family for good, invitations admit once, a tenant
  keeps an owner, system roles equal the catalogue, failed logins lock the account; tokens for a tenant go only
  to its active members.  Commerce: an order is what was asked at catalogue prices, it ends paid exactly when its
  payment succeeded whatever the order of events, carts keep their invariant.  Notifications: every claimed row
  gets its outcome, receipts go out once.  Files: what is uploaded is what is read, apart from other tenants.
  Retention: exactly the expired rows go.  Loader: installation orders are topological.  Edge: bodies are
  capped, secrets are masked.

  \<^bold>\<open>Bounds and fuel.\<close>  Loops over data are structural.  The catch-up loop of free plans, the substitution of
  templates and the installation loop are functions with a termination proof.  The search of the transfer
  tool has fuel, one more than the number of features, and it is proved that it never runs out.  The drain
  loop has the cap of the code (100 batches of 1000 rows); the exactness of a run assumes a backlog within it.
  Retries are bounded by the policy of the call.

  \<^bold>\<open>Not modelled.\<close>  SQL itself: migrations, roles, grants and row-level security policies, which the database
  enforces; the repositories filter by tenant on their own and the model shows that filter.  Advisory and row locks
  appear as the absence of a race at the place they protect.  Validation of request bodies, routing and response
  serialisation belong to the web framework; the routes of files, commerce and SaaS, each one guarded
  service call, are left out because their tables extend another branch of the state than the tenants'.
  Construction of engines, clients and services, the cron schedule and process startup are wiring.  The cipher,
  the image library and the provider's HTTP services are parameters.  Metrics, health probes, error reporting and
  the access log are output only.  The audit columns for address and user agent are left out.
\<close>

end
